(* ===== verification/Prelude.thy ===== *)
theory Prelude
  imports Complex_Main "HOL-Library.Word" "HOL-Library.AList"
    "HOL-Library.List_Lexorder" "HOL-Library.Char_ord" "HOL-Library.Sublist"
begin

text \<open>
  Shared vocabulary of the development: Go's machine integers, strings, maps and errors as
  HOL types, the parts of Go's \<open>strings\<close> package the program uses, and the generic facts on
  lists, association lists and sums that the component theories rest on.

  A Go string is a list of bytes (\<open>char\<close>), ordered bytewise as Go orders strings
  (\<open>List_Lexorder\<close> over \<open>Char_ord\<close>).  A Go map is an association list with distinct keys; the
  program never depends on the iteration order of a map without sorting first, so the order of
  the list carries no meaning.  An instant is an \<open>int\<close> count of nanoseconds whose value \<open>0\<close>
  is Go's zero \<open>time.Time\<close>.
\<close>

section \<open>Types\<close>

type_synonym u8 = "8 word"
type_synonym u16 = "16 word"
type_synonym u32 = "32 word"
type_synonym u64 = "64 word"
type_synonym time = int
type_synonym duration = int
type_synonym ('k, 'v) gomap = "('k \<times> 'v) list"

named_theorems alist_simps \<open>lookup, domain and well-formedness of association lists\<close>
named_theorems str_simps \<open>the Go string functions on their constructors\<close>
named_theorems op_defs \<open>unfolding the operations of a component\<close>
named_theorems inv_intros \<open>preservation of a component invariant by one operation\<close>

abbreviation second :: duration where "second \<equiv> 1000000000"
abbreviation millisecond :: duration where "millisecond \<equiv> 1000000"

section \<open>Results\<close>

text \<open>\<open>Inl\<close> is the error a Go function returns, \<open>Inr\<close> its value.\<close>

definition bind_res :: "'e + 'a \<Rightarrow> ('a \<Rightarrow> 'e + 'b) \<Rightarrow> 'e + 'b" where
  "bind_res r k = (case r of Inl e \<Rightarrow> Inl e | Inr x \<Rightarrow> k x)"

lemma bind_res_simps [simp]:
  "bind_res (Inl e) k = Inl e"
  "bind_res (Inr x) k = k x"
  by (simp_all add: bind_res_def)

lemma bind_res_eq_Inr: "bind_res r k = Inr y \<longleftrightarrow> (\<exists>x. r = Inr x \<and> k x = Inr y)"
  by (cases r) auto

text \<open>The Go loop that converts every element and stops at the first error.\<close>

primrec map_res :: "('a \<Rightarrow> 'e + 'b) \<Rightarrow> 'a list \<Rightarrow> 'e + 'b list" where
  "map_res f [] = Inr []"
| "map_res f (x # xs) = bind_res (f x) (\<lambda>y. bind_res (map_res f xs) (\<lambda>ys. Inr (y # ys)))"

lemma map_res_Inr_iff:
  "map_res f xs = Inr ys \<longleftrightarrow> list_all2 (\<lambda>x y. f x = Inr y) xs ys"
proof (induction xs arbitrary: ys)
  case Nil
  show ?case by (cases ys) auto
next
  case (Cons x xs)
  show ?case by (cases ys) (auto simp: bind_res_eq_Inr Cons.IH)
qed

lemma map_res_map_Inr: "(\<And>x. x \<in> set xs \<Longrightarrow> f (g x) = Inr x) \<Longrightarrow> map_res f (map g xs) = Inr xs"
  by (induction xs) auto

lemma map_res_cong [fundef_cong]:
  "xs = ys \<Longrightarrow> (\<And>x. x \<in> set ys \<Longrightarrow> f x = g x) \<Longrightarrow> map_res f xs = map_res g ys"
  by (induction ys arbitrary: xs) auto

section \<open>Go maps\<close>

abbreviation gm_wf :: "('k, 'v) gomap \<Rightarrow> bool" where
  "gm_wf m \<equiv> distinct (map fst m)"

abbreviation gm_keys :: "('k, 'v) gomap \<Rightarrow> 'k set" where
  "gm_keys m \<equiv> fst ` set m"

lemma map_of_update [alist_simps]:
  "map_of (AList.update k v m) k' = (if k' = k then Some v else map_of m k')"
  by (simp add: update_conv')

lemma map_of_delete_if [alist_simps]:
  "map_of (AList.delete k m) k' = (if k' = k then None else map_of m k')"
  by (simp add: delete_conv')

lemma map_of_filter_keys [alist_simps]:
  "map_of (filter (\<lambda>(k, v). P k) m) k' = (if P k' then map_of m k' else None)"
  by (induction m) auto

lemma gm_wf_update [alist_simps, intro]: "gm_wf m \<Longrightarrow> gm_wf (AList.update k v m)"
  by (simp add: distinct_update)

lemma gm_wf_delete [alist_simps, intro]: "gm_wf m \<Longrightarrow> gm_wf (AList.delete k m)"
  by (simp add: distinct_delete)

lemma gm_wf_filter [alist_simps, intro]: "gm_wf m \<Longrightarrow> gm_wf (filter P m)"
  by (induction m) auto

lemma gm_keys_update [alist_simps]: "gm_keys (AList.update k v m) = insert k (gm_keys m)"
  using dom_update[of k v m] by (simp add: dom_map_of_conv_image_fst)

lemma gm_keys_delete [alist_simps]: "gm_keys (AList.delete k m) = gm_keys m - {k}"
  by (auto simp: AList.delete_eq)

lemma map_of_eq_None_keys: "map_of m k = None \<longleftrightarrow> k \<notin> gm_keys m"
  by (simp add: map_of_eq_None_iff)

lemma gm_keys_map_of: "k \<in> gm_keys m \<longleftrightarrow> (\<exists>v. map_of m k = Some v)"
  using map_of_eq_None_keys[of m k] by (cases "map_of m k") auto

text \<open>The map with every key mapped through the function that Go code applies when it copies.\<close>

definition gm_get_or :: "'v \<Rightarrow> ('k, 'v) gomap \<Rightarrow> 'k \<Rightarrow> 'v" where
  "gm_get_or d m k = (case map_of m k of Some v \<Rightarrow> v | None \<Rightarrow> d)"

lemma gm_get_or_update [alist_simps]:
  "gm_get_or d (AList.update k v m) k' = (if k' = k then v else gm_get_or d m k')"
  by (simp add: gm_get_or_def map_of_update)

lemma gm_get_or_delete [alist_simps]:
  "gm_get_or d (AList.delete k m) k' = (if k' = k then d else gm_get_or d m k')"
  by (simp add: gm_get_or_def map_of_delete_if)

text \<open>A map built by writing entries one after the other; a later entry wins.\<close>

definition gm_of_list :: "('k \<times> 'v) list \<Rightarrow> ('k, 'v) gomap" where
  "gm_of_list ls = foldl (\<lambda>m (k, v). AList.update k v m) [] ls"

lemma update_fresh: "k \<notin> gm_keys m \<Longrightarrow> AList.update k v m = m @ [(k, v)]"
  by (induction m) auto

lemma gm_wf_foldl_update:
  "gm_wf m \<Longrightarrow> gm_wf (foldl (\<lambda>m (k, v). AList.update k v m) m ls)"
  by (induction ls arbitrary: m) (auto simp: distinct_update)

lemma gm_wf_of_list [simp]: "gm_wf (gm_of_list ls)"
  by (simp add: gm_of_list_def gm_wf_foldl_update)

lemma foldl_update_distinct:
  "gm_wf (m @ ls) \<Longrightarrow> foldl (\<lambda>m (k, v). AList.update k v m) m ls = m @ ls"
proof (induction ls arbitrary: m)
  case (Cons l ls)
  obtain k v where l: "l = (k, v)" by (cases l)
  from Cons.prems l have "k \<notin> gm_keys m" by auto
  then have "AList.update k v m = m @ [(k, v)]" by (rule update_fresh)
  then show ?case using Cons l by simp
qed simp

lemma gm_of_list_wf: "gm_wf ls \<Longrightarrow> gm_of_list ls = ls"
  by (simp add: gm_of_list_def foldl_update_distinct)

lemma map_of_foldl_update:
  "map_of (foldl (\<lambda>m (k, v). AList.update k v m) m ls) k =
     (case map_of (rev ls) k of None \<Rightarrow> map_of m k | Some v \<Rightarrow> Some v)"
  by (induction ls arbitrary: m) (auto simp: map_of_update map_add_def split: option.splits)

lemma map_of_foldl_delete:
  "map_of (foldl (\<lambda>m k. AList.delete k m) m ks) k = (if k \<in> set ks then None else map_of m k)"
  by (induction ks arbitrary: m) (auto simp: map_of_delete_if)

lemma gm_wf_foldl_delete: "gm_wf m \<Longrightarrow> gm_wf (foldl (\<lambda>m k. AList.delete k m) m ks)"
  by (induction ks arbitrary: m) (auto simp: distinct_delete)

lemma map_of_rev_distinct: "gm_wf m \<Longrightarrow> map_of (rev m) = map_of m"
  by (rule map_of_inject_set[THEN iffD2]) (auto simp: rev_map[symmetric])

section \<open>Lists\<close>

lemma filter_split:
  "filter P xs = pre @ t # post \<Longrightarrow>
   \<exists>us vs. xs = us @ t # vs \<and> pre = filter P us \<and> post = filter P vs \<and> P t"
proof (induction xs arbitrary: pre)
  case (Cons x xs)
  show ?case
  proof (cases "P x \<and> pre = []")
    case True
    with Cons.prems show ?thesis by (intro exI[of _ "[]"] exI[of _ xs]) auto
  next
    case False
    with Cons.prems have "filter P xs = (if P x then tl pre else pre) @ t # post"
      by (cases pre) (auto split: if_splits)
    from Cons.IH[OF this] obtain us vs where *: "xs = us @ t # vs"
      "(if P x then tl pre else pre) = filter P us" "post = filter P vs" "P t" by blast
    have "pre = filter P (x # us)"
      using * Cons.prems False by (cases pre) (auto split: if_splits)
    with * show ?thesis by (intro exI[of _ "x # us"] exI[of _ vs]) auto
  qed
qed simp

lemma sort_key_first:
  assumes "\<forall>x \<in> set xs. k t < k x" "\<forall>y \<in> set ys. k t \<le> k y"
  shows "sort_key k (xs @ t # ys) = t # sort_key k (xs @ ys)"
  using assms
proof (induction xs)
  case Nil
  then have "\<forall>y \<in> set (sort_key k ys). k t \<le> k y" by simp
  then show ?case by (cases "sort_key k ys") auto
qed (auto simp: not_le)

end
