(* ===== verification/GoStrings.thy ===== *)
theory GoStrings
  imports Prelude
begin

text \<open>
  The functions of Go's \<open>strings\<close> and \<open>strconv\<close> packages that the program calls, on byte lists:
  \<open>Split\<close>, \<open>Join\<close>, \<open>IndexByte\<close>, \<open>Cut\<close>, \<open>Contains\<close>, \<open>Count\<close>, \<open>TrimSpace\<close>, and the decimal and
  hexadecimal codecs, with the round trips the path, OID and framing theories use.
\<close>

section \<open>Split and Join\<close>

fun split_on :: "'a \<Rightarrow> 'a list \<Rightarrow> 'a list list" where
  "split_on c [] = [[]]"
| "split_on c (x # xs) =
     (if x = c then [] # split_on c xs
      else case split_on c xs of [] \<Rightarrow> [[x]] | p # ps \<Rightarrow> (x # p) # ps)"

fun join_with :: "'a \<Rightarrow> 'a list list \<Rightarrow> 'a list" where
  "join_with c [] = []"
| "join_with c [p] = p"
| "join_with c (p # q # ps) = p @ c # join_with c (q # ps)"

lemma split_on_ne [simp]: "split_on c s \<noteq> []"
  by (cases s) (auto split: list.splits)

lemma join_with_Cons_ne: "ps \<noteq> [] \<Longrightarrow> join_with c (p # ps) = p @ c # join_with c ps"
  by (cases ps) auto

lemma join_with_Cons_Cons: "join_with c ((x # p) # ps) = x # join_with c (p # ps)"
  by (cases ps) auto

lemma join_split [simp]: "join_with c (split_on c s) = s"
proof (induction s)
  case (Cons x xs)
  then show ?case
    by (cases "split_on c xs") (auto simp: join_with_Cons_ne join_with_Cons_Cons)
qed simp

lemma split_on_append: "split_on c (p @ c # r) = split_on c p @ split_on c r"
  by (induction p) (auto split: list.splits)

lemma split_on_append_sep: "c \<notin> set p \<Longrightarrow> split_on c (p @ c # s) = p # split_on c s"
  by (induction p) auto

lemma split_on_nosep: "c \<notin> set p \<Longrightarrow> split_on c p = [p]"
  by (induction p) auto

lemma split_join:
  "ps \<noteq> [] \<Longrightarrow> \<forall>p \<in> set ps. c \<notin> set p \<Longrightarrow> split_on c (join_with c ps) = ps"
  by (induction c ps rule: join_with.induct) (auto simp: split_on_append_sep split_on_nosep)

lemma split_on_no_sep: "p \<in> set (split_on c s) \<Longrightarrow> c \<notin> set p"
  by (induction c s arbitrary: p rule: split_on.induct) (auto split: if_splits list.splits)

lemma set_join_with: "set (join_with c ps) \<subseteq> insert c (\<Union> (set ` set ps))"
  by (induction c ps rule: join_with.induct) auto

lemma split_on_eq_iff:
  "ps \<noteq> [] \<Longrightarrow> \<forall>p \<in> set ps. c \<notin> set p \<Longrightarrow> split_on c s = ps \<longleftrightarrow> s = join_with c ps"
  using split_join join_split by metis

section \<open>Searching\<close>

text \<open>\<open>strings.IndexByte\<close>; \<open>None\<close> is Go's \<open>-1\<close>.\<close>

fun index_byte :: "'a \<Rightarrow> 'a list \<Rightarrow> nat option" where
  "index_byte c [] = None"
| "index_byte c (x # xs) = (if x = c then Some 0 else map_option Suc (index_byte c xs))"

lemma index_byte_None [simp]: "index_byte c s = None \<longleftrightarrow> c \<notin> set s"
  by (induction s) auto

lemma index_byte_append: "c \<notin> set p \<Longrightarrow> index_byte c (p @ c # s) = Some (length p)"
  by (induction p) auto

lemma index_byte_Some:
  "index_byte c s = Some i \<longleftrightarrow> i < length s \<and> s ! i = c \<and> c \<notin> set (take i s)"
proof (induction s arbitrary: i)
  case (Cons x xs)
  then show ?case by (cases i) auto
qed simp

lemma index_byte_SomeE:
  assumes "index_byte c s = Some i"
  obtains p r where "s = p @ c # r" "c \<notin> set p" "i = length p"
proof -
  have *: "i < length s" "s ! i = c" "c \<notin> set (take i s)"
    using assms by (auto simp: index_byte_Some)
  from * have "s = take i s @ c # drop (Suc i) s" by (metis id_take_nth_drop)
  with * show thesis using that[of "take i s" "drop (Suc i) s"] by simp
qed

text \<open>\<open>strings.HasPrefix\<close>, \<open>HasSuffix\<close> and \<open>Contains\<close>.\<close>

fun has_prefix :: "'a list \<Rightarrow> 'a list \<Rightarrow> bool" where
  "has_prefix s [] = True"
| "has_prefix [] (y # ys) = False"
| "has_prefix (x # xs) (y # ys) = (x = y \<and> has_prefix xs ys)"

definition has_suffix :: "'a list \<Rightarrow> 'a list \<Rightarrow> bool" where
  "has_suffix s t = has_prefix (rev s) (rev t)"

fun str_contains :: "'a list \<Rightarrow> 'a list \<Rightarrow> bool" where
  "str_contains [] t = (t = [])"
| "str_contains (x # xs) t = (has_prefix (x # xs) t \<or> str_contains xs t)"

lemma has_prefix_iff: "has_prefix s t \<longleftrightarrow> (\<exists>r. s = t @ r)"
  by (induction s t rule: has_prefix.induct) auto

lemma has_suffix_iff: "has_suffix s t \<longleftrightarrow> (\<exists>r. s = r @ t)"
  unfolding has_suffix_def has_prefix_iff
  by (metis rev_append rev_rev_ident)

lemma has_prefix_refl [simp]: "has_prefix s s" by (simp add: has_prefix_iff)

lemma has_prefix_append [simp]: "has_prefix (s @ t) s" by (simp add: has_prefix_iff)

lemma has_prefix_trans: "has_prefix s t \<Longrightarrow> has_prefix t u \<Longrightarrow> has_prefix s u"
  by (auto simp: has_prefix_iff)

lemma has_prefix_prefix: "has_prefix s t \<longleftrightarrow> prefix t s"
  by (auto simp: has_prefix_iff prefix_def)

lemma str_contains_iff: "str_contains s t \<longleftrightarrow> (\<exists>p r. s = p @ t @ r)"
proof (induction s)
  case (Cons x xs)
  have "(\<exists>p r. x # xs = p @ t @ r) \<longleftrightarrow> (\<exists>r. x # xs = t @ r) \<or> (\<exists>p r. xs = p @ t @ r)"
    by (metis Cons_eq_append_conv append_Cons append_Nil)
  then show ?case by (simp add: Cons has_prefix_iff)
qed auto

section \<open>TrimSpace\<close>

text \<open>
  The encodings of the runes \<open>unicode.IsSpace\<close> accepts: six ASCII controls and blanks, U+0085,
  U+00A0, U+1680, U+2000 to U+200A, U+2028, U+2029, U+202F, U+205F and U+3000.
\<close>

definition space_runes :: "string list" where
  "space_runes =
     [[CHR 0x09], [CHR 0x0A], [CHR 0x0B], [CHR 0x0C], [CHR 0x0D], [CHR 0x20],
      [CHR 0xC2, CHR 0x85], [CHR 0xC2, CHR 0xA0], [CHR 0xE1, CHR 0x9A, CHR 0x80]]
     @ map (\<lambda>c. [CHR 0xE2, CHR 0x80, c])
        [CHR 0x80, CHR 0x81, CHR 0x82, CHR 0x83, CHR 0x84, CHR 0x85, CHR 0x86, CHR 0x87, CHR 0x88,
         CHR 0x89, CHR 0x8A, CHR 0xA8, CHR 0xA9, CHR 0xAF]
     @ [[CHR 0xE2, CHR 0x81, CHR 0x9F], [CHR 0xE3, CHR 0x80, CHR 0x80]]"

text \<open>Strip one of the given prefixes as often as one applies; each round shortens the string,
  so as many rounds as the string has bytes are enough.\<close>

fun strip_prefixes :: "nat \<Rightarrow> string list \<Rightarrow> string \<Rightarrow> string" where
  "strip_prefixes 0 rs s = s"
| "strip_prefixes (Suc n) rs s =
     (case find (has_prefix s) rs of None \<Rightarrow> s | Some r \<Rightarrow> strip_prefixes n rs (drop (length r) s))"

definition trim_space :: "string \<Rightarrow> string" where
  "trim_space s =
     (let l = strip_prefixes (length s) space_runes s
      in rev (strip_prefixes (length l) (map rev space_runes) (rev l)))"

section \<open>Numbers as text\<close>

text \<open>\<open>strconv\<close> in a base up to 36 on the digits \<open>0-9a-z\<close> (upper case accepted when parsing), and
  the decimal forms \<open>Itoa\<close> and \<open>FormatUint\<close>.\<close>

definition digit_char :: "nat \<Rightarrow> char" where
  "digit_char n = (if n < 10 then char_of (48 + n) else char_of (87 + n))"

definition digit_val :: "char \<Rightarrow> nat option" where
  "digit_val c =
     (let n = of_char c :: nat in
      if 48 \<le> n \<and> n \<le> 57 then Some (n - 48)
      else if 97 \<le> n \<and> n \<le> 122 then Some (n - 87)
      else if 65 \<le> n \<and> n \<le> 90 then Some (n - 55)
      else None)"

fun format_base :: "nat \<Rightarrow> nat \<Rightarrow> string" where
  "format_base b n =
     (if b < 2 \<or> n < b then [digit_char n] else format_base b (n div b) @ [digit_char (n mod b)])"

declare format_base.simps [simp del]

fun parse_digits :: "nat \<Rightarrow> nat \<Rightarrow> string \<Rightarrow> nat option" where
  "parse_digits b acc [] = Some acc"
| "parse_digits b acc (c # cs) =
     (case digit_val c of
        None \<Rightarrow> None
      | Some d \<Rightarrow> if d < b then parse_digits b (acc * b + d) cs else None)"

definition parse_base :: "nat \<Rightarrow> string \<Rightarrow> nat option" where
  "parse_base b s = (if s = [] then None else parse_digits b 0 s)"

definition itoa :: "nat \<Rightarrow> string" where "itoa n = format_base 10 n"

definition itoa_int :: "int \<Rightarrow> string" where
  "itoa_int z = (if z < 0 then ''-'' @ itoa (nat (- z)) else itoa (nat z))"

text \<open>\<open>strconv.ParseUint(s, 10, bits)\<close>: no sign, in range.\<close>

definition parse_uint :: "nat \<Rightarrow> string \<Rightarrow> nat option" where
  "parse_uint bits s =
     (case parse_base 10 s of None \<Rightarrow> None | Some n \<Rightarrow> if n < 2 ^ bits then Some n else None)"

lemma digit_val_char: "n < 36 \<Longrightarrow> digit_val (digit_char n) = Some n"
  by (auto simp: digit_val_def digit_char_def Let_def)

lemma parse_digits_append:
  "parse_digits b acc (xs @ ys) =
     (case parse_digits b acc xs of None \<Rightarrow> None | Some a \<Rightarrow> parse_digits b a ys)"
  by (induction xs arbitrary: acc) (auto split: option.splits)

lemma parse_digits_format:
  assumes "2 \<le> b" "b \<le> 36"
  shows "parse_digits b 0 (format_base b n) = Some n"
  using assms
proof (induction b n rule: format_base.induct)
  case (1 b n)
  show ?case
  proof (cases "n < b")
    case True
    then show ?thesis using "1.prems" by (simp add: format_base.simps[of b n] digit_val_char)
  next
    case False
    with 1 have "parse_digits b 0 (format_base b (n div b)) = Some (n div b)" by simp
    moreover have lt: "n mod b < b" using "1.prems" by simp
    then have "n mod b < 36" using "1.prems" by linarith
    ultimately show ?thesis using "1.prems" False
      by (subst format_base.simps) (simp add: parse_digits_append digit_val_char)
  qed
qed

lemma format_base_ne [simp]: "format_base b n \<noteq> []"
  by (subst format_base.simps) auto

lemma parse_format: "2 \<le> b \<Longrightarrow> b \<le> 36 \<Longrightarrow> parse_base b (format_base b n) = Some n"
  by (simp add: parse_base_def parse_digits_format)

lemma parse_uint_itoa: "n < 2 ^ bits \<Longrightarrow> parse_uint bits (itoa n) = Some n"
  by (simp add: parse_uint_def itoa_def parse_format)

lemma digit_chars: "b \<le> 36 \<Longrightarrow> 2 \<le> b \<Longrightarrow> c \<in> set (format_base b n) \<Longrightarrow> \<exists>d < b. c = digit_char d"
proof (induction b n rule: format_base.induct)
  case (1 b n)
  show ?case
  proof (cases "n < b")
    case True
    with "1.prems" show ?thesis by (auto simp: format_base.simps[of b n])
  next
    case False
    with "1.prems" consider "c \<in> set (format_base b (n div b))" | "c = digit_char (n mod b)"
      by (auto simp: format_base.simps[of b n])
    then show ?thesis
    proof cases
      case 1
      show ?thesis by (rule "1.IH") (use False "1.prems" 1 in simp_all)
    next
      case 2
      moreover have "n mod b < b" using "1.prems" by simp
      ultimately show ?thesis by blast
    qed
  qed
qed

lemma itoa_inj: "itoa m = itoa n \<Longrightarrow> m = n"
  by (drule arg_cong[of _ _ "parse_base 10"]) (simp add: itoa_def parse_format)

end
