(* ===== verification/PathSyntax.thy ===== *)
theory PathSyntax
  imports GoStrings
begin

text \<open>
  Model paths (\<open>src/internal/router/path.go\<close>) and the YANG module of a path
  (\<open>src/internal/router/modules.go\<close>): parsing, printing, and that the two are inverse on
  exactly the well-formed paths.
\<close>

section \<open>Definitions\<close>

datatype path_error = ErrInvalidPath string

record segment =
  Name :: string
  Key :: string
  Value :: string

type_synonym path = "segment list"

definition count_byte :: "'a \<Rightarrow> 'a list \<Rightarrow> nat" where
  "count_byte c s = length (filter (\<lambda>x. x = c) s)"

text \<open>One slash-free component.  Go slices \<open>part[:open]\<close>, \<open>part[open+1:len-1]\<close>; the suffix check
  before them makes the bounds valid.\<close>

definition parseSegment :: "string \<Rightarrow> string + segment" where
  "parseSegment part =
     (case index_byte CHR ''['' part of
        None \<Rightarrow>
          if part = [] then Inl ''empty segment''
          else Inr \<lparr>Name = part, Key = [], Value = []\<rparr>
      | Some opn \<Rightarrow>
          if \<not> has_suffix part '']'' \<or> count_byte CHR ''['' part \<noteq> 1 \<or> count_byte CHR '']'' part \<noteq> 1
          then Inl ''malformed list predicate''
          else
            let name = take opn part;
                body = take (length part - 1 - (opn + 1)) (drop (opn + 1) part)
            in (case index_byte CHR ''='' body of
                  None \<Rightarrow> Inl ''malformed list predicate''
                | Some eq \<Rightarrow>
                    if name = [] \<or> body = [] \<or> eq = 0 \<or> eq = length body - 1
                    then Inl ''malformed list predicate''
                    else
                      let key = take eq body; value = drop (eq + 1) body
                      in if CHR ''['' \<in> set key \<or> CHR '']'' \<in> set key
                            \<or> CHR ''['' \<in> set value \<or> CHR '']'' \<in> set value
                         then Inl ''malformed list predicate''
                         else Inr \<lparr>Name = name, Key = key, Value = value\<rparr>))"

definition Parse :: "string \<Rightarrow> path_error + path" where
  "Parse s =
     (if s = [] then Inl (ErrInvalidPath ''empty path'')
      else if has_prefix s ''/'' \<or> has_suffix s ''/'' \<or> str_contains s ''//''
      then Inl (ErrInvalidPath s)
      else case map_res parseSegment (split_on CHR ''/'' s) of
             Inl e \<Rightarrow> Inl (ErrInvalidPath (s @ '': '' @ e))
           | Inr segs \<Rightarrow> Inr segs)"

definition segment_string :: "segment \<Rightarrow> string" where
  "segment_string g =
     (if Key g = [] then Name g else Name g @ ''['' @ Key g @ ''='' @ Value g @ '']'')"

definition path_String :: "path \<Rightarrow> string" where
  "path_String p = join_with CHR ''/'' (map segment_string p)"

definition IsZero :: "path \<Rightarrow> bool" where
  "IsZero p = (p = [])"

datatype yang_module = ModuleDevice | ModuleRadioLink | ModuleL2 | ModuleSync

definition module_of_segment :: "string \<Rightarrow> yang_module option" where
  "module_of_segment g =
     (if g \<in> {''radio-link'', ''modulation-profile''} then Some ModuleRadioLink
      else if g \<in> {''vlans'', ''mac-table'', ''stp'', ''lldp''} then Some ModuleL2
      else if g \<in> {''ptp'', ''synce''} then Some ModuleSync
      else None)"

definition strip_predicate :: "string \<Rightarrow> string" where
  "strip_predicate g = (case index_byte CHR ''['' g of None \<Rightarrow> g | Some i \<Rightarrow> take i g)"

fun module_of_segments :: "string list \<Rightarrow> yang_module" where
  "module_of_segments [] = ModuleDevice"
| "module_of_segments (g # gs) =
     (case module_of_segment (strip_predicate g) of Some m \<Rightarrow> m | None \<Rightarrow> module_of_segments gs)"

definition ModuleFor :: "string \<Rightarrow> yang_module" where
  "ModuleFor p = module_of_segments (split_on CHR ''/'' p)"

section \<open>Well-formed segments\<close>

text \<open>What a parsed segment looks like: the abstract grammar the parser implements.\<close>

definition segment_ok :: "segment \<Rightarrow> bool" where
  "segment_ok g \<longleftrightarrow>
     Name g \<noteq> [] \<and> CHR ''['' \<notin> set (Name g) \<and> CHR ''/'' \<notin> set (Name g @ Key g @ Value g) \<and>
     (if Key g = [] then Value g = []
      else Value g \<noteq> [] \<and> CHR '']'' \<notin> set (Name g @ Key g @ Value g) \<and> CHR ''='' \<notin> set (Key g)
           \<and> CHR ''['' \<notin> set (Key g @ Value g))"

definition path_ok :: "path \<Rightarrow> bool" where
  "path_ok p \<longleftrightarrow> p \<noteq> [] \<and> list_all segment_ok p"

lemma count_byte_simps [simp]:
  "count_byte c [] = 0"
  "count_byte c (x # xs) = (if x = c then Suc (count_byte c xs) else count_byte c xs)"
  "count_byte c (xs @ ys) = count_byte c xs + count_byte c ys"
  by (simp_all add: count_byte_def)

lemma count_byte_0 [simp]: "count_byte c s = 0 \<longleftrightarrow> c \<notin> set s"
  by (auto simp: count_byte_def filter_empty_conv)

lemma parseSegment_plain:
  "n \<noteq> [] \<Longrightarrow> CHR ''['' \<notin> set n \<Longrightarrow> parseSegment n = Inr \<lparr>Name = n, Key = [], Value = []\<rparr>"
  by (simp add: parseSegment_def iffD2[OF index_byte_None])

lemma parseSegment_predicate:
  assumes "n \<noteq> []" "k \<noteq> []" "v \<noteq> []" "CHR ''='' \<notin> set k"
    and "CHR ''['' \<notin> set (n @ k @ v)" "CHR '']'' \<notin> set (n @ k @ v)"
  shows "parseSegment (n @ ''['' @ k @ ''='' @ v @ '']'') = Inr \<lparr>Name = n, Key = k, Value = v\<rparr>"
proof -
  let ?part = "n @ CHR ''['' # (k @ CHR ''='' # v @ '']'')"
  have open_at: "index_byte CHR ''['' ?part = Some (length n)"
    using assms by (intro index_byte_append) auto
  have suffix: "has_suffix ?part '']''"
    unfolding has_suffix_iff by (rule exI[of _ "n @ CHR ''['' # k @ CHR ''='' # v"]) simp
  have cnt: "count_byte CHR ''['' ?part = 1" "count_byte CHR '']'' ?part = 1"
    using assms by simp_all
  have body: "take (length ?part - 1 - (length n + 1)) (drop (length n + 1) ?part) = k @ CHR ''='' # v"
    by simp
  have eq_at: "index_byte CHR ''='' (k @ CHR ''='' # v) = Some (length k)"
    using assms by (intro index_byte_append) auto
  have "parseSegment ?part = Inr \<lparr>Name = n, Key = k, Value = v\<rparr>"
    unfolding parseSegment_def open_at option.case Let_def body eq_at
    using suffix cnt assms by simp
  then show ?thesis by simp
qed

lemma parseSegment_segment_string: "segment_ok g \<Longrightarrow> parseSegment (segment_string g) = Inr g"
  by (cases g) (auto simp: segment_ok_def segment_string_def parseSegment_plain
      parseSegment_predicate[simplified] split: if_splits)

text \<open>Conversely, what the parser accepts is the printed form of a well-formed segment.\<close>

lemma parseSegment_Inr:
  assumes p: "parseSegment part = Inr g" and slash: "CHR ''/'' \<notin> set part"
  shows "segment_ok g \<and> segment_string g = part"
proof (cases "index_byte CHR ''['' part")
  case None
  with assms show ?thesis
    by (auto simp: parseSegment_def segment_ok_def segment_string_def split: if_splits)
next
  case (Some opn)
  from Some obtain n r where part: "part = n @ CHR ''['' # r" "CHR ''['' \<notin> set n" "opn = length n"
    by (rule index_byte_SomeE)
  from p Some have suf: "has_suffix part '']''" and cnt: "count_byte CHR '']'' part = 1"
    and cnto: "count_byte CHR ''['' part = 1"
    by (auto simp: parseSegment_def split: if_splits)
  from suf part obtain b where r: "r = b @ '']''"
    by (auto simp: has_suffix_iff append_eq_Cons_conv Cons_eq_append_conv append_eq_append_conv2)
  have body: "take (length part - 1 - (opn + 1)) (drop (opn + 1) part) = b"
    using part r by simp
  obtain eq where eq: "index_byte CHR ''='' b = Some eq"
    using p Some suf cnt cnto body by (auto simp: parseSegment_def Let_def split: option.splits)
  from eq obtain k v where kv: "b = k @ CHR ''='' # v" "CHR ''='' \<notin> set k" "eq = length k"
    by (rule index_byte_SomeE)
  have "n \<noteq> []" "k \<noteq> []" "v \<noteq> []" and g: "g = \<lparr>Name = n, Key = k, Value = v\<rparr>"
    using p Some suf cnt cnto body eq part kv
    by (auto simp: parseSegment_def Let_def split: if_splits)
  then show ?thesis using part r kv cnt cnto slash
    by (auto simp: segment_ok_def segment_string_def)
qed


section \<open>The parser and the printer are inverse\<close>

lemma segment_string_no_slash: "segment_ok g \<Longrightarrow> CHR ''/'' \<notin> set (segment_string g)"
  by (auto simp: segment_ok_def segment_string_def split: if_splits)

lemma segment_string_ne: "segment_ok g \<Longrightarrow> segment_string g \<noteq> []"
  by (auto simp: segment_ok_def segment_string_def split: if_splits)

lemma split_path_String: "path_ok p \<Longrightarrow> split_on CHR ''/'' (path_String p) = map segment_string p"
  unfolding path_String_def path_ok_def
  by (rule split_join) (auto simp: list_all_iff segment_string_no_slash)

text \<open>The three textual guards of \<open>Parse\<close> say that no component is empty.\<close>

lemma split_on_slash_guards:
  assumes "[] \<notin> set (split_on c s)"
  shows "s \<noteq> []" "\<not> has_prefix s [c]" "\<not> has_suffix s [c]" "\<not> str_contains s [c, c]"
proof -
  show "s \<noteq> []" using assms by auto
  show "\<not> has_prefix s [c]" using assms by (auto simp: has_prefix_iff)
  have "split_on c (r @ [c]) = split_on c r @ [[]]" for r
    using split_on_append[of c r "[]"] by simp
  then show "\<not> has_suffix s [c]" using assms by (force simp: has_suffix_iff)
  have "split_on c (q @ c # c # r) = split_on c q @ [] # split_on c r" for q r
    using split_on_append[of c q "c # r"] by simp
  then show "\<not> str_contains s [c, c]" using assms by (force simp: str_contains_iff)
qed

lemma map_res_parse_print: "path_ok p \<Longrightarrow> map_res parseSegment (map segment_string p) = Inr p"
  by (rule map_res_map_Inr) (auto simp: path_ok_def list_all_iff parseSegment_segment_string)

lemma Parse_printed:
  assumes "path_ok p"
  shows "Parse (path_String p) = Inr p"
proof -
  have split: "split_on CHR ''/'' (path_String p) = map segment_string p"
    using assms by (rule split_path_String)
  have "[] \<notin> set (map segment_string p)"
    using assms segment_string_ne by (force simp: path_ok_def list_all_iff)
  then have "[] \<notin> set (split_on CHR ''/'' (path_String p))" by (simp only: split not_False_eq_True)
  note guards = split_on_slash_guards[OF this]
  show ?thesis
    using guards by (simp add: Parse_def split map_res_parse_print[OF assms])
qed

lemma Parse_Inr_ok:
  assumes "Parse s = Inr p"
  shows "path_ok p" "path_String p = s"
proof -
  have "map_res parseSegment (split_on CHR ''/'' s) = Inr p"
    using assms by (auto simp: Parse_def split: if_splits sum.splits)
  then have all: "list_all2 (\<lambda>x y. parseSegment x = Inr y) (split_on CHR ''/'' s) p"
    by (simp add: map_res_Inr_iff)
  have "list_all2 (\<lambda>x y. segment_ok y \<and> segment_string y = x) (split_on CHR ''/'' s) p"
    using all
  proof (rule list.rel_mono_strong)
    fix x y
    assume "x \<in> set (split_on CHR ''/'' s)" "parseSegment x = Inr y"
    then show "segment_ok y \<and> segment_string y = x"
      by (intro parseSegment_Inr) (auto dest: split_on_no_sep)
  qed
  then have *: "list_all segment_ok p \<and> map segment_string p = split_on CHR ''/'' s"
    by (induction rule: list_all2_induct) simp_all
  then show "path_String p = s" by (simp add: path_String_def)
  from * have "p \<noteq> []" by (metis list.simps(8) split_on_ne)
  with * show "path_ok p" by (simp add: path_ok_def)
qed

text \<open>C1: \<open>Parse\<close> accepts exactly the printed forms of well-formed paths.  An accepted text
  yields a well-formed path whose \<open>String\<close> is the same text, and the text of every well-formed
  path parses back to that path, so printing and parsing are inverse to each other.\<close>

theorem Parse_iff_String: "Parse s = Inr p \<longleftrightarrow> path_ok p \<and> path_String p = s"
  using Parse_printed Parse_Inr_ok by blast

lemma strip_predicate_segment_string:
  "segment_ok g \<Longrightarrow> strip_predicate (segment_string g) = Name g"
  using index_byte_append[of "CHR ''[''" "Name g"]
  by (auto simp: segment_ok_def segment_string_def strip_predicate_def iffD2[OF index_byte_None])

lemma module_of_segments_strings:
  "list_all segment_ok p \<Longrightarrow>
   module_of_segments (map segment_string p)
     = (case List.map_filter (\<lambda>g. module_of_segment (Name g)) p of [] \<Rightarrow> ModuleDevice | m # _ \<Rightarrow> m)"
  by (induction p) (auto simp: strip_predicate_segment_string split: option.splits)

text \<open>The module of a parsed path is decided by the segment names alone: the first segment
  whose name a module claims, whatever its list predicate, else the device module.\<close>

theorem ModuleFor_names:
  assumes "Parse s = Inr p"
  shows "ModuleFor s =
    (case List.map_filter (\<lambda>g. module_of_segment (Name g)) p of [] \<Rightarrow> ModuleDevice | m # _ \<Rightarrow> m)"
proof -
  have ok: "path_ok p" "path_String p = s"
    using assms by (auto dest: Parse_Inr_ok)
  then show ?thesis
    using split_path_String[of p] module_of_segments_strings[of p]
    by (simp add: ModuleFor_def path_ok_def)
qed

theorem ModuleFor_names_witness:
  "ModuleFor ''interfaces/interface[name=ptp]/radio-link/tx-power'' = ModuleRadioLink"
  using ModuleFor_names[of "''interfaces/interface[name=ptp]/radio-link/tx-power''"
      "[\<lparr>Name = ''interfaces'', Key = [], Value = []\<rparr>,
        \<lparr>Name = ''interface'', Key = ''name'', Value = ''ptp''\<rparr>,
        \<lparr>Name = ''radio-link'', Key = [], Value = []\<rparr>,
        \<lparr>Name = ''tx-power'', Key = [], Value = []\<rparr>]"]
  by (simp add: Parse_def parseSegment_def has_suffix_def module_of_segment_def)

end
