(* ===== verification/GoFloat.thy ===== *)
theory GoFloat
  imports Prelude
begin

text \<open>
  Go's \<open>float64\<close> as far as the program uses it: the two infinities, NaN and the finite values,
  with IEEE-754 round-to-nearest-even arithmetic, the ordered comparisons (false on NaN), and
  \<open>math.Min\<close>, \<open>math.Max\<close>, \<open>math.Log10\<close>.  The sign of zero is not represented: no operation
  of the program distinguishes the two zeros.  \<open>math.Log10\<close> is modelled as correctly rounded.
\<close>

section \<open>Values and rounding\<close>

datatype float64 = NaN | NegInf | Fin real | PosInf

definition round_half_even :: "real \<Rightarrow> int" where
  "round_half_even x =
     (let f = \<lfloor>x\<rfloor>; d = x - of_int f
      in if d < 1/2 then f else if d > 1/2 then f + 1 else if even f then f else f + 1)"

definition ulp_exp :: "real \<Rightarrow> int" where
  "ulp_exp x = max (\<lfloor>log 2 \<bar>x\<bar>\<rfloor> - 52) (- 1074)"

definition f64_round :: "real \<Rightarrow> float64" where
  "f64_round x =
     (if x = 0 then Fin 0
      else let u = 2 powi (ulp_exp x); y = of_int (round_half_even (x / u)) * u
           in if y \<ge> 2 ^ 1024 then PosInf else if y \<le> - (2 ^ 1024) then NegInf else Fin y)"

section \<open>Comparisons\<close>

fun f64_lt :: "float64 \<Rightarrow> float64 \<Rightarrow> bool" where
  "f64_lt NaN _ = False"
| "f64_lt _ NaN = False"
| "f64_lt (Fin a) (Fin b) = (a < b)"
| "f64_lt a PosInf = (a \<noteq> PosInf)"
| "f64_lt NegInf b = (b \<noteq> NegInf)"
| "f64_lt _ _ = False"

fun f64_eq :: "float64 \<Rightarrow> float64 \<Rightarrow> bool" where
  "f64_eq NaN _ = False"
| "f64_eq _ NaN = False"
| "f64_eq a b = (a = b)"

definition f64_le :: "float64 \<Rightarrow> float64 \<Rightarrow> bool" where
  "f64_le a b = (f64_lt a b \<or> f64_eq a b)"

abbreviation f64_gt :: "float64 \<Rightarrow> float64 \<Rightarrow> bool" where "f64_gt a b \<equiv> f64_lt b a"
abbreviation f64_ge :: "float64 \<Rightarrow> float64 \<Rightarrow> bool" where "f64_ge a b \<equiv> f64_le b a"

definition isNaN :: "float64 \<Rightarrow> bool" where
  "isNaN a = (a = NaN)"

definition isInf :: "float64 \<Rightarrow> bool" where
  "isInf a = (a = PosInf \<or> a = NegInf)"

section \<open>Arithmetic\<close>

fun f64_neg :: "float64 \<Rightarrow> float64" where
  "f64_neg NaN = NaN"
| "f64_neg NegInf = PosInf"
| "f64_neg PosInf = NegInf"
| "f64_neg (Fin a) = Fin (- a)"

fun f64_add :: "float64 \<Rightarrow> float64 \<Rightarrow> float64" where
  "f64_add (Fin a) (Fin b) = f64_round (a + b)"
| "f64_add NaN _ = NaN"
| "f64_add _ NaN = NaN"
| "f64_add PosInf NegInf = NaN"
| "f64_add NegInf PosInf = NaN"
| "f64_add PosInf _ = PosInf"
| "f64_add _ PosInf = PosInf"
| "f64_add NegInf _ = NegInf"
| "f64_add _ NegInf = NegInf"

definition f64_sub :: "float64 \<Rightarrow> float64 \<Rightarrow> float64" where
  "f64_sub a b = f64_add a (f64_neg b)"

definition f64_signed_inf :: "real \<Rightarrow> float64 \<Rightarrow> float64" where
  "f64_signed_inf a i = (if a = 0 then NaN else if a > 0 then i else f64_neg i)"

fun f64_mul :: "float64 \<Rightarrow> float64 \<Rightarrow> float64" where
  "f64_mul (Fin a) (Fin b) = f64_round (a * b)"
| "f64_mul NaN _ = NaN"
| "f64_mul _ NaN = NaN"
| "f64_mul (Fin a) i = f64_signed_inf a i"
| "f64_mul i (Fin b) = f64_signed_inf b i"
| "f64_mul i j = (if i = j then PosInf else NegInf)"

fun f64_log10 :: "float64 \<Rightarrow> float64" where
  "f64_log10 NaN = NaN"
| "f64_log10 PosInf = PosInf"
| "f64_log10 NegInf = NaN"
| "f64_log10 (Fin a) = (if a < 0 then NaN else if a = 0 then NegInf else f64_round (log 10 a))"

definition f64_max :: "float64 \<Rightarrow> float64 \<Rightarrow> float64" where
  "f64_max a b =
     (if a = PosInf \<or> b = PosInf then PosInf
      else if isNaN a \<or> isNaN b then NaN
      else if f64_gt a b then a else b)"

definition f64_min :: "float64 \<Rightarrow> float64 \<Rightarrow> float64" where
  "f64_min a b =
     (if a = NegInf \<or> b = NegInf then NegInf
      else if isNaN a \<or> isNaN b then NaN
      else if f64_lt a b then a else b)"

fun f64_trunc :: "float64 \<Rightarrow> float64" where
  "f64_trunc (Fin a) = Fin (of_int (if a \<ge> 0 then \<lfloor>a\<rfloor> else \<lceil>a\<rceil>))"
| "f64_trunc x = x"

section \<open>Facts\<close>

named_theorems f64_simps \<open>comparison, minimum and maximum of float64 values\<close>

lemma f64_le_Fin [simp, f64_simps]: "f64_le (Fin a) (Fin b) \<longleftrightarrow> a \<le> b"
  by (auto simp: f64_le_def)

lemma isNaN_simps [simp]: "isNaN NaN" "\<not> isNaN (Fin a)" "\<not> isNaN PosInf" "\<not> isNaN NegInf"
  by (simp_all add: isNaN_def)

lemma isInf_simps [simp]: "\<not> isInf NaN" "\<not> isInf (Fin a)" "isInf PosInf" "isInf NegInf"
  by (simp_all add: isInf_def)

lemma f64_lt_simps [simp]:
  "f64_lt a NegInf = False" "f64_lt PosInf a = False" "f64_lt a NaN = False"
  "f64_lt NegInf (Fin b) = True" "f64_lt (Fin b) PosInf = True" "f64_lt NegInf PosInf = True"
  by (cases a; simp)+

lemma f64_min_Fin [simp, f64_simps]: "f64_min (Fin a) (Fin b) = Fin (min a b)"
  by (auto simp: f64_min_def min_def)

lemma f64_max_Fin [simp, f64_simps]: "f64_max (Fin a) (Fin b) = Fin (max a b)"
  by (auto simp: f64_max_def max_def)

lemma f64_max_Inf [simp, f64_simps]:
  "f64_max PosInf c = PosInf" "f64_max NegInf (Fin b) = Fin b" "f64_max NaN (Fin b) = NaN"
  by (auto simp: f64_max_def)

lemma f64_min_Inf [simp, f64_simps]:
  "f64_min PosInf (Fin b) = Fin b" "f64_min NegInf c = NegInf" "f64_min NaN (Fin b) = NaN"
  by (auto simp: f64_min_def)

lemma f64_lt_le_trans: "f64_lt a b \<Longrightarrow> f64_le b c \<Longrightarrow> f64_lt a c"
  by (cases a; cases b; cases c) (auto simp: f64_le_def)

lemma f64_lt_trans: "f64_lt a b \<Longrightarrow> f64_lt b c \<Longrightarrow> f64_lt a c"
  by (cases a; cases b; cases c) auto

lemma f64_lt_irrefl [simp]: "\<not> f64_lt a a" by (cases a) auto

lemma f64_not_le_lt: "\<not> isNaN a \<Longrightarrow> \<not> isNaN b \<Longrightarrow> \<not> f64_lt a b \<longleftrightarrow> f64_le b a"
  by (cases a; cases b) (auto simp: f64_le_def)

lemma f64_add_not_NaN: "\<not> isNaN b \<Longrightarrow> \<not> isNaN (f64_add (Fin a) b)" "\<not> isNaN b \<Longrightarrow> \<not> isNaN (f64_add b (Fin a))"
  by (cases b; auto simp: f64_round_def Let_def)+

lemma f64_neg_isNaN [simp]: "isNaN (f64_neg a) = isNaN a" by (cases a) auto

lemma f64_sub_not_NaN: "\<not> isNaN b \<Longrightarrow> \<not> isNaN (f64_sub (Fin a) b)" "\<not> isNaN b \<Longrightarrow> \<not> isNaN (f64_sub b (Fin a))"
  by (simp_all add: f64_sub_def f64_add_not_NaN)

lemma f64_round_not_NaN [simp]: "\<not> isNaN (f64_round x)"
  by (auto simp: f64_round_def Let_def)

lemma round_half_even_of_int [simp]: "round_half_even (of_int n) = n"
  by (simp add: round_half_even_def)

lemma round_half_even_diff: "\<bar>of_int (round_half_even x) - x\<bar> \<le> 1/2"
  unfolding round_half_even_def Let_def by (auto simp: abs_le_iff)

lemma ulp_le: "x \<noteq> 0 \<Longrightarrow> (2 powi ulp_exp x :: real) \<le> \<bar>x\<bar> + 1"
proof (cases "\<lfloor>log 2 \<bar>x\<bar>\<rfloor> - 52 \<ge> - 1074")
  case True
  assume "x \<noteq> 0"
  have "2 powr (real_of_int \<lfloor>log 2 \<bar>x\<bar>\<rfloor>) \<le> 2 powr (log 2 \<bar>x\<bar>)" by simp
  also have "\<dots> = \<bar>x\<bar>" using \<open>x \<noteq> 0\<close> by simp
  finally have "(2 :: real) powi \<lfloor>log 2 \<bar>x\<bar>\<rfloor> \<le> \<bar>x\<bar>" by (simp add: powr_real_of_int')
  moreover have "(2 :: real) powi ulp_exp x \<le> 2 powi \<lfloor>log 2 \<bar>x\<bar>\<rfloor>"
    using True by (intro power_int_increasing) (auto simp: ulp_exp_def)
  ultimately show ?thesis by linarith
next
  case False
  then have "(2 :: real) powi ulp_exp x \<le> 2 powi 0"
    by (intro power_int_increasing) (auto simp: ulp_exp_def)
  then show ?thesis by simp
qed

text \<open>A value of moderate size rounds to a finite value of about the same size.\<close>

lemma f64_round_bound:
  assumes "\<bar>x\<bar> \<le> 2 ^ 1000"
  shows "\<exists>y. f64_round x = Fin y \<and> \<bar>y\<bar> \<le> 2 * \<bar>x\<bar> + 1"
proof (cases "x = 0")
  case False
  let ?u = "2 powi ulp_exp x :: real"
  let ?y = "of_int (round_half_even (x / ?u)) * ?u"
  have u: "?u > 0" "?u \<le> \<bar>x\<bar> + 1" using ulp_le[OF False] by simp_all
  have "\<bar>?y - x\<bar> = \<bar>of_int (round_half_even (x / ?u)) - x / ?u\<bar> * ?u"
    using u by (simp add: abs_mult[symmetric] field_simps)
  also have "\<dots> \<le> 1/2 * ?u"
    using u by (intro mult_right_mono round_half_even_diff) auto
  finally have y: "\<bar>?y\<bar> \<le> 2 * \<bar>x\<bar> + 1" using u by linarith
  also have "\<dots> \<le> 2 * 2 ^ 1000 + 1" using assms by linarith
  also have "\<dots> < (2 ^ 1024 :: real)" by simp
  finally have "\<not> ?y \<ge> 2 ^ 1024" "\<not> ?y \<le> - (2 ^ 1024)" by linarith+
  then show ?thesis using False y by (simp add: f64_round_def Let_def)
qed (simp add: f64_round_def)

lemma f64_round_finite: "\<bar>x\<bar> \<le> 2 ^ 1000 \<Longrightarrow> \<exists>y. f64_round x = Fin y"
  using f64_round_bound by blast

lemma f64_round_of_int:
  assumes "\<bar>n\<bar> < 2 ^ 53"
  shows "f64_round (of_int n) = Fin (of_int n)"
proof (cases "n = 0")
  case False
  let ?x = "of_int n :: real"
  let ?u = "2 powi ulp_exp ?x :: real"
  have lt: "\<bar>?x\<bar> < 2 ^ 53" using assms by (metis of_int_abs of_int_less_iff of_int_numeral of_int_power)
  have "log 2 \<bar>?x\<bar> < 53" using lt False
    by (subst log_less_iff) (auto simp: powr_realpow[of 2 53, simplified])
  then have "\<lfloor>log 2 \<bar>?x\<bar>\<rfloor> < 53" by linarith
  then have e: "ulp_exp ?x \<le> 0" by (simp add: ulp_exp_def)
  have u: "?u > 0" by simp
  have "?x / ?u = of_int (n * 2 ^ nat (- ulp_exp ?x))"
    using e by (simp add: power_int_def field_simps)
  then have q: "of_int (round_half_even (?x / ?u)) = ?x / ?u"
    by (metis round_half_even_of_int)
  have y: "of_int (round_half_even (?x / ?u)) * ?u = ?x"
    using u by (simp only: q) simp
  have "(2 ^ 53 :: real) \<le> 2 ^ 1024" by simp
  with lt have "\<bar>?x\<bar> < 2 ^ 1024" by (rule less_le_trans)
  then have "\<not> ?x \<ge> 2 ^ 1024" "\<not> ?x \<le> - (2 ^ 1024)" by linarith+
  then show ?thesis using False by (simp add: f64_round_def Let_def y)
qed (simp add: f64_round_def)

lemma f64_round_numeral [f64_simps]:
  "(numeral k :: int) < 2 ^ 53 \<Longrightarrow> f64_round (numeral k) = Fin (numeral k)"
  "(numeral k :: int) < 2 ^ 53 \<Longrightarrow> f64_round (- numeral k) = Fin (- numeral k)"
  using f64_round_of_int[of "numeral k"] f64_round_of_int[of "- numeral k"] by simp_all

lemma f64_round_0 [simp, f64_simps]: "f64_round 0 = Fin 0"
  by (simp add: f64_round_def)

lemma f64_round_1 [simp, f64_simps]: "f64_round 1 = Fin 1" "f64_round (- 1) = Fin (- 1)"
  using f64_round_of_int[of 1] f64_round_of_int[of "- 1"] by simp_all

text \<open>Rounding does not leave an interval with integer ends.\<close>

lemma round_half_even_between:
  assumes "of_int a \<le> x" "x \<le> of_int b"
  shows "a \<le> round_half_even x \<and> round_half_even x \<le> b"
proof -
  have f: "a \<le> \<lfloor>x\<rfloor>" "\<lfloor>x\<rfloor> \<le> b" using assms by linarith+
  moreover have "\<lfloor>x\<rfloor> + 1 \<le> b" if "x - of_int \<lfloor>x\<rfloor> > 0"
    using that assms(2) f(2) by linarith
  ultimately show ?thesis unfolding round_half_even_def Let_def by auto
qed

lemma f64_round_between:
  assumes "of_int a \<le> x" "x \<le> of_int b" "\<bar>a\<bar> < 2 ^ 53" "\<bar>b\<bar> < 2 ^ 53"
  shows "\<exists>y. f64_round x = Fin y \<and> of_int a \<le> y \<and> y \<le> of_int b"
proof (cases "x = 0")
  case False
  let ?u = "2 powi ulp_exp x :: real"
  let ?k = "2 ^ nat (- ulp_exp x) :: int"
  let ?y = "of_int (round_half_even (x / ?u)) * ?u"
  have ab: "of_int (- (2 ^ 53) + 1) \<le> x" "x \<le> of_int (2 ^ 53 - 1)"
    using assms by (meson order_trans abs_less_iff of_int_le_iff zle_diff1_eq less_le_not_le linorder_not_less
        add1_zle_eq minus_less_iff)+
  then have lt: "\<bar>x\<bar> < 2 ^ 53" by (simp add: abs_less_iff)
  have "log 2 \<bar>x\<bar> < 53" using lt False
    by (subst log_less_iff) (auto simp: powr_realpow[of 2 53, simplified])
  then have "\<lfloor>log 2 \<bar>x\<bar>\<rfloor> < 53" by linarith
  then have e: "ulp_exp x \<le> 0" by (simp add: ulp_exp_def)
  have u: "?u > 0" and k: "of_int ?k * ?u = 1"
    using e by (simp_all add: power_int_def field_simps)
  have "x / ?u = x * of_int ?k" using u k by (simp add: field_simps)
  then have "of_int (a * ?k) \<le> x / ?u" "x / ?u \<le> of_int (b * ?k)"
    using assms(1,2) by simp_all
  from round_half_even_between[OF this]
  have r: "of_int (a * ?k) \<le> (of_int (round_half_even (x / ?u)) :: real)"
    "(of_int (round_half_even (x / ?u)) :: real) \<le> of_int (b * ?k)"
    by (simp_all only: of_int_le_iff)
  have ck: "of_int (c * ?k) * ?u = of_int c" for c
    unfolding of_int_mult mult.assoc k by simp
  have y: "of_int a \<le> ?y" "?y \<le> of_int b"
    using mult_right_mono[OF r(1), of ?u] mult_right_mono[OF r(2), of ?u] u by (simp_all only: ck less_imp_le)
  have c: "of_int c < (2 ^ 1024 :: real)" "- (2 ^ 1024 :: real) < of_int c" if "\<bar>c\<bar> < 2 ^ 53" for c
  proof -
    have "\<bar>of_int c\<bar> < (2 ^ 53 :: real)"
      using that by (metis of_int_abs of_int_less_iff of_int_numeral of_int_power)
    also have "\<dots> \<le> 2 ^ 1024" by simp
    finally show "of_int c < (2 ^ 1024 :: real)" "- (2 ^ 1024 :: real) < of_int c" by linarith+
  qed
  have "\<not> ?y \<ge> 2 ^ 1024" "\<not> ?y \<le> - (2 ^ 1024)"
    using y c(1)[OF assms(4)] c(2)[OF assms(3)] by linarith+
  then show ?thesis using False y by (simp add: f64_round_def Let_def)
qed (use assms in \<open>simp add: f64_round_def\<close>)

end
