(* ===== verification/GoValues.thy ===== *)
theory GoValues
  imports GoFloat
begin

text \<open>
  The dynamically typed leaf values (Go's \<open>any\<close>) that datastores hold, Go's \<open>==\<close> on them, and the
  leaf kinds of \<open>src/internal/store/persist.go\<close>.  Go's \<open>int\<close> is 64 bits wide on the simulator's
  platforms and is kept as an \<open>int\<close> whose range is part of leaf well-formedness.
\<close>

datatype goval =
    GBool bool
  | GInt int
  | GUint8 u8
  | GUint16 u16
  | GUint32 u32
  | GUint64 u64
  | GFloat float64
  | GString string
  | GNil
  | GInt64 int
  | GUint u64
  | GBytes string
  | GOther string

type_synonym vals = "(string, goval) gomap"

text \<open>Go's \<open>==\<close> on two interface values: same dynamic type and equal values; NaN differs from
  itself.\<close>

fun go_eq :: "goval \<Rightarrow> goval \<Rightarrow> bool" where
  "go_eq (GFloat a) (GFloat b) = f64_eq a b"
| "go_eq a b = (a = b)"

datatype leaf_kind = kindBool | kindInt | kindUint8 | kindUint16 | kindUint32 | kindUint64
  | kindFloat64 | kindString

fun leafKindOf :: "goval \<Rightarrow> leaf_kind option" where
  "leafKindOf (GBool _) = Some kindBool"
| "leafKindOf (GInt _) = Some kindInt"
| "leafKindOf (GUint8 _) = Some kindUint8"
| "leafKindOf (GUint16 _) = Some kindUint16"
| "leafKindOf (GUint32 _) = Some kindUint32"
| "leafKindOf (GUint64 _) = Some kindUint64"
| "leafKindOf (GFloat _) = Some kindFloat64"
| "leafKindOf (GString _) = Some kindString"
| "leafKindOf _ = None"

abbreviation leaf_ok :: "goval \<Rightarrow> bool" where
  "leaf_ok v \<equiv> leafKindOf v \<noteq> None"

definition notNaN :: "goval \<Rightarrow> bool" where
  "notNaN v \<longleftrightarrow> v \<noteq> GFloat NaN"

definition int64_min :: int where "int64_min = - (2 ^ 63)"
definition int64_max :: int where "int64_max = 2 ^ 63 - 1"

lemma go_eq_refl_iff [simp]: "go_eq v v \<longleftrightarrow> notNaN v"
proof (cases v)
  case (GFloat x)
  then show ?thesis by (cases x) (auto simp: notNaN_def)
qed (auto simp: notNaN_def)

lemma go_eq_imp_eq: "go_eq v w \<Longrightarrow> v = w"
proof (induction v w rule: go_eq.induct)
  case (1 a b)
  then show ?case by (cases a; cases b) auto
qed auto

lemma go_eq_iff: "go_eq v w \<longleftrightarrow> v = w \<and> notNaN v"
  by (metis go_eq_imp_eq go_eq_refl_iff)

end
