(* ===== verification/Contracts.thy ===== *)
theory Contracts
  imports Prelude
begin

text \<open>
  The interfaces the components rely on, each as a locale whose assumptions are what the provider
  promises and whose lemmas are what every client gets: codecs, first-match lookup in a keyed
  list, best-of selection loops, leaf stores and labelled transition systems with an invariant.
  Every locale is interpreted on the model's own definitions in the theory that provides them.
\<close>

section \<open>Codecs\<close>

text \<open>An encoder that may refuse and a decoder that may fail, inverse on the acceptable values.\<close>

locale codec =
  fixes enc :: "'a \<Rightarrow> 'b option"
    and dec :: "'b \<Rightarrow> 'a option"
    and ok :: "'a \<Rightarrow> bool"
  assumes enc_dec: "ok x \<Longrightarrow> \<exists>y. enc x = Some y \<and> dec y = Some x"
begin

lemma enc_some: "ok x \<Longrightarrow> enc x \<noteq> None"
  using enc_dec by fastforce

lemma dec_enc: "ok x \<Longrightarrow> enc x = Some y \<Longrightarrow> dec y = Some x"
  using enc_dec by fastforce

lemma enc_inj: "ok x \<Longrightarrow> ok y \<Longrightarrow> enc x = enc y \<Longrightarrow> x = y"
  using enc_dec by (metis option.inject)

lemma encs_decs:
  assumes "\<forall>x \<in> set xs. ok x"
  shows "\<exists>ys. map enc xs = map Some ys \<and> map dec ys = map Some xs"
  using assms
proof (induction xs)
  case (Cons x xs)
  then obtain y ys where "enc x = Some y" "dec y = Some x"
    "map enc xs = map Some ys" "map dec ys = map Some xs"
    using enc_dec by fastforce
  then show ?case by (intro exI[of _ "y # ys"]) simp
qed simp

end

section \<open>First-match lookup\<close>

text \<open>The \<open>for\<close> loop that returns the first element whose key matches.\<close>

locale keyed_lookup =
  fixes key :: "'a \<Rightarrow> 'k"
    and lookup :: "'a list \<Rightarrow> 'k \<Rightarrow> 'a option"
  assumes lookup_Nil: "lookup [] k = None"
    and lookup_Cons: "lookup (x # xs) k = (if key x = k then Some x else lookup xs k)"
begin

lemma lookup_Some: "lookup xs k = Some x \<Longrightarrow> x \<in> set xs \<and> key x = k"
  by (induction xs) (auto simp: lookup_Nil lookup_Cons split: if_splits)

lemma lookup_None: "lookup xs k = None \<longleftrightarrow> k \<notin> key ` set xs"
  by (induction xs) (auto simp: lookup_Nil lookup_Cons)

lemma lookup_distinct: "distinct (map key xs) \<Longrightarrow> x \<in> set xs \<Longrightarrow> lookup xs (key x) = Some x"
  by (induction xs) (auto simp: lookup_Cons rev_image_eqI)

lemma lookup_distinct_iff:
  "distinct (map key xs) \<Longrightarrow> lookup xs k = Some x \<longleftrightarrow> x \<in> set xs \<and> key x = k"
  using lookup_Some lookup_distinct by blast

lemma lookup_append: "lookup (xs @ ys) k = (case lookup xs k of None \<Rightarrow> lookup ys k | r \<Rightarrow> r)"
  by (induction xs) (auto simp: lookup_Nil lookup_Cons)

lemma lookup_map:
  "(\<And>x. key (f x) = key x) \<Longrightarrow> lookup (map f xs) k = map_option f (lookup xs k)"
  by (induction xs) (auto simp: lookup_Nil lookup_Cons)

end

section \<open>Best-of selection\<close>

text \<open>The loop that keeps the best candidate seen so far: a later element replaces the current one
  only when it is strictly better.\<close>

locale selection =
  fixes better :: "'a \<Rightarrow> 'a \<Rightarrow> bool"
    and pick :: "'a option \<Rightarrow> 'a list \<Rightarrow> 'a option"
  assumes pick_Nil: "pick c [] = c"
    and pick_None: "pick None (x # xs) = pick (Some x) xs"
    and pick_Some: "pick (Some b) (x # xs) = pick (Some (if better x b then x else b)) xs"
    and better_irrefl: "\<not> better x x"
    and better_trans: "better x y \<Longrightarrow> better y z \<Longrightarrow> better x z"
    and better_cotrans: "better x z \<Longrightarrow> better x y \<or> better y z"
begin

lemma pick_from: "\<exists>b'. pick (Some b) xs = Some b' \<and> b' \<in> insert b (set xs) \<and>
    (\<forall>x \<in> insert b (set xs). \<not> better x b')"
proof (induction xs arbitrary: b)
  case Nil
  then show ?case by (simp add: pick_Nil better_irrefl)
next
  case (Cons x xs)
  let ?c = "if better x b then x else b"
  obtain b' where b': "pick (Some ?c) xs = Some b'" "b' \<in> insert ?c (set xs)"
    "\<forall>y \<in> insert ?c (set xs). \<not> better y b'"
    using Cons by blast
  have "\<not> better b b'" "\<not> better x b'"
    using b'(3) better_trans better_cotrans by (auto split: if_splits) blast+
  with b' show ?case by (auto simp: pick_Some split: if_splits)
qed

lemma pick_best: "pick None xs = Some b \<Longrightarrow> b \<in> set xs \<and> (\<forall>x \<in> set xs. \<not> better x b)"
  using pick_from[of "hd xs" "tl xs"] by (cases xs) (auto simp: pick_Nil pick_None)

lemma pick_split_from:
  "pick (Some b) xs = Some b' \<Longrightarrow>
   \<exists>pre post. b # xs = pre @ b' # post \<and> (\<forall>x \<in> set pre. better b' x) \<and> (\<forall>x \<in> set post. \<not> better x b')"
proof (induction xs arbitrary: b)
  case Nil
  then show ?case by (intro exI[of _ "[]"]) (simp add: pick_Nil)
next
  case (Cons x xs)
  show ?case
  proof (cases "better x b")
    case True
    with Cons obtain pre post where *: "x # xs = pre @ b' # post"
      "\<forall>y \<in> set pre. better b' y" "\<forall>y \<in> set post. \<not> better y b'"
      by (auto simp: pick_Some) blast
    moreover have "better b' b"
      using * True better_trans by (cases pre) auto
    ultimately show ?thesis by (intro exI[of _ "b # pre"] exI[of _ post]) simp
  next
    case False
    with Cons obtain pre post where *: "b # xs = pre @ b' # post"
      "\<forall>y \<in> set pre. better b' y" "\<forall>y \<in> set post. \<not> better y b'"
      by (auto simp: pick_Some) blast
    show ?thesis
    proof (cases pre)
      case Nil
      with * False show ?thesis by (intro exI[of _ "[]"] exI[of _ "x # xs"]) auto
    next
      case (Cons c cs)
      with * False have "better b' x" using better_cotrans by auto
      with * Cons show ?thesis by (intro exI[of _ "b # x # cs"] exI[of _ post]) auto
    qed
  qed
qed

lemma pick_split:
  "pick None xs = Some b \<Longrightarrow>
   \<exists>pre post. xs = pre @ b # post \<and> (\<forall>x \<in> set pre. better b x) \<and> (\<forall>x \<in> set post. \<not> better x b)"
  by (cases xs) (auto simp: pick_Nil pick_None dest: pick_split_from)

lemma pick_None_iff: "pick None xs = None \<longleftrightarrow> xs = []"
  using pick_from[of "hd xs" "tl xs"] by (cases xs) (auto simp: pick_Nil pick_None)

end

text \<open>The loop itself, for any order.\<close>

fun pick_by :: "('a \<Rightarrow> 'a \<Rightarrow> bool) \<Rightarrow> 'a option \<Rightarrow> 'a list \<Rightarrow> 'a option" where
  "pick_by better c [] = c"
| "pick_by better None (x # xs) = pick_by better (Some x) xs"
| "pick_by better (Some b) (x # xs) = pick_by better (Some (if better x b then x else b)) xs"

section \<open>Invariants of transition systems\<close>

text \<open>A component whose operations are labelled steps keeps an invariant along every run of the
  labels its clients may use.\<close>

locale invariant_system =
  fixes init :: "'s \<Rightarrow> bool"
    and step :: "'s \<Rightarrow> 'l \<Rightarrow> 's"
    and lab :: "'l \<Rightarrow> bool"
    and inv :: "'s \<Rightarrow> bool"
  assumes inv_init: "init s \<Longrightarrow> inv s"
    and inv_step: "inv s \<Longrightarrow> lab l \<Longrightarrow> inv (step s l)"
begin

lemma inv_run: "inv s \<Longrightarrow> list_all lab ls \<Longrightarrow> inv (foldl step s ls)"
  by (induction ls arbitrary: s) (auto intro: inv_step)

lemma inv_reachable: "init s \<Longrightarrow> list_all lab ls \<Longrightarrow> inv (foldl step s ls)"
  using inv_init inv_run by blast

end

section \<open>Leaf writers\<close>

text \<open>The domains write their state leaf by leaf through a writer that either stores the value
  or reports an error and changes nothing, for a condition that depends on the leaf alone.\<close>

locale leaf_writer =
  fixes rd :: "'w \<Rightarrow> string \<Rightarrow> 'v option"
    and wr :: "string \<Rightarrow> 'v \<Rightarrow> 'w \<Rightarrow> 'e option \<times> 'w"
    and accepts :: "string \<Rightarrow> 'v \<Rightarrow> bool"
  assumes write_ok: "fst (wr p v w) = None \<longleftrightarrow> accepts p v"
    and write_read: "accepts p v \<Longrightarrow> rd (snd (wr p v w)) q = (if q = p then Some v else rd w q)"
    and write_fail: "\<not> accepts p v \<Longrightarrow> snd (wr p v w) = w"
begin

lemma write_all_read:
  "list_all (\<lambda>(p, v). accepts p v) ws \<Longrightarrow>
   rd (foldl (\<lambda>w (p, v). snd (wr p v w)) w ws) q =
     (case map_of (rev ws) q of Some v \<Rightarrow> Some v | None \<Rightarrow> rd w q)"
  by (induction ws arbitrary: w) (auto simp: write_read map_add_def split: option.splits)

lemma write_all_frame:
  "q \<notin> fst ` set ws \<Longrightarrow> rd (foldl (\<lambda>w (p, v). snd (wr p v w)) w ws) q = rd w q"
proof (induction ws arbitrary: w)
  case (Cons pv ws)
  obtain p v where "pv = (p, v)" by (cases pv)
  with Cons show ?case by (cases "accepts p v") (auto simp: write_read write_fail)
qed simp

end

end
