(* ===== verification/Persist.thy ===== *)
theory Persist
  imports GoValues GoStrings Contracts
begin

text \<open>
  Persistence of the startup datastore (\<open>src/internal/store/persist.go\<close>): the kind-tagged
  document, its JSON leaf codec, the atomic file replacement and \<open>Save\<close> and \<open>Load\<close>.

  A JSON scalar is kept as the token \<open>encoding/json\<close> produces: an integer literal by its value,
  a literal with a fraction or exponent by the \<open>float64\<close> it parses to.  \<open>encoding/json\<close> replaces
  invalid UTF-8 by U+FFFD when it writes a string; \<open>to_valid_utf8\<close> is that replacement.  The file
  system is the map of regular files and the list of directories; every system call the code makes
  can fail, as told by a fault predicate, and every intermediate state is recorded so that a crash
  between two calls can be reasoned about.
\<close>

section \<open>JSON leaves\<close>

datatype json =
    JNull
  | JBool bool
  | JInt int
  | JFrac real
  | JHuge
  | JString string
  | JOther

definition byte_in :: "char \<Rightarrow> nat \<Rightarrow> nat \<Rightarrow> bool" where
  "byte_in c lo hi = (lo \<le> (of_char c :: nat) \<and> (of_char c :: nat) \<le> hi)"

text \<open>The width of the UTF-8 encoding at the head of a string, \<open>0\<close> when it is invalid.\<close>

definition utf8_len :: "string \<Rightarrow> nat" where
  "utf8_len s =
     (case s of [] \<Rightarrow> 0
      | a # s1 \<Rightarrow>
        if byte_in a 0 0x7F then 1
        else case s1 of [] \<Rightarrow> 0
        | b # s2 \<Rightarrow>
          if byte_in a 0xC2 0xDF then (if byte_in b 0x80 0xBF then 2 else 0)
          else case s2 of [] \<Rightarrow> 0
          | c # s3 \<Rightarrow>
            if byte_in a 0xE0 0xEF then
              (if (if byte_in a 0xE0 0xE0 then byte_in b 0xA0 0xBF
                   else if byte_in a 0xED 0xED then byte_in b 0x80 0x9F else byte_in b 0x80 0xBF)
                  \<and> byte_in c 0x80 0xBF then 3 else 0)
            else case s3 of [] \<Rightarrow> 0
            | d # s4 \<Rightarrow>
              if byte_in a 0xF0 0xF4
                 \<and> (if byte_in a 0xF0 0xF0 then byte_in b 0x90 0xBF
                    else if byte_in a 0xF4 0xF4 then byte_in b 0x80 0x8F else byte_in b 0x80 0xBF)
                 \<and> byte_in c 0x80 0xBF \<and> byte_in d 0x80 0xBF then 4 else 0)"

function to_valid_utf8 :: "string \<Rightarrow> string" where
  "to_valid_utf8 s =
     (if s = [] then []
      else if utf8_len s = 0 then [CHR 0xEF, CHR 0xBF, CHR 0xBD] @ to_valid_utf8 (tl s)
      else take (utf8_len s) s @ to_valid_utf8 (drop (utf8_len s) s))"
  by auto
termination by (relation "measure length") auto

declare to_valid_utf8.simps [simp del]

definition valid_utf8 :: "string \<Rightarrow> bool" where
  "valid_utf8 s \<longleftrightarrow> to_valid_utf8 s = s"

text \<open>\<open>json.Marshal\<close> of a leaf; NaN and the infinities are unsupported values.\<close>

fun json_marshal :: "goval \<Rightarrow> json option" where
  "json_marshal (GBool b) = Some (JBool b)"
| "json_marshal (GInt n) = Some (JInt n)"
| "json_marshal (GUint8 w) = Some (JInt (uint w))"
| "json_marshal (GUint16 w) = Some (JInt (uint w))"
| "json_marshal (GUint32 w) = Some (JInt (uint w))"
| "json_marshal (GUint64 w) = Some (JInt (uint w))"
| "json_marshal (GFloat (Fin r)) =
     Some (if of_int \<lfloor>r\<rfloor> = r \<and> \<bar>\<lfloor>r\<rfloor>\<bar> < 2 ^ 53 then JInt \<lfloor>r\<rfloor> else JFrac r)"
| "json_marshal (GFloat _) = None"
| "json_marshal (GString s) = Some (JString (to_valid_utf8 s))"
| "json_marshal _ = None"

text \<open>\<open>json.Unmarshal\<close> into a variable of the kind; \<open>null\<close> leaves the zero value.\<close>

definition unmarshal_int :: "int \<Rightarrow> int \<Rightarrow> json \<Rightarrow> int option" where
  "unmarshal_int lo hi j =
     (case j of JNull \<Rightarrow> Some 0 | JInt n \<Rightarrow> if lo \<le> n \<and> n \<le> hi then Some n else None | _ \<Rightarrow> None)"

definition unmarshal_float :: "json \<Rightarrow> float64 option" where
  "unmarshal_float j =
     (case j of JNull \<Rightarrow> Some (Fin 0)
      | JInt n \<Rightarrow> (case f64_round (of_int n) of Fin r \<Rightarrow> Some (Fin r) | _ \<Rightarrow> None)
      | JFrac r \<Rightarrow> Some (Fin r)
      | _ \<Rightarrow> None)"

definition unmarshal_bool :: "json \<Rightarrow> bool option" where
  "unmarshal_bool j = (case j of JNull \<Rightarrow> Some False | JBool b \<Rightarrow> Some b | _ \<Rightarrow> None)"

definition unmarshal_string :: "json \<Rightarrow> string option" where
  "unmarshal_string j = (case j of JNull \<Rightarrow> Some [] | JString s \<Rightarrow> Some (to_valid_utf8 s) | _ \<Rightarrow> None)"

text \<open>A leaf on disk.  The kind is text in the file, so a hand-edited file can hold a kind the
  program does not know.\<close>

datatype disk_kind = KnownKind leaf_kind | UnknownKind string

record diskLeaf =
  Kind :: disk_kind
  RawValue :: json

record diskFile =
  Version :: int
  Values :: "(string, diskLeaf) gomap"

definition fileVersion :: int where "fileVersion = 1"

fun decode_kind :: "leaf_kind \<Rightarrow> json \<Rightarrow> goval option" where
  "decode_kind kindBool j = map_option GBool (unmarshal_bool j)"
| "decode_kind kindInt j = map_option GInt (unmarshal_int int64_min int64_max j)"
| "decode_kind kindUint8 j = map_option (\<lambda>n. GUint8 (of_int n)) (unmarshal_int 0 (2 ^ 8 - 1) j)"
| "decode_kind kindUint16 j = map_option (\<lambda>n. GUint16 (of_int n)) (unmarshal_int 0 (2 ^ 16 - 1) j)"
| "decode_kind kindUint32 j = map_option (\<lambda>n. GUint32 (of_int n)) (unmarshal_int 0 (2 ^ 32 - 1) j)"
| "decode_kind kindUint64 j = map_option (\<lambda>n. GUint64 (of_int n)) (unmarshal_int 0 (2 ^ 64 - 1) j)"
| "decode_kind kindFloat64 j = map_option GFloat (unmarshal_float j)"
| "decode_kind kindString j = map_option GString (unmarshal_string j)"

definition decodeLeaf :: "diskLeaf \<Rightarrow> goval option" where
  "decodeLeaf l = (case Kind l of KnownKind k \<Rightarrow> decode_kind k (RawValue l) | UnknownKind _ \<Rightarrow> None)"

section \<open>Files\<close>

datatype fcontent = FDoc diskFile | FBad

record fs =
  files :: "(string, fcontent) gomap"
  dirs :: "string list"

datatype io_step = OpenTmp | WriteTmp | SyncTmp | CloseTmp | RenameTmp | SyncDir | RemoveTmp | ReadFile

type_synonym faults = "io_step \<Rightarrow> bool"

datatype persist_error = CtxError string | PathEmpty | IsDirectory | IOError io_step | LeafError string
  | BadDocument | UnsupportedVersion int

definition fs_put :: "string \<Rightarrow> fcontent \<Rightarrow> fs \<Rightarrow> fs" where
  "fs_put p c f = f\<lparr>files := AList.update p c (files f)\<rparr>"

definition fs_remove :: "faults \<Rightarrow> string \<Rightarrow> fs \<Rightarrow> fs" where
  "fs_remove fl p f = (if fl RemoveTmp then f else f\<lparr>files := AList.delete p (files f)\<rparr>)"

definition fs_rename :: "string \<Rightarrow> string \<Rightarrow> fs \<Rightarrow> fs" where
  "fs_rename p q f =
     (case map_of (files f) p of
        None \<Rightarrow> f
      | Some c \<Rightarrow> f\<lparr>files := AList.update q c (AList.delete p (files f))\<rparr>)"

abbreviation fs_read :: "fs \<Rightarrow> string \<Rightarrow> fcontent option" where
  "fs_read f p \<equiv> map_of (files f) p"

text \<open>The result and every file-system state the call passes through, the last one final.\<close>

definition writeFileAtomic :: "faults \<Rightarrow> string \<Rightarrow> fcontent \<Rightarrow> fs \<Rightarrow> persist_error option \<times> fs list" where
  "writeFileAtomic fl path data f0 =
     (if path \<in> set (dirs f0) then (Some IsDirectory, [f0])
      else
        let tmp = path @ ''.tmp'' in
        if fl OpenTmp then (Some (IOError OpenTmp), [f0])
        else let f1 = fs_put tmp FBad f0 in
        if fl WriteTmp then (Some (IOError WriteTmp), [f0, f1, fs_remove fl tmp f1])
        else let f2 = fs_put tmp data f1 in
        if fl SyncTmp then (Some (IOError SyncTmp), [f0, f1, f2, fs_remove fl tmp f2])
        else if fl CloseTmp then (Some (IOError CloseTmp), [f0, f1, f2, fs_remove fl tmp f2])
        else if fl RenameTmp then (Some (IOError RenameTmp), [f0, f1, f2, fs_remove fl tmp f2])
        else let f3 = fs_rename tmp path f2 in
        if fl SyncDir then (Some (IOError SyncDir), [f0, f1, f2, f3])
        else (None, [f0, f1, f2, f3]))"

definition encode_leaf :: "string \<times> goval \<Rightarrow> persist_error + (string \<times> diskLeaf)" where
  "encode_leaf pv =
     (case leafKindOf (snd pv) of
        None \<Rightarrow> Inl (LeafError (fst pv))
      | Some k \<Rightarrow>
          (case json_marshal (snd pv) of
             None \<Rightarrow> Inl (LeafError (fst pv))
           | Some raw \<Rightarrow> Inr (to_valid_utf8 (fst pv), \<lparr>Kind = KnownKind k, RawValue = raw\<rparr>)))"

definition Save :: "string option \<Rightarrow> faults \<Rightarrow> string \<Rightarrow> vals \<Rightarrow> fs \<Rightarrow> persist_error option \<times> fs list" where
  "Save ctx fl path values f =
     (case ctx of Some e \<Rightarrow> (Some (CtxError e), [f])
      | None \<Rightarrow>
        if path = [] then (Some PathEmpty, [f])
        else case map_res encode_leaf values of
               Inl e \<Rightarrow> (Some e, [f])
             | Inr leaves \<Rightarrow>
                 writeFileAtomic fl path (FDoc \<lparr>Version = fileVersion, Values = leaves\<rparr>) f)"

definition decode_entry :: "string \<times> diskLeaf \<Rightarrow> persist_error + (string \<times> goval)" where
  "decode_entry pl =
     (case decodeLeaf (snd pl) of None \<Rightarrow> Inl (LeafError (fst pl)) | Some v \<Rightarrow> Inr (fst pl, v))"

definition Load :: "string option \<Rightarrow> faults \<Rightarrow> string \<Rightarrow> fs \<Rightarrow> persist_error + vals" where
  "Load ctx fl path f =
     (case ctx of Some e \<Rightarrow> Inl (CtxError e)
      | None \<Rightarrow>
        if path = [] then Inl PathEmpty
        else if path \<in> set (dirs f) then Inl IsDirectory
        else case fs_read f path of
               None \<Rightarrow> Inr []
             | Some c \<Rightarrow>
                 if fl ReadFile then Inl (IOError ReadFile)
                 else (case c of
                         FBad \<Rightarrow> Inl BadDocument
                       | FDoc d \<Rightarrow>
                           if Version d \<noteq> fileVersion then Inl (UnsupportedVersion (Version d))
                           else map_res decode_entry (gm_of_list (Values d))))"

section \<open>The leaf codec\<close>

text \<open>The leaves \<open>encoding/json\<close> represents exactly: in range, finite, valid UTF-8.\<close>

fun leaf_exact :: "goval \<Rightarrow> bool" where
  "leaf_exact (GInt n) = (int64_min \<le> n \<and> n \<le> int64_max)"
| "leaf_exact (GFloat a) = (\<not> isNaN a \<and> \<not> isInf a)"
| "leaf_exact (GString s) = valid_utf8 s"
| "leaf_exact v = leaf_ok v"

definition leaf_enc :: "goval \<Rightarrow> diskLeaf option" where
  "leaf_enc v =
     (case (leafKindOf v, json_marshal v) of
        (Some k, Some raw) \<Rightarrow> Some \<lparr>Kind = KnownKind k, RawValue = raw\<rparr>
      | _ \<Rightarrow> None)"

lemma encode_leaf_alt:
  "encode_leaf (p, v) =
     (case leaf_enc v of None \<Rightarrow> Inl (LeafError p) | Some l \<Rightarrow> Inr (to_valid_utf8 p, l))"
  by (auto simp: encode_leaf_def leaf_enc_def split: option.splits)

lemma uint_le_max:
  "uint (w8 :: 8 word) \<le> 255" "uint (w16 :: 16 word) \<le> 65535" "uint (w32 :: 32 word) \<le> 4294967295"
  "uint (w64 :: 64 word) \<le> 18446744073709551615"
  using uint_lt2p[of w8] uint_lt2p[of w16] uint_lt2p[of w32] uint_lt2p[of w64] by simp_all

lemma leaf_exact_dec:
  assumes "leaf_exact v"
  shows "\<exists>l. leaf_enc v = Some l \<and> decodeLeaf l = Some v"
proof (cases v)
  case (GFloat a)
  with assms obtain r where "a = Fin r" by (cases a) auto
  with GFloat show ?thesis
    by (auto simp: leaf_enc_def decodeLeaf_def unmarshal_float_def f64_round_of_int)
next
  case (GString s)
  with assms show ?thesis
    by (simp add: leaf_enc_def decodeLeaf_def unmarshal_string_def valid_utf8_def)
qed (use assms in \<open>auto simp: leaf_enc_def decodeLeaf_def unmarshal_int_def unmarshal_bool_def
      uint_le_max\<close>)

interpretation leaf_codec: codec leaf_enc decodeLeaf leaf_exact
  by unfold_locales (rule leaf_exact_dec)

definition vals_exact :: "vals \<Rightarrow> bool" where
  "vals_exact m \<longleftrightarrow> gm_wf m \<and> list_all (\<lambda>(p, v). valid_utf8 p \<and> leaf_exact v) m"

lemma encode_decode_entries:
  "vals_exact m \<Longrightarrow>
     \<exists>ls. map_res encode_leaf m = Inr ls \<and> map_res decode_entry ls = Inr m \<and> map fst ls = map fst m"
proof (induction m)
  case (Cons pv m)
  obtain p v where pv: "pv = (p, v)" by (cases pv)
  from Cons pv have ok: "valid_utf8 p" "leaf_exact v" and "vals_exact m"
    by (auto simp: vals_exact_def)
  from Cons.IH[OF this(3)] obtain ls where ls: "map_res encode_leaf m = Inr ls"
    "map_res decode_entry ls = Inr m" "map fst ls = map fst m" by blast
  from leaf_codec.enc_dec[OF ok(2)] obtain l where "leaf_enc v = Some l" "decodeLeaf l = Some v"
    by blast
  then have "encode_leaf (p, v) = Inr (p, l)" "decode_entry (p, l) = Inr (p, v)"
    using ok by (simp_all add: encode_leaf_alt decode_entry_def valid_utf8_def)
  with ls pv show ?case
    by (intro exI[of _ "(p, l) # ls"]) simp
qed simp

section \<open>Atomic replacement\<close>

lemma fs_read_simps [simp]:
  "fs_read (fs_put p c f) q = (if q = p then Some c else fs_read f q)"
  "q \<noteq> p \<Longrightarrow> fs_read (fs_remove fl p f) q = fs_read f q"
  "fs_read (fs_rename p r f) q =
     (case fs_read f p of None \<Rightarrow> fs_read f q
      | Some c \<Rightarrow> if q = r then Some c else if q = p then None else fs_read f q)"
  by (auto simp: fs_put_def fs_remove_def fs_rename_def alist_simps split: option.splits)

lemma dirs_simps [simp]:
  "dirs (fs_put p c f) = dirs f" "dirs (fs_remove fl p f) = dirs f" "dirs (fs_rename p r f) = dirs f"
  by (auto simp: fs_put_def fs_remove_def fs_rename_def split: option.splits)

text \<open>Every way through \<open>writeFileAtomic\<close>.\<close>

lemma writeFileAtomic_states:
  assumes "writeFileAtomic fl path data f = (err, tr)"
  shows "tr \<noteq> [] \<and> (\<forall>g \<in> set tr. dirs g = dirs f \<and>
           (\<forall>q. q \<noteq> path \<and> q \<noteq> path @ ''.tmp'' \<longrightarrow> fs_read g q = fs_read f q) \<and>
           (fs_read g path = fs_read f path \<or> fs_read g path = Some data))"
  using assms by (auto simp: writeFileAtomic_def Let_def split: if_splits)

lemma writeFileAtomic_final:
  assumes "writeFileAtomic fl path data f = (err, tr)"
  shows "(if err = None \<or> err = Some (IOError SyncDir)
          then fs_read (last tr) path = Some data \<and> fs_read (last tr) (path @ ''.tmp'') = None
          else fs_read (last tr) path = fs_read f path)"
  using assms by (auto simp: writeFileAtomic_def Let_def split: if_splits)

section \<open>Save and Load\<close>

abbreviation no_faults :: faults where "no_faults \<equiv> (\<lambda>_. False)"

lemma Save_states:
  assumes "Save ctx fl path m f = (err, tr)" "g \<in> set tr" "vals_exact m"
  shows "dirs g = dirs f"
    "fs_read g path = fs_read f path \<or>
     (\<exists>ls. map_res decode_entry ls = Inr m \<and> gm_wf ls \<and>
           fs_read g path = Some (FDoc \<lparr>Version = fileVersion, Values = ls\<rparr>))"
proof -
  obtain ls where ls: "map_res encode_leaf m = Inr ls" "map_res decode_entry ls = Inr m"
      "map fst ls = map fst m"
    using encode_decode_entries assms(3) by blast
  have wf: "gm_wf ls" using ls(3) assms(3) by (simp add: vals_exact_def)
  show "dirs g = dirs f"
    "fs_read g path = fs_read f path \<or>
     (\<exists>ls. map_res decode_entry ls = Inr m \<and> gm_wf ls \<and>
           fs_read g path = Some (FDoc \<lparr>Version = fileVersion, Values = ls\<rparr>))"
    using assms(1,2) ls(1,2) wf writeFileAtomic_states[of fl path "FDoc \<lparr>Version = fileVersion, Values = ls\<rparr>" f err tr]
    by (auto simp: Save_def split: option.splits if_splits)
qed

text \<open>C2: \<open>Save\<close> followed by \<open>Load\<close> returns exactly the saved leaves, each with its Go type (no
  integer turns into a float), provided every leaf and path is one JSON represents exactly and no
  system call fails.\<close>

theorem Save_Load:
  assumes "vals_exact m" "path \<noteq> []" "path \<notin> set (dirs f)"
  shows "\<exists>tr. Save None no_faults path m f = (None, tr) \<and> Load None no_faults path (last tr) = Inr m"
proof -
  obtain ls where ls: "map_res encode_leaf m = Inr ls" "map_res decode_entry ls = Inr m"
      "map fst ls = map fst m"
    using encode_decode_entries assms(1) by blast
  let ?doc = "FDoc \<lparr>Version = fileVersion, Values = ls\<rparr>"
  obtain tr where w: "writeFileAtomic no_faults path ?doc f = (None, tr)"
    using assms(3) by (auto simp: writeFileAtomic_def Let_def)
  have "tr \<noteq> []" "dirs (last tr) = dirs f" "fs_read (last tr) path = Some ?doc"
    using writeFileAtomic_states[OF w] writeFileAtomic_final[OF w] by auto
  then show ?thesis
    using assms w ls by (intro exI[of _ tr]) (simp add: Save_def Load_def vals_exact_def gm_of_list_wf)
qed

theorem Save_Load_witness:
  "\<exists>tr. Save None no_faults ''s.json'' [(''a/b'', GUint8 7), (''a/c'', GFloat (Fin 3))]
           \<lparr>files = [], dirs = [''etc'']\<rparr> = (None, tr)
      \<and> Load None no_faults ''s.json'' (last tr) = Inr [(''a/b'', GUint8 7), (''a/c'', GFloat (Fin 3))]"
  by (rule Save_Load)
    (simp_all add: vals_exact_def valid_utf8_def to_valid_utf8.simps utf8_len_def byte_in_def)

text \<open>C3: replacing the startup file is atomic under a crash.  Whatever calls fail, and in every
  intermediate state in which the process may be killed, the file at the target path loads as it
  did before \<open>Save\<close> or as the complete new datastore, never as a truncated document.\<close>

theorem Save_crash_safe:
  assumes "vals_exact m" "Save ctx fl path m f = (err, tr)" "g \<in> set tr"
  shows "Load None no_faults path g = Load None no_faults path f \<or> Load None no_faults path g = Inr m"
proof -
  have d: "dirs g = dirs f" using Save_states(1) assms by blast
  consider (same) "fs_read g path = fs_read f path"
    | (new) ls where "map_res decode_entry ls = Inr m"
        "gm_wf ls" "fs_read g path = Some (FDoc \<lparr>Version = fileVersion, Values = ls\<rparr>)"
    using Save_states(2)[OF assms(2,3,1)] by blast
  then show ?thesis
  proof cases
    case same
    then show ?thesis by (simp add: Load_def d)
  next
    case new
    then show ?thesis by (auto simp: Load_def d gm_of_list_wf)
  qed
qed

theorem Save_crash_safe_witness:
  "list_all (\<lambda>g. Load None no_faults ''s'' g = Inr [] \<or> Load None no_faults ''s'' g = Inr [(''a'', GBool True)])
     (snd (Save None (\<lambda>s. s = SyncTmp) ''s'' [(''a'', GBool True)] \<lparr>files = [], dirs = []\<rparr>))"
  unfolding list_all_iff
proof
  fix g
  assume g: "g \<in> set (snd (Save None (\<lambda>s. s = SyncTmp) ''s'' [(''a'', GBool True)] \<lparr>files = [], dirs = []\<rparr>))"
  have "Load None no_faults ''s'' g = Load None no_faults ''s'' \<lparr>files = [], dirs = []\<rparr>
      \<or> Load None no_faults ''s'' g = Inr [(''a'', GBool True)]"
    by (rule Save_crash_safe[OF _ prod.collapse[symmetric] g])
      (simp add: vals_exact_def valid_utf8_def to_valid_utf8.simps utf8_len_def byte_in_def)
  then show "Load None no_faults ''s'' g = Inr [] \<or> Load None no_faults ''s'' g = Inr [(''a'', GBool True)]"
    by (simp add: Load_def)
qed

end
