(* ===== verification/Store.thy ===== *)
theory Store
  imports Persist
begin

text \<open>
  The configuration datastores (\<open>src/internal/store/store.go\<close>, \<open>memory.go\<close>, \<open>diff.go\<close>): running,
  candidate and startup as flat maps from canonical path to leaf, with the mirroring of running
  into candidate, the change tracking, and commit, rollback, snapshot and restore.

  Every operation holds the store lock for its whole body, so an execution is a sequence of
  operations; an operation takes the context error (\<open>None\<close> while the context is alive), the clock
  reading and, where it touches the disk, the fault predicate of \<open>Persist\<close>.  The disk the startup
  file lives on is a field of the state.
\<close>

section \<open>State\<close>

datatype datastore = Running | Candidate | Startup | OtherDS string

datatype store_error =
    CtxErr string
  | ErrNotFound string
  | ErrUnknownDatastore datastore
  | ErrInvalidPath string
  | ErrInvalidValue goval
  | ErrValidation string
  | ErrPersist persist_error

datatype op = OpCreate | OpUpdate | OpDelete

record change =
  Op :: op
  Path :: string
  Old :: "goval option"
  New :: "goval option"

record memory =
  running :: vals
  candidate :: vals
  startup :: vals
  startupFile :: string
  validator :: "(vals \<Rightarrow> string option) option"
  stateFilter :: "(string \<Rightarrow> bool) option"
  generation :: "(datastore, u64) gomap"
  configChanged :: "(datastore, time) gomap"
  disk :: fs

definition NewMemory :: "string \<Rightarrow> (vals \<Rightarrow> string option) option \<Rightarrow> (string \<Rightarrow> bool) option \<Rightarrow> fs \<Rightarrow> memory" where
  "NewMemory file val filt d =
     \<lparr>running = [], candidate = [], startup = [], startupFile = file, validator = val,
      stateFilter = filt, generation = [], configChanged = [], disk = d\<rparr>"

definition SetValidator :: "(vals \<Rightarrow> string option) option \<Rightarrow> memory \<Rightarrow> memory" where
  "SetValidator v m = m\<lparr>validator := v\<rparr>"

definition SetStateFilter :: "(string \<Rightarrow> bool) option \<Rightarrow> memory \<Rightarrow> memory" where
  "SetStateFilter f m = m\<lparr>stateFilter := f\<rparr>"

section \<open>Change tracking\<close>

definition isState :: "memory \<Rightarrow> string \<Rightarrow> bool" where
  "isState m p = (case stateFilter m of None \<Rightarrow> False | Some f \<Rightarrow> f p)"

definition configOnly :: "memory \<Rightarrow> vals \<Rightarrow> vals" where
  "configOnly m values = filter (\<lambda>(p, v). \<not> isState m p) values"

definition bumpLocked :: "time \<Rightarrow> datastore \<Rightarrow> string list \<Rightarrow> memory \<Rightarrow> memory" where
  "bumpLocked now ds paths m =
     m\<lparr>generation := AList.update ds (gm_get_or 0 (generation m) ds + 1) (generation m),
       configChanged := (if list_ex (\<lambda>p. \<not> isState m p) paths
                         then AList.update ds now (configChanged m) else configChanged m)\<rparr>"

definition recordWriteLocked :: "time \<Rightarrow> datastore \<Rightarrow> string list \<Rightarrow> memory \<Rightarrow> memory" where
  "recordWriteLocked now ds paths m =
     (let m1 = bumpLocked now ds paths m
      in if ds = Running then bumpLocked now Candidate paths m1 else m1)"

definition recordDiffLocked :: "time \<Rightarrow> datastore \<Rightarrow> change list \<Rightarrow> memory \<Rightarrow> memory" where
  "recordDiffLocked now ds diff m = bumpLocked now ds (map Path diff) m"

section \<open>Addressing\<close>

definition validPath :: "string \<Rightarrow> bool" where
  "validPath path =
     (if path = [] \<or> trim_space path \<noteq> path then False
      else if has_prefix path ''/'' \<or> has_suffix path ''/'' then False
      else \<not> str_contains path ''//'')"

fun datastore_vals :: "memory \<Rightarrow> datastore \<Rightarrow> store_error + vals" where
  "datastore_vals m Running = Inr (running m)"
| "datastore_vals m Candidate = Inr (candidate m)"
| "datastore_vals m Startup = Inr (startup m)"
| "datastore_vals m (OtherDS n) = Inl (ErrUnknownDatastore (OtherDS n))"

text \<open>Go mutates the map the datastore returned; here the updated map is put back.\<close>

fun put_datastore :: "datastore \<Rightarrow> (vals \<Rightarrow> vals) \<Rightarrow> memory \<Rightarrow> memory" where
  "put_datastore Running f m = m\<lparr>running := f (running m)\<rparr>"
| "put_datastore Candidate f m = m\<lparr>candidate := f (candidate m)\<rparr>"
| "put_datastore Startup f m = m\<lparr>startup := f (startup m)\<rparr>"
| "put_datastore (OtherDS _) f m = m"

definition mirror :: "datastore \<Rightarrow> string \<Rightarrow> goval option \<Rightarrow> memory \<Rightarrow> memory" where
  "mirror ds path value m =
     (if ds \<noteq> Running then m
      else case value of
             None \<Rightarrow> m\<lparr>candidate := AList.delete path (candidate m)\<rparr>
           | Some v \<Rightarrow> m\<lparr>candidate := AList.update path v (candidate m)\<rparr>)"

section \<open>Reading\<close>

definition Get :: "string option \<Rightarrow> memory \<Rightarrow> datastore \<Rightarrow> string \<Rightarrow> store_error + goval" where
  "Get ctx m ds path =
     (case ctx of Some e \<Rightarrow> Inl (CtxErr e)
      | None \<Rightarrow> bind_res (datastore_vals m ds) (\<lambda>values.
          case map_of values path of None \<Rightarrow> Inl (ErrNotFound path) | Some v \<Rightarrow> Inr v))"

definition List_paths :: "string option \<Rightarrow> memory \<Rightarrow> datastore \<Rightarrow> string \<Rightarrow> store_error + string list" where
  "List_paths ctx m ds pre =
     (case ctx of Some e \<Rightarrow> Inl (CtxErr e)
      | None \<Rightarrow> bind_res (datastore_vals m ds) (\<lambda>values.
          let needle = (if pre \<noteq> [] then pre @ ''/'' else pre)
          in Inr (sort (filter (\<lambda>p. pre = [] \<or> has_prefix p needle) (map fst values)))))"

definition Values_of :: "string option \<Rightarrow> memory \<Rightarrow> datastore \<Rightarrow> store_error + vals" where
  "Values_of ctx m ds = (case ctx of Some e \<Rightarrow> Inl (CtxErr e) | None \<Rightarrow> datastore_vals m ds)"

definition Generation :: "string option \<Rightarrow> memory \<Rightarrow> datastore \<Rightarrow> store_error + u64" where
  "Generation ctx m ds =
     (case ctx of Some e \<Rightarrow> Inl (CtxErr e)
      | None \<Rightarrow> bind_res (datastore_vals m ds) (\<lambda>_. Inr (gm_get_or 0 (generation m) ds)))"

definition ConfigChangedAt :: "string option \<Rightarrow> memory \<Rightarrow> datastore \<Rightarrow> store_error + time" where
  "ConfigChangedAt ctx m ds =
     (case ctx of Some e \<Rightarrow> Inl (CtxErr e)
      | None \<Rightarrow> bind_res (datastore_vals m ds) (\<lambda>_. Inr (gm_get_or 0 (configChanged m) ds)))"

definition diff_at :: "vals \<Rightarrow> vals \<Rightarrow> string \<Rightarrow> change option" where
  "diff_at run cand p =
     (case (map_of run p, map_of cand p) of
        (Some old, Some updated) \<Rightarrow>
          if \<not> go_eq old updated
          then Some \<lparr>Op = OpUpdate, Path = p, Old = Some old, New = Some updated\<rparr> else None
      | (None, Some updated) \<Rightarrow> Some \<lparr>Op = OpCreate, Path = p, Old = None, New = Some updated\<rparr>
      | (old, None) \<Rightarrow> Some \<lparr>Op = OpDelete, Path = p, Old = old, New = None\<rparr>)"

definition diffValues :: "vals \<Rightarrow> vals \<Rightarrow> change list" where
  "diffValues run cand =
     List.map_filter (diff_at run cand) (sort (remdups (map fst run @ map fst cand)))"

definition Diff :: "string option \<Rightarrow> memory \<Rightarrow> store_error + change list" where
  "Diff ctx m = (case ctx of Some e \<Rightarrow> Inl (CtxErr e) | None \<Rightarrow> Inr (diffValues (running m) (candidate m)))"

definition Snapshot :: "string option \<Rightarrow> memory \<Rightarrow> store_error + vals" where
  "Snapshot ctx m = (case ctx of Some e \<Rightarrow> Inl (CtxErr e) | None \<Rightarrow> Inr (running m))"

section \<open>Writing\<close>

definition Set_leaf :: "string option \<Rightarrow> time \<Rightarrow> datastore \<Rightarrow> string \<Rightarrow> goval \<Rightarrow> memory \<Rightarrow> store_error option \<times> memory" where
  "Set_leaf ctx now ds path value m =
     (case ctx of Some e \<Rightarrow> (Some (CtxErr e), m)
      | None \<Rightarrow>
        if \<not> validPath path then (Some (ErrInvalidPath path), m)
        else if leafKindOf value = None then (Some (ErrInvalidValue value), m)
        else case datastore_vals m ds of
               Inl e \<Rightarrow> (Some e, m)
             | Inr _ \<Rightarrow>
                 (None, recordWriteLocked now ds [path]
                          (mirror ds path (Some value) (put_datastore ds (AList.update path value) m))))"

definition Delete_leaf :: "string option \<Rightarrow> time \<Rightarrow> datastore \<Rightarrow> string \<Rightarrow> memory \<Rightarrow> store_error option \<times> memory" where
  "Delete_leaf ctx now ds path m =
     (case ctx of Some e \<Rightarrow> (Some (CtxErr e), m)
      | None \<Rightarrow>
        (case datastore_vals m ds of
           Inl e \<Rightarrow> (Some e, m)
         | Inr values \<Rightarrow>
             if map_of values path = None then (Some (ErrNotFound path), m)
             else (None, recordWriteLocked now ds [path]
                           (mirror ds path None (put_datastore ds (AList.delete path) m)))))"

fun check_values :: "vals \<Rightarrow> store_error option" where
  "check_values [] = None"
| "check_values ((p, v) # vs) =
     (if \<not> validPath p then Some (ErrInvalidPath p)
      else if leafKindOf v = None then Some (ErrInvalidValue v)
      else check_values vs)"

fun check_deletions :: "string list \<Rightarrow> store_error option" where
  "check_deletions [] = None"
| "check_deletions (p # ps) = (if \<not> validPath p then Some (ErrInvalidPath p) else check_deletions ps)"

definition Apply_batch ::
    "string option \<Rightarrow> time \<Rightarrow> datastore \<Rightarrow> vals \<Rightarrow> string list \<Rightarrow> memory \<Rightarrow> store_error option \<times> memory" where
  "Apply_batch ctx now ds values deletions m =
     (case ctx of Some e \<Rightarrow> (Some (CtxErr e), m)
      | None \<Rightarrow>
        (case check_values values of Some e \<Rightarrow> (Some e, m)
         | None \<Rightarrow>
           (case check_deletions deletions of Some e \<Rightarrow> (Some e, m)
            | None \<Rightarrow>
              (case datastore_vals m ds of
                 Inl e \<Rightarrow> (Some e, m)
               | Inr _ \<Rightarrow>
                   let m1 = foldl (\<lambda>m (p, v). mirror ds p (Some v) (put_datastore ds (AList.update p v) m)) m values;
                       m2 = foldl (\<lambda>m p. mirror ds p None (put_datastore ds (AList.delete p) m)) m1 deletions
                   in (None, recordWriteLocked now ds (map fst values @ deletions) m2)))))"

text \<open>\<open>Save\<close> of the configuration leaves, when persistence is enabled.\<close>

definition persist :: "faults \<Rightarrow> vals \<Rightarrow> memory \<Rightarrow> persist_error option \<times> memory" where
  "persist fl next_vals m =
     (if startupFile m = [] then (None, m)
      else let (err, tr) = Save None fl (startupFile m) (configOnly m next_vals) (disk m)
           in (err, m\<lparr>disk := last tr\<rparr>))"

definition Commit :: "string option \<Rightarrow> time \<Rightarrow> faults \<Rightarrow> memory \<Rightarrow> store_error option \<times> memory" where
  "Commit ctx now fl m =
     (case ctx of Some e \<Rightarrow> (Some (CtxErr e), m)
      | None \<Rightarrow>
        (case (case validator m of None \<Rightarrow> None | Some v \<Rightarrow> v (candidate m)) of
           Some e \<Rightarrow> (Some (ErrValidation e), m)
         | None \<Rightarrow>
             let next_vals = candidate m; diff = diffValues (running m) next_vals
             in (case persist fl next_vals m of
                   (Some e, m1) \<Rightarrow> (Some (ErrPersist e), m1)
                 | (None, m1) \<Rightarrow>
                     let m2 = m1\<lparr>running := next_vals, startup := next_vals, candidate := next_vals\<rparr>
                     in (None, foldl (\<lambda>m ds. recordDiffLocked now ds diff m) m2 [Running, Candidate, Startup]))))"

definition Rollback :: "string option \<Rightarrow> time \<Rightarrow> memory \<Rightarrow> store_error option \<times> memory" where
  "Rollback ctx now m =
     (case ctx of Some e \<Rightarrow> (Some (CtxErr e), m)
      | None \<Rightarrow>
          let diff = diffValues (candidate m) (running m)
          in (None, recordDiffLocked now Candidate diff (m\<lparr>candidate := running m\<rparr>)))"

definition Restore :: "string option \<Rightarrow> time \<Rightarrow> faults \<Rightarrow> vals \<Rightarrow> memory \<Rightarrow> store_error option \<times> memory" where
  "Restore ctx now fl values m =
     (case ctx of Some e \<Rightarrow> (Some (CtxErr e), m)
      | None \<Rightarrow>
          let diff = diffValues (running m) values
          in (case persist fl values m of
                (Some e, m1) \<Rightarrow> (Some (ErrPersist e), m1)
              | (None, m1) \<Rightarrow>
                  (None, recordDiffLocked now Startup diff (recordDiffLocked now Running diff
                           (m1\<lparr>running := values, startup := values\<rparr>)))))"

definition LoadStartup :: "string option \<Rightarrow> time \<Rightarrow> faults \<Rightarrow> memory \<Rightarrow> store_error option \<times> memory" where
  "LoadStartup ctx now fl m =
     (case ctx of Some e \<Rightarrow> (Some (CtxErr e), m)
      | None \<Rightarrow>
        if startupFile m = [] then (None, m)
        else case Load None fl (startupFile m) (disk m) of
               Inl e \<Rightarrow> (Some (ErrPersist e), m)
             | Inr loaded \<Rightarrow>
                 let values = (case stateFilter m of None \<Rightarrow> loaded
                               | Some f \<Rightarrow> filter (\<lambda>(p, v). \<not> f p) loaded)
                 in (case (case validator m of None \<Rightarrow> None | Some v \<Rightarrow> v values) of
                       Some e \<Rightarrow> (Some (ErrValidation e), m)
                     | None \<Rightarrow>
                         let diff = diffValues (running m) values;
                             m1 = m\<lparr>running := values, startup := values, candidate := values\<rparr>
                         in (None, foldl (\<lambda>m ds. recordDiffLocked now ds diff m) m1 [Running, Candidate, Startup])))"

end
