(* ===== verification/StoreLaws.thy ===== *)
theory StoreLaws
  imports Store
begin

text \<open>
  Laws of the configuration datastores: what each operation does to each datastore, that failed
  operations change nothing, the difference computation against its specification, commit and
  rollback, the persisted document, change tracking, and the agreement of candidate with running
  along arbitrary sequences of operations.
\<close>

section \<open>Frame facts\<close>

lemma bumpLocked_sel [simp]:
  "running (bumpLocked now ds ps m) = running m" "candidate (bumpLocked now ds ps m) = candidate m"
  "startup (bumpLocked now ds ps m) = startup m" "disk (bumpLocked now ds ps m) = disk m"
  "startupFile (bumpLocked now ds ps m) = startupFile m" "validator (bumpLocked now ds ps m) = validator m"
  "stateFilter (bumpLocked now ds ps m) = stateFilter m"
  by (simp_all add: bumpLocked_def)

lemma isState_bumpLocked [simp]: "isState (bumpLocked now ds ps m) p = isState m p"
  by (simp add: isState_def)

lemma recordWriteLocked_sel [simp]:
  "running (recordWriteLocked now ds ps m) = running m" "candidate (recordWriteLocked now ds ps m) = candidate m"
  "startup (recordWriteLocked now ds ps m) = startup m" "disk (recordWriteLocked now ds ps m) = disk m"
  "startupFile (recordWriteLocked now ds ps m) = startupFile m"
  "validator (recordWriteLocked now ds ps m) = validator m"
  "stateFilter (recordWriteLocked now ds ps m) = stateFilter m"
  by (simp_all add: recordWriteLocked_def Let_def)

lemma recordDiffLocked_sel [simp]:
  "running (recordDiffLocked now ds df m) = running m" "candidate (recordDiffLocked now ds df m) = candidate m"
  "startup (recordDiffLocked now ds df m) = startup m" "disk (recordDiffLocked now ds df m) = disk m"
  "startupFile (recordDiffLocked now ds df m) = startupFile m"
  "validator (recordDiffLocked now ds df m) = validator m"
  "stateFilter (recordDiffLocked now ds df m) = stateFilter m"
  by (simp_all add: recordDiffLocked_def)

lemma mirror_sel [simp]:
  "running (mirror ds p v m) = running m" "startup (mirror ds p v m) = startup m"
  "disk (mirror ds p v m) = disk m" "startupFile (mirror ds p v m) = startupFile m"
  "validator (mirror ds p v m) = validator m" "stateFilter (mirror ds p v m) = stateFilter m"
  "generation (mirror ds p v m) = generation m" "configChanged (mirror ds p v m) = configChanged m"
  by (auto simp: mirror_def split: option.splits)

lemma put_datastore_sel [simp]:
  "disk (put_datastore ds f m) = disk m" "startupFile (put_datastore ds f m) = startupFile m"
  "validator (put_datastore ds f m) = validator m" "stateFilter (put_datastore ds f m) = stateFilter m"
  "generation (put_datastore ds f m) = generation m" "configChanged (put_datastore ds f m) = configChanged m"
  by (cases ds; simp)+

section \<open>One write\<close>

text \<open>The contents of a datastore; an unknown name has none.\<close>

fun ds_of :: "datastore \<Rightarrow> memory \<Rightarrow> vals" where
  "ds_of Running m = running m"
| "ds_of Candidate m = candidate m"
| "ds_of Startup m = startup m"
| "ds_of (OtherDS _) m = []"

text \<open>Which datastores a write to \<open>ds\<close> reaches: itself, and candidate for running.\<close>

definition reached :: "datastore \<Rightarrow> datastore set" where
  "reached ds = (if ds = Running then {Running, Candidate} else {ds})"

lemma datastore_vals_Inr: "datastore_vals m ds = Inr v \<longleftrightarrow> v = ds_of ds m \<and> (\<forall>n. ds \<noteq> OtherDS n)"
  by (cases ds) auto

lemma write_one:
  assumes "\<forall>n. ds' \<noteq> OtherDS n"
  shows "ds_of ds' (mirror ds p (Some v) (put_datastore ds (AList.update p v) m)) =
     (if ds' \<in> reached ds then AList.update p v (ds_of ds' m) else ds_of ds' m)"
    and "ds_of ds' (mirror ds p None (put_datastore ds (AList.delete p) m)) =
     (if ds' \<in> reached ds then AList.delete p (ds_of ds' m) else ds_of ds' m)"
  using assms by (cases ds; cases ds'; simp add: mirror_def reached_def)+

lemma ds_of_record [simp]:
  "ds_of d (recordWriteLocked now ds ps m) = ds_of d m" "ds_of d (recordDiffLocked now ds df m) = ds_of d m"
  by (cases d; simp)+

lemma Set_leaf_ok:
  "fst (Set_leaf ctx now ds p v m) = None \<longleftrightarrow>
     ctx = None \<and> validPath p \<and> leaf_ok v \<and> (\<forall>n. ds \<noteq> OtherDS n)"
  by (cases ds) (auto simp: Set_leaf_def split: option.splits)

lemma Set_leaf_fail: "fst (Set_leaf ctx now ds p v m) \<noteq> None \<Longrightarrow> snd (Set_leaf ctx now ds p v m) = m"
  by (auto simp: Set_leaf_def split: option.splits sum.splits if_splits)

lemma Set_leaf_ds:
  assumes "fst (Set_leaf ctx now ds p v m) = None"
  shows "ds_of d (snd (Set_leaf ctx now ds p v m)) =
     (if d \<in> reached ds then AList.update p v (ds_of d m) else ds_of d m)"
proof -
  from assms have "snd (Set_leaf ctx now ds p v m) =
      recordWriteLocked now ds [p] (mirror ds p (Some v) (put_datastore ds (AList.update p v) m))"
    by (auto simp: Set_leaf_def split: option.splits sum.splits if_splits)
  then show ?thesis
    using assms write_one(1)[of d ds p v m] by (cases d) (auto simp: reached_def Set_leaf_ok)
qed

lemma Delete_leaf_ok:
  "fst (Delete_leaf ctx now ds p m) = None \<longleftrightarrow>
     ctx = None \<and> (\<forall>n. ds \<noteq> OtherDS n) \<and> p \<in> gm_keys (ds_of ds m)"
  by (cases ds) (auto simp: Delete_leaf_def map_of_eq_None_keys split: option.splits)

lemma Delete_leaf_fail: "fst (Delete_leaf ctx now ds p m) \<noteq> None \<Longrightarrow> snd (Delete_leaf ctx now ds p m) = m"
  by (auto simp: Delete_leaf_def split: option.splits sum.splits if_splits)

lemma Delete_leaf_ds:
  assumes "fst (Delete_leaf ctx now ds p m) = None"
  shows "ds_of d (snd (Delete_leaf ctx now ds p m)) =
     (if d \<in> reached ds then AList.delete p (ds_of d m) else ds_of d m)"
proof -
  from assms have "snd (Delete_leaf ctx now ds p m) =
      recordWriteLocked now ds [p] (mirror ds p None (put_datastore ds (AList.delete p) m))"
    by (auto simp: Delete_leaf_def split: option.splits sum.splits if_splits)
  then show ?thesis
    using assms write_one(2)[of d ds p m] by (cases d) (auto simp: reached_def Delete_leaf_ok)
qed

section \<open>Batches\<close>

lemma apply_values_ds:
  assumes "\<forall>n. d \<noteq> OtherDS n"
  shows "ds_of d (foldl (\<lambda>m (p, v). mirror ds p (Some v) (put_datastore ds (AList.update p v) m)) m vs) =
     (if d \<in> reached ds then foldl (\<lambda>m (p, v). AList.update p v m) (ds_of d m) vs else ds_of d m)"
  using assms by (induction vs arbitrary: m) (auto simp: write_one(1))

lemma apply_deletions_ds:
  assumes "\<forall>n. d \<noteq> OtherDS n"
  shows "ds_of d (foldl (\<lambda>m p. mirror ds p None (put_datastore ds (AList.delete p) m)) m ps) =
     (if d \<in> reached ds then foldl (\<lambda>m p. AList.delete p m) (ds_of d m) ps else ds_of d m)"
  using assms by (induction ps arbitrary: m) (auto simp: write_one(2))

lemma check_values_None: "check_values vs = None \<longleftrightarrow> (\<forall>(p, v) \<in> set vs. validPath p \<and> leaf_ok v)"
  by (induction vs rule: check_values.induct) auto

lemma check_deletions_None: "check_deletions ps = None \<longleftrightarrow> (\<forall>p \<in> set ps. validPath p)"
  by (induction ps) auto

lemma Apply_batch_fail:
  "fst (Apply_batch ctx now ds vs dels m) \<noteq> None \<Longrightarrow> snd (Apply_batch ctx now ds vs dels m) = m"
  by (auto simp: Apply_batch_def Let_def split: option.splits sum.splits)

lemma Apply_batch_ok:
  "fst (Apply_batch ctx now ds vs dels m) = None \<longleftrightarrow>
     ctx = None \<and> (\<forall>(p, v) \<in> set vs. validPath p \<and> leaf_ok v) \<and> (\<forall>p \<in> set dels. validPath p) \<and>
     (\<forall>n. ds \<noteq> OtherDS n)"
  using check_values_None[of vs] check_deletions_None[of dels]
  by (cases ds) (auto simp: Apply_batch_def Let_def split: option.splits)

lemma Apply_batch_ds:
  assumes "fst (Apply_batch ctx now ds vs dels m) = None"
  shows "ds_of d (snd (Apply_batch ctx now ds vs dels m)) =
     (if d \<in> reached ds
      then foldl (\<lambda>m p. AList.delete p m) (foldl (\<lambda>m (p, v). AList.update p v m) (ds_of d m) vs) dels
      else ds_of d m)"
proof (cases "\<exists>n. d = OtherDS n")
  case True
  with assms show ?thesis by (auto simp: reached_def Apply_batch_ok)
next
  case False
  from assms have "\<forall>n. ds \<noteq> OtherDS n" by (simp add: Apply_batch_ok)
  with assms False show ?thesis
    by (auto simp: Apply_batch_def Let_def apply_values_ds apply_deletions_ds
        split: option.splits sum.splits)
qed

text \<open>C4: a batch is all or nothing.  When \<open>Apply\<close> reports an error the whole store, including
  the change tracking and the disk, is untouched; when it succeeds every datastore it reaches
  (the target, and candidate when the target is running) holds the written values except at the
  deleted paths, which are gone, and every other datastore is unchanged.\<close>

theorem Apply_atomic:
  "case Apply_batch ctx now ds vs dels m of (err, m') \<Rightarrow>
     if err \<noteq> None then m' = m
     else \<forall>d q. map_of (ds_of d m') q =
       (if d \<notin> reached ds then map_of (ds_of d m) q
        else if q \<in> set dels then None
        else case map_of (rev vs) q of Some v \<Rightarrow> Some v | None \<Rightarrow> map_of (ds_of d m) q)"
  using Apply_batch_fail[of ctx now ds vs dels m] Apply_batch_ds[of ctx now ds vs dels m]
  by (auto simp: map_of_foldl_delete map_of_foldl_update split: prod.splits)

section \<open>Differences\<close>

lemma sorted_map_filter:
  assumes "\<And>x c. f x = Some c \<Longrightarrow> g c = x"
  shows "sorted xs \<Longrightarrow> sorted (map g (List.map_filter f xs))"
    and "set (map g (List.map_filter f xs)) \<subseteq> set xs"
    and "distinct xs \<Longrightarrow> distinct (map g (List.map_filter f xs))"
proof -
  show sub: "set (map g (List.map_filter f xs)) \<subseteq> set xs" for xs
    using assms by (induction xs) (auto split: option.splits)
  show "sorted xs \<Longrightarrow> sorted (map g (List.map_filter f xs))"
    using assms sub by (induction xs) (fastforce split: option.splits)+
  show "distinct xs \<Longrightarrow> distinct (map g (List.map_filter f xs))"
    using assms sub by (induction xs) (fastforce split: option.splits)+
qed

lemma diff_at_Path: "diff_at r c p = Some ch \<Longrightarrow> Path ch = p"
  by (auto simp: diff_at_def split: option.splits if_splits)

lemma diff_at_New: "diff_at r c p = Some ch \<Longrightarrow> New ch = map_of c p"
  by (auto simp: diff_at_def split: option.splits if_splits)

lemma diff_at_None:
  "p \<in> gm_keys r \<union> gm_keys c \<Longrightarrow>
   diff_at r c p = None \<longleftrightarrow> (\<exists>v. map_of r p = Some v \<and> map_of c p = Some v \<and> notNaN v)"
  using map_of_eq_None_keys[of r p] map_of_eq_None_keys[of c p]
  by (auto simp: diff_at_def go_eq_iff split: option.splits)

lemma set_map_filter: "set (List.map_filter f xs) = {y. \<exists>x \<in> set xs. f x = Some y}"
  by (induction xs) (auto split: option.splits)

lemma set_diffValues: "set (diffValues r c) = {ch. \<exists>p \<in> gm_keys r \<union> gm_keys c. diff_at r c p = Some ch}"
  by (auto simp: diffValues_def set_map_filter)

lemma Collect_Some_empty: "{y. \<exists>x \<in> K. f x = Some y} = {} \<longleftrightarrow> (\<forall>x \<in> K. f x = None)"
proof
  assume L: "{y. \<exists>x \<in> K. f x = Some y} = {}"
  show "\<forall>x \<in> K. f x = None"
  proof
    fix x assume "x \<in> K"
    with L show "f x = None" by (cases "f x") auto
  qed
qed simp

lemma diffValues_sorted: "sorted (map Path (diffValues r c)) \<and> distinct (map Path (diffValues r c))"
  unfolding diffValues_def by (intro conjI sorted_map_filter diff_at_Path) auto

lemma diffValues_Nil_iff:
  "diffValues r c = [] \<longleftrightarrow> map_of r = map_of c \<and> (\<forall>p v. map_of r p = Some v \<longrightarrow> notNaN v)"
proof -
  have "diffValues r c = [] \<longleftrightarrow> (\<forall>p \<in> gm_keys r \<union> gm_keys c. diff_at r c p = None)"
    unfolding set_empty[symmetric] set_diffValues by (rule Collect_Some_empty)
  also have "\<dots> \<longleftrightarrow> (\<forall>p \<in> gm_keys r \<union> gm_keys c. \<exists>v. map_of r p = Some v \<and> map_of c p = Some v \<and> notNaN v)"
    by (rule ball_cong) (simp_all only: diff_at_None)
  also have "\<dots> \<longleftrightarrow> map_of r = map_of c \<and> (\<forall>p v. map_of r p = Some v \<longrightarrow> notNaN v)"
    (is "?L \<longleftrightarrow> ?R")
  proof
    assume L: ?L
    have "map_of r p = map_of c p" for p
    proof (cases "p \<in> gm_keys r \<union> gm_keys c")
      case True
      from L[rule_format, OF this] show ?thesis by auto
    qed (simp add: map_of_eq_None_keys[THEN iffD2])
    moreover have "notNaN v" if "map_of r p = Some v" for p v
    proof -
      have "p \<in> gm_keys r" using that gm_keys_map_of[of p r] by blast
      then have "p \<in> gm_keys r \<union> gm_keys c" by (rule UnI1)
      from L[rule_format, OF this] that show ?thesis by auto
    qed
    ultimately show ?R by blast
  next
    assume R: ?R
    show ?L
    proof
      fix p assume "p \<in> gm_keys r \<union> gm_keys c"
      with R have "\<exists>v. map_of r p = Some v" by (metis UnE gm_keys_map_of)
      with R show "\<exists>v. map_of r p = Some v \<and> map_of c p = Some v \<and> notNaN v" by auto
    qed
  qed
  finally show ?thesis .
qed

text \<open>What a list of changes does when it is played on a datastore.\<close>

definition play_change :: "vals \<Rightarrow> change \<Rightarrow> vals" where
  "play_change m ch =
     (case New ch of None \<Rightarrow> AList.delete (Path ch) m | Some v \<Rightarrow> AList.update (Path ch) v m)"

lemma play_changes:
  assumes "\<forall>ch \<in> set chs. New ch = map_of c (Path ch)"
  shows "map_of (foldl play_change m chs) p = (if p \<in> Path ` set chs then map_of c p else map_of m p)"
  using assms
proof (induction chs arbitrary: m)
  case (Cons ch chs)
  have "map_of (play_change m ch) p = (if p = Path ch then map_of c p else map_of m p)"
    using Cons.prems by (auto simp: play_change_def alist_simps split: option.splits)
  then show ?case using Cons by auto
qed simp

lemma diffValues_play: "map_of (foldl play_change r (diffValues r c)) = map_of c"
proof
  fix p
  have new: "\<forall>ch \<in> set (diffValues r c). New ch = map_of c (Path ch)"
  proof
    fix ch assume "ch \<in> set (diffValues r c)"
    then obtain p where "diff_at r c p = Some ch" by (auto simp only: set_diffValues mem_Collect_eq)
    then show "New ch = map_of c (Path ch)" using diff_at_New diff_at_Path by metis
  qed
  have "map_of r p = map_of c p" if "p \<notin> Path ` set (diffValues r c)"
  proof (cases "p \<in> gm_keys r \<union> gm_keys c")
    case True
    have "diff_at r c p = None"
    proof (cases "diff_at r c p")
      case (Some ch)
      then have "ch \<in> set (diffValues r c)" using True by (simp only: set_diffValues) blast
      with that diff_at_Path[OF Some] show ?thesis by blast
    qed
    then show ?thesis using diff_at_None[OF True] by auto
  qed (simp add: map_of_eq_None_keys[THEN iffD2])
  then show "map_of (foldl play_change r (diffValues r c)) p = map_of c p"
    by (simp add: play_changes[OF new])
qed

text \<open>What one reported change must say about the two datastores.\<close>

definition change_ok :: "vals \<Rightarrow> vals \<Rightarrow> change \<Rightarrow> bool" where
  "change_ok r c ch \<longleftrightarrow>
     Old ch = map_of r (Path ch) \<and> New ch = map_of c (Path ch) \<and>
     (case Op ch of
        OpCreate \<Rightarrow> Old ch = None \<and> New ch \<noteq> None
      | OpDelete \<Rightarrow> Old ch \<noteq> None \<and> New ch = None
      | OpUpdate \<Rightarrow> Old ch \<noteq> None \<and> New ch \<noteq> None \<and> \<not> go_eq (the (Old ch)) (the (New ch)))"

lemma diff_at_change_ok:
  assumes "p \<in> gm_keys r \<union> gm_keys c" "diff_at r c p = Some ch"
  shows "change_ok r c ch"
proof -
  have "map_of r p \<noteq> None \<or> map_of c p \<noteq> None"
    using assms(1) map_of_eq_None_keys by (metis UnE)
  with assms(2) show ?thesis
    by (cases "map_of r p"; cases "map_of c p")
      (auto simp: diff_at_def change_ok_def split: if_splits)
qed

text \<open>The change list \<open>Diff\<close> reports is correct and minimal.  Playing it on the running
  datastore yields the candidate; it has one change per path, in ascending path order; each change
  carries the two values of its path, and its operation says which sides have the path and that an
  update really changes the value.\<close>

theorem diffValues_correct:
  "map_of (foldl play_change r (diffValues r c)) = map_of c
   \<and> sorted_wrt (<) (map Path (diffValues r c))
   \<and> list_all (change_ok r c) (diffValues r c)"
proof (intro conjI)
  show "map_of (foldl play_change r (diffValues r c)) = map_of c" by (rule diffValues_play)
  show "sorted_wrt (<) (map Path (diffValues r c))"
    using diffValues_sorted[of r c] by (simp only: strict_sorted_iff)
  show "list_all (change_ok r c) (diffValues r c)"
    using diff_at_change_ok[of _ r c] by (simp only: list_all_iff set_diffValues) blast
qed

section \<open>Commit, rollback, restore\<close>

lemma persist_sel:
  assumes "persist fl vs m = (err, m')"
  shows "m' = m\<lparr>disk := disk m'\<rparr>"
  using assms by (auto simp: persist_def split: if_splits prod.splits)

lemma persist_disk: "persist fl vs m = (err, m') \<Longrightarrow> \<exists>d. m' = m\<lparr>disk := d\<rparr>"
  using persist_sel by blast

lemma persist_fail_file:
  assumes "persist fl vs m = (Some e, m')" "e \<noteq> IOError SyncDir"
  shows "fs_read (disk m') (startupFile m) = fs_read (disk m) (startupFile m)"
  using assms writeFileAtomic_final[of fl "startupFile m" _ "disk m" "Some e"]
  by (auto simp: persist_def Save_def split: if_splits prod.splits sum.splits)

lemma persist_ok_file:
  assumes "persist fl vs m = (None, m')" "startupFile m \<noteq> []" "vals_exact (configOnly m vs)"
  shows "Load None no_faults (startupFile m) (disk m') = Inr (configOnly m vs)"
proof -
  obtain ls where ls: "map_res encode_leaf (configOnly m vs) = Inr ls" "map_res decode_entry ls = Inr (configOnly m vs)"
      "map fst ls = map fst (configOnly m vs)"
    using encode_decode_entries assms(3) by blast
  have wf: "gm_wf ls" using ls(3) assms(3) by (simp add: vals_exact_def)
  let ?doc = "FDoc \<lparr>Version = fileVersion, Values = ls\<rparr>"
  obtain tr where w: "writeFileAtomic fl (startupFile m) ?doc (disk m) = (None, tr)" and d: "disk m' = last tr"
    using assms(1,2) ls(1) by (auto simp: persist_def Save_def split: prod.splits)
  have "startupFile m \<notin> set (dirs (disk m))" using w by (auto simp: writeFileAtomic_def)
  moreover have "tr \<noteq> []" "dirs (last tr) = dirs (disk m)" "fs_read (last tr) (startupFile m) = Some ?doc"
    using writeFileAtomic_states[OF w] writeFileAtomic_final[OF w] by auto
  ultimately show ?thesis using assms(2) ls(2) wf by (simp add: Load_def d gm_of_list_wf)
qed

lemma Commit_ok:
  assumes "Commit ctx now fl m = (None, m')"
  shows "running m' = candidate m" "candidate m' = candidate m" "startup m' = candidate m"
    "startupFile m' = startupFile m" "validator m' = validator m" "stateFilter m' = stateFilter m"
    "\<exists>m1. persist fl (candidate m) m = (None, m1) \<and> disk m' = disk m1"
    "case validator m of None \<Rightarrow> True | Some v \<Rightarrow> v (candidate m) = None"
proof -
  from assms obtain m1 where p: "persist fl (candidate m) m = (None, m1)"
    and v: "(case validator m of None \<Rightarrow> None | Some v \<Rightarrow> v (candidate m)) = None"
    and m': "m' = foldl (\<lambda>m' ds. recordDiffLocked now ds (diffValues (running m) (candidate m)) m')
      (m1\<lparr>running := candidate m, startup := candidate m, candidate := candidate m\<rparr>) [Running, Candidate, Startup]"
    by (auto simp: Commit_def Let_def split: option.splits prod.splits)
  show "running m' = candidate m" "candidate m' = candidate m" "startup m' = candidate m" by (simp_all add: m')
  from persist_sel[OF p] obtain d where d: "m1 = m\<lparr>disk := d\<rparr>" by blast
  show "startupFile m' = startupFile m" "validator m' = validator m" "stateFilter m' = stateFilter m"
    by (simp_all add: m' d)
  show "\<exists>m1. persist fl (candidate m) m = (None, m1) \<and> disk m' = disk m1" using p by (simp add: m')
  show "case validator m of None \<Rightarrow> True | Some v \<Rightarrow> v (candidate m) = None"
    using v by (auto split: option.splits)
qed

lemma Commit_fail:
  assumes "Commit ctx now fl m = (Some e, m')"
  shows "m' = m\<lparr>disk := disk m'\<rparr>"
    "e \<noteq> ErrPersist (IOError SyncDir) \<Longrightarrow>
       fs_read (disk m') (startupFile m) = fs_read (disk m) (startupFile m)"
  using assms persist_sel[of fl "candidate m" m _ m'] persist_fail_file[of fl "candidate m" m _ m']
  by (auto simp: Commit_def Let_def split: option.splits prod.splits)

text \<open>A commit that reports an error, for whatever reason, leaves all three datastores and the
  change tracking as they were, and unless the error is the final flush of the directory the
  startup file too is what it was.\<close>

theorem Commit_failure_untouched:
  assumes "Commit ctx now fl m = (Some e, m')"
  shows "running m' = running m \<and> candidate m' = candidate m \<and> startup m' = startup m
    \<and> generation m' = generation m \<and> configChanged m' = configChanged m
    \<and> (e = ErrPersist (IOError SyncDir) \<or>
       fs_read (disk m') (startupFile m) = fs_read (disk m) (startupFile m))"
proof -
  obtain d where "m' = m\<lparr>disk := d\<rparr>" using Commit_fail(1)[OF assms] by blast
  with Commit_fail(2)[OF assms] show ?thesis by auto
qed

text \<open>A store whose candidate holds one leaf more than running, with a validator that refuses
  long candidates, persisting to \<open>s\<close>.\<close>

definition sample_store :: memory where
  "sample_store =
     (NewMemory ''s'' (Some (\<lambda>vs. if length vs > 2 then Some ''too long'' else None))
        (Some (\<lambda>p. p = ''up'')) \<lparr>files = [], dirs = []\<rparr>)
     \<lparr>running := [(''up'', GUint32 1)], candidate := [(''up'', GUint32 1), (''a'', GBool True)]\<rparr>"

lemmas sample_simps = sample_store_def NewMemory_def

theorem Commit_failure_untouched_witness:
  "fst (Commit None 5 (\<lambda>s. s = RenameTmp) sample_store) = Some (ErrPersist (IOError RenameTmp))
   \<and> running (snd (Commit None 5 (\<lambda>s. s = RenameTmp) sample_store)) = [(''up'', GUint32 1)]"
proof -
  have c: "fst (Commit None 5 (\<lambda>s. s = RenameTmp) sample_store) = Some (ErrPersist (IOError RenameTmp))"
    by (simp add: Commit_def persist_def Save_def encode_leaf_def to_valid_utf8.simps utf8_len_def
        byte_in_def writeFileAtomic_def configOnly_def isState_def sample_simps Let_def)
  then have "Commit None 5 (\<lambda>s. s = RenameTmp) sample_store =
      (Some (ErrPersist (IOError RenameTmp)), snd (Commit None 5 (\<lambda>s. s = RenameTmp) sample_store))"
    by (metis prod.collapse)
  from Commit_failure_untouched[OF this] c show ?thesis by (simp add: sample_simps)
qed

text \<open>C7: the one exception is real.  When the flush of the directory after the rename fails,
  \<open>Commit\<close> reports an error and leaves running as it was, but the startup file already holds
  the rejected candidate, which the next boot loads.\<close>

theorem Commit_failure_can_persist:
  "\<exists>m fl m'. Commit None 5 fl m = (Some (ErrPersist (IOError SyncDir)), m')
     \<and> running m' = running m
     \<and> Load None no_faults (startupFile m) (disk m') = Inr (configOnly m (candidate m))
     \<and> configOnly m (candidate m) \<noteq> configOnly m (running m)"
proof (intro exI conjI)
  let ?r = "Commit None 5 (\<lambda>s. s = SyncDir) sample_store"
  show "?r = (Some (ErrPersist (IOError SyncDir)), snd ?r)"
    by (simp add: Commit_def persist_def Save_def encode_leaf_def to_valid_utf8.simps utf8_len_def
        byte_in_def writeFileAtomic_def configOnly_def isState_def sample_simps Let_def)
  show "running (snd ?r) = running sample_store"
    by (simp add: Commit_def persist_def Save_def encode_leaf_def to_valid_utf8.simps utf8_len_def
        byte_in_def writeFileAtomic_def configOnly_def isState_def sample_simps Let_def)
  show "Load None no_faults (startupFile sample_store) (disk (snd ?r)) =
      Inr (configOnly sample_store (candidate sample_store))"
    by (simp add: Commit_def persist_def Save_def encode_leaf_def to_valid_utf8.simps utf8_len_def
        byte_in_def writeFileAtomic_def configOnly_def isState_def sample_simps Let_def Load_def
        fs_put_def fs_rename_def gm_of_list_def decode_entry_def decodeLeaf_def unmarshal_bool_def)
  show "configOnly sample_store (candidate sample_store) \<noteq> configOnly sample_store (running sample_store)"
    by (simp add: configOnly_def isState_def sample_simps)
qed



section \<open>Sequences of operations\<close>

text \<open>One call on the store, with the context, clock reading and faults it meets.\<close>

datatype store_call =
    CSet datastore string goval
  | CDelete datastore string
  | CApply datastore vals "string list"
  | CCommit
  | CRollback
  | CRestore vals
  | CLoadStartup

record store_env =
  env_ctx :: "string option"
  env_now :: time
  env_faults :: faults

fun store_step :: "memory \<Rightarrow> store_env \<times> store_call \<Rightarrow> memory" where
  "store_step m (e, CSet ds p v) = snd (Set_leaf (env_ctx e) (env_now e) ds p v m)"
| "store_step m (e, CDelete ds p) = snd (Delete_leaf (env_ctx e) (env_now e) ds p m)"
| "store_step m (e, CApply ds vs dels) = snd (Apply_batch (env_ctx e) (env_now e) ds vs dels m)"
| "store_step m (e, CCommit) = snd (Commit (env_ctx e) (env_now e) (env_faults e) m)"
| "store_step m (e, CRollback) = snd (Rollback (env_ctx e) (env_now e) m)"
| "store_step m (e, CRestore vs) = snd (Restore (env_ctx e) (env_now e) (env_faults e) vs m)"
| "store_step m (e, CLoadStartup) = snd (LoadStartup (env_ctx e) (env_now e) (env_faults e) m)"

lemma Restore_ok:
  assumes "Restore ctx now fl vs m = (None, m')"
  shows "running m' = vs" "candidate m' = candidate m" "startup m' = vs"
    "startupFile m' = startupFile m" "validator m' = validator m" "stateFilter m' = stateFilter m"
proof -
  from assms obtain m1 where p: "persist fl vs m = (None, m1)"
    and m': "m' = recordDiffLocked now Startup (diffValues (running m) vs) (recordDiffLocked now Running
      (diffValues (running m) vs) (m1\<lparr>running := vs, startup := vs\<rparr>))"
    by (auto simp: Restore_def Let_def split: option.splits prod.splits)
  from persist_sel[OF p] obtain d where "m1 = m\<lparr>disk := d\<rparr>" by blast
  then show "running m' = vs" "candidate m' = candidate m" "startup m' = vs"
    "startupFile m' = startupFile m" "validator m' = validator m" "stateFilter m' = stateFilter m"
    by (simp_all add: m')
qed

lemma Restore_fail:
  assumes "Restore ctx now fl vs m = (Some e, m')"
  shows "m' = m\<lparr>disk := disk m'\<rparr>"
  using assms persist_sel[of fl vs m _ m']
  by (auto simp: Restore_def Let_def split: option.splits prod.splits)

lemma LoadStartup_cases:
  "(\<exists>vs. running (snd (LoadStartup ctx now fl m)) = vs \<and> candidate (snd (LoadStartup ctx now fl m)) = vs
     \<and> startup (snd (LoadStartup ctx now fl m)) = vs) \<or> snd (LoadStartup ctx now fl m) = m"
  by (auto simp: LoadStartup_def Let_def split: option.splits sum.splits if_splits)

lemma Rollback_cases:
  "snd (Rollback ctx now m) = (if ctx = None
     then recordDiffLocked now Candidate (diffValues (candidate m) (running m)) (m\<lparr>candidate := running m\<rparr>)
     else m)"
  by (auto simp: Rollback_def Let_def split: option.splits)

text \<open>Running and candidate agree at a path.\<close>

definition agree :: "string \<Rightarrow> memory \<Rightarrow> bool" where
  "agree p m \<longleftrightarrow> map_of (running m) p = map_of (candidate m) p"

text \<open>The calls that can make them disagree at \<open>p\<close>: a pending edit of \<open>p\<close> in candidate, and
  \<open>Restore\<close>, which leaves candidate alone.\<close>

fun pending_at :: "string \<Rightarrow> store_call \<Rightarrow> bool" where
  "pending_at p (CSet ds q _) = (ds = Candidate \<and> q = p)"
| "pending_at p (CDelete ds q) = (ds = Candidate \<and> q = p)"
| "pending_at p (CApply ds vs dels) = (ds = Candidate \<and> (p \<in> fst ` set vs \<or> p \<in> set dels))"
| "pending_at p (CRestore _) = True"
| "pending_at p _ = False"

lemma agree_ds: "agree p m \<longleftrightarrow> map_of (ds_of Running m) p = map_of (ds_of Candidate m) p"
  by (simp add: agree_def)

lemma agree_step_write:
  assumes "agree p m" "d = Candidate \<longrightarrow> (\<forall>x. map_of (f x) p = map_of x p)"
    and "\<And>x y. map_of x p = map_of y p \<Longrightarrow> map_of (f x) p = map_of (f y) p"
    and "ds_of Running m' = (if Running \<in> reached d then f (ds_of Running m) else ds_of Running m)"
    and "ds_of Candidate m' = (if Candidate \<in> reached d then f (ds_of Candidate m) else ds_of Candidate m)"
  shows "agree p m'"
proof -
  have a: "map_of (running m) p = map_of (candidate m) p" using assms(1) by (simp add: agree_def)
  show ?thesis
  proof (cases "d = Running")
    case True
    then show ?thesis unfolding agree_ds assms(4,5) by (simp add: reached_def assms(3)[OF a])
  next
    case False
    then show ?thesis unfolding agree_ds assms(4,5) using assms(2) a by (auto simp: reached_def)
  qed
qed

lemma agree_store_step:
  assumes "agree p m" "\<not> pending_at p c"
  shows "agree p (store_step m (e, c))"
proof (cases c)
  case (CSet ds q v)
  show ?thesis
  proof (cases "fst (Set_leaf (env_ctx e) (env_now e) ds q v m) = None")
    case True
    show ?thesis unfolding CSet store_step.simps
      by (rule agree_step_write[OF assms(1) _ _ Set_leaf_ds[OF True] Set_leaf_ds[OF True]])
        (use assms(2) CSet in \<open>auto simp: map_of_update\<close>)
  qed (simp add: CSet Set_leaf_fail assms(1))
next
  case (CDelete ds q)
  show ?thesis
  proof (cases "fst (Delete_leaf (env_ctx e) (env_now e) ds q m) = None")
    case True
    show ?thesis unfolding CDelete store_step.simps
      by (rule agree_step_write[OF assms(1) _ _ Delete_leaf_ds[OF True] Delete_leaf_ds[OF True]])
        (use assms(2) CDelete in \<open>auto simp: map_of_delete_if\<close>)
  qed (simp add: CDelete Delete_leaf_fail assms(1))
next
  case (CApply ds vs dels)
  have no: "p \<notin> fst ` set vs \<Longrightarrow> map_of (rev vs) p = None" by (simp add: map_of_eq_None_iff)
  show ?thesis
  proof (cases "fst (Apply_batch (env_ctx e) (env_now e) ds vs dels m) = None")
    case True
    show ?thesis unfolding CApply store_step.simps
      by (rule agree_step_write[OF assms(1) _ _ Apply_batch_ds[OF True] Apply_batch_ds[OF True]])
        (use assms(2) CApply no in \<open>auto simp: map_of_foldl_delete map_of_foldl_update split: option.splits\<close>)
  qed (simp add: CApply Apply_batch_fail assms(1))
next
  case CCommit
  obtain err m' where r: "Commit (env_ctx e) (env_now e) (env_faults e) m = (err, m')" by fastforce
  show ?thesis
  proof (cases err)
    case None
    with r show ?thesis by (simp add: CCommit agree_def Commit_ok)
  next
    case (Some x)
    with r obtain d where "m' = m\<lparr>disk := d\<rparr>" using Commit_fail(1) by blast
    with assms(1) r show ?thesis by (simp add: CCommit agree_def)
  qed
next
  case CLoadStartup
  show ?thesis using LoadStartup_cases[of "env_ctx e" "env_now e" "env_faults e" m] assms(1)
    by (auto simp: CLoadStartup agree_def)
qed (use assms in \<open>auto simp: Rollback_cases agree_def\<close>)

lemma agree_run:
  "agree p m \<Longrightarrow> list_all (\<lambda>(e, c). \<not> pending_at p c) cs \<Longrightarrow> agree p (foldl store_step m cs)"
  by (induction cs arbitrary: m) (auto simp: agree_store_step)

text \<open>C6: a write to running is never silently reverted by a later commit.  After any successful
  write of a leaf to running, and any sequence of calls in which nobody edits that path in
  candidate and no snapshot is restored, a successful commit leaves running's value at the path
  exactly as it was before the commit.\<close>

theorem running_write_survives_commit:
  assumes "fst (Set_leaf ctx now Running p v m) = None"
    and "list_all (\<lambda>(e, c). \<not> pending_at p c) cs"
    and "m1 = foldl store_step (snd (Set_leaf ctx now Running p v m)) cs"
    and "Commit ctx' now' fl m1 = (None, m2)"
  shows "map_of (running m2) p = map_of (running m1) p"
proof -
  have "agree p (snd (Set_leaf ctx now Running p v m))"
    using Set_leaf_ds[OF assms(1)] by (simp add: agree_ds reached_def map_of_update)
  then have "agree p m1" unfolding assms(3) using assms(2) by (rule agree_run)
  then show ?thesis using Commit_ok(1)[OF assms(4)] by (simp add: agree_def)
qed

definition sample_run :: "(store_env \<times> store_call) list" where
  "sample_run =
     (let e = \<lparr>env_ctx = None, env_now = 7, env_faults = no_faults\<rparr>
      in [(e, CSet Candidate ''b'' (GBool False)), (e, CRollback), (e, CDelete Running ''up'')])"

theorem running_write_survives_commit_witness:
  "fst (Set_leaf None 6 Running ''x'' (GUint8 3) sample_store) = None
   \<and> (let m1 = foldl store_step (snd (Set_leaf None 6 Running ''x'' (GUint8 3) sample_store)) sample_run
      in fst (Commit None 8 no_faults m1) = None
         \<and> map_of (running (snd (Commit None 8 no_faults m1))) ''x'' = map_of (running m1) ''x'')"
proof -
  have vp: "validPath ''x''" "validPath ''b''" "validPath ''up''"
    by (simp_all add: validPath_def has_suffix_def trim_space_def space_runes_def)
  define m1 where "m1 = foldl store_step (snd (Set_leaf None 6 Running ''x'' (GUint8 3) sample_store)) sample_run"
  have s: "fst (Set_leaf None 6 Running ''x'' (GUint8 3) sample_store) = None"
    by (simp add: Set_leaf_ok vp)
  have run: "list_all (\<lambda>(e, c). \<not> pending_at ''x'' c) sample_run"
    by (simp add: sample_run_def Let_def)
  have cand: "candidate m1 = [(''x'', GUint8 3)] \<and> validator m1 = validator sample_store
      \<and> startupFile m1 = ''s'' \<and> disk m1 = disk sample_store \<and> stateFilter m1 = stateFilter sample_store"
    unfolding m1_def sample_run_def Let_def
    by (simp add: Set_leaf_def vp Rollback_cases Delete_leaf_def mirror_def sample_simps)
  have c: "fst (Commit None 8 no_faults m1) = None"
    by (simp add: Commit_def persist_def Save_def encode_leaf_def to_valid_utf8.simps utf8_len_def
        byte_in_def writeFileAtomic_def configOnly_def isState_def Let_def cand sample_simps)
  then have "Commit None 8 no_faults m1 = (None, snd (Commit None 8 no_faults m1))"
    by (metis prod.collapse)
  from running_write_survives_commit[OF s run m1_def this] s c show ?thesis
    by (simp add: Let_def m1_def[symmetric])
qed

section \<open>Generations\<close>

abbreviation gen :: "memory \<Rightarrow> datastore \<Rightarrow> u64" where
  "gen m ds \<equiv> gm_get_or 0 (generation m) ds"

text \<open>A call either leaves a datastore and its counter alone or advances the counter by one.\<close>

definition ticked :: "datastore \<Rightarrow> memory \<Rightarrow> memory \<Rightarrow> bool" where
  "ticked ds m m' \<longleftrightarrow> (gen m' ds = gen m ds \<and> ds_of ds m' = ds_of ds m) \<or> gen m' ds = gen m ds + 1"

lemma gen_bump: "gen (bumpLocked now d ps m) ds = (if ds = d then gen m ds + 1 else gen m ds)"
  by (simp add: bumpLocked_def gm_get_or_update)

lemma gen_recordWrite:
  "gen (recordWriteLocked now d ps m) ds = (if ds \<in> reached d then gen m ds + 1 else gen m ds)"
  by (auto simp: recordWriteLocked_def gen_bump reached_def Let_def)

lemma gen_recordDiff: "gen (recordDiffLocked now d df m) ds = (if ds = d then gen m ds + 1 else gen m ds)"
  by (simp add: recordDiffLocked_def gen_bump)

lemma generation_foldl_put [simp]:
  "generation (foldl (\<lambda>m (p, v). mirror ds p (Some v) (put_datastore ds (AList.update p v) m)) m vs) = generation m"
  by (induction vs arbitrary: m) auto

lemma generation_foldl_del [simp]:
  "generation (foldl (\<lambda>m p. mirror ds p None (put_datastore ds (AList.delete p) m)) m ps) = generation m"
  by (induction ps arbitrary: m) auto

lemma ticked_refl [simp]: "ticked ds m m" by (simp add: ticked_def)

lemma ticked_disk: "m' = m\<lparr>disk := d\<rparr> \<Longrightarrow> ticked ds m m'"
  by (cases ds) (simp_all add: ticked_def)

lemma ticked_write:
  assumes "gen m' ds = (if ds \<in> reached d then gen m ds + 1 else gen m ds)"
    and "ds_of ds m' = (if ds \<in> reached d then x else ds_of ds m)"
  shows "ticked ds m m'"
  using assms by (auto simp: ticked_def)

lemma ticked_step: "ticked ds m (store_step m (e, c))"
proof (cases c)
  case (CSet d p v)
  show ?thesis
  proof (cases "fst (Set_leaf (env_ctx e) (env_now e) d p v m) = None")
    case True
    then have "gen (snd (Set_leaf (env_ctx e) (env_now e) d p v m)) ds =
        (if ds \<in> reached d then gen m ds + 1 else gen m ds)"
      by (cases d) (auto simp: Set_leaf_def gen_recordWrite split: option.splits if_splits)
    then show ?thesis unfolding CSet store_step.simps by (rule ticked_write) (rule Set_leaf_ds[OF True])
  qed (simp add: CSet Set_leaf_fail)
next
  case (CDelete d p)
  show ?thesis
  proof (cases "fst (Delete_leaf (env_ctx e) (env_now e) d p m) = None")
    case True
    then have "gen (snd (Delete_leaf (env_ctx e) (env_now e) d p m)) ds =
        (if ds \<in> reached d then gen m ds + 1 else gen m ds)"
      by (cases d) (auto simp: Delete_leaf_def gen_recordWrite split: option.splits if_splits)
    then show ?thesis unfolding CDelete store_step.simps by (rule ticked_write) (rule Delete_leaf_ds[OF True])
  qed (simp add: CDelete Delete_leaf_fail)
next
  case (CApply d vs dels)
  show ?thesis
  proof (cases "fst (Apply_batch (env_ctx e) (env_now e) d vs dels m) = None")
    case True
    then have "gen (snd (Apply_batch (env_ctx e) (env_now e) d vs dels m)) ds =
        (if ds \<in> reached d then gen m ds + 1 else gen m ds)"
      by (auto simp: Apply_batch_def Let_def gen_recordWrite split: option.splits sum.splits)
    then show ?thesis unfolding CApply store_step.simps by (rule ticked_write) (rule Apply_batch_ds[OF True])
  qed (simp add: CApply Apply_batch_fail)
next
  case CCommit
  show ?thesis
    by (cases ds) (auto simp: CCommit Commit_def Let_def ticked_def gen_recordDiff
        split: option.splits prod.splits dest!: persist_disk)
next
  case (CRestore vs)
  show ?thesis
    by (cases ds) (auto simp: CRestore Restore_def Let_def ticked_def gen_recordDiff
        split: option.splits prod.splits dest!: persist_disk)
next
  case CLoadStartup
  show ?thesis
    by (cases ds) (auto simp: CLoadStartup LoadStartup_def Let_def ticked_def gen_recordDiff
        split: option.splits prod.splits sum.splits)
next
  case CRollback
  show ?thesis
    by (cases ds) (auto simp: CRollback Rollback_cases ticked_def gen_recordDiff)
qed

lemma ticks_run:
  "\<exists>k \<le> length cs. gen (foldl store_step m cs) ds = gen m ds + of_nat k \<and>
     (k = 0 \<longrightarrow> ds_of ds (foldl store_step m cs) = ds_of ds m)"
proof (induction cs arbitrary: m)
  case (Cons c cs)
  obtain e call where c: "c = (e, call)" by (cases c)
  let ?m = "store_step m c"
  obtain k where k: "k \<le> length cs" "gen (foldl store_step ?m cs) ds = gen ?m ds + of_nat k"
    "k = 0 \<longrightarrow> ds_of ds (foldl store_step ?m cs) = ds_of ds ?m"
    using Cons by blast
  from ticked_step[of ds m e call] show ?case unfolding ticked_def
  proof
    assume "gen (store_step m (e, call)) ds = gen m ds \<and> ds_of ds (store_step m (e, call)) = ds_of ds m"
    with k c show ?thesis by (intro exI[of _ k]) simp
  next
    assume "gen (store_step m (e, call)) ds = gen m ds + 1"
    with k c show ?thesis by (intro exI[of _ "Suc k"]) (simp add: add.assoc)
  qed
qed simp

text \<open>C9: the generation counter detects every change, so a view cached against it is never
  stale: over any sequence of fewer than \<open>2^64\<close> calls, an equal counter means that the datastore
  holds exactly the same leaves.\<close>

theorem generation_detects_change:
  assumes "Generation None (foldl store_step m cs) ds = Generation None m ds"
    and "length cs < 2 ^ 64"
  shows "Values_of None (foldl store_step m cs) ds = Values_of None m ds"
proof (cases "\<exists>n. ds = OtherDS n")
  case False
  obtain k where k: "k \<le> length cs" "gen (foldl store_step m cs) ds = gen m ds + of_nat k"
    "k = 0 \<longrightarrow> ds_of ds (foldl store_step m cs) = ds_of ds m"
    using ticks_run by blast
  have "gen (foldl store_step m cs) ds = gen m ds"
    using assms(1) False by (cases ds) (auto simp: Generation_def)
  with k(2) have "(of_nat k :: u64) = 0" by simp
  with k(1) assms(2) have "k = 0" by (auto simp: word_of_nat_eq_0_iff dest: dvd_imp_le)
  with k(3) False show ?thesis by (cases ds) (auto simp: Values_of_def)
qed (auto simp: Values_of_def)

theorem generation_detects_change_witness:
  "Values_of None (foldl store_step sample_store sample_run) Startup = Values_of None sample_store Startup"
  by (rule generation_detects_change)
    (simp_all add: sample_run_def Let_def Generation_def Set_leaf_def validPath_def has_suffix_def
      trim_space_def space_runes_def Rollback_cases Delete_leaf_def mirror_def sample_simps
      gen_recordWrite gen_recordDiff reached_def)

section \<open>Configuration timestamps\<close>

lemma configChanged_bump:
  "gm_get_or 0 (configChanged (bumpLocked now d ps m)) ds =
     (if ds = d \<and> list_ex (\<lambda>p. \<not> isState m p) ps then now else gm_get_or 0 (configChanged m) ds)"
  by (simp add: bumpLocked_def gm_get_or_update)

lemma configChanged_recordWrite:
  "gm_get_or 0 (configChanged (recordWriteLocked now d ps m)) ds =
     (if ds \<in> reached d \<and> list_ex (\<lambda>p. \<not> isState m p) ps then now else gm_get_or 0 (configChanged m) ds)"
  by (auto simp: recordWriteLocked_def configChanged_bump reached_def Let_def)

text \<open>A successful write moves the configuration timestamp of a datastore exactly when it
  reaches that datastore and the leaf is configuration; a write of a state leaf never moves it.\<close>

theorem Set_ConfigChangedAt:
  assumes "Set_leaf ctx now ds p v m = (None, m')" "\<forall>n. d \<noteq> OtherDS n"
  shows "ConfigChangedAt None m' d =
    (if d \<in> reached ds \<and> \<not> isState m p then Inr now else ConfigChangedAt None m d)"
proof -
  have "m' = recordWriteLocked now ds [p] (mirror ds p (Some v) (put_datastore ds (AList.update p v) m))"
    using assms(1) by (auto simp: Set_leaf_def split: option.splits sum.splits if_splits)
  then have "gm_get_or 0 (configChanged m') d =
      (if d \<in> reached ds \<and> \<not> isState m p then now else gm_get_or 0 (configChanged m) d)"
    by (simp add: configChanged_recordWrite isState_def)
  with assms(2) show ?thesis by (cases d) (auto simp: ConfigChangedAt_def)
qed

theorem Set_ConfigChangedAt_witness:
  "ConfigChangedAt None (snd (Set_leaf None 9 Running ''a'' (GBool True) sample_store)) Candidate = Inr 9
   \<and> ConfigChangedAt None (snd (Set_leaf None 9 Running ''up'' (GUint32 2) sample_store)) Candidate = Inr 0"
proof -
  have vp: "validPath ''a''" "validPath ''up''"
    by (simp_all add: validPath_def has_suffix_def trim_space_def space_runes_def)
  have ok: "Set_leaf None 9 Running ''a'' (GBool True) sample_store
      = (None, snd (Set_leaf None 9 Running ''a'' (GBool True) sample_store))"
    "Set_leaf None 9 Running ''up'' (GUint32 2) sample_store
      = (None, snd (Set_leaf None 9 Running ''up'' (GUint32 2) sample_store))"
    by (simp_all add: Set_leaf_def vp)
  show ?thesis
    using Set_ConfigChangedAt[OF ok(1), of Candidate] Set_ConfigChangedAt[OF ok(2), of Candidate]
    by (simp add: reached_def isState_def sample_simps ConfigChangedAt_def gm_get_or_def)
qed

section \<open>Listing\<close>

text \<open>\<open>List\<close> returns the paths strictly below the prefix, each once, in ascending order.\<close>

theorem List_paths_correct:
  assumes "gm_wf (ds_of ds m)" "List_paths None m ds pre = Inr ps"
  shows "sorted_wrt (<) ps \<and>
    set ps = {p \<in> gm_keys (ds_of ds m). pre = [] \<or> (\<exists>rest. p = pre @ ''/'' @ rest)}"
proof -
  have "\<forall>n. ds \<noteq> OtherDS n" using assms(2) by (auto simp: List_paths_def)
  then have "ps = sort (filter (\<lambda>p. pre = [] \<or> has_prefix p (if pre \<noteq> [] then pre @ ''/'' else pre))
      (map fst (ds_of ds m)))"
    using assms(2) by (cases ds) (auto simp: List_paths_def Let_def)
  then show ?thesis
    using assms(1) by (auto simp: strict_sorted_iff has_prefix_iff)
qed

theorem List_paths_correct_witness:
  "List_paths None (sample_store\<lparr>running := [(''b/x'', GBool True), (''a'', GBool True), (''b/a/c'', GBool False)]\<rparr>)
     Running ''b'' = Inr [''b/a/c'', ''b/x'']"
  using List_paths_correct[of Running
      "sample_store\<lparr>running := [(''b/x'', GBool True), (''a'', GBool True), (''b/a/c'', GBool False)]\<rparr>" "''b''"]
  by (simp add: List_paths_def Let_def)

section \<open>Well-formedness\<close>

definition vals_wf :: "vals \<Rightarrow> bool" where
  "vals_wf vs \<longleftrightarrow> gm_wf vs \<and> list_all (\<lambda>(p, v). leaf_ok v) vs"

definition store_wf :: "memory \<Rightarrow> bool" where
  "store_wf m \<longleftrightarrow> vals_wf (running m) \<and> vals_wf (candidate m) \<and> vals_wf (startup m)"

text \<open>\<open>Restore\<close> is only called with a snapshot.\<close>

fun call_ok :: "store_env \<times> store_call \<Rightarrow> bool" where
  "call_ok (e, CRestore vs) = vals_wf vs"
| "call_ok _ = True"

lemma vals_wf_Nil [simp]: "vals_wf []" by (simp add: vals_wf_def)

lemma set_update_subset: "set (AList.update p v vs) \<subseteq> insert (p, v) (set vs)"
  by (induction vs) auto

lemma vals_wf_update: "vals_wf vs \<Longrightarrow> leaf_ok v \<Longrightarrow> vals_wf (AList.update p v vs)"
  using set_update_subset[of p v vs] by (auto simp: vals_wf_def list_all_iff distinct_update)

lemma vals_wf_delete: "vals_wf vs \<Longrightarrow> vals_wf (AList.delete p vs)"
  by (auto simp: vals_wf_def list_all_iff AList.delete_eq distinct_map_filter)

lemma vals_wf_filter: "vals_wf vs \<Longrightarrow> vals_wf (filter P vs)"
  by (auto simp: vals_wf_def list_all_iff distinct_map_filter)

lemma vals_wf_updates:
  "vals_wf m \<Longrightarrow> \<forall>(p, v) \<in> set vs. leaf_ok v \<Longrightarrow> vals_wf (foldl (\<lambda>m (p, v). AList.update p v m) m vs)"
  by (induction vs arbitrary: m) (auto simp: vals_wf_update)

lemma vals_wf_deletes: "vals_wf m \<Longrightarrow> vals_wf (foldl (\<lambda>m p. AList.delete p m) m ps)"
  by (induction ps arbitrary: m) (auto simp: vals_wf_delete)

lemma decode_kind_ok: "decode_kind k j = Some v \<Longrightarrow> leaf_ok v"
  by (cases k) auto

lemma decodeLeaf_ok: "decodeLeaf l = Some v \<Longrightarrow> leaf_ok v"
  by (auto simp: decodeLeaf_def split: disk_kind.splits dest: decode_kind_ok)

lemma map_res_decode_wf: "map_res decode_entry ls = Inr vs \<Longrightarrow> gm_wf ls \<Longrightarrow> vals_wf vs"
proof -
  assume "map_res decode_entry ls = Inr vs" and wf: "gm_wf ls"
  then have "list_all2 (\<lambda>l v. decode_entry l = Inr v) ls vs" by (simp add: map_res_Inr_iff)
  then have "map fst ls = map fst vs \<and> list_all (\<lambda>(p, v). leaf_ok v) vs"
    by (induction rule: list_all2_induct)
      (auto simp: decode_entry_def split: option.splits dest: decodeLeaf_ok)
  with wf show ?thesis by (simp add: vals_wf_def)
qed

lemma Load_wf: "Load ctx fl path f = Inr vs \<Longrightarrow> vals_wf vs"
  by (auto simp: Load_def split: option.splits if_splits fcontent.splits dest: map_res_decode_wf)

lemma store_wf_ds: "store_wf m \<longleftrightarrow> (\<forall>ds. vals_wf (ds_of ds m))"
  unfolding store_wf_def by (metis datastore.exhaust ds_of.simps vals_wf_Nil)

lemma store_wf_step:
  assumes wf: "store_wf m" and ok: "call_ok (e, c)"
  shows "store_wf (store_step m (e, c))"
proof (cases c)
  case (CSet ds p v)
  show ?thesis
  proof (cases "fst (Set_leaf (env_ctx e) (env_now e) ds p v m) = None")
    case True
    then have "leaf_ok v" by (simp add: Set_leaf_ok)
    with wf show ?thesis unfolding CSet store_step.simps store_wf_ds Set_leaf_ds[OF True]
      by (auto simp: vals_wf_update)
  qed (simp add: CSet Set_leaf_fail wf)
next
  case (CDelete ds p)
  show ?thesis
  proof (cases "fst (Delete_leaf (env_ctx e) (env_now e) ds p m) = None")
    case True
    with wf show ?thesis unfolding CDelete store_step.simps store_wf_ds Delete_leaf_ds[OF True]
      by (auto simp: vals_wf_delete)
  qed (simp add: CDelete Delete_leaf_fail wf)
next
  case (CApply ds vs dels)
  show ?thesis
  proof (cases "fst (Apply_batch (env_ctx e) (env_now e) ds vs dels m) = None")
    case True
    then have "\<forall>(p, v) \<in> set vs. leaf_ok v" by (auto simp: Apply_batch_ok)
    with wf show ?thesis unfolding CApply store_step.simps store_wf_ds Apply_batch_ds[OF True]
      by (auto simp: vals_wf_deletes vals_wf_updates)
  qed (simp add: CApply Apply_batch_fail wf)
qed (use wf ok in \<open>auto simp: store_wf_def Commit_def Restore_def LoadStartup_def Rollback_def Let_def
      vals_wf_filter split: option.splits prod.splits sum.splits dest!: persist_disk Load_wf\<close>)

interpretation store_sys: invariant_system
  "\<lambda>m. \<exists>f v s d. m = NewMemory f v s d" store_step call_ok store_wf
proof
  show "store_wf m" if "\<exists>f v s d. m = NewMemory f v s d" for m
    using that by (auto simp: NewMemory_def store_wf_def)
  show "store_wf (store_step m l)" if "store_wf m" "call_ok l" for m l
    using that store_wf_step by (cases l) auto
qed

text \<open>C8: in every state a store can reach from \<open>NewMemory\<close>, whatever fails on the way, each of
  the three datastores maps a path to at most one leaf and holds only the supported leaf types.\<close>

theorem store_always_wf:
  assumes "list_all call_ok cs"
  shows "store_wf (foldl store_step (NewMemory file val filt d) cs)"
  using store_sys.inv_reachable[of "NewMemory file val filt d" cs] assms by blast

theorem store_always_wf_witness:
  "store_wf (foldl store_step (NewMemory ''s'' None None \<lparr>files = [], dirs = []\<rparr>) sample_run)"
  by (rule store_always_wf) (simp add: sample_run_def Let_def)

text \<open>Writing to running is a leaf writer, the contract the domains rely on.\<close>

interpretation running_writer: leaf_writer
  "\<lambda>m. map_of (running m)" "\<lambda>p v m. Set_leaf None now Running p v m" "\<lambda>p v. validPath p \<and> leaf_ok v" for now
proof
  fix p v m q
  show "fst (Set_leaf None now Running p v m) = None \<longleftrightarrow> validPath p \<and> leaf_ok v"
    by (simp add: Set_leaf_ok)
  show "map_of (running (snd (Set_leaf None now Running p v m))) q = (if q = p then Some v else map_of (running m) q)"
    if "validPath p \<and> leaf_ok v"
    using that Set_leaf_ds[of None now Running p v m Running]
    by (simp add: Set_leaf_ok reached_def map_of_update)
  show "snd (Set_leaf None now Running p v m) = m" if "\<not> (validPath p \<and> leaf_ok v)"
    using that Set_leaf_fail[of None now Running p v m] by (simp add: Set_leaf_ok)
qed

end
