(* ===== verification/Clock.thy ===== *)
theory Clock
  imports Contracts
begin

text \<open>
  The injected clock (\<open>src/internal/clock/clock.go\<close>, \<open>fake.go\<close>): the deterministic \<open>FakeClock\<close>
  with its timers, and the loop of \<open>Advance\<close>.  A callback is a value of a type of labels; what
  calling it does to the clock and to the rest of the world is an argument of \<open>Advance\<close>, because
  the caller chooses it.  A callback may reschedule itself inside the window for ever, so the loop
  is a partial function whose value is \<open>None\<close> when it does not return.
\<close>

section \<open>Timers\<close>

record 'f fakeTimer =
  deadline :: time
  fn :: 'f
  active :: bool

record 'f fakeClock =
  now :: time
  timers :: "'f fakeTimer list"

definition NewFakeClock :: "time \<Rightarrow> 'f fakeClock" where
  "NewFakeClock epoch = \<lparr>now = epoch, timers = []\<rparr>"

definition Set_time :: "time \<Rightarrow> 'f fakeClock \<Rightarrow> 'f fakeClock" where
  "Set_time t c = c\<lparr>now := t\<rparr>"

definition Pending :: "'f fakeClock \<Rightarrow> nat" where
  "Pending c = length (filter active (timers c))"

text \<open>A timer is addressed by its position, which never changes.\<close>

definition AfterFunc :: "duration \<Rightarrow> 'f \<Rightarrow> 'f fakeClock \<Rightarrow> nat \<times> 'f fakeClock" where
  "AfterFunc d f c =
     (length (timers c),
      c\<lparr>timers := timers c @ [\<lparr>deadline = now c + d, fn = f, active = True\<rparr>]\<rparr>)"

definition Stop :: "nat \<Rightarrow> 'f fakeClock \<Rightarrow> bool \<times> 'f fakeClock" where
  "Stop i c =
     (active (timers c ! i), c\<lparr>timers := (timers c)[i := (timers c ! i)\<lparr>active := False\<rparr>]\<rparr>)"

definition Reset :: "nat \<Rightarrow> duration \<Rightarrow> 'f fakeClock \<Rightarrow> bool \<times> 'f fakeClock" where
  "Reset i d c =
     (active (timers c ! i),
      c\<lparr>timers := (timers c)[i := (timers c ! i)\<lparr>deadline := now c + d, active := True\<rparr>]\<rparr>)"

section \<open>Advancing\<close>

fun next_due_loop ::
    "time \<Rightarrow> (nat \<times> 'f fakeTimer) option \<Rightarrow> (nat \<times> 'f fakeTimer) list \<Rightarrow> (nat \<times> 'f fakeTimer) option" where
  "next_due_loop target due [] = due"
| "next_due_loop target due (t # ts) =
     (if \<not> active (snd t) \<or> target < deadline (snd t) then next_due_loop target due ts
      else case due of
             None \<Rightarrow> next_due_loop target (Some t) ts
           | Some d \<Rightarrow>
               if deadline (snd t) < deadline (snd d) then next_due_loop target (Some t) ts
               else next_due_loop target due ts)"

definition nextDueLocked :: "time \<Rightarrow> 'f fakeClock \<Rightarrow> (nat \<times> 'f fakeTimer) option" where
  "nextDueLocked target c = next_due_loop target None (enumerate 0 (timers c))"

text \<open>The state with which a due timer's callback runs: the timer is spent and the clock shows its
  deadline.\<close>

definition fire_at :: "nat \<times> 'f fakeTimer \<Rightarrow> 'f fakeClock \<Rightarrow> 'f fakeClock" where
  "fire_at t c =
     c\<lparr>now := deadline (snd t), timers := (timers c)[fst t := (snd t)\<lparr>active := False\<rparr>]\<rparr>"

partial_function (option) advance_loop ::
    "('f \<Rightarrow> 'f fakeClock \<times> 'w \<Rightarrow> 'f fakeClock \<times> 'w) \<Rightarrow> time \<Rightarrow> 'f fakeClock \<times> 'w
      \<Rightarrow> ('f fakeClock \<times> 'w) option" where
  "advance_loop call target cw =
     (case nextDueLocked target (fst cw) of
        None \<Rightarrow> Some cw
      | Some t \<Rightarrow> advance_loop call target (call (fn (snd t)) (fire_at t (fst cw), snd cw)))"

definition Advance ::
    "('f \<Rightarrow> 'f fakeClock \<times> 'w \<Rightarrow> 'f fakeClock \<times> 'w) \<Rightarrow> duration \<Rightarrow> 'f fakeClock \<times> 'w
      \<Rightarrow> ('f fakeClock \<times> 'w) option" where
  "Advance call d cw =
     (if d < 0 then Some cw
      else let target = now (fst cw) + d
           in map_option (\<lambda>(c, w). (c\<lparr>now := target\<rparr>, w)) (advance_loop call target cw))"

section \<open>The earliest due timer\<close>

fun earliest :: "(nat \<times> 'f fakeTimer) option \<Rightarrow> (nat \<times> 'f fakeTimer) list \<Rightarrow> (nat \<times> 'f fakeTimer) option" where
  "earliest b [] = b"
| "earliest None (t # ts) = earliest (Some t) ts"
| "earliest (Some b) (t # ts) =
     earliest (Some (if deadline (snd t) < deadline (snd b) then t else b)) ts"

interpretation due_order: selection
  "\<lambda>s t :: nat \<times> 'f fakeTimer. deadline (snd s) < deadline (snd t)" earliest
proof
  fix c :: "(nat \<times> 'f fakeTimer) option"
  show "earliest c [] = c" by simp
qed auto

abbreviation due :: "time \<Rightarrow> 'f fakeTimer \<Rightarrow> bool" where
  "due target t \<equiv> active t \<and> deadline t \<le> target"

lemma next_due_earliest:
  "next_due_loop target b ts = earliest b (filter (\<lambda>t. due target (snd t)) ts)"
  by (induction target b ts rule: next_due_loop.induct) (auto split: option.splits)

lemma nextDueLocked_None: "nextDueLocked target c = None \<longleftrightarrow> filter (due target) (timers c) = []"
proof -
  have "nextDueLocked target c = None \<longleftrightarrow>
      filter (\<lambda>t. due target (snd t)) (enumerate 0 (timers c)) = []"
    by (simp add: nextDueLocked_def next_due_earliest due_order.pick_None_iff)
  also have "\<dots> \<longleftrightarrow> map snd (filter (due target \<circ> snd) (enumerate 0 (timers c))) = []"
    by (simp add: comp_def)
  also have "\<dots> \<longleftrightarrow> filter (due target) (timers c) = []"
    by (simp only: filter_map[symmetric] map_snd_enumerate)
  finally show ?thesis .
qed

text \<open>The chosen timer splits the due timers: those before it in the list are due strictly
  later, those after it not earlier.\<close>

lemma nextDueLocked_Some:
  assumes "nextDueLocked target c = Some (i, t)"
  obtains pre post where "timers c = pre @ t # post" "i = length pre" "due target t"
    "\<forall>x \<in> set pre. due target x \<longrightarrow> deadline t < deadline x"
    "\<forall>x \<in> set post. due target x \<longrightarrow> deadline t \<le> deadline x"
proof -
  let ?P = "\<lambda>t. due target (snd t)"
  obtain pre' post' where split: "filter ?P (enumerate 0 (timers c)) = pre' @ (i, t) # post'"
    and lt: "\<forall>x \<in> set pre'. deadline t < deadline (snd x)" and ge: "\<forall>x \<in> set post'. \<not> deadline (snd x) < deadline t"
    using assms due_order.pick_split[of "filter ?P (enumerate 0 (timers c))" "(i, t)"]
    by (auto simp: nextDueLocked_def next_due_earliest)
  from filter_split[OF split] obtain us vs where uv: "enumerate 0 (timers c) = us @ (i, t) # vs"
    "pre' = filter ?P us" "post' = filter ?P vs" "?P (i, t)" by blast
  have tm: "timers c = map snd us @ t # map snd vs"
    using arg_cong[OF uv(1), of "map snd"] by simp
  have "enumerate 0 (timers c) ! length us = (i, t)" "length us < length (timers c)"
    using uv(1) tm by (simp_all add: nth_append)
  then have "i = length (map snd us)"
    by (simp add: nth_enumerate_eq)
  then show thesis
    using that[OF tm] uv lt ge by (force simp: not_less)
qed

section \<open>What Advance does\<close>

definition spend :: "time \<Rightarrow> 'f fakeTimer \<Rightarrow> 'f fakeTimer" where
  "spend target t = (if due target t then t\<lparr>active := False\<rparr> else t)"

text \<open>The effect of running the callbacks of timers in turn, each at its deadline.\<close>

definition run_callbacks :: "('f \<Rightarrow> time \<Rightarrow> 'w \<Rightarrow> 'w) \<Rightarrow> 'f fakeTimer list \<Rightarrow> 'w \<Rightarrow> 'w" where
  "run_callbacks eff ts w = foldl (\<lambda>w t. eff (fn t) (deadline t) w) w ts"

definition quiet :: "('f \<Rightarrow> time \<Rightarrow> 'w \<Rightarrow> 'w) \<Rightarrow> 'f \<Rightarrow> 'f fakeClock \<times> 'w \<Rightarrow> 'f fakeClock \<times> 'w" where
  "quiet eff f cw = (fst cw, eff f (now (fst cw)) (snd cw))"

lemma spend_idle: "filter (due target) ts = [] \<Longrightarrow> map (spend target) ts = ts"
  by (induction ts) (auto simp: spend_def split: if_splits)

lemma advance_loop_quiet:
  fixes c :: "'f fakeClock"
  shows "\<exists>n. advance_loop (quiet eff) target (c, w) =
     Some (c\<lparr>now := n, timers := map (spend target) (timers c)\<rparr>,
           run_callbacks eff (sort_key deadline (filter (due target) (timers c))) w)"
proof (induction "length (filter (due target) (timers c))" arbitrary: c w)
  case 0
  then have "nextDueLocked target c = None" by (simp add: nextDueLocked_None)
  then show ?case
    using 0 by (subst advance_loop.simps)
      (auto simp: run_callbacks_def spend_idle intro!: exI[of _ "now c"])
next
  case (Suc k)
  then obtain i t where nd: "nextDueLocked target c = Some (i, t)"
    using nextDueLocked_None[of target c] by (cases "nextDueLocked target c") auto
  then obtain pre post where split: "timers c = pre @ t # post" "i = length pre" "due target t"
    "\<forall>x \<in> set pre. due target x \<longrightarrow> deadline t < deadline x"
    "\<forall>x \<in> set post. due target x \<longrightarrow> deadline t \<le> deadline x"
    by (rule nextDueLocked_Some)
  let ?c = "fire_at (i, t) c"
  have tm: "timers ?c = pre @ t\<lparr>active := False\<rparr> # post" "now ?c = deadline t"
    using split by (simp_all add: fire_at_def list_update_append)
  have rest: "filter (due target) (timers ?c) = filter (due target) pre @ filter (due target) post"
    by (simp add: tm)
  have first: "sort_key deadline (filter (due target) (timers c)) =
      t # sort_key deadline (filter (due target) (timers ?c))"
    unfolding rest split(1) using split(3-5) by (simp add: sort_key_first)
  have "k = length (filter (due target) (timers ?c))"
    using Suc.hyps(2) split(1,3) by (simp add: rest)
  from Suc.hyps(1)[OF this, of "eff (fn t) (deadline t) w"] obtain n where
    n: "advance_loop (quiet eff) target (?c, eff (fn t) (deadline t) w) =
      Some (?c\<lparr>now := n, timers := map (spend target) (timers ?c)\<rparr>,
        run_callbacks eff (sort_key deadline (filter (due target) (timers ?c))) (eff (fn t) (deadline t) w))"
    by blast
  have spent: "map (spend target) (timers ?c) = map (spend target) (timers c)"
    using split(1,3) by (simp add: tm spend_def)
  have "advance_loop (quiet eff) target (c, w) =
      advance_loop (quiet eff) target (?c, eff (fn t) (deadline t) w)"
    by (subst advance_loop.simps) (simp add: nd quiet_def tm)
  then show ?case
    using n by (auto simp: first run_callbacks_def spent) (auto simp: fire_at_def)
qed

text \<open>C10: \<open>Advance\<close> terminates and fires exactly the timers that become due, in deadline order
  and, for equal deadlines, in the order they were scheduled, each once and each seeing the clock
  at its own deadline; afterwards the clock shows the target and no due timer is left active.
  This is for callbacks that do not touch the clock.\<close>

theorem Advance_fires_in_order:
  assumes "0 \<le> d"
  shows "Advance (quiet eff) d (c, w) =
    Some (c\<lparr>now := now c + d, timers := map (spend (now c + d)) (timers c)\<rparr>,
          run_callbacks eff (sort_key deadline (filter (due (now c + d)) (timers c))) w)"
  using assms advance_loop_quiet[of eff "now c + d" c w] by (auto simp: Advance_def Let_def)

theorem Advance_fires_in_order_witness:
  "map_option snd (Advance (quiet (\<lambda>f t log. log @ [(f, t)])) 10
     (\<lparr>now = 0, timers = [\<lparr>deadline = 7, fn = ''b'', active = True\<rparr>, \<lparr>deadline = 3, fn = ''a'', active = True\<rparr>,
        \<lparr>deadline = 11, fn = ''c'', active = True\<rparr>, \<lparr>deadline = 7, fn = ''d'', active = True\<rparr>]\<rparr>, []))
   = Some [(''a'', 3), (''b'', 7), (''d'', 7)]"
  by (subst Advance_fires_in_order) (simp_all add: run_callbacks_def)

text \<open>Stopping, resetting and scheduling.\<close>

lemma Stop_prevents:
  "i < length (timers c) \<Longrightarrow> snd (Stop i c) = c' \<Longrightarrow> \<not> active (timers c' ! i) \<and> snd (Stop i c') = c'"
  by (auto simp: Stop_def)

lemma Pending_AfterFunc: "Pending (snd (AfterFunc d f c)) = Suc (Pending c)"
  by (simp add: Pending_def AfterFunc_def)

lemma Pending_after_Advance:
  "0 \<le> d \<Longrightarrow> Advance (quiet eff) d (c, w) = Some (c', w') \<Longrightarrow>
   Pending c' + length (filter (due (now c + d)) (timers c)) = Pending c"
proof -
  assume "0 \<le> d" "Advance (quiet eff) d (c, w) = Some (c', w')"
  then have "timers c' = map (spend (now c + d)) (timers c)"
    using advance_loop_quiet[of eff "now c + d" c w] by (auto simp: Advance_def Let_def)
  moreover have "length (filter active (map (spend T) ts)) + length (filter (due T) ts) = length (filter active ts)"
    for T and ts :: "'a fakeTimer list"
    by (induction ts) (auto simp: spend_def)
  ultimately show ?thesis by (simp add: Pending_def)
qed

end
