(* ===== verification/EventBus.thy ===== *)
theory EventBus
  imports Contracts
begin

text \<open>
  The event bus (\<open>src/internal/event/event.go\<close>, \<open>bus.go\<close>): fan-out of events over buffered
  channels.  A channel is its buffer, whether it is closed, and what its reader has taken from it
  so far; sending on a closed channel and closing a channel twice panic in Go and are \<open>None\<close> here.
  The bus lock makes every call one step.
\<close>

section \<open>Events\<close>

datatype EventType = TypeAlarmRaised | TypeAlarmCleared | TypeConfigChanged | TypeStateTransition

record event =
  ev_type :: EventType
  ev_resource :: string
  ev_severity :: string
  ev_message :: string
  ev_domain :: string
  ev_alarm :: string
  ev_from :: string
  ev_to :: string
  ev_timestamp :: time

definition DomainRadio :: string where "DomainRadio = ''radio''"
definition DomainL2 :: string where "DomainL2 = ''l2''"
definition DomainSync :: string where "DomainSync = ''sync''"
definition AlarmRadioLinkDown :: string where "AlarmRadioLinkDown = ''radioLinkDown''"
definition AlarmRadioLinkDegraded :: string where "AlarmRadioLinkDegraded = ''radioLinkDegraded''"
definition AlarmL2Storm :: string where "AlarmL2Storm = ''l2Storm''"
definition AlarmSyncHoldover :: string where "AlarmSyncHoldover = ''syncHoldover''"

section \<open>The bus\<close>

definition DefaultBuffer :: nat where "DefaultBuffer = 64"

record chan =
  buf :: "event list"
  taken :: "event list"
  ch_closed :: bool

record bus =
  subs :: "nat list"
  chans :: "chan list"
  buffer :: nat
  bus_closed :: bool

definition New_bus :: "int \<Rightarrow> bus" where
  "New_bus bufferSize =
     \<lparr>subs = [], chans = [], buffer = (if bufferSize \<le> 0 then DefaultBuffer else nat bufferSize),
      bus_closed = False\<rparr>"

text \<open>The non-blocking send of the \<open>select\<close> with a \<open>default\<close> case.\<close>

definition try_send :: "nat \<Rightarrow> event \<Rightarrow> chan \<Rightarrow> chan option" where
  "try_send cap e ch =
     (if ch_closed ch then None
      else if length (buf ch) < cap then Some (ch\<lparr>buf := buf ch @ [e]\<rparr>) else Some ch)"

definition close_chan :: "chan \<Rightarrow> chan option" where
  "close_chan ch = (if ch_closed ch then None else Some (ch\<lparr>ch_closed := True\<rparr>))"

fun for_chans :: "(chan \<Rightarrow> chan option) \<Rightarrow> nat list \<Rightarrow> chan list \<Rightarrow> chan list option" where
  "for_chans f [] cs = Some cs"
| "for_chans f (i # is) cs =
     (case f (cs ! i) of None \<Rightarrow> None | Some ch \<Rightarrow> for_chans f is (cs[i := ch]))"

definition stamp :: "time \<Rightarrow> event \<Rightarrow> event" where
  "stamp now e = (if ev_timestamp e = 0 then e\<lparr>ev_timestamp := now\<rparr> else e)"

definition Publish :: "time \<Rightarrow> event \<Rightarrow> bus \<Rightarrow> bus option" where
  "Publish now e b =
     (if bus_closed b then Some b
      else map_option (\<lambda>cs. b\<lparr>chans := cs\<rparr>)
             (for_chans (try_send (buffer b) (stamp now e)) (subs b) (chans b)))"

definition Subscribe :: "bus \<Rightarrow> nat \<times> bus" where
  "Subscribe b =
     (let ch = \<lparr>buf = [], taken = [], ch_closed = bus_closed b\<rparr>; i = length (chans b)
      in (i, if bus_closed b then b\<lparr>chans := chans b @ [ch]\<rparr>
             else b\<lparr>chans := chans b @ [ch], subs := subs b @ [i]\<rparr>))"

definition Unsubscribe :: "nat \<Rightarrow> bus \<Rightarrow> (bool \<times> bus) option" where
  "Unsubscribe i b =
     (if i \<notin> set (subs b) then Some (False, b)
      else case close_chan (chans b ! i) of
             None \<Rightarrow> None
           | Some ch \<Rightarrow>
               Some (True, b\<lparr>subs := remove1 i (subs b), chans := (chans b)[i := ch]\<rparr>))"

definition Close_bus :: "bus \<Rightarrow> bus option" where
  "Close_bus b =
     (if bus_closed b then Some b
      else map_option (\<lambda>cs. b\<lparr>bus_closed := True, chans := cs, subs := []\<rparr>)
             (for_chans close_chan (subs b) (chans b)))"

definition pending_subs :: "bus \<Rightarrow> nat" where
  "pending_subs b = length (subs b)"

text \<open>A reader takes the oldest buffered event, if there is one.\<close>

definition receive :: "nat \<Rightarrow> bus \<Rightarrow> bus" where
  "receive i b =
     (if i < length (chans b)
      then case buf (chans b ! i) of
             [] \<Rightarrow> b
           | e # es \<Rightarrow> b\<lparr>chans := (chans b)[i := (chans b ! i)\<lparr>buf := es, taken := taken (chans b ! i) @ [e]\<rparr>]\<rparr>
      else b)"

section \<open>Fan-out\<close>

lemma for_chans_distinct:
  assumes "distinct is" "\<forall>i \<in> set is. i < length cs \<and> f (cs ! i) \<noteq> None"
  shows "\<exists>cs'. for_chans f is cs = Some cs' \<and> length cs' = length cs \<and>
    (\<forall>j < length cs. cs' ! j = (if j \<in> set is then the (f (cs ! j)) else cs ! j))"
  using assms
proof (induction "is" arbitrary: cs)
  case (Cons i "is")
  then obtain ch where ch: "f (cs ! i) = Some ch" by fastforce
  let ?cs = "cs[i := ch]"
  have "\<forall>j \<in> set is. j < length ?cs \<and> f (?cs ! j) \<noteq> None"
    using Cons.prems by (auto simp: nth_list_update)
  with Cons obtain cs' where "for_chans f is ?cs = Some cs'" "length cs' = length ?cs"
    "\<forall>j < length ?cs. cs' ! j = (if j \<in> set is then the (f (?cs ! j)) else ?cs ! j)"
    by (metis distinct.simps(2))
  then show ?case
    using Cons.prems ch by (intro exI[of _ cs']) (auto simp: nth_list_update)
qed simp

section \<open>Runs\<close>

datatype bus_call = BPublish time event | BSubscribe | BUnsubscribe nat | BClose | BReceive nat

text \<open>The bus, \<open>None\<close> after a panic, and the stamped events it has fanned out so far.\<close>

fun bus_step :: "bus option \<times> event list \<Rightarrow> bus_call \<Rightarrow> bus option \<times> event list" where
  "bus_step (None, h) _ = (None, h)"
| "bus_step (Some b, h) (BPublish now e) =
     (Publish now e b, if bus_closed b then h else h @ [stamp now e])"
| "bus_step (Some b, h) BSubscribe = (Some (snd (Subscribe b)), h)"
| "bus_step (Some b, h) (BUnsubscribe i) = (map_option snd (Unsubscribe i b), h)"
| "bus_step (Some b, h) BClose = (Close_bus b, h)"
| "bus_step (Some b, h) (BReceive i) = (Some (receive i b), h)"

definition chan_ok :: "nat \<Rightarrow> event list \<Rightarrow> chan \<Rightarrow> bool" where
  "chan_ok cap h ch \<longleftrightarrow> length (buf ch) \<le> cap \<and> subseq (taken ch @ buf ch) h"

definition bus_ok :: "bus \<Rightarrow> event list \<Rightarrow> bool" where
  "bus_ok b h \<longleftrightarrow> distinct (subs b) \<and> (bus_closed b \<longrightarrow> subs b = []) \<and> 0 < buffer b \<and>
     (\<forall>i \<in> set (subs b). i < length (chans b)) \<and>
     (\<forall>i < length (chans b). ch_closed (chans b ! i) \<longleftrightarrow> i \<notin> set (subs b)) \<and>
     (\<forall>i < length (chans b). chan_ok (buffer b) h (chans b ! i))"

fun bus_inv :: "bus option \<times> event list \<Rightarrow> bool" where
  "bus_inv (None, h) = False"
| "bus_inv (Some b, h) = bus_ok b h"

lemma chan_ok_mono: "chan_ok cap h ch \<Longrightarrow> chan_ok cap (h @ [e]) ch"
  by (auto simp: chan_ok_def intro: list_emb_append2)

lemma chan_ok_send:
  assumes "chan_ok cap h ch" "\<not> ch_closed ch"
  shows "\<exists>ch'. try_send cap e ch = Some ch' \<and> chan_ok cap (h @ [e]) ch' \<and> \<not> ch_closed ch'"
proof (cases "length (buf ch) < cap")
  case True
  have "subseq ((taken ch @ buf ch) @ [e]) (h @ [e])"
    using assms(1) by (intro list_emb_append_mono) (auto simp: chan_ok_def)
  with True assms show ?thesis by (auto simp: try_send_def chan_ok_def)
qed (use assms chan_ok_mono in \<open>auto simp: try_send_def\<close>)

lemma Publish_ok:
  assumes "bus_ok b h"
  shows "\<exists>b'. Publish now e b = Some b' \<and> bus_ok b' (if bus_closed b then h else h @ [stamp now e]) \<and>
    subs b' = subs b \<and> buffer b' = buffer b \<and> length (chans b') = length (chans b) \<and>
    (\<forall>j < length (chans b). chans b' ! j =
       (if bus_closed b \<or> j \<notin> set (subs b) then chans b ! j
        else the (try_send (buffer b) (stamp now e) (chans b ! j))))"
proof (cases "bus_closed b")
  case True
  then show ?thesis using assms by (intro exI[of _ b]) (auto simp: Publish_def)
next
  case False
  let ?send = "try_send (buffer b) (stamp now e)"
  have send: "\<exists>ch'. ?send (chans b ! i) = Some ch' \<and> chan_ok (buffer b) (h @ [stamp now e]) ch' \<and> \<not> ch_closed ch'"
    if "i \<in> set (subs b)" for i
    using assms that by (intro chan_ok_send) (auto simp: bus_ok_def)
  have "\<exists>cs. for_chans ?send (subs b) (chans b) = Some cs \<and> length cs = length (chans b) \<and>
      (\<forall>j < length (chans b). cs ! j = (if j \<in> set (subs b) then the (?send (chans b ! j)) else chans b ! j))"
    using assms send by (intro for_chans_distinct) (auto simp: bus_ok_def dest!: send)
  then obtain cs where cs: "for_chans ?send (subs b) (chans b) = Some cs" "length cs = length (chans b)"
    "\<forall>j < length (chans b). cs ! j = (if j \<in> set (subs b) then the (?send (chans b ! j)) else chans b ! j)"
    by blast
  have "chan_ok (buffer b) (h @ [stamp now e]) (cs ! j) \<and> (ch_closed (cs ! j) \<longleftrightarrow> j \<notin> set (subs b))"
    if "j < length (chans b)" for j
    using that assms cs(3) send[of j] chan_ok_mono by (auto simp: bus_ok_def)
  then have "bus_ok (b\<lparr>chans := cs\<rparr>) (h @ [stamp now e])"
    using assms False cs(2) by (auto simp: bus_ok_def)
  then show ?thesis using False cs by (simp add: Publish_def)
qed

lemma Subscribe_ok: "bus_ok b h \<Longrightarrow> bus_ok (snd (Subscribe b)) h"
  by (auto simp: bus_ok_def Subscribe_def Let_def nth_append chan_ok_def less_Suc_eq)

lemma Unsubscribe_ok:
  assumes "bus_ok b h"
  shows "\<exists>r b'. Unsubscribe i b = Some (r, b') \<and> bus_ok b' h"
proof (cases "i \<in> set (subs b)")
  case True
  with assms have "\<not> ch_closed (chans b ! i)" by (auto simp: bus_ok_def)
  with True assms show ?thesis
    by (auto simp: Unsubscribe_def close_chan_def bus_ok_def nth_list_update chan_ok_def
        dest: notin_set_remove1)
qed (use assms in \<open>auto simp: Unsubscribe_def\<close>)

lemma Close_bus_ok:
  assumes "bus_ok b h"
  shows "\<exists>b'. Close_bus b = Some b' \<and> bus_ok b' h \<and> bus_closed b'"
proof (cases "bus_closed b")
  case False
  have "\<exists>cs. for_chans close_chan (subs b) (chans b) = Some cs \<and> length cs = length (chans b) \<and>
      (\<forall>j < length (chans b). cs ! j = (if j \<in> set (subs b) then the (close_chan (chans b ! j)) else chans b ! j))"
    using assms by (intro for_chans_distinct) (auto simp: bus_ok_def close_chan_def)
  then obtain cs where cs: "for_chans close_chan (subs b) (chans b) = Some cs" "length cs = length (chans b)"
    "\<forall>j < length (chans b). cs ! j = (if j \<in> set (subs b) then the (close_chan (chans b ! j)) else chans b ! j)"
    by blast
  have "bus_ok (b\<lparr>bus_closed := True, chans := cs, subs := []\<rparr>) h"
    using assms cs(2,3) by (auto simp: bus_ok_def close_chan_def chan_ok_def)
  then show ?thesis using False cs by (simp add: Close_bus_def)
qed (use assms in \<open>auto simp: Close_bus_def\<close>)

lemma receive_ok: "bus_ok b h \<Longrightarrow> bus_ok (receive i b) h"
proof (cases "i < length (chans b)")
  case True
  assume ok: "bus_ok b h"
  show ?thesis
  proof (cases "buf (chans b ! i)")
    case (Cons e es)
    with True ok have "chan_ok (buffer b) h ((chans b ! i)\<lparr>buf := es, taken := taken (chans b ! i) @ [e]\<rparr>)"
      by (auto simp: bus_ok_def chan_ok_def)
    with True ok Cons show ?thesis by (auto simp: receive_def bus_ok_def nth_list_update)
  qed (use ok in \<open>simp add: receive_def\<close>)
qed (simp add: receive_def)

lemma bus_inv_step: "bus_inv s \<Longrightarrow> bus_inv (bus_step s c)"
proof (induction s c rule: bus_step.induct)
  case (2 b h now e)
  then show ?case using Publish_ok[of b h now e] by auto
next
  case (4 b h i)
  then show ?case using Unsubscribe_ok[of b h i] by auto
next
  case (5 b h)
  then show ?case using Close_bus_ok[of b h] by auto
qed (auto simp: Subscribe_ok receive_ok)

lemma bus_inv_New: "bus_inv (Some (New_bus n), [])"
  by (auto simp: bus_ok_def New_bus_def DefaultBuffer_def)

interpretation bus_sys: invariant_system
  "\<lambda>s. \<exists>n. s = (Some (New_bus n), [])" bus_step "\<lambda>_. True" bus_inv
  by unfold_locales (auto simp: bus_inv_step bus_inv_New simp del: bus_inv.simps)

lemma bus_reachable:
  obtains b h where "foldl bus_step (Some (New_bus n), []) cs = (Some b, h)" "bus_ok b h"
proof -
  have "bus_inv (foldl bus_step (Some (New_bus n), []) cs)"
    by (rule bus_sys.inv_reachable) (auto simp: list_all_iff)
  then show thesis using that by (cases "foldl bus_step (Some (New_bus n), []) cs" rule: bus_inv.cases) auto
qed

text \<open>C11: the bus never panics and never blocks, whatever the order of publishing,
  subscribing, unsubscribing, closing and reading.  In every reachable state each channel buffers
  at most its capacity, what a reader has received followed by what is buffered for it is a
  subsequence of the published events in publication order, and exactly the registered channels
  are open.\<close>

theorem bus_safe:
  "case foldl bus_step (Some (New_bus n), []) cs of
     (None, _) \<Rightarrow> False
   | (Some b, published) \<Rightarrow>
       list_all (\<lambda>ch. length (buf ch) \<le> buffer b \<and> subseq (taken ch @ buf ch) published) (chans b)
       \<and> map ch_closed (chans b) = map (\<lambda>i. i \<notin> set (subs b)) [0..<length (chans b)]
       \<and> (if bus_closed b then subs b = [] else True)"
proof -
  obtain b h where "foldl bus_step (Some (New_bus n), []) cs = (Some b, h)" "bus_ok b h"
    by (rule bus_reachable)
  then show ?thesis
    by (auto simp: bus_ok_def chan_ok_def list_all_length intro!: nth_equalityI)
qed

text \<open>Delivery is isolated per subscriber.  From any reachable state, publishing on an open
  bus appends the stamped event to exactly the subscribed channels that have room, drops it for
  the full ones, touches no other channel, and changes nothing at all on a closed bus.\<close>

theorem Publish_isolated:
  assumes "foldl bus_step (Some (New_bus n), []) cs = (Some b, h)"
  shows "\<exists>b'. Publish now e b = Some b' \<and> subs b' = subs b \<and> length (chans b') = length (chans b) \<and>
    (\<forall>i < length (chans b).
       buf (chans b' ! i) =
         (if bus_closed b \<or> i \<notin> set (subs b) \<or> buffer b \<le> length (buf (chans b ! i))
          then buf (chans b ! i) else buf (chans b ! i) @ [stamp now e])
       \<and> taken (chans b' ! i) = taken (chans b ! i) \<and> ch_closed (chans b' ! i) = ch_closed (chans b ! i))"
proof -
  have ok: "bus_ok b h"
    using bus_reachable[of n cs] assms by (metis Pair_inject option.inject)
  from Publish_ok[OF this, of now e] obtain b' where b': "Publish now e b = Some b'"
    "subs b' = subs b" "length (chans b') = length (chans b)"
    "\<forall>j < length (chans b). chans b' ! j =
       (if bus_closed b \<or> j \<notin> set (subs b) then chans b ! j
        else the (try_send (buffer b) (stamp now e) (chans b ! j)))"
    by blast
  have "\<not> ch_closed (chans b ! i)" if "i \<in> set (subs b)" for i
    using ok that by (auto simp: bus_ok_def)
  with b' show ?thesis by (intro exI[of _ b']) (auto simp: try_send_def)
qed

definition sample_event :: event where
  "sample_event = \<lparr>ev_type = TypeAlarmRaised, ev_resource = ''radio0'', ev_severity = ''critical'',
     ev_message = [], ev_domain = DomainRadio, ev_alarm = AlarmRadioLinkDown, ev_from = [],
     ev_to = [], ev_timestamp = 0\<rparr>"

definition sample_bus :: bus where
  "sample_bus = \<lparr>subs = [0, 1], chans = [\<lparr>buf = [sample_event\<lparr>ev_timestamp := 5\<rparr>], taken = [], ch_closed = False\<rparr>,
     \<lparr>buf = [], taken = [sample_event\<lparr>ev_timestamp := 5\<rparr>], ch_closed = False\<rparr>], buffer = 1, bus_closed = False\<rparr>"

theorem Publish_isolated_witness:
  "\<exists>b'. Publish 9 sample_event sample_bus = Some b' \<and> buf (chans b' ! 0) = buf (chans sample_bus ! 0)
     \<and> buf (chans b' ! 1) = [sample_event\<lparr>ev_timestamp := 9\<rparr>]"
proof -
  have run: "foldl bus_step (Some (New_bus 1), []) [BSubscribe, BSubscribe, BPublish 5 sample_event, BReceive 1]
      = (Some sample_bus, [sample_event\<lparr>ev_timestamp := 5\<rparr>])"
    by (simp add: New_bus_def Subscribe_def Let_def Publish_def try_send_def stamp_def receive_def
        sample_bus_def sample_event_def)
  from Publish_isolated[OF run, of 9 sample_event] show ?thesis
    by (auto simp: sample_bus_def stamp_def sample_event_def)
qed

end
