(* ===== verification/MacAddr.thy ===== *)
theory MacAddr
  imports GoStrings
begin

text \<open>
  \<open>net.ParseMAC\<close> and \<open>net.HardwareAddr.String\<close> of Go's standard library, which
  \<open>src/internal/model/validate.go\<close> and \<open>src/internal/l2/mac.go\<close> rely on: colon, hyphen and dot
  notation of 6, 8 or 20 bytes, and the canonical lower-case colon form.
\<close>

definition hex_val :: "char \<Rightarrow> nat option" where
  "hex_val c = (case digit_val c of Some d \<Rightarrow> if d < 16 then Some d else None | None \<Rightarrow> None)"

definition hex_byte :: "char \<Rightarrow> char \<Rightarrow> nat option" where
  "hex_byte a b =
     (case (hex_val a, hex_val b) of (Some x, Some y) \<Rightarrow> Some (16 * x + y) | _ \<Rightarrow> None)"

fun mac_groups2 :: "char \<Rightarrow> string \<Rightarrow> nat list option" where
  "mac_groups2 e [a, b] = map_option (\<lambda>x. [x]) (hex_byte a b)"
| "mac_groups2 e (a # b # c # rest) =
     (if c \<noteq> e then None
      else case (hex_byte a b, mac_groups2 e rest) of (Some x, Some xs) \<Rightarrow> Some (x # xs) | _ \<Rightarrow> None)"
| "mac_groups2 e _ = None"

fun mac_groups4 :: "char \<Rightarrow> string \<Rightarrow> nat list option" where
  "mac_groups4 e [a, b, c, d] =
     (case (hex_byte a b, hex_byte c d) of (Some x, Some y) \<Rightarrow> Some [x, y] | _ \<Rightarrow> None)"
| "mac_groups4 e (a # b # c # d # f # rest) =
     (if f \<noteq> e then None
      else case (hex_byte a b, hex_byte c d, mac_groups4 e rest) of
             (Some x, Some y, Some xs) \<Rightarrow> Some (x # y # xs) | _ \<Rightarrow> None)"
| "mac_groups4 e _ = None"

definition parseMAC :: "string \<Rightarrow> nat list option" where
  "parseMAC s =
     (if length s < 14 then None
      else
        let bytes = (if s ! 2 = CHR '':'' \<or> s ! 2 = CHR ''-'' then mac_groups2 (s ! 2) s
                     else if s ! 4 = CHR ''.'' then mac_groups4 CHR ''.'' s else None)
        in (case bytes of
              Some bs \<Rightarrow> if length bs \<in> {6, 8, 20} then Some bs else None
            | None \<Rightarrow> None))"

definition byte_hex :: "nat \<Rightarrow> string" where
  "byte_hex n = [digit_char (n div 16), digit_char (n mod 16)]"

definition mac_string :: "nat list \<Rightarrow> string" where
  "mac_string bs = join_with CHR '':'' (map byte_hex bs)"

definition validMAC :: "string \<Rightarrow> bool" where
  "validMAC s = (case parseMAC s of Some bs \<Rightarrow> length bs = 6 | None \<Rightarrow> False)"

section \<open>Round trip\<close>

lemma hex_val_digit: "n < 16 \<Longrightarrow> hex_val (digit_char n) = Some n"
  by (simp add: hex_val_def digit_val_char)

lemma hex_byte_hex: "n < 256 \<Longrightarrow> hex_byte (digit_char (n div 16)) (digit_char (n mod 16)) = Some n"
proof -
  assume "n < 256"
  then have "n div 16 < 16" by (simp add: less_mult_imp_div_less)
  then show ?thesis by (simp add: hex_byte_def hex_val_digit)
qed

lemma hex_byte_lt: "hex_byte a b = Some n \<Longrightarrow> n < 256"
  by (auto simp: hex_byte_def hex_val_def split: option.splits if_splits)

lemma mac_groups2_string:
  "bs \<noteq> [] \<Longrightarrow> \<forall>b \<in> set bs. b < 256 \<Longrightarrow> mac_groups2 CHR '':'' (mac_string bs) = Some bs"
proof (induction bs)
  case (Cons b bs)
  have "hex_byte (digit_char (b div 16)) (digit_char (b mod 16)) = Some b"
    using Cons.prems by (simp add: hex_byte_hex)
  with Cons show ?case
    by (cases bs) (auto simp: mac_string_def byte_hex_def join_with_Cons_ne)
qed simp

lemma mac_groups2_bytes: "mac_groups2 e s = Some bs \<Longrightarrow> \<forall>b \<in> set bs. b < 256"
  by (induction e s arbitrary: bs rule: mac_groups2.induct)
    (auto split: option.splits if_splits dest: hex_byte_lt)

lemma mac_groups4_bytes: "mac_groups4 e s = Some bs \<Longrightarrow> \<forall>b \<in> set bs. b < 256"
  by (induction e s arbitrary: bs rule: mac_groups4.induct)
    (auto split: option.splits if_splits dest: hex_byte_lt)

lemma parseMAC_bytes: "parseMAC s = Some bs \<Longrightarrow> (\<forall>b \<in> set bs. b < 256) \<and> length bs \<in> {6, 8, 20}"
  by (auto simp: parseMAC_def Let_def split: option.splits if_splits
      dest: mac_groups2_bytes mac_groups4_bytes)

lemma length_mac_string: "bs \<noteq> [] \<Longrightarrow> length (mac_string bs) = 3 * length bs - 1"
proof (induction bs)
  case (Cons b bs)
  then show ?case by (cases bs) (auto simp: mac_string_def byte_hex_def)
qed simp

lemma parseMAC_string:
  assumes "\<forall>b \<in> set bs. b < 256" "length bs \<in> {6, 8, 20}"
  shows "parseMAC (mac_string bs) = Some bs"
proof -
  obtain b c cs where bs: "bs = b # c # cs" using assms(2) by (cases bs; cases "tl bs") auto
  have "mac_string bs ! 2 = CHR '':''"
    by (simp add: bs mac_string_def byte_hex_def)
  moreover have "mac_groups2 CHR '':'' (mac_string bs) = Some bs"
    using assms by (intro mac_groups2_string) (auto simp: bs)
  moreover have "\<not> length (mac_string bs) < 14"
    using assms(2) by (auto simp: length_mac_string bs)
  ultimately show ?thesis using assms(2) by (simp add: parseMAC_def)
qed

end
