(* ===== verification/Model.thy ===== *)
theory Model
  imports MacAddr GoFloat
begin

text \<open>
  The managed objects (\<open>src/internal/model\<close>): the radio, L2 and synchronization records with
  their constants, their \<open>Validate\<close> methods and the device that holds them.  A field of a Go
  struct is a record field with a prefix naming the struct.  A \<open>Validate\<close> method returns the first
  rule a value violates, as an abbreviated message (the offending leaf), or \<open>None\<close>; the chain of
  early returns is \<open>first_error\<close>.
\<close>

section \<open>Checks\<close>

type_synonym verdict = "string option"

definition chk :: "bool \<Rightarrow> string \<Rightarrow> verdict" where
  "chk bad msg = (if bad then Some msg else None)"

fun first_error :: "verdict list \<Rightarrow> verdict" where
  "first_error [] = None"
| "first_error (Some e # _) = Some e"
| "first_error (None # vs) = first_error vs"

text \<open>The loop over a keyed list: each entry is validated, then its key must be new.\<close>

fun check_keyed :: "('a \<Rightarrow> verdict) \<Rightarrow> ('a \<Rightarrow> 'k) \<Rightarrow> string \<Rightarrow> 'k list \<Rightarrow> 'a list \<Rightarrow> verdict" where
  "check_keyed v k msg seen [] = None"
| "check_keyed v k msg seen (x # xs) =
     (case v x of Some e \<Rightarrow> Some e
      | None \<Rightarrow> if k x \<in> set seen then Some msg else check_keyed v k msg (k x # seen) xs)"

fun check_all :: "('a \<Rightarrow> verdict) \<Rightarrow> 'a list \<Rightarrow> verdict" where
  "check_all v [] = None"
| "check_all v (x # xs) = (case v x of Some e \<Rightarrow> Some e | None \<Rightarrow> check_all v xs)"

lemma chk_False [simp]: "chk False m = None"
  by (simp add: chk_def)

lemma chk_None [simp]: "chk b m = None \<longleftrightarrow> \<not> b"
  by (simp add: chk_def)

lemma first_error_None [simp]: "first_error vs = None \<longleftrightarrow> (\<forall>v \<in> set vs. v = None)"
  by (induction vs rule: first_error.induct) auto

lemma check_all_None [simp]: "check_all v xs = None \<longleftrightarrow> (\<forall>x \<in> set xs. v x = None)"
  by (induction xs) (auto split: option.splits)

lemma check_keyed_None_seen:
  "check_keyed v k msg seen xs = None \<longleftrightarrow>
     (\<forall>x \<in> set xs. v x = None \<and> k x \<notin> set seen) \<and> distinct (map k xs)"
  by (induction xs arbitrary: seen) (auto split: option.splits simp: image_iff)

lemma check_keyed_None [simp]:
  "check_keyed v k msg [] xs = None \<longleftrightarrow> (\<forall>x \<in> set xs. v x = None) \<and> distinct (map k xs)"
  by (auto simp: check_keyed_None_seen)

definition finite_f :: "float64 \<Rightarrow> bool" where
  "finite_f v = (\<not> isNaN v \<and> \<not> isInf v)"

definition inRange :: "float64 \<Rightarrow> float64 \<Rightarrow> float64 \<Rightarrow> bool" where
  "inRange v lo hi = (finite_f v \<and> f64_ge v lo \<and> f64_le v hi)"

lemma inRange_Fin: "inRange v (Fin lo) (Fin hi) \<longleftrightarrow> (\<exists>r. v = Fin r \<and> lo \<le> r \<and> r \<le> hi)"
  by (cases v) (auto simp: inRange_def finite_f_def)

lemma inRange_Fin_iff [simp]: "inRange (Fin r) (Fin lo) (Fin hi) \<longleftrightarrow> lo \<le> r \<and> r \<le> hi"
  by (simp add: inRange_def finite_f_def)

lemma finite_f_simps [simp]: "finite_f (Fin r)" "\<not> finite_f NaN" "\<not> finite_f PosInf" "\<not> finite_f NegInf"
  by (simp_all add: finite_f_def)

lemma finite_f_Fin: "finite_f v \<longleftrightarrow> (\<exists>r. v = Fin r)"
  by (cases v) (auto simp: finite_f_def)

section \<open>Radio\<close>

definition TxPowerMinDBM :: float64 where "TxPowerMinDBM = Fin (- 10)"
definition TxPowerMaxDBM :: float64 where "TxPowerMaxDBM = Fin 30"
definition RSSIMinDBM :: float64 where "RSSIMinDBM = Fin (- 99)"
definition RSSIMaxDBM :: float64 where "RSSIMaxDBM = Fin (- 20)"
definition FrequencyMinGHz :: float64 where "FrequencyMinGHz = Fin 6"
definition FrequencyMaxGHz :: float64 where "FrequencyMaxGHz = Fin 86"
definition AntennaGainMinDBI :: float64 where "AntennaGainMinDBI = Fin 30"
definition AntennaGainMaxDBI :: float64 where "AntennaGainMaxDBI = Fin 45"
definition FeedLossMinDB :: float64 where "FeedLossMinDB = Fin 1"
definition FeedLossMaxDB :: float64 where "FeedLossMaxDB = Fin 5"
definition ACMModeAdaptive :: string where "ACMModeAdaptive = ''adaptive''"
definition ACMModeFixed :: string where "ACMModeFixed = ''fixed''"
definition RadioLinkStateUp :: string where "RadioLinkStateUp = ''up''"
definition RadioLinkStateDegraded :: string where "RadioLinkStateDegraded = ''degraded''"
definition RadioLinkStateDown :: string where "RadioLinkStateDown = ''down''"
definition MinACMProfile :: u8 where "MinACMProfile = 1"
definition MaxACMProfile :: u8 where "MaxACMProfile = 12"

lemmas radio_consts = TxPowerMinDBM_def TxPowerMaxDBM_def RSSIMinDBM_def RSSIMaxDBM_def
  FrequencyMinGHz_def FrequencyMaxGHz_def AntennaGainMinDBI_def AntennaGainMaxDBI_def
  FeedLossMinDB_def FeedLossMaxDB_def ACMModeAdaptive_def ACMModeFixed_def RadioLinkStateUp_def
  RadioLinkStateDegraded_def RadioLinkStateDown_def MinACMProfile_def MaxACMProfile_def

record LinkBudget =
  lb_LinkLength :: float64
  lb_Frequency :: float64
  lb_TxAntennaGain :: float64
  lb_RxAntennaGain :: float64
  lb_FeedLoss :: float64
  lb_CalculatedRSL :: float64

record ATPC =
  atpc_Enabled :: bool
  atpc_TargetRSL :: float64
  atpc_MinPower :: float64
  atpc_MaxPower :: float64
  atpc_Range :: float64
  atpc_CurrentPower :: float64

record ACM =
  acm_Enabled :: bool
  acm_Mode :: string
  acm_MinProfile :: u8
  acm_MaxProfile :: u8
  acm_CurrentProfile :: u8
  acm_CurrentCapacity :: u32

record ModProfile =
  mp_ID :: u8
  mp_Name :: string
  mp_Modulation :: string
  mp_CodingRate :: string
  mp_SpectralEfficiency :: float64
  mp_RSLThreshold :: float64
  mp_Capacity :: u32

record RadioLink =
  rl_Name :: string
  rl_TxPower :: float64
  rl_RSSI :: float64
  rl_FadeMargin :: float64
  rl_Capacity :: u32
  rl_LinkState :: string
  rl_LinkBudget :: LinkBudget
  rl_ATPC :: ATPC
  rl_ACM :: ACM
  rl_Profiles :: "ModProfile list"

definition LinkBudget_Validate :: "LinkBudget \<Rightarrow> verdict" where
  "LinkBudget_Validate l = first_error
     [chk (\<not> finite_f (lb_LinkLength l) \<or> f64_le (lb_LinkLength l) (Fin 0)) ''link-length'',
      chk (\<not> inRange (lb_Frequency l) FrequencyMinGHz FrequencyMaxGHz) ''frequency'',
      chk (\<not> inRange (lb_TxAntennaGain l) AntennaGainMinDBI AntennaGainMaxDBI) ''tx-antenna-gain'',
      chk (\<not> inRange (lb_RxAntennaGain l) AntennaGainMinDBI AntennaGainMaxDBI) ''rx-antenna-gain'',
      chk (\<not> inRange (lb_FeedLoss l) FeedLossMinDB FeedLossMaxDB) ''feed-loss'',
      chk (\<not> inRange (lb_CalculatedRSL l) RSSIMinDBM RSSIMaxDBM) ''calculated-rsl'']"

definition ATPC_Validate :: "ATPC \<Rightarrow> verdict" where
  "ATPC_Validate a = first_error
     [chk (\<not> inRange (atpc_TargetRSL a) RSSIMinDBM RSSIMaxDBM) ''target-rsl'',
      chk (\<not> inRange (atpc_MinPower a) TxPowerMinDBM TxPowerMaxDBM) ''min-power'',
      chk (\<not> inRange (atpc_MaxPower a) TxPowerMinDBM TxPowerMaxDBM) ''max-power'',
      chk (\<not> finite_f (atpc_Range a) \<or> f64_le (atpc_Range a) (Fin 0)) ''range'',
      chk (atpc_Enabled a \<and> f64_ge (atpc_MinPower a) (atpc_MaxPower a)) ''min-power max-power'',
      chk (atpc_Enabled a \<and> (f64_lt (atpc_CurrentPower a) (atpc_MinPower a)
                             \<or> f64_gt (atpc_CurrentPower a) (atpc_MaxPower a))) ''current-power'']"

definition ACM_Validate :: "ACM \<Rightarrow> verdict" where
  "ACM_Validate a = first_error
     [chk (acm_Mode a \<notin> {ACMModeAdaptive, ACMModeFixed}) ''mode'',
      chk (acm_MinProfile a < MinACMProfile \<or> acm_MinProfile a > MaxACMProfile) ''min-profile'',
      chk (acm_MaxProfile a < MinACMProfile \<or> acm_MaxProfile a > MaxACMProfile) ''max-profile'',
      chk (acm_MinProfile a > acm_MaxProfile a) ''min-profile max-profile'']"

definition ModProfile_Validate :: "ModProfile \<Rightarrow> verdict" where
  "ModProfile_Validate p = first_error
     [chk (mp_ID p < MinACMProfile \<or> mp_ID p > MaxACMProfile) ''id'',
      chk (mp_Name p = []) ''name'',
      chk (mp_Modulation p = []) ''modulation'',
      chk (mp_CodingRate p = []) ''coding-rate'',
      chk (\<not> finite_f (mp_SpectralEfficiency p) \<or> f64_le (mp_SpectralEfficiency p) (Fin 0)) ''spectral-efficiency'',
      chk (\<not> inRange (mp_RSLThreshold p) RSSIMinDBM RSSIMaxDBM) ''rsl-threshold'',
      chk (mp_Capacity p = 0) ''capacity'']"

definition RadioLink_Validate :: "RadioLink \<Rightarrow> verdict" where
  "RadioLink_Validate r = first_error
     [chk (rl_Name r = []) ''name'',
      chk (\<not> inRange (rl_TxPower r) TxPowerMinDBM TxPowerMaxDBM) ''tx-power'',
      chk (\<not> inRange (rl_RSSI r) RSSIMinDBM RSSIMaxDBM) ''rssi'',
      chk (\<not> finite_f (rl_FadeMargin r)) ''fade-margin'',
      chk (rl_Capacity r = 0) ''capacity'',
      chk (rl_LinkState r \<notin> {RadioLinkStateUp, RadioLinkStateDegraded, RadioLinkStateDown}) ''link-state'',
      LinkBudget_Validate (rl_LinkBudget r),
      ATPC_Validate (rl_ATPC r),
      ACM_Validate (rl_ACM r),
      check_keyed ModProfile_Validate mp_ID ''duplicate modulation-profile id'' [] (rl_Profiles r)]"

lemmas radio_validate_defs = LinkBudget_Validate_def ATPC_Validate_def ACM_Validate_def
  ModProfile_Validate_def RadioLink_Validate_def

section \<open>L2\<close>

definition InterfaceTypeRadio :: string where "InterfaceTypeRadio = ''radio''"
definition InterfaceTypeEthernet :: string where "InterfaceTypeEthernet = ''ethernet''"
definition InterfaceMTUMin :: u32 where "InterfaceMTUMin = 576"
definition InterfaceMTUMax :: u32 where "InterfaceMTUMax = 9216"
definition VLANIDMin :: u16 where "VLANIDMin = 1"
definition VLANIDMax :: u16 where "VLANIDMax = 4094"
definition VLANPortModeAccess :: string where "VLANPortModeAccess = ''access''"
definition VLANPortModeTrunk :: string where "VLANPortModeTrunk = ''trunk''"
definition VLANPortModeHybrid :: string where "VLANPortModeHybrid = ''hybrid''"
definition MACEntryTypeDynamic :: string where "MACEntryTypeDynamic = ''dynamic''"
definition MACEntryTypeStatic :: string where "MACEntryTypeStatic = ''static''"
definition MACAgingTimeMin :: u32 where "MACAgingTimeMin = 10"
definition MACAgingTimeMax :: u32 where "MACAgingTimeMax = 1000000"
definition MACTableMaxEntriesMin :: u32 where "MACTableMaxEntriesMin = 1"
definition MACTableMaxEntriesMax :: u32 where "MACTableMaxEntriesMax = 1000000"
definition CTagHandlingPush :: string where "CTagHandlingPush = ''push''"
definition CTagHandlingPop :: string where "CTagHandlingPop = ''pop''"
definition CTagHandlingTransparent :: string where "CTagHandlingTransparent = ''transparent''"
definition LLDPTxIntervalMin :: u32 where "LLDPTxIntervalMin = 1"
definition LLDPTxIntervalMax :: u32 where "LLDPTxIntervalMax = 3600"
definition LLDPTxHoldMin :: u32 where "LLDPTxHoldMin = 2"
definition LLDPTxHoldMax :: u32 where "LLDPTxHoldMax = 10"
definition LLDPReinitDelayMin :: u32 where "LLDPReinitDelayMin = 1"
definition LLDPReinitDelayMax :: u32 where "LLDPReinitDelayMax = 10"
definition LLDPTxDelayMin :: u32 where "LLDPTxDelayMin = 1"
definition LLDPTxDelayMax :: u32 where "LLDPTxDelayMax = 10"
definition STPProtocolSTP :: string where "STPProtocolSTP = ''stp''"
definition STPProtocolRSTP :: string where "STPProtocolRSTP = ''rstp''"
definition STPPortRoleRoot :: string where "STPPortRoleRoot = ''root''"
definition STPPortRoleDesignated :: string where "STPPortRoleDesignated = ''designated''"
definition STPPortRoleAlternate :: string where "STPPortRoleAlternate = ''alternate''"
definition STPPortRoleBackup :: string where "STPPortRoleBackup = ''backup''"
definition STPPortStateDisabled :: string where "STPPortStateDisabled = ''disabled''"
definition STPPortStateBlocking :: string where "STPPortStateBlocking = ''blocking''"
definition STPPortStateListening :: string where "STPPortStateListening = ''listening''"
definition STPPortStateDiscarding :: string where "STPPortStateDiscarding = ''discarding''"
definition STPPortStateLearning :: string where "STPPortStateLearning = ''learning''"
definition STPPortStateForwarding :: string where "STPPortStateForwarding = ''forwarding''"
definition STPBridgePriorityMax :: u16 where "STPBridgePriorityMax = 61440"
definition STPBridgePriorityStep :: u16 where "STPBridgePriorityStep = 4096"
definition STPPortPriorityMax :: u8 where "STPPortPriorityMax = 240"
definition STPPortPriorityStep :: u8 where "STPPortPriorityStep = 16"
definition LLDPTTLMax :: u32 where "LLDPTTLMax = 65535"

lemmas l2_consts = InterfaceTypeRadio_def InterfaceTypeEthernet_def InterfaceMTUMin_def
  InterfaceMTUMax_def VLANIDMin_def VLANIDMax_def VLANPortModeAccess_def VLANPortModeTrunk_def
  VLANPortModeHybrid_def MACEntryTypeDynamic_def MACEntryTypeStatic_def MACAgingTimeMin_def
  MACAgingTimeMax_def MACTableMaxEntriesMin_def MACTableMaxEntriesMax_def CTagHandlingPush_def
  CTagHandlingPop_def CTagHandlingTransparent_def LLDPTxIntervalMin_def LLDPTxIntervalMax_def
  LLDPTxHoldMin_def LLDPTxHoldMax_def LLDPReinitDelayMin_def LLDPReinitDelayMax_def
  LLDPTxDelayMin_def LLDPTxDelayMax_def STPProtocolSTP_def STPProtocolRSTP_def
  STPPortRoleRoot_def STPPortRoleDesignated_def STPPortRoleAlternate_def STPPortRoleBackup_def
  STPPortStateDisabled_def STPPortStateBlocking_def STPPortStateListening_def
  STPPortStateDiscarding_def STPPortStateLearning_def STPPortStateForwarding_def
  STPBridgePriorityMax_def STPBridgePriorityStep_def STPPortPriorityMax_def
  STPPortPriorityStep_def LLDPTTLMax_def

definition STPPortStates :: "string \<Rightarrow> string list" where
  "STPPortStates protocol =
     (if protocol = STPProtocolRSTP
      then [STPPortStateDiscarding, STPPortStateLearning, STPPortStateForwarding]
      else [STPPortStateDisabled, STPPortStateBlocking, STPPortStateListening,
            STPPortStateLearning, STPPortStateForwarding])"

record InterfaceCounters =
  ic_InOctets :: u64
  ic_OutOctets :: u64
  ic_InUcastPkts :: u64
  ic_OutUcastPkts :: u64
  ic_InErrors :: u32
  ic_OutErrors :: u32
  ic_InDiscards :: u32
  ic_OutDiscards :: u32

record Interface =
  if_Name :: string
  if_Type :: string
  if_Enabled :: bool
  if_MTU :: u32
  if_MACAddress :: string
  if_RadioLink :: "RadioLink option"
  if_Counters :: InterfaceCounters

record VLANPort =
  vp_Port :: string
  vp_Mode :: string
  vp_PVID :: u16
  vp_Tagged :: bool
  vp_QinQ :: bool
  vp_OuterVID :: u16
  vp_CTagHandling :: string

record VLAN =
  vl_ID :: u16
  vl_Name :: string
  vl_Description :: string
  vl_Ports :: "VLANPort list"

record MACEntry =
  me_MAC :: string
  me_VLAN :: u16
  me_Port :: u32
  me_Type :: string
  me_Age :: u32
  me_Permanent :: bool

record MACTable =
  mt_Entries :: "MACEntry list"
  mt_AgingTime :: u32
  mt_MaxEntries :: u32
  mt_CurrentCount :: u32

record LLDPNeighbor =
  ln_Port :: string
  ln_ChassisID :: string
  ln_PortID :: string
  ln_SystemName :: string
  ln_SystemDescription :: string
  ln_TTL :: u32
  ln_Capabilities :: string

record LLDPConfig =
  lc_Enabled :: bool
  lc_TxInterval :: u32
  lc_TxHoldMultiplier :: u32
  lc_ReinitDelay :: u32
  lc_TxDelay :: u32
  lc_ChassisID :: string
  lc_SystemName :: string
  lc_SystemDescription :: string
  lc_Neighbors :: "LLDPNeighbor list"

record STPPort =
  sp_Port :: string
  sp_Role :: string
  sp_State :: string
  sp_Priority :: u8
  sp_PathCost :: u32
  sp_EdgePort :: bool

record STPState =
  st_Enabled :: bool
  st_Protocol :: string
  st_BridgePriority :: u16
  st_BridgeAddress :: string
  st_RootID :: string
  st_RootCost :: u32
  st_Ports :: "STPPort list"

definition InterfaceCounters_Validate :: "InterfaceCounters \<Rightarrow> verdict" where
  "InterfaceCounters_Validate c = None"

definition Interface_Validate :: "Interface \<Rightarrow> verdict" where
  "Interface_Validate i = first_error
     [chk (if_Name i = []) ''name'',
      chk (if_Type i \<notin> {InterfaceTypeRadio, InterfaceTypeEthernet}) ''type'',
      chk (if_MTU i < InterfaceMTUMin \<or> if_MTU i > InterfaceMTUMax) ''mtu'',
      chk (if_MACAddress i \<noteq> [] \<and> \<not> validMAC (if_MACAddress i)) ''mac-address'',
      (case if_RadioLink i of None \<Rightarrow> None | Some r \<Rightarrow> RadioLink_Validate r),
      InterfaceCounters_Validate (if_Counters i)]"

definition validateQinQ :: "VLANPort \<Rightarrow> verdict" where
  "validateQinQ p =
     (if \<not> vp_QinQ p
      then first_error [chk (vp_OuterVID p \<noteq> 0) ''s-tag-vid requires qinq'',
                        chk (vp_CTagHandling p \<noteq> []) ''c-tag-handling requires qinq'']
      else first_error
        [chk (vp_OuterVID p < VLANIDMin \<or> vp_OuterVID p > VLANIDMax) ''s-tag-vid'',
         chk (vp_OuterVID p = vp_PVID p) ''s-tag-vid must differ'',
         chk (vp_CTagHandling p \<notin> {CTagHandlingPush, CTagHandlingPop, CTagHandlingTransparent}) ''c-tag-handling''])"

definition VLANPort_Validate :: "VLANPort \<Rightarrow> verdict" where
  "VLANPort_Validate p = first_error
     [chk (vp_Port p = []) ''port'',
      chk (vp_Mode p \<notin> {VLANPortModeAccess, VLANPortModeTrunk, VLANPortModeHybrid}) ''mode'',
      chk (vp_PVID p < VLANIDMin \<or> vp_PVID p > VLANIDMax) ''pvid'',
      chk (vp_Mode p = VLANPortModeAccess \<and> vp_Tagged p) ''tagged'',
      validateQinQ p]"

definition VLAN_Validate :: "VLAN \<Rightarrow> verdict" where
  "VLAN_Validate v = first_error
     [chk (vl_ID v < VLANIDMin \<or> vl_ID v > VLANIDMax) ''id'',
      chk (vl_Name v = []) ''name'',
      check_all VLANPort_Validate (vl_Ports v)]"

definition MACEntry_Validate :: "MACEntry \<Rightarrow> verdict" where
  "MACEntry_Validate m = first_error
     [chk (\<not> validMAC (me_MAC m)) ''mac-address'',
      chk (me_VLAN m > VLANIDMax) ''vlan-id'',
      chk (me_Type m \<notin> {MACEntryTypeDynamic, MACEntryTypeStatic}) ''type'',
      chk (me_Port m = 0) ''port'',
      chk (me_Permanent m \<and> me_Type m \<noteq> MACEntryTypeStatic) ''permanent'']"

definition MACTable_Validate :: "MACTable \<Rightarrow> verdict" where
  "MACTable_Validate m = first_error
     [chk (mt_AgingTime m < MACAgingTimeMin \<or> mt_AgingTime m > MACAgingTimeMax) ''aging-time'',
      chk (mt_MaxEntries m < MACTableMaxEntriesMin \<or> mt_MaxEntries m > MACTableMaxEntriesMax) ''max-entries'',
      chk (mt_CurrentCount m > mt_MaxEntries m) ''current-count'',
      check_keyed MACEntry_Validate me_MAC ''duplicate mac-address'' [] (mt_Entries m)]"

definition LLDPNeighbor_Validate :: "LLDPNeighbor \<Rightarrow> verdict" where
  "LLDPNeighbor_Validate n = first_error
     [chk (ln_Port n = []) ''port'',
      chk (ln_ChassisID n = []) ''chassis-id'',
      chk (ln_PortID n = []) ''port-id'',
      chk (ln_TTL n = 0 \<or> ln_TTL n > LLDPTTLMax) ''ttl'']"

definition LLDPConfig_Validate :: "LLDPConfig \<Rightarrow> verdict" where
  "LLDPConfig_Validate c = first_error
     [chk (lc_TxInterval c < LLDPTxIntervalMin \<or> lc_TxInterval c > LLDPTxIntervalMax) ''tx-interval'',
      chk (lc_TxHoldMultiplier c < LLDPTxHoldMin \<or> lc_TxHoldMultiplier c > LLDPTxHoldMax) ''tx-hold-multiplier'',
      chk (lc_ReinitDelay c < LLDPReinitDelayMin \<or> lc_ReinitDelay c > LLDPReinitDelayMax) ''reinit-delay'',
      chk (lc_TxDelay c < LLDPTxDelayMin \<or> lc_TxDelay c > LLDPTxDelayMax) ''tx-delay'',
      chk (lc_ChassisID c = []) ''chassis-id'',
      check_keyed LLDPNeighbor_Validate ln_Port ''duplicate neighbour'' [] (lc_Neighbors c)]"

definition STPPort_Validate :: "STPPort \<Rightarrow> verdict" where
  "STPPort_Validate p = first_error
     [chk (sp_Port p = []) ''port'',
      chk (sp_Role p \<notin> {STPPortRoleRoot, STPPortRoleDesignated, STPPortRoleAlternate, STPPortRoleBackup}) ''role'',
      chk (sp_State p \<notin> {STPPortStateDisabled, STPPortStateBlocking, STPPortStateListening,
                        STPPortStateDiscarding, STPPortStateLearning, STPPortStateForwarding}) ''state'',
      chk (sp_Priority p > STPPortPriorityMax \<or> sp_Priority p mod STPPortPriorityStep \<noteq> 0) ''priority'']"

definition STPState_Validate :: "STPState \<Rightarrow> verdict" where
  "STPState_Validate s = first_error
     [chk (st_Protocol s \<notin> {STPProtocolSTP, STPProtocolRSTP}) ''protocol'',
      chk (st_BridgePriority s > STPBridgePriorityMax \<or> st_BridgePriority s mod STPBridgePriorityStep \<noteq> 0) ''bridge-priority'',
      chk (st_BridgeAddress s \<noteq> [] \<and> \<not> validMAC (st_BridgeAddress s)) ''bridge-address'',
      chk (st_RootID s \<noteq> [] \<and> \<not> validMAC (st_RootID s)) ''root-id'',
      (if st_Enabled s
       then check_all (\<lambda>p. first_error [STPPort_Validate p,
              chk (sp_State p \<notin> set (STPPortStates (st_Protocol s))) ''state'']) (st_Ports s)
       else None)]"

lemmas l2_validate_defs = InterfaceCounters_Validate_def Interface_Validate_def validateQinQ_def
  VLANPort_Validate_def VLAN_Validate_def MACEntry_Validate_def MACTable_Validate_def
  LLDPNeighbor_Validate_def LLDPConfig_Validate_def STPPort_Validate_def STPState_Validate_def

section \<open>Synchronization\<close>

type_synonym QL = string

definition QLPRC :: QL where "QLPRC = ''QL-PRC''"
definition QLSSUA :: QL where "QLSSUA = ''QL-SSU-A''"
definition QLSSUB :: QL where "QLSSUB = ''QL-SSU-B''"
definition QLSEC :: QL where "QLSEC = ''QL-SEC''"
definition QLDNU :: QL where "QLDNU = ''QL-DNU''"
definition ExtendedQLPRTC :: string where "ExtendedQLPRTC = ''QL-PRTC''"
definition ExtendedQLPRTCEnhanced :: string where "ExtendedQLPRTCEnhanced = ''QL-ePRTC''"
definition ExtendedQLEECEnhanced :: string where "ExtendedQLEECEnhanced = ''QL-eEEC''"
definition PTPModeMaster :: string where "PTPModeMaster = ''master''"
definition PTPModeSlave :: string where "PTPModeSlave = ''slave''"
definition PTPModeBoundary :: string where "PTPModeBoundary = ''boundary''"
definition PTPDomainMax :: u8 where "PTPDomainMax = 127"
definition PTPStateFreerun :: string where "PTPStateFreerun = ''freerun''"
definition PTPStateAcquiring :: string where "PTPStateAcquiring = ''acquiring''"
definition PTPStateLocked :: string where "PTPStateLocked = ''locked''"
definition PTPStateHoldoverInSpec :: string where "PTPStateHoldoverInSpec = ''holdover-in-spec''"
definition PTPStateHoldoverOutOfSpec :: string where "PTPStateHoldoverOutOfSpec = ''holdover-out-of-spec''"

lemmas ql_consts = QLPRC_def QLSSUA_def QLSSUB_def QLSEC_def QLDNU_def ExtendedQLPRTC_def
  ExtendedQLPRTCEnhanced_def ExtendedQLEECEnhanced_def
lemmas ptp_consts = PTPModeMaster_def PTPModeSlave_def PTPModeBoundary_def PTPDomainMax_def
  PTPStateFreerun_def PTPStateAcquiring_def PTPStateLocked_def PTPStateHoldoverInSpec_def
  PTPStateHoldoverOutOfSpec_def

record PTPClock =
  ptp_Mode :: string
  ptp_Domain :: u8
  ptp_Priority1 :: u8
  ptp_Priority2 :: u8
  ptp_ClockClass :: u8
  ptp_ClockAccuracy :: u8
  ptp_HoldoverTimeout :: u32
  ptp_State :: string
  ptp_Offset :: float64
  ptp_Jitter :: float64

record SyncEInterface =
  si_Name :: string
  si_SSMEnabled :: bool
  si_QL :: QL
  si_ExtendedQL :: string
  si_Priority :: u8
  si_PTPPreference :: bool

record ESMC =
  es_Enabled :: bool
  es_TxInterval :: u32
  es_ExtendedCodes :: bool

record SyncEState =
  se_Enabled :: bool
  se_SelectedSource :: string
  se_SelectedQL :: QL
  se_SelectedExtendedQL :: string
  se_Interfaces :: "SyncEInterface list"
  se_ESMC :: ESMC

definition QL_Validate :: "QL \<Rightarrow> verdict" where
  "QL_Validate q = chk (q \<notin> {QLPRC, QLSSUA, QLSSUB, QLSEC, QLDNU}) ''unknown quality level''"

definition ptp_states :: "string set" where
  "ptp_states = {PTPStateFreerun, PTPStateAcquiring, PTPStateLocked, PTPStateHoldoverInSpec,
     PTPStateHoldoverOutOfSpec}"

definition PTPClock_Validate :: "PTPClock \<Rightarrow> verdict" where
  "PTPClock_Validate c = first_error
     [chk (ptp_Mode c \<notin> {PTPModeMaster, PTPModeSlave, PTPModeBoundary}) ''mode'',
      chk (ptp_Domain c > PTPDomainMax) ''domain'',
      chk (ptp_HoldoverTimeout c = 0) ''holdover-timeout'',
      chk (\<not> finite_f (ptp_Offset c)) ''offset'',
      chk (\<not> finite_f (ptp_Jitter c)) ''jitter'',
      chk (ptp_State c \<noteq> [] \<and> ptp_State c \<notin> ptp_states) ''state'']"

definition extended_qls :: "string set" where
  "extended_qls = {[], ExtendedQLPRTC, ExtendedQLPRTCEnhanced, ExtendedQLEECEnhanced}"

definition SyncEInterface_Validate :: "SyncEInterface \<Rightarrow> verdict" where
  "SyncEInterface_Validate i = first_error
     [chk (si_Name i = []) ''name'',
      QL_Validate (si_QL i),
      chk (si_ExtendedQL i \<notin> extended_qls) ''extended-ql'']"

definition ESMC_Validate :: "ESMC \<Rightarrow> verdict" where
  "ESMC_Validate e = chk (es_TxInterval e = 0) ''tx-interval''"

definition SyncEState_Validate :: "SyncEState \<Rightarrow> verdict" where
  "SyncEState_Validate s = first_error
     [check_keyed SyncEInterface_Validate si_Name ''duplicate interface'' [] (se_Interfaces s),
      chk (se_SelectedSource s \<noteq> [] \<and> se_SelectedSource s \<notin> si_Name ` set (se_Interfaces s)) ''selected-source'',
      (if se_SelectedQL s \<noteq> [] then QL_Validate (se_SelectedQL s) else None),
      chk (se_SelectedExtendedQL s \<notin> extended_qls) ''selected-extended-ql'',
      ESMC_Validate (se_ESMC s)]"

lemmas sync_validate_defs = QL_Validate_def PTPClock_Validate_def SyncEInterface_Validate_def
  ESMC_Validate_def SyncEState_Validate_def

section \<open>The device\<close>

record SystemInfo =
  sy_DeviceID :: string
  sy_Name :: string
  sy_Description :: string
  sy_Contact :: string
  sy_Location :: string
  sy_Uptime :: u32

record Device =
  dv_SystemInfo :: SystemInfo
  dv_Interfaces :: "Interface list"
  dv_VLANs :: "VLAN list"
  dv_MACTable :: MACTable
  dv_STP :: STPState
  dv_LLDP :: LLDPConfig
  dv_PTP :: PTPClock
  dv_SyncE :: SyncEState

definition SystemInfo_Validate :: "SystemInfo \<Rightarrow> verdict" where
  "SystemInfo_Validate s = chk (sy_DeviceID s = []) ''device-id''"

definition Device_Validate :: "Device \<Rightarrow> verdict" where
  "Device_Validate d = first_error
     [SystemInfo_Validate (dv_SystemInfo d),
      check_keyed Interface_Validate if_Name ''duplicate interface'' [] (dv_Interfaces d),
      check_keyed VLAN_Validate vl_ID ''duplicate vlan id'' [] (dv_VLANs d),
      MACTable_Validate (dv_MACTable d),
      STPState_Validate (dv_STP d),
      LLDPConfig_Validate (dv_LLDP d),
      PTPClock_Validate (dv_PTP d),
      SyncEState_Validate (dv_SyncE d)]"

section \<open>The seed\<close>

definition DefaultMACAgingTime :: u32 where "DefaultMACAgingTime = 300"

definition profile_rows :: "(string \<times> string \<times> real \<times> real \<times> u32) list" where
  "profile_rows =
     [(''QPSK'', ''1/2'', 1, - 88, 28), (''QPSK'', ''3/4'', 3/2, - 86, 42),
      (''8PSK'', ''2/3'', 2, - 83, 56), (''16QAM'', ''3/4'', 3, - 79, 84),
      (''32QAM'', ''4/5'', 4, - 76, 112), (''64QAM'', ''4/5'', 5, - 73, 140),
      (''128QAM'', ''5/6'', 6, - 70, 168), (''256QAM'', ''5/6'', 7, - 67, 196),
      (''512QAM'', ''7/8'', 8, - 64, 224), (''1024QAM'', ''7/8'', 9, - 61, 252),
      (''2048QAM'', ''8/9'', 10, - 58, 280), (''4096QAM'', ''9/10'', 11, - 55, 308)]"

definition defaultProfiles :: "ModProfile list" where
  "defaultProfiles =
     map (\<lambda>(i, m, c, eff, thr, cap).
        \<lparr>mp_ID = of_nat (i + 1), mp_Name = ''acm-'' @ itoa (i + 1), mp_Modulation = m, mp_CodingRate = c,
         mp_SpectralEfficiency = Fin eff, mp_RSLThreshold = Fin thr, mp_Capacity = cap\<rparr>)
       (enumerate 0 profile_rows)"

definition defaultLink :: RadioLink where
  "defaultLink =
     \<lparr>rl_Name = ''radio0'', rl_TxPower = Fin 20, rl_RSSI = Fin (- 72.5), rl_FadeMargin = Fin 12.5,
      rl_Capacity = 112, rl_LinkState = RadioLinkStateUp,
      rl_LinkBudget = \<lparr>lb_LinkLength = Fin 12.5, lb_Frequency = Fin 18, lb_TxAntennaGain = Fin 38,
        lb_RxAntennaGain = Fin 38, lb_FeedLoss = Fin 2, lb_CalculatedRSL = Fin (- 72.5)\<rparr>,
      rl_ATPC = \<lparr>atpc_Enabled = True, atpc_TargetRSL = Fin (- 45), atpc_MinPower = Fin (- 10),
        atpc_MaxPower = Fin 30, atpc_Range = Fin 20, atpc_CurrentPower = Fin 18.5\<rparr>,
      rl_ACM = \<lparr>acm_Enabled = True, acm_Mode = ACMModeAdaptive, acm_MinProfile = MinACMProfile,
        acm_MaxProfile = MaxACMProfile, acm_CurrentProfile = 5, acm_CurrentCapacity = 112\<rparr>,
      rl_Profiles = defaultProfiles\<rparr>"

definition zero_counters :: InterfaceCounters where
  "zero_counters = \<lparr>ic_InOctets = 0, ic_OutOctets = 0, ic_InUcastPkts = 0, ic_OutUcastPkts = 0,
     ic_InErrors = 0, ic_OutErrors = 0, ic_InDiscards = 0, ic_OutDiscards = 0\<rparr>"

definition defaultPTPClock :: PTPClock where
  "defaultPTPClock = \<lparr>ptp_Mode = PTPModeMaster, ptp_Domain = 24, ptp_Priority1 = 128, ptp_Priority2 = 128,
     ptp_ClockClass = 6, ptp_ClockAccuracy = 0x21, ptp_HoldoverTimeout = 300, ptp_State = PTPStateLocked,
     ptp_Offset = Fin 0, ptp_Jitter = Fin 0\<rparr>"

definition defaultSyncEState :: SyncEState where
  "defaultSyncEState = \<lparr>se_Enabled = True, se_SelectedSource = ''eth0'', se_SelectedQL = QLPRC,
     se_SelectedExtendedQL = [],
     se_Interfaces =
       [\<lparr>si_Name = ''eth0'', si_SSMEnabled = True, si_QL = QLPRC, si_ExtendedQL = [], si_Priority = 10, si_PTPPreference = True\<rparr>,
        \<lparr>si_Name = ''eth1'', si_SSMEnabled = True, si_QL = QLSSUA, si_ExtendedQL = [], si_Priority = 20, si_PTPPreference = False\<rparr>],
     se_ESMC = \<lparr>es_Enabled = True, es_TxInterval = 1, es_ExtendedCodes = False\<rparr>\<rparr>"

definition defaultVLAN :: VLAN where
  "defaultVLAN = \<lparr>vl_ID = 100, vl_Name = ''DATA'', vl_Description = ''default data vlan'',
     vl_Ports = [\<lparr>vp_Port = ''eth0'', vp_Mode = VLANPortModeAccess, vp_PVID = 100, vp_Tagged = False,
       vp_QinQ = False, vp_OuterVID = 0, vp_CTagHandling = []\<rparr>]\<rparr>"

definition defaultSTPState :: STPState where
  "defaultSTPState = \<lparr>st_Enabled = True, st_Protocol = STPProtocolRSTP, st_BridgePriority = 32768,
     st_BridgeAddress = ''02:00:00:00:00:01'', st_RootID = ''02:00:00:00:00:01'', st_RootCost = 0,
     st_Ports =
       [\<lparr>sp_Port = ''eth0'', sp_Role = STPPortRoleRoot, sp_State = STPPortStateForwarding, sp_Priority = 128,
         sp_PathCost = 20000, sp_EdgePort = False\<rparr>,
        \<lparr>sp_Port = ''eth1'', sp_Role = STPPortRoleAlternate, sp_State = STPPortStateDiscarding, sp_Priority = 128,
         sp_PathCost = 20000, sp_EdgePort = False\<rparr>]\<rparr>"

definition defaultLLDPConfig :: LLDPConfig where
  "defaultLLDPConfig = \<lparr>lc_Enabled = True, lc_TxInterval = 30, lc_TxHoldMultiplier = 4, lc_ReinitDelay = 2,
     lc_TxDelay = 2, lc_ChassisID = ''02:00:00:00:00:01'', lc_SystemName = ''triadsim-01'',
     lc_SystemDescription = ''TriadSim simulated telecom device'', lc_Neighbors = []\<rparr>"

definition DefaultDevice :: Device where
  "DefaultDevice =
     \<lparr>dv_SystemInfo = \<lparr>sy_DeviceID = ''sim-001'', sy_Name = ''triadsim-01'',
        sy_Description = ''TriadSim simulated telecom device'', sy_Contact = ''noc@example.net'',
        sy_Location = ''lab'', sy_Uptime = 0\<rparr>,
      dv_Interfaces =
        [\<lparr>if_Name = ''radio0'', if_Type = InterfaceTypeRadio, if_Enabled = True, if_MTU = 1500, if_MACAddress = [],
          if_RadioLink = Some defaultLink, if_Counters = zero_counters\<rparr>,
         \<lparr>if_Name = ''eth0'', if_Type = InterfaceTypeEthernet, if_Enabled = True, if_MTU = 1500,
          if_MACAddress = ''02:00:00:00:00:01'', if_RadioLink = None, if_Counters = zero_counters\<rparr>,
         \<lparr>if_Name = ''eth1'', if_Type = InterfaceTypeEthernet, if_Enabled = True, if_MTU = 1500,
          if_MACAddress = ''02:00:00:00:00:02'', if_RadioLink = None, if_Counters = zero_counters\<rparr>],
      dv_VLANs = [defaultVLAN],
      dv_MACTable = \<lparr>mt_Entries = [\<lparr>me_MAC = ''02:00:00:00:00:02'', me_VLAN = 100, me_Port = 3,
          me_Type = MACEntryTypeStatic, me_Age = 0, me_Permanent = True\<rparr>],
        mt_AgingTime = DefaultMACAgingTime, mt_MaxEntries = 8192, mt_CurrentCount = 1\<rparr>,
      dv_STP = defaultSTPState, dv_LLDP = defaultLLDPConfig, dv_PTP = defaultPTPClock,
      dv_SyncE = defaultSyncEState\<rparr>"

lemma defaultProfiles_ids: "map mp_ID defaultProfiles = [1, 2, 3, 4, 5, 6, 7, 8, 9, 10, 11, 12]"
  by (simp add: defaultProfiles_def profile_rows_def)

lemma defaultProfiles_valid: "\<forall>p \<in> set defaultProfiles. ModProfile_Validate p = None"
  by (simp add: defaultProfiles_def profile_rows_def ModProfile_Validate_def radio_consts)

lemma defaultLink_valid: "RadioLink_Validate defaultLink = None"
  using defaultProfiles_valid
  by (simp add: defaultLink_def RadioLink_Validate_def LinkBudget_Validate_def ATPC_Validate_def
      ACM_Validate_def radio_consts defaultProfiles_ids)

lemma default_macs: "validMAC ''02:00:00:00:00:01''" "validMAC ''02:00:00:00:00:02''"
  by (simp_all add: validMAC_def parseMAC_def hex_byte_def hex_val_def digit_val_def Let_def)

lemma defaultVLAN_valid: "VLAN_Validate defaultVLAN = None"
  by (simp add: VLAN_Validate_def VLANPort_Validate_def validateQinQ_def defaultVLAN_def l2_consts)

lemma defaultSTPState_valid: "STPState_Validate defaultSTPState = None"
  by (simp add: defaultSTPState_def STPState_Validate_def STPPort_Validate_def STPPortStates_def
      l2_consts default_macs)

lemma defaultLLDPConfig_valid: "LLDPConfig_Validate defaultLLDPConfig = None"
  by (simp add: defaultLLDPConfig_def LLDPConfig_Validate_def l2_consts)

lemma defaultPTPClock_valid: "PTPClock_Validate defaultPTPClock = None"
  by (simp add: defaultPTPClock_def PTPClock_Validate_def ptp_states_def ptp_consts)

lemma defaultSyncEState_valid: "SyncEState_Validate defaultSyncEState = None"
  by (simp add: defaultSyncEState_def SyncEState_Validate_def SyncEInterface_Validate_def
      QL_Validate_def extended_qls_def ESMC_Validate_def)


end
