(* ===== verification/Domain.thy ===== *)
theory Domain
  imports EventBus GoValues
begin

text \<open>
  What the domain managers (\<open>src/internal/radio\<close>, \<open>sync\<close>, \<open>l2\<close>) share.  A manager writes measured
  leaves through \<open>Router.SetState\<close>; that function and the world it changes are arguments of the
  manager's operations.  A manager with a bus publishes events stamped with its clock; the alarms
  a client sees as active are the result of playing those events.
\<close>

section \<open>State writes\<close>

type_synonym ('e, 'w) set_state = "string \<Rightarrow> goval \<Rightarrow> 'w \<Rightarrow> 'e option \<times> 'w"

text \<open>The write loop: every leaf is tried, the errors are joined.\<close>

fun write_all :: "('e, 'w) set_state \<Rightarrow> (string \<times> goval) list \<Rightarrow> 'w \<Rightarrow> (string \<times> 'e) list \<times> 'w" where
  "write_all setState [] w = ([], w)"
| "write_all setState ((p, v) # ws) w =
     (case setState p v w of
        (err, w1) \<Rightarrow>
          (case write_all setState ws w1 of
             (errs, w2) \<Rightarrow> ((case err of None \<Rightarrow> errs | Some e \<Rightarrow> (p, e) # errs), w2)))"

section \<open>Active alarms\<close>

definition apply_alarm :: "string set \<Rightarrow> event \<Rightarrow> string set" where
  "apply_alarm as e =
     (case ev_type e of
        TypeAlarmRaised \<Rightarrow> insert (ev_alarm e) as
      | TypeAlarmCleared \<Rightarrow> as - {ev_alarm e}
      | _ \<Rightarrow> as)"

lemma stamp_alarm [simp]: "apply_alarm as (stamp now e) = apply_alarm as e"
  by (cases "ev_type e") (simp_all add: apply_alarm_def stamp_def)

section \<open>Sequencing of fallible steps\<close>

text \<open>A step returns its error and the new state.  The code returns at the first error; a loop body
  is run for each element until one fails.\<close>

definition then_ok :: "'e option \<times> 's \<Rightarrow> ('s \<Rightarrow> 'e option \<times> 's) \<Rightarrow> 'e option \<times> 's" where
  "then_ok r k = (case r of (Some e, s) \<Rightarrow> (Some e, s) | (None, s) \<Rightarrow> k s)"

lemma then_ok_simps [simp]:
  "then_ok (None, s) k = k s" "then_ok (Some e, s) k = (Some e, s)"
  by (simp_all add: then_ok_def)

fun each :: "('a \<Rightarrow> 's \<Rightarrow> 'e option \<times> 's) \<Rightarrow> 'a list \<Rightarrow> 's \<Rightarrow> 'e option \<times> 's" where
  "each f [] s = (None, s)"
| "each f (x # xs) s = then_ok (f x s) (each f xs)"

text \<open>What every step keeps, a loop keeps.\<close>

lemma then_ok_keeps: "P (snd r) \<Longrightarrow> (\<And>s. P s \<Longrightarrow> P (snd (k s))) \<Longrightarrow> P (snd (then_ok r k))"
  by (cases r) (auto simp: then_ok_def split: option.splits)

lemma each_keeps: "P s \<Longrightarrow> (\<And>x s. x \<in> set xs \<Longrightarrow> P s \<Longrightarrow> P (snd (f x s))) \<Longrightarrow> P (snd (each f xs s))"
proof (induction xs arbitrary: s)
  case (Cons x xs)
  have "P (snd (f x s))" using Cons.prems by simp
  moreover have "P (snd (each f xs t))" if "P t" for t
    using that Cons.prems(2) by (intro Cons.IH) simp_all
  ultimately show ?case by (simp add: then_ok_keeps)
qed simp

end
