(* ===== verification/Radio.thy ===== *)
theory Radio
  imports Model Domain
begin

text \<open>
  The radio-link domain (\<open>src/internal/radio\<close>): link budget and fade, the ATPC control step, the
  ACM profile selection, the link-state machine with its alarms, and the manager that evaluates
  every radio link once per tick.

  The manager writes measured leaves through \<open>Router.SetState\<close>; that function and the world it
  changes are arguments here (\<open>setState\<close>), so that the domain is modelled on its own.  The events
  the manager publishes are returned in order.
\<close>

section \<open>Power control and link budget\<close>

definition clamp :: "float64 \<Rightarrow> float64 \<Rightarrow> float64 \<Rightarrow> float64" where
  "clamp value lo hi = f64_min (f64_max value lo) hi"

definition atpcStep :: "ATPC \<Rightarrow> float64 \<Rightarrow> float64 \<Rightarrow> float64" where
  "atpcStep a measuredRSL stepDB =
     (let delta = clamp (f64_sub (atpc_TargetRSL a) measuredRSL) (f64_neg stepDB) stepDB
      in clamp (f64_add (atpc_CurrentPower a) delta) (atpc_MinPower a) (atpc_MaxPower a))"

definition atmLossDB :: float64 where "atmLossDB = Fin (1/2)"
definition miscLossDB :: float64 where "miscLossDB = Fin (1/2)"

text \<open>The constant \<open>92.45\<close> is the nearest \<open>float64\<close>.\<close>

definition freeSpaceLossDB :: "float64 \<Rightarrow> float64 \<Rightarrow> float64" where
  "freeSpaceLossDB frequencyGHz lengthKm =
     f64_add (f64_add (f64_round 92.45) (f64_mul (Fin 20) (f64_log10 frequencyGHz)))
             (f64_mul (Fin 20) (f64_log10 lengthKm))"

definition effectiveTxPower :: "RadioLink \<Rightarrow> float64" where
  "effectiveTxPower link =
     (if atpc_Enabled (rl_ATPC link) then atpc_CurrentPower (rl_ATPC link) else rl_TxPower link)"

definition receivedLevel :: "RadioLink \<Rightarrow> float64 \<Rightarrow> float64" where
  "receivedLevel link txPower =
     (let budget = rl_LinkBudget link
      in f64_sub (f64_sub (f64_sub (f64_sub
           (f64_add (f64_add txPower (lb_TxAntennaGain budget)) (lb_RxAntennaGain budget))
           (freeSpaceLossDB (lb_Frequency budget) (lb_LinkLength budget)))
           (lb_FeedLoss budget)) atmLossDB) miscLossDB)"

definition applyFade :: "float64 \<Rightarrow> float64 \<Rightarrow> float64" where
  "applyFade level fadeDB = clamp (f64_sub level fadeDB) RSSIMinDBM RSSIMaxDBM"

section \<open>Adaptive modulation\<close>

fun profileByID :: "ModProfile list \<Rightarrow> u8 \<Rightarrow> ModProfile option" where
  "profileByID [] i = None"
| "profileByID (p # ps) i = (if mp_ID p = i then Some p else profileByID ps i)"

fun best_profile :: "ACM \<Rightarrow> float64 \<Rightarrow> ModProfile option \<Rightarrow> ModProfile list \<Rightarrow> ModProfile option" where
  "best_profile acm rssi best [] = best"
| "best_profile acm rssi best (p # ps) =
     (if mp_ID p < acm_MinProfile acm \<or> mp_ID p > acm_MaxProfile acm then best_profile acm rssi best ps
      else if f64_gt (mp_RSLThreshold p) rssi then best_profile acm rssi best ps
      else case best of
             None \<Rightarrow> best_profile acm rssi (Some p) ps
           | Some b \<Rightarrow> if mp_ID p > mp_ID b then best_profile acm rssi (Some p) ps
                       else best_profile acm rssi best ps)"

definition selectProfile :: "ACM \<Rightarrow> ModProfile list \<Rightarrow> float64 \<Rightarrow> ModProfile option" where
  "selectProfile acm profiles rssi =
     (if profiles = [] then None
      else if \<not> acm_Enabled acm \<or> acm_Mode acm = ACMModeFixed
      then (case profileByID profiles (acm_CurrentProfile acm) of
              Some p \<Rightarrow> Some p
            | None \<Rightarrow> profileByID profiles (acm_MinProfile acm))
      else (case best_profile acm rssi None profiles of
              Some p \<Rightarrow> Some p
            | None \<Rightarrow> profileByID profiles (acm_MinProfile acm)))"

section \<open>Link state and alarms\<close>

record thresholds =
  rssiAlarm :: float64
  rssiClear :: float64
  fadeMin :: float64
  fadeClear :: float64

definition linkDown :: "string \<Rightarrow> float64 \<Rightarrow> thresholds \<Rightarrow> bool" where
  "linkDown current rssi t =
     (if current = RadioLinkStateDown then f64_lt rssi (rssiClear t) else f64_lt rssi (rssiAlarm t))"

definition linkDegraded :: "string \<Rightarrow> float64 \<Rightarrow> thresholds \<Rightarrow> bool" where
  "linkDegraded current fadeMargin t =
     (if current = RadioLinkStateDegraded then f64_lt fadeMargin (fadeClear t)
      else f64_lt fadeMargin (fadeMin t))"

definition nextLinkState :: "string \<Rightarrow> float64 \<Rightarrow> float64 \<Rightarrow> thresholds \<Rightarrow> string" where
  "nextLinkState current rssi fadeMargin t =
     (if linkDown current rssi t then RadioLinkStateDown
      else if linkDegraded current fadeMargin t then RadioLinkStateDegraded
      else RadioLinkStateUp)"

text \<open>Go's \<open>%.1f\<close>.\<close>

fun fmt_f1 :: "float64 \<Rightarrow> string" where
  "fmt_f1 NaN = ''NaN''"
| "fmt_f1 PosInf = ''+Inf''"
| "fmt_f1 NegInf = ''-Inf''"
| "fmt_f1 (Fin r) =
     (let n = nat (round_half_even (\<bar>r\<bar> * 10))
      in (if r < 0 then ''-'' else []) @ itoa (n div 10) @ ''.'' @ itoa (n mod 10))"

definition cleared_event :: "string \<Rightarrow> string \<Rightarrow> string \<Rightarrow> event" where
  "cleared_event name alarm message =
     \<lparr>ev_type = TypeAlarmCleared, ev_resource = name, ev_severity = ''cleared'', ev_message = message,
      ev_domain = DomainRadio, ev_alarm = alarm, ev_from = [], ev_to = [], ev_timestamp = 0\<rparr>"

definition raised_event :: "string \<Rightarrow> string \<Rightarrow> string \<Rightarrow> string \<Rightarrow> event" where
  "raised_event name alarm severity message =
     \<lparr>ev_type = TypeAlarmRaised, ev_resource = name, ev_severity = severity, ev_message = message,
      ev_domain = DomainRadio, ev_alarm = alarm, ev_from = [], ev_to = [], ev_timestamp = 0\<rparr>"

definition report :: "string \<Rightarrow> string \<Rightarrow> string \<Rightarrow> float64 \<Rightarrow> float64 \<Rightarrow> event list" where
  "report name current nxt rssi fadeMargin =
     (if current = RadioLinkStateDown
      then [cleared_event name AlarmRadioLinkDown
              (''radio link '' @ name @ '' up: rssi '' @ fmt_f1 rssi @ '' dBm'')]
      else if current = RadioLinkStateDegraded
      then [cleared_event name AlarmRadioLinkDegraded
              (''radio link '' @ name @ '' recovered: fade margin '' @ fmt_f1 fadeMargin @ '' dB'')]
      else []) @
     (if nxt = RadioLinkStateDown
      then [raised_event name AlarmRadioLinkDown ''critical''
              (''radio link '' @ name @ '' down: rssi '' @ fmt_f1 rssi @ '' dBm'')]
      else if nxt = RadioLinkStateDegraded
      then [raised_event name AlarmRadioLinkDegraded ''major''
              (''radio link '' @ name @ '' degraded: fade margin '' @ fmt_f1 fadeMargin @ '' dB'')]
      else [])"

section \<open>The manager\<close>

datatype radio_error = ErrNoRouter | ErrUnknownLink string

record radio_deps =
  dep_RSSIAlarm :: float64
  dep_RSSIClear :: float64
  dep_FadeMin :: float64
  dep_FadeClear :: float64
  dep_ATPCStep :: float64
  dep_FailureFade :: float64

record radio_manager =
  rm_thresholds :: thresholds
  rm_atpcStepDB :: float64
  rm_failureFadeDB :: float64
  rm_hasBus :: bool
  rm_fade :: "(string, float64) gomap"
  rm_states :: "(string, string) gomap"
  rm_known :: "(string, bool) gomap"

definition or_default :: "float64 \<Rightarrow> float64 \<Rightarrow> float64" where
  "or_default v d = (if f64_eq v (Fin 0) then d else v)"

definition MaxInjectedFadeDB :: float64 where "MaxInjectedFadeDB = Fin 200"

definition New_radio :: "bool \<Rightarrow> bool \<Rightarrow> radio_deps \<Rightarrow> radio_error + radio_manager" where
  "New_radio hasRouter hasBus deps =
     (if \<not> hasRouter then Inl ErrNoRouter
      else Inr \<lparr>rm_thresholds = \<lparr>rssiAlarm = or_default (dep_RSSIAlarm deps) (Fin (- 85)),
                  rssiClear = or_default (dep_RSSIClear deps) (Fin (- 82)),
                  fadeMin = or_default (dep_FadeMin deps) (Fin 6),
                  fadeClear = or_default (dep_FadeClear deps) (Fin 8)\<rparr>,
                rm_atpcStepDB = or_default (dep_ATPCStep deps) (Fin 1),
                rm_failureFadeDB = or_default (dep_FailureFade deps) (Fin 60),
                rm_hasBus = hasBus, rm_fade = [], rm_states = [], rm_known = []\<rparr>)"

definition linkPath :: "string \<Rightarrow> string \<Rightarrow> string" where
  "linkPath ifaceName leaf = ''interfaces/interface[name='' @ ifaceName @ '']/radio-link/'' @ leaf"

definition validLinkState :: "string \<Rightarrow> bool" where
  "validLinkState state = (state \<in> {RadioLinkStateUp, RadioLinkStateDegraded, RadioLinkStateDown})"

text \<open>The measurement of one link: the level, the margin and the profile it selects.\<close>

definition link_rssi :: "radio_manager \<Rightarrow> string \<Rightarrow> RadioLink \<Rightarrow> float64" where
  "link_rssi m name link =
     applyFade (receivedLevel link (effectiveTxPower link)) (gm_get_or (Fin 0) (rm_fade m) name)"

definition link_margin :: "RadioLink \<Rightarrow> float64 \<Rightarrow> float64" where
  "link_margin link rssi =
     (case selectProfile (rl_ACM link) (rl_Profiles link) rssi of
        None \<Rightarrow> PosInf | Some p \<Rightarrow> f64_sub rssi (mp_RSLThreshold p))"

definition link_writes :: "radio_manager \<Rightarrow> string \<Rightarrow> RadioLink \<Rightarrow> (string \<times> goval) list" where
  "link_writes m name link =
     (let clearSky = receivedLevel link (effectiveTxPower link);
          rssi = link_rssi m name link
      in [(''rssi'', GFloat rssi), (''link-budget/calculated-rsl'', GFloat (applyFade clearSky (Fin 0)))]
         @ (case selectProfile (rl_ACM link) (rl_Profiles link) rssi of
              None \<Rightarrow> []
            | Some p \<Rightarrow>
                [(''fade-margin'', GFloat (link_margin link rssi)), (''capacity'', GUint32 (mp_Capacity p)),
                 (''acm/current-profile'', GUint8 (mp_ID p)), (''acm/current-capacity'', GUint32 (mp_Capacity p))])
         @ (if atpc_Enabled (rl_ATPC link)
            then [(''atpc/current-power'', GFloat (atpcStep (rl_ATPC link) rssi (rm_atpcStepDB m)))] else []))"

definition evaluateLink ::
    "('e, 'w) set_state \<Rightarrow> time \<Rightarrow> string \<Rightarrow> RadioLink \<Rightarrow> radio_manager \<times> 'w
      \<Rightarrow> (string \<times> 'e) list \<times> (radio_manager \<times> 'w) \<times> event list" where
  "evaluateLink setState now name link mw =
     (let m = fst mw; rssi = link_rssi m name link; fadeMargin = link_margin link rssi in
      case write_all setState (map (\<lambda>(s, v). (linkPath name s, v)) (link_writes m name link)) (snd mw) of
        (errs, w1) \<Rightarrow>
          if errs \<noteq> [] then (errs, (m, w1), [])
          else
            let known = gm_get_or False (rm_known m) name;
                current = (if known then gm_get_or [] (rm_states m) name
                           else if validLinkState (rl_LinkState link) then rl_LinkState link
                           else RadioLinkStateUp);
                m1 = (if known then m else m\<lparr>rm_known := AList.update name True (rm_known m)\<rparr>);
                nxt = nextLinkState current rssi fadeMargin (rm_thresholds m)
            in if nxt = current
               then ([], (m1\<lparr>rm_states := AList.update name nxt (rm_states m1)\<rparr>, w1), [])
               else (case setState (linkPath name ''link-state'') (GString nxt) w1 of
                       (Some e, w2) \<Rightarrow> ([(linkPath name ''link-state'', e)], (m1, w2), [])
                     | (None, w2) \<Rightarrow>
                         ([], (m1\<lparr>rm_states := AList.update name nxt (rm_states m1)\<rparr>, w2),
                          if rm_hasBus m
                          then map (stamp now) (report name current nxt rssi fadeMargin) else [])))"

fun tick_links ::
    "('e, 'w) set_state \<Rightarrow> time \<Rightarrow> Interface list \<Rightarrow> radio_manager \<times> 'w
      \<Rightarrow> (string \<times> 'e) list \<times> (radio_manager \<times> 'w) \<times> event list" where
  "tick_links setState now [] mw = ([], mw, [])"
| "tick_links setState now (i # is) mw =
     (case if_RadioLink i of
        None \<Rightarrow> tick_links setState now is mw
      | Some link \<Rightarrow>
          (case evaluateLink setState now (if_Name i) link mw of
             (errs, mw1, evs) \<Rightarrow>
               (case tick_links setState now is mw1 of
                  (errs', mw2, evs') \<Rightarrow> (errs @ errs', mw2, evs @ evs'))))"

text \<open>\<open>Tick\<close> works on the snapshot of running; a snapshot that fails ends the tick.\<close>

definition Tick_radio ::
    "('e, 'w) set_state \<Rightarrow> time \<Rightarrow> 's + Device \<Rightarrow> radio_manager \<times> 'w
      \<Rightarrow> ('s + (string \<times> 'e) list) \<times> (radio_manager \<times> 'w) \<times> event list" where
  "Tick_radio setState now snapshot mw =
     (case snapshot of
        Inl e \<Rightarrow> (Inl e, mw, [])
      | Inr device \<Rightarrow>
          (case tick_links setState now (dv_Interfaces device) mw of
             (errs, mw1, evs) \<Rightarrow> (Inr errs, mw1, evs)))"

fun findRadioInterface :: "Interface list \<Rightarrow> string \<Rightarrow> (string \<times> RadioLink) option" where
  "findRadioInterface [] link = None"
| "findRadioInterface (i # is) link =
     (case if_RadioLink i of
        None \<Rightarrow> findRadioInterface is link
      | Some r \<Rightarrow> if link = [] \<or> if_Name i = link then Some (if_Name i, r) else findRadioInterface is link)"

definition inject ::
    "('e, 'w) set_state \<Rightarrow> time \<Rightarrow> Device \<Rightarrow> string \<Rightarrow> float64 \<Rightarrow> bool \<Rightarrow> radio_manager \<times> 'w
      \<Rightarrow> (radio_error + string \<times> (string \<times> 'e) list) \<times> (radio_manager \<times> 'w) \<times> event list" where
  "inject setState now device link fadeDB restore mw =
     (case findRadioInterface (dv_Interfaces device) link of
        None \<Rightarrow> (Inl (ErrUnknownLink link), mw, [])
      | Some (name, r) \<Rightarrow>
          let m = fst mw;
              depth = (if f64_le fadeDB (Fin 0) then rm_failureFadeDB m else fadeDB);
              m1 = (if restore then m\<lparr>rm_fade := AList.delete name (rm_fade m)\<rparr>
                    else m\<lparr>rm_fade := AList.update name (f64_min depth MaxInjectedFadeDB) (rm_fade m)\<rparr>)
          in (case evaluateLink setState now name r (m1, snd mw) of
                (errs, mw1, evs) \<Rightarrow> (Inr (gm_get_or [] (rm_states (fst mw1)) name, errs), mw1, evs)))"

definition RadioFailure where
  "RadioFailure setState now device link fadeDB mw = inject setState now device link fadeDB False mw"

definition RadioRestore where
  "RadioRestore setState now device link mw = inject setState now device link (Fin 0) True mw"

end
