(* ===== verification/RadioLaws.thy ===== *)
theory RadioLaws
  imports Radio Contracts
begin

text \<open>
  Laws of the radio domain: every measured leaf the domain writes stays in the range the model
  validates, ATPC stays in its window, ACM picks the best usable profile, the link state has
  hysteresis, and raised and cleared alarms match the link state.
\<close>

section \<open>Ranges\<close>

lemma clamp_range:
  assumes "\<not> isNaN v" "lo \<le> hi"
  shows "\<exists>r. clamp v (Fin lo) (Fin hi) = Fin r \<and> lo \<le> r \<and> r \<le> hi"
  using assms by (cases v) (auto simp: clamp_def)

lemma clamp_not_NaN: "\<not> isNaN v \<Longrightarrow> \<exists>r. clamp v (Fin lo) (Fin hi) = Fin r"
  by (cases v) (auto simp: clamp_def)

text \<open>Sums of moderate values are finite and moderate.\<close>

lemma f64_add_bound:
  assumes "\<bar>a\<bar> \<le> 10000" "\<bar>b\<bar> \<le> 10000"
  shows "\<exists>y. f64_add (Fin a) (Fin b) = Fin y \<and> \<bar>y\<bar> \<le> 2 * (\<bar>a\<bar> + \<bar>b\<bar>) + 1"
proof -
  have ab: "\<bar>a + b\<bar> \<le> \<bar>a\<bar> + \<bar>b\<bar>" by (rule abs_triangle_ineq)
  also have "\<dots> \<le> 20000" using assms by linarith
  also have "(20000 :: real) \<le> 2 ^ 1000" by simp
  finally obtain y where "f64_round (a + b) = Fin y" "\<bar>y\<bar> \<le> 2 * \<bar>a + b\<bar> + 1"
    using f64_round_bound by blast
  then show ?thesis using ab by (intro exI[of _ y]) auto
qed

lemma log_term_bound:
  assumes "6 \<le> x" "x \<le> 86"
  shows "\<exists>y. f64_mul (Fin 20) (f64_log10 (Fin x)) = Fin y \<and> \<bar>y\<bar> \<le> 1000"
proof -
  have l: "0 \<le> log 10 x" "log 10 x \<le> 2" using assms by (auto simp: log_le_iff)
  have "\<bar>log 10 x\<bar> \<le> 2 ^ 1000" using l by (simp add: abs_of_nonneg)
  then obtain y where y: "f64_round (log 10 x) = Fin y" "\<bar>y\<bar> \<le> 2 * \<bar>log 10 x\<bar> + 1"
    using f64_round_bound by blast
  with l have "\<bar>20 * y\<bar> \<le> 100" by (simp add: abs_mult)
  moreover have "(100 :: real) \<le> 2 ^ 1000" by simp
  ultimately obtain z where "f64_round (20 * y) = Fin z" "\<bar>z\<bar> \<le> 2 * \<bar>20 * y\<bar> + 1"
    using f64_round_bound[of "20 * y"] by (meson order_trans)
  with y \<open>\<bar>20 * y\<bar> \<le> 100\<close> assms show ?thesis by (intro exI[of _ z]) auto
qed

lemma log_term_not_NaN:
  assumes "0 < x"
  shows "\<not> isNaN (f64_mul (Fin 20) (f64_log10 (Fin x)))"
proof -
  have "f64_round (log 10 x) \<noteq> NaN"
    using f64_round_not_NaN[of "log 10 x"] unfolding isNaN_def .
  with assms show ?thesis
    by (cases "f64_round (log 10 x)") (auto simp: f64_signed_inf_def)
qed

lemma freeSpaceLossDB_not_NaN:
  assumes "6 \<le> f" "f \<le> 86" "0 < d"
  shows "\<not> isNaN (freeSpaceLossDB (Fin f) (Fin d))"
proof -
  have "\<exists>c. f64_round 92.45 = Fin c \<and> \<bar>c\<bar> \<le> 2 * \<bar>92.45\<bar> + 1"
    by (rule f64_round_bound) simp
  then obtain c where c: "f64_round 92.45 = Fin c" "\<bar>c\<bar> \<le> 200" by fastforce
  obtain y where y: "f64_mul (Fin 20) (f64_log10 (Fin f)) = Fin y" "\<bar>y\<bar> \<le> 1000"
    using log_term_bound assms by blast
  obtain z where "f64_add (Fin c) (Fin y) = Fin z"
    using f64_add_bound[of c y] c y by fastforce
  then show ?thesis
    using f64_add_not_NaN(1)[OF log_term_not_NaN[OF assms(3)], of z]
    unfolding freeSpaceLossDB_def c(1) y(1) by (simp only: not_False_eq_True)
qed

section \<open>Validated links\<close>

text \<open>What the domain relies on in a link that passed \<open>Validate\<close>.\<close>

lemma link_valid_bounds:
  assumes "RadioLink_Validate r = None"
  obtains tx len f g1 g2 fl where "rl_TxPower r = Fin tx" "- 10 \<le> tx" "tx \<le> 30"
    "lb_LinkLength (rl_LinkBudget r) = Fin len" "0 < len"
    "lb_Frequency (rl_LinkBudget r) = Fin f" "6 \<le> f" "f \<le> 86"
    "lb_TxAntennaGain (rl_LinkBudget r) = Fin g1" "30 \<le> g1" "g1 \<le> 45"
    "lb_RxAntennaGain (rl_LinkBudget r) = Fin g2" "30 \<le> g2" "g2 \<le> 45"
    "lb_FeedLoss (rl_LinkBudget r) = Fin fl" "1 \<le> fl" "fl \<le> 5"
proof -
  from assms have "inRange (rl_TxPower r) (Fin (- 10)) (Fin 30)" and lb: "LinkBudget_Validate (rl_LinkBudget r) = None"
    by (auto simp: RadioLink_Validate_def radio_consts)
  moreover from lb obtain len where "lb_LinkLength (rl_LinkBudget r) = Fin len" "0 < len"
    by (auto simp: LinkBudget_Validate_def finite_f_Fin)
  ultimately show thesis
    using that by (auto simp: LinkBudget_Validate_def inRange_Fin radio_consts)
qed

lemma atpc_valid_bounds:
  assumes "ATPC_Validate a = None"
  obtains t lo hi where "atpc_TargetRSL a = Fin t" "- 99 \<le> t" "t \<le> - 20"
    "atpc_MinPower a = Fin lo" "- 10 \<le> lo" "lo \<le> 30" "atpc_MaxPower a = Fin hi" "- 10 \<le> hi" "hi \<le> 30"
    "atpc_Enabled a \<longrightarrow> lo < hi"
  using assms by (auto simp: ATPC_Validate_def inRange_Fin radio_consts not_le)

lemma atpc_current_bounds:
  assumes "ATPC_Validate a = None" "atpc_Enabled a" "\<not> isNaN (atpc_CurrentPower a)"
  obtains p where "atpc_CurrentPower a = Fin p" "- 10 \<le> p" "p \<le> 30"
proof -
  obtain lo hi where "atpc_MinPower a = Fin lo" "- 10 \<le> lo" "atpc_MaxPower a = Fin hi" "hi \<le> 30"
    using assms(1) by (rule atpc_valid_bounds)
  with assms show thesis
    using that by (cases "atpc_CurrentPower a") (auto simp: ATPC_Validate_def)
qed

lemma tx_bounds:
  assumes "RadioLink_Validate r = None" "atpc_Enabled (rl_ATPC r) \<longrightarrow> \<not> isNaN (atpc_CurrentPower (rl_ATPC r))"
  obtains p where "effectiveTxPower r = Fin p" "- 10 \<le> p" "p \<le> 30"
proof (cases "atpc_Enabled (rl_ATPC r)")
  case True
  have "ATPC_Validate (rl_ATPC r) = None" using assms(1) by (simp add: RadioLink_Validate_def)
  then obtain p where "atpc_CurrentPower (rl_ATPC r) = Fin p" "- 10 \<le> p" "p \<le> 30"
    using atpc_current_bounds True assms(2) by blast
  with True show thesis using that by (simp add: effectiveTxPower_def)
next
  case False
  obtain tx where "rl_TxPower r = Fin tx" "- 10 \<le> tx" "tx \<le> 30"
    using assms(1) by (rule link_valid_bounds)
  with False show thesis using that by (simp add: effectiveTxPower_def)
qed

lemma receivedLevel_not_NaN:
  assumes "RadioLink_Validate r = None" "- 10 \<le> p" "p \<le> 30"
  shows "\<not> isNaN (receivedLevel r (Fin p))"
proof -
  obtain len f g1 g2 fl where b: "lb_LinkLength (rl_LinkBudget r) = Fin len" "0 < len"
    "lb_Frequency (rl_LinkBudget r) = Fin f" "6 \<le> f" "f \<le> 86"
    "lb_TxAntennaGain (rl_LinkBudget r) = Fin g1" "30 \<le> g1" "g1 \<le> 45"
    "lb_RxAntennaGain (rl_LinkBudget r) = Fin g2" "30 \<le> g2" "g2 \<le> 45"
    "lb_FeedLoss (rl_LinkBudget r) = Fin fl"
    using assms(1) by (rule link_valid_bounds)
  obtain y where y: "f64_add (Fin p) (Fin g1) = Fin y" "\<bar>y\<bar> \<le> 200"
    using f64_add_bound[of p g1] assms(2,3) b by fastforce
  obtain z where z: "f64_add (Fin y) (Fin g2) = Fin z"
    using f64_add_bound[of y g2] y b by fastforce
  have "\<not> isNaN (f64_sub (Fin z) (freeSpaceLossDB (Fin f) (Fin len)))"
    using b by (intro f64_sub_not_NaN freeSpaceLossDB_not_NaN)
  then show ?thesis
    unfolding receivedLevel_def Let_def b y(1) z atmLossDB_def miscLossDB_def
    by (intro f64_sub_not_NaN(2))
qed

lemma applyFade_range:
  assumes "\<not> isNaN level" "fd = Fin d \<or> fd = NegInf \<and> level \<noteq> NegInf"
  shows "\<exists>r. applyFade level fd = Fin r \<and> - 99 \<le> r \<and> r \<le> - 20"
proof -
  have "\<not> isNaN (f64_sub level fd)"
    using assms by (cases level) (auto simp: f64_sub_def)
  then show ?thesis
    using clamp_range[of _ "- 99" "- 20"] by (simp add: applyFade_def radio_consts)
qed

section \<open>Profile selection\<close>

interpretation profile_table: keyed_lookup mp_ID profileByID
  by unfold_locales auto

definition usable :: "ACM \<Rightarrow> float64 \<Rightarrow> ModProfile \<Rightarrow> bool" where
  "usable acm rssi p \<longleftrightarrow>
     acm_MinProfile acm \<le> mp_ID p \<and> mp_ID p \<le> acm_MaxProfile acm \<and> \<not> f64_gt (mp_RSLThreshold p) rssi"

fun highest :: "ModProfile option \<Rightarrow> ModProfile list \<Rightarrow> ModProfile option" where
  "highest b [] = b"
| "highest None (p # ps) = highest (Some p) ps"
| "highest (Some b) (p # ps) = highest (Some (if mp_ID b < mp_ID p then p else b)) ps"

interpretation profile_order: selection "\<lambda>p q. mp_ID q < mp_ID p" highest
proof
  fix c
  show "highest c [] = c" by simp
qed auto

lemma best_profile_highest: "best_profile acm rssi b ps = highest b (filter (usable acm rssi) ps)"
  by (induction acm rssi b ps rule: best_profile.induct)
    (auto simp: usable_def not_less split: option.splits)

lemma selectProfile_in_table:
  assumes "selectProfile acm ps rssi = Some p"
  shows "p \<in> set ps"
proof -
  from assms consider k where "profileByID ps k = Some p" | "highest None (filter (usable acm rssi) ps) = Some p"
    by (auto simp: selectProfile_def best_profile_highest split: if_splits option.splits)
  then show ?thesis
  proof cases
    case 1
    then show ?thesis using profile_table.lookup_Some by blast
  next
    case 2
    from profile_order.pick_best[OF this] show ?thesis by simp
  qed
qed

text \<open>Adaptive modulation picks the best profile the link can carry.  With ACM enabled and
  adaptive, the selected profile is the one with the highest identifier among the profiles inside
  the configured window whose receiver threshold the level meets; when no profile of the window is
  usable it is the table's entry for the window's minimum.  It never selects a profile outside the
  table.\<close>

theorem selectProfile_best:
  assumes "acm_Enabled acm" "acm_Mode acm \<noteq> ACMModeFixed" "ps \<noteq> []"
  shows "case selectProfile acm ps rssi of
      None \<Rightarrow> filter (usable acm rssi) ps = [] \<and> acm_MinProfile acm \<notin> mp_ID ` set ps
    | Some p \<Rightarrow> p \<in> set ps \<and>
        (if filter (usable acm rssi) ps = [] then mp_ID p = acm_MinProfile acm
         else usable acm rssi p \<and> list_all (\<lambda>q. mp_ID q \<le> mp_ID p) (filter (usable acm rssi) ps))"
proof (cases "highest None (filter (usable acm rssi) ps)")
  case None
  then have "filter (usable acm rssi) ps = []" by (simp add: profile_order.pick_None_iff)
  with None assms show ?thesis
    using profile_table.lookup_Some[of ps "acm_MinProfile acm"] profile_table.lookup_None[of ps "acm_MinProfile acm"]
    by (auto simp: selectProfile_def best_profile_highest split: option.splits)
next
  case (Some p)
  then have "p \<in> set (filter (usable acm rssi) ps) \<and>
      (\<forall>q \<in> set (filter (usable acm rssi) ps). \<not> mp_ID p < mp_ID q)"
    using profile_order.pick_best by blast
  with Some assms show ?thesis
    by (auto simp: selectProfile_def best_profile_highest list_all_iff not_less filter_empty_conv)
qed

theorem selectProfile_best_witness:
  "\<exists>p. selectProfile (rl_ACM defaultLink) defaultProfiles (Fin (- 72)) = Some p \<and> mp_ID p = 6"
  using selectProfile_best[of "rl_ACM defaultLink" defaultProfiles "Fin (- 72)"]
  by (auto simp: selectProfile_def defaultLink_def radio_consts defaultProfiles_def profile_rows_def
      usable_def)

section \<open>State writes keep the link valid\<close>

text \<open>What storing one measured leaf does to the link record.\<close>

fun set_link_leaf :: "RadioLink \<Rightarrow> string \<times> goval \<Rightarrow> RadioLink" where
  "set_link_leaf r (s, GFloat x) =
     (if s = ''rssi'' then r\<lparr>rl_RSSI := x\<rparr>
      else if s = ''link-budget/calculated-rsl'' then r\<lparr>rl_LinkBudget := (rl_LinkBudget r)\<lparr>lb_CalculatedRSL := x\<rparr>\<rparr>
      else if s = ''fade-margin'' then r\<lparr>rl_FadeMargin := x\<rparr>
      else if s = ''atpc/current-power'' then r\<lparr>rl_ATPC := (rl_ATPC r)\<lparr>atpc_CurrentPower := x\<rparr>\<rparr>
      else r)"
| "set_link_leaf r (s, GUint32 x) =
     (if s = ''capacity'' then r\<lparr>rl_Capacity := x\<rparr>
      else if s = ''acm/current-capacity'' then r\<lparr>rl_ACM := (rl_ACM r)\<lparr>acm_CurrentCapacity := x\<rparr>\<rparr> else r)"
| "set_link_leaf r (s, GUint8 x) =
     (if s = ''acm/current-profile'' then r\<lparr>rl_ACM := (rl_ACM r)\<lparr>acm_CurrentProfile := x\<rparr>\<rparr> else r)"
| "set_link_leaf r (s, _) = r"

lemma inRange_not_lt: "inRange x lo hi \<Longrightarrow> \<not> f64_lt x lo \<and> \<not> f64_gt x hi"
  by (cases x; cases lo; cases hi) (auto simp: inRange_def f64_le_def finite_f_def)

lemma valid_RSSI:
  "RadioLink_Validate r = None \<Longrightarrow> inRange x RSSIMinDBM RSSIMaxDBM \<Longrightarrow>
   RadioLink_Validate (r\<lparr>rl_RSSI := x\<rparr>) = None"
  by (simp add: RadioLink_Validate_def)

lemma valid_CalculatedRSL:
  "RadioLink_Validate r = None \<Longrightarrow> inRange x RSSIMinDBM RSSIMaxDBM \<Longrightarrow>
   RadioLink_Validate (r\<lparr>rl_LinkBudget := (rl_LinkBudget r)\<lparr>lb_CalculatedRSL := x\<rparr>\<rparr>) = None"
  by (simp add: RadioLink_Validate_def LinkBudget_Validate_def)

lemma valid_CurrentPower:
  "RadioLink_Validate r = None \<Longrightarrow> inRange x (atpc_MinPower (rl_ATPC r)) (atpc_MaxPower (rl_ATPC r)) \<Longrightarrow>
   RadioLink_Validate (r\<lparr>rl_ATPC := (rl_ATPC r)\<lparr>atpc_CurrentPower := x\<rparr>\<rparr>) = None"
  using inRange_not_lt[of x "atpc_MinPower (rl_ATPC r)" "atpc_MaxPower (rl_ATPC r)"]
  by (simp add: RadioLink_Validate_def ATPC_Validate_def)

text \<open>What a tick relies on besides a valid link: the injected fade and the ATPC step are finite,
  and the current power is a number.\<close>

definition tick_ok :: "radio_manager \<Rightarrow> string \<Rightarrow> RadioLink \<Rightarrow> bool" where
  "tick_ok m name r \<longleftrightarrow> RadioLink_Validate r = None \<and> finite_f (gm_get_or (Fin 0) (rm_fade m) name)
     \<and> finite_f (rm_atpcStepDB m) \<and> (atpc_Enabled (rl_ATPC r) \<longrightarrow> \<not> isNaN (atpc_CurrentPower (rl_ATPC r)))"

lemma level_range:
  assumes "tick_ok m name r"
  shows "\<exists>x. link_rssi m name r = Fin x \<and> - 99 \<le> x \<and> x \<le> - 20"
    and "\<exists>x. applyFade (receivedLevel r (effectiveTxPower r)) (Fin 0) = Fin x \<and> - 99 \<le> x \<and> x \<le> - 20"
proof -
  obtain p where p: "effectiveTxPower r = Fin p" "- 10 \<le> p" "p \<le> 30"
    using assms by (auto simp: tick_ok_def elim: tx_bounds)
  obtain d where d: "gm_get_or (Fin 0) (rm_fade m) name = Fin d"
    using assms by (auto simp: tick_ok_def finite_f_Fin)
  have nn: "\<not> isNaN (receivedLevel r (Fin p))"
    using assms p by (intro receivedLevel_not_NaN) (auto simp: tick_ok_def)
  show "\<exists>x. link_rssi m name r = Fin x \<and> - 99 \<le> x \<and> x \<le> - 20"
    unfolding link_rssi_def p(1) d using nn by (intro applyFade_range) auto
  show "\<exists>x. applyFade (receivedLevel r (effectiveTxPower r)) (Fin 0) = Fin x \<and> - 99 \<le> x \<and> x \<le> - 20"
    unfolding p(1) using nn by (intro applyFade_range) auto
qed

lemma profile_bounds:
  assumes "RadioLink_Validate r = None" "p \<in> set (rl_Profiles r)"
  shows "\<exists>t. mp_RSLThreshold p = Fin t \<and> - 99 \<le> t \<and> t \<le> - 20" "mp_Capacity p \<noteq> 0"
proof -
  have "ModProfile_Validate p = None" using assms by (simp add: RadioLink_Validate_def)
  then show "\<exists>t. mp_RSLThreshold p = Fin t \<and> - 99 \<le> t \<and> t \<le> - 20" "mp_Capacity p \<noteq> 0"
    by (auto simp: ModProfile_Validate_def inRange_Fin radio_consts)
qed

lemma margin_finite:
  assumes "RadioLink_Validate r = None" "- 99 \<le> x" "x \<le> - 20"
    and "selectProfile (rl_ACM r) (rl_Profiles r) (Fin x) = Some p"
  shows "finite_f (link_margin r (Fin x))"
proof -
  obtain t where t: "mp_RSLThreshold p = Fin t" "- 99 \<le> t" "t \<le> - 20"
    using profile_bounds(1)[OF assms(1) selectProfile_in_table[OF assms(4)]] by blast
  have "\<bar>x\<bar> \<le> 10000" "\<bar>- t\<bar> \<le> 10000" using assms t by auto
  from f64_add_bound[OF this] show ?thesis
    by (auto simp: link_margin_def assms(4) t(1) f64_sub_def simp del: f64_add.simps)
qed

lemma atpcStep_range:
  assumes "ATPC_Validate a = None" "atpc_Enabled a" "\<not> isNaN (atpc_CurrentPower a)"
    and "finite_f s" "- 99 \<le> x" "x \<le> - 20"
  shows "inRange (atpcStep a (Fin x) s) (atpc_MinPower a) (atpc_MaxPower a)"
proof -
  obtain t lo hi where b: "atpc_TargetRSL a = Fin t" "atpc_MinPower a = Fin lo" "atpc_MaxPower a = Fin hi"
    "atpc_Enabled a \<longrightarrow> lo < hi"
    using assms(1) by (rule atpc_valid_bounds)
  obtain p where p: "atpc_CurrentPower a = Fin p" using assms(1-3) by (rule atpc_current_bounds)
  obtain st where st: "s = Fin st" using assms(4) by (auto simp: finite_f_Fin)
  have "\<not> isNaN (f64_sub (Fin t) (Fin x))" by (simp add: f64_sub_not_NaN)
  then obtain d where d: "clamp (f64_sub (Fin t) (Fin x)) (Fin (- st)) (Fin st) = Fin d"
    using clamp_not_NaN by blast
  have "\<not> isNaN (f64_add (Fin p) (Fin d))" by simp
  then obtain y where "clamp (f64_add (Fin p) (Fin d)) (Fin lo) (Fin hi) = Fin y" "lo \<le> y" "y \<le> hi"
    using clamp_range[of _ lo hi] b(4) assms(2) by force
  then show ?thesis
    unfolding atpcStep_def Let_def b(1-3) p st f64_neg.simps d by simp
qed

text \<open>The link after a tick stored its measured leaves.\<close>

definition measured :: "radio_manager \<Rightarrow> string \<Rightarrow> RadioLink \<Rightarrow> RadioLink" where
  "measured m name r = foldl set_link_leaf r (link_writes m name r)"

lemma measured_with_profile:
  assumes ok: "tick_ok m name r" and r1: "RadioLink_Validate r1 = None"
    and p: "selectProfile (rl_ACM r) (rl_Profiles r) (link_rssi m name r) = Some p"
  shows "RadioLink_Validate (foldl set_link_leaf r1
      [(''fade-margin'', GFloat (link_margin r (link_rssi m name r))), (''capacity'', GUint32 (mp_Capacity p)),
       (''acm/current-profile'', GUint8 (mp_ID p)), (''acm/current-capacity'', GUint32 (mp_Capacity p))]) = None"
proof -
  obtain x where x: "link_rssi m name r = Fin x" "- 99 \<le> x" "x \<le> - 20" using level_range(1)[OF ok] by blast
  have "RadioLink_Validate r = None" using ok by (simp add: tick_ok_def)
  then have "finite_f (link_margin r (Fin x))" "mp_Capacity p \<noteq> 0"
    using margin_finite profile_bounds(2) selectProfile_in_table p x by auto
  then show ?thesis
    using r1 by (simp add: x(1) RadioLink_Validate_def ACM_Validate_def)
qed

lemma set_link_leaf_atpc:
  "fst sv \<noteq> ''atpc/current-power'' \<Longrightarrow> rl_ATPC (set_link_leaf r sv) = rl_ATPC r"
  by (cases "(r, sv)" rule: set_link_leaf.cases) auto

lemma set_link_leaves_atpc:
  "''atpc/current-power'' \<notin> fst ` set ws \<Longrightarrow> rl_ATPC (foldl set_link_leaf r ws) = rl_ATPC r"
  by (induction ws arbitrary: r) (auto simp: set_link_leaf_atpc)


definition sample_radio :: radio_manager where
  "sample_radio = \<lparr>rm_thresholds = \<lparr>rssiAlarm = Fin (- 85), rssiClear = Fin (- 82), fadeMin = Fin 6, fadeClear = Fin 8\<rparr>,
     rm_atpcStepDB = Fin 1, rm_failureFadeDB = Fin 60, rm_hasBus = True, rm_fade = [(''radio0'', Fin 30)],
     rm_states = [], rm_known = []\<rparr>"


section \<open>Hysteresis\<close>

lemmas link_state_defs = nextLinkState_def linkDown_def linkDegraded_def radio_consts

text \<open>A measurement inside both hysteresis bands: between the raise and the clear level.\<close>

definition in_band :: "thresholds \<Rightarrow> float64 \<times> float64 \<Rightarrow> bool" where
  "in_band t rf \<longleftrightarrow> f64_le (rssiAlarm t) (fst rf) \<and> f64_lt (fst rf) (rssiClear t) \<and>
     f64_le (fadeMin t) (snd rf) \<and> f64_lt (snd rf) (fadeClear t)"

lemma f64_le_not_lt: "f64_le a b \<Longrightarrow> \<not> f64_lt b a"
  by (cases a; cases b) (auto simp: f64_le_def)

lemma nextLinkState_band:
  "validLinkState s \<Longrightarrow> in_band t (r, f) \<Longrightarrow> nextLinkState s r f t = s"
  by (auto simp: in_band_def link_state_defs validLinkState_def dest: f64_le_not_lt)

lemma nextLinkState_valid: "validLinkState (nextLinkState s r f t)"
  by (simp add: nextLinkState_def validLinkState_def)

text \<open>C14: the link state does not flap.  While the level and the fade margin only move inside
  their hysteresis bands, however they move there, the state never changes; and a measurement that
  is merely repeated changes it at most once.\<close>

theorem link_state_no_flap:
  assumes "validLinkState s" "list_all (in_band t) rfs"
    and "f64_le (rssiAlarm t) (rssiClear t)" "f64_le (fadeMin t) (fadeClear t)"
  shows "foldl (\<lambda>s (r, f). nextLinkState s r f t) s rfs = s
    \<and> nextLinkState (nextLinkState s r f t) r f t = nextLinkState s r f t"
proof
  show "foldl (\<lambda>s (r, f). nextLinkState s r f t) s rfs = s"
    using assms(2) by (induction rfs) (auto simp: nextLinkState_band[OF assms(1)])
  show "nextLinkState (nextLinkState s r f t) r f t = nextLinkState s r f t"
    using assms(3,4) f64_lt_le_trans[of r "rssiAlarm t" "rssiClear t"]
      f64_lt_le_trans[of f "fadeMin t" "fadeClear t"]
    by (auto simp: link_state_defs)
qed

theorem link_state_no_flap_witness:
  "foldl (\<lambda>s (r, f). nextLinkState s r f (rm_thresholds sample_radio)) RadioLinkStateDown
     [(Fin (- 84), Fin 7), (Fin (- 83), Fin 6)] = RadioLinkStateDown"
  using link_state_no_flap[of RadioLinkStateDown "rm_thresholds sample_radio" "[(Fin (- 84), Fin 7), (Fin (- 83), Fin 6)]"]
  by (simp add: validLinkState_def in_band_def sample_radio_def)

section \<open>Alarms\<close>

text \<open>The alarms that are active in a link state.\<close>

definition alarms_of :: "string \<Rightarrow> string set" where
  "alarms_of s = (if s = RadioLinkStateDown then {AlarmRadioLinkDown}
     else if s = RadioLinkStateDegraded then {AlarmRadioLinkDegraded} else {})"

lemma report_alarms:
  "current \<noteq> nxt \<Longrightarrow> foldl apply_alarm (alarms_of current) (map (stamp now) (report name current nxt r f)) = alarms_of nxt"
  by (auto simp: report_def alarms_of_def apply_alarm_def cleared_event_def raised_event_def stamp_def
      AlarmRadioLinkDown_def AlarmRadioLinkDegraded_def radio_consts)

text \<open>The state a tick starts from: the one reported last, or the stored one on first sight.\<close>

definition current_state :: "radio_manager \<Rightarrow> string \<Rightarrow> RadioLink \<Rightarrow> string" where
  "current_state m name link =
     (if gm_get_or False (rm_known m) name then gm_get_or [] (rm_states m) name
      else if validLinkState (rl_LinkState link) then rl_LinkState link else RadioLinkStateUp)"

lemma evaluateLink_ok:
  assumes "evaluateLink setState now name link (m, w) = ([], (m', w'), evs)"
  shows "gm_get_or [] (rm_states m') name =
      nextLinkState (current_state m name link) (link_rssi m name link) (link_margin link (link_rssi m name link)) (rm_thresholds m)"
    and "gm_get_or False (rm_known m') name"
    and "rm_hasBus m \<Longrightarrow> foldl apply_alarm (alarms_of (current_state m name link)) evs =
      alarms_of (gm_get_or [] (rm_states m') name)"
    and "n \<noteq> name \<Longrightarrow> gm_get_or [] (rm_states m') n = gm_get_or [] (rm_states m) n"
    and "rm_thresholds m' = rm_thresholds m" "rm_fade m' = rm_fade m" "rm_hasBus m' = rm_hasBus m"
  using assms
  by (auto simp: evaluateLink_def Let_def current_state_def gm_get_or_update report_alarms
      split: prod.splits if_splits option.splits)

text \<open>The alarms follow the link state.  Whenever evaluating a link succeeds, the state it
  remembers is the one the measurement implies, and playing the published events on the alarms of
  the previous state leaves exactly the alarms of the new state: every alarm of a state that is
  left is cleared, every alarm of the state that is entered is raised, and nothing else.\<close>

theorem evaluateLink_alarms:
  assumes "evaluateLink setState now name link (m, w) = ([], (m', w'), evs)" "rm_hasBus m"
  shows "gm_get_or [] (rm_states m') name =
      nextLinkState (current_state m name link) (link_rssi m name link) (link_margin link (link_rssi m name link)) (rm_thresholds m)
    \<and> foldl apply_alarm (alarms_of (current_state m name link)) evs = alarms_of (gm_get_or [] (rm_states m') name)"
  using evaluateLink_ok(1,3)[OF assms(1)] assms(2) by blast

text \<open>A link with no profile table at a level that is always clamped to the bottom of the range.\<close>

definition dead_link :: RadioLink where
  "dead_link = defaultLink\<lparr>rl_Profiles := [],
     rl_ATPC := (rl_ATPC defaultLink)\<lparr>atpc_Enabled := False\<rparr>, rl_TxPower := NegInf\<rparr>"

lemma dead_level: "receivedLevel dead_link (effectiveTxPower dead_link) = NegInf"
proof -
  have "\<not> isNaN (freeSpaceLossDB (Fin 18) (Fin 12.5))" by (rule freeSpaceLossDB_not_NaN) auto
  moreover have "freeSpaceLossDB (Fin 18) (Fin 12.5) \<noteq> NegInf \<Longrightarrow>
      f64_sub NegInf (freeSpaceLossDB (Fin 18) (Fin 12.5)) = NegInf"
    using calculation by (cases "freeSpaceLossDB (Fin 18) (Fin 12.5)") (auto simp: f64_sub_def)
  moreover have "freeSpaceLossDB (Fin 18) (Fin 12.5) \<noteq> NegInf"
  proof -
    have "\<exists>c. f64_round 92.45 = Fin c \<and> \<bar>c\<bar> \<le> 2 * \<bar>92.45\<bar> + 1" by (rule f64_round_bound) simp
    then obtain c where c: "f64_round 92.45 = Fin c" "\<bar>c\<bar> \<le> 200" by fastforce
    obtain y z where y: "f64_mul (Fin 20) (f64_log10 (Fin 18)) = Fin y" "\<bar>y\<bar> \<le> 1000"
      and z: "f64_mul (Fin 20) (f64_log10 (Fin 12.5)) = Fin z" "\<bar>z\<bar> \<le> 1000"
      using log_term_bound[of 18] log_term_bound[of "12.5"] by auto
    obtain u where u: "f64_add (Fin c) (Fin y) = Fin u" "\<bar>u\<bar> \<le> 3000"
      using f64_add_bound[of c y] c y by fastforce
    obtain v where "f64_add (Fin u) (Fin z) = Fin v" using f64_add_bound[of u z] u z by fastforce
    then show ?thesis unfolding freeSpaceLossDB_def c(1) y(1) z(1) u(1) by simp
  qed
  ultimately show ?thesis
    by (simp add: dead_link_def defaultLink_def receivedLevel_def effectiveTxPower_def f64_sub_def
        atmLossDB_def miscLossDB_def)
qed

lemma dead_rssi: "gm_get_or (Fin 0) (rm_fade m) name = Fin d \<Longrightarrow> link_rssi m name dead_link = Fin (- 99)"
  by (simp add: link_rssi_def dead_level applyFade_def clamp_def f64_sub_def radio_consts)

theorem evaluateLink_alarms_witness:
  "\<exists>m' evs. evaluateLink (\<lambda>p v w. (None :: unit option, w)) 5 ''radio0'' dead_link (sample_radio, ())
       = ([], (m', ()), evs)
     \<and> foldl apply_alarm {} evs = {AlarmRadioLinkDown}"
proof -
  have x: "link_rssi sample_radio ''radio0'' dead_link = Fin (- 99)"
    by (rule dead_rssi[of _ _ 30]) (simp add: sample_radio_def gm_get_or_def)
  let ?e = "evaluateLink (\<lambda>p v w. (None :: unit option, w)) 5 ''radio0'' dead_link (sample_radio, ())"
  have c: "current_state sample_radio ''radio0'' dead_link = RadioLinkStateUp"
    by (simp add: current_state_def sample_radio_def gm_get_or_def dead_link_def defaultLink_def validLinkState_def)
  have down: "nextLinkState RadioLinkStateUp (Fin (- 99)) f (rm_thresholds sample_radio) = RadioLinkStateDown" for f
    by (simp add: nextLinkState_def linkDown_def sample_radio_def radio_consts)
  have w: "write_all (\<lambda>p v w. (None :: unit option, w)) ws () = ([], ())" for ws
    by (induction ws) auto
  have err: "fst ?e = []"
    by (simp add: evaluateLink_def Let_def w)
  then obtain m' evs where e: "?e = ([], (m', ()), evs)"
    by (cases ?e) auto
  moreover have "rm_hasBus sample_radio" by (simp add: sample_radio_def)
  ultimately have "gm_get_or [] (rm_states m') ''radio0'' = RadioLinkStateDown
      \<and> foldl apply_alarm (alarms_of RadioLinkStateUp) evs = alarms_of (gm_get_or [] (rm_states m') ''radio0'')"
    using evaluateLink_alarms[OF e] by (simp add: x c down)
  then show ?thesis using e by (auto simp: alarms_of_def radio_consts)
qed

end
