(* ===== verification/Sync.thy ===== *)
theory Sync
  imports Model Domain Clock
begin

text \<open>
  The synchronization domain (\<open>src/internal/sync\<close>): the SSM codes of the quality levels
  (\<open>esmc.go\<close>), the SyncE source selection (\<open>synce.go\<close>), the PTP clock state machine (\<open>ptp.go\<close>) and
  the manager with its holdover timer, the simulated quality and the select loop of \<open>Run\<close>
  (\<open>manager.go\<close>).

  The state of the manager holds its fields, the injected clock, the world the router reads and
  writes, and the events put on the bus, in order.  The router's \<open>Snapshot\<close> and \<open>SetState\<close> and the
  values of the seeded random generator are the fields of \<open>sync_env\<close>.  A channel of capacity one
  that only carries a wake-up is a flag.
\<close>

section \<open>SSM codes\<close>

definition SSMCodePRC :: u8 where "SSMCodePRC = 0x2"
definition SSMCodeSSUA :: u8 where "SSMCodeSSUA = 0x4"
definition SSMCodeSSUB :: u8 where "SSMCodeSSUB = 0x8"
definition SSMCodeSEC :: u8 where "SSMCodeSEC = 0xB"
definition SSMCodeDNU :: u8 where "SSMCodeDNU = 0xF"

definition ExtendedSSMCodePRTC :: u8 where "ExtendedSSMCodePRTC = 0x20"
definition ExtendedSSMCodeEPRTC :: u8 where "ExtendedSSMCodeEPRTC = 0x21"
definition ExtendedSSMCodeEEEC :: u8 where "ExtendedSSMCodeEEEC = 0x22"

definition SSMCode :: "QL \<Rightarrow> u8 option" where
  "SSMCode ql =
     (if ql = QLPRC then Some SSMCodePRC
      else if ql = QLSSUA then Some SSMCodeSSUA
      else if ql = QLSSUB then Some SSMCodeSSUB
      else if ql = QLSEC then Some SSMCodeSEC
      else if ql = QLDNU then Some SSMCodeDNU
      else None)"

definition QLFromSSM :: "u8 \<Rightarrow> QL option" where
  "QLFromSSM code =
     (if code = SSMCodePRC then Some QLPRC
      else if code = SSMCodeSSUA then Some QLSSUA
      else if code = SSMCodeSSUB then Some QLSSUB
      else if code = SSMCodeSEC then Some QLSEC
      else if code = SSMCodeDNU then Some QLDNU
      else None)"

definition ExtendedSSMCode :: "string \<Rightarrow> u8 option" where
  "ExtendedSSMCode ql =
     (if ql = [] then Some 0
      else if ql = ExtendedQLPRTC then Some ExtendedSSMCodePRTC
      else if ql = ExtendedQLPRTCEnhanced then Some ExtendedSSMCodeEPRTC
      else if ql = ExtendedQLEECEnhanced then Some ExtendedSSMCodeEEEC
      else None)"

definition Rank :: "QL \<Rightarrow> u8 option" where
  "Rank ql =
     (if ql = QLPRC then Some 0
      else if ql = QLSSUA then Some 1
      else if ql = QLSSUB then Some 2
      else if ql = QLSEC then Some 3
      else None)"

record esmc_message =
  msg_QL :: QL
  msg_ExtendedQL :: string

definition Message_Validate :: "esmc_message \<Rightarrow> verdict" where
  "Message_Validate m = first_error
     [QL_Validate (msg_QL m),
      chk (ExtendedSSMCode (msg_ExtendedQL m) = None) ''unknown extended quality level'']"

section \<open>SyncE source selection\<close>

record syncESource =
  ss_name :: string
  ss_ql :: QL
  ss_extended :: string
  ss_rank :: u8
  ss_priority :: u8
  ss_prefers :: bool

definition betterSource :: "syncESource \<Rightarrow> syncESource \<Rightarrow> bool" where
  "betterSource a b =
     (if ss_rank a \<noteq> ss_rank b then ss_rank a < ss_rank b
      else if ss_priority a \<noteq> ss_priority b then ss_priority a < ss_priority b
      else if ss_prefers a \<noteq> ss_prefers b then ss_prefers a
      else ss_name a < ss_name b)"

definition source_of :: "SyncEInterface \<Rightarrow> u8 \<Rightarrow> syncESource" where
  "source_of i rank =
     \<lparr>ss_name = si_Name i, ss_ql = si_QL i, ss_extended = si_ExtendedQL i, ss_rank = rank,
      ss_priority = si_Priority i, ss_prefers = si_PTPPreference i\<rparr>"

fun best_source :: "syncESource option \<Rightarrow> SyncEInterface list \<Rightarrow> syncESource option" where
  "best_source best [] = best"
| "best_source best (i # is) =
     (if \<not> si_SSMEnabled i then best_source best is
      else case Rank (si_QL i) of
             None \<Rightarrow> best_source best is
           | Some rank \<Rightarrow>
               (let cand = source_of i rank
                in case best of
                     None \<Rightarrow> best_source (Some cand) is
                   | Some b \<Rightarrow>
                       if betterSource cand b then best_source (Some cand) is else best_source best is))"

definition selectSyncESource :: "SyncEState \<Rightarrow> string \<times> QL \<times> string" where
  "selectSyncESource se =
     (if \<not> se_Enabled se then ([], [], [])
      else case best_source None (se_Interfaces se) of
             None \<Rightarrow> ([], [], [])
           | Some b \<Rightarrow> (ss_name b, ss_ql b, ss_extended b))"

section \<open>The PTP state machine\<close>

abbreviation StateFreerun :: string where "StateFreerun \<equiv> PTPStateFreerun"
abbreviation StateAcquiring :: string where "StateAcquiring \<equiv> PTPStateAcquiring"
abbreviation StateLocked :: string where "StateLocked \<equiv> PTPStateLocked"
abbreviation StateHoldoverInSpec :: string where "StateHoldoverInSpec \<equiv> PTPStateHoldoverInSpec"
abbreviation StateHoldoverOutOfSpec :: string where "StateHoldoverOutOfSpec \<equiv> PTPStateHoldoverOutOfSpec"

definition validState :: "string \<Rightarrow> bool" where
  "validState s =
     (s \<in> {StateFreerun, StateAcquiring, StateLocked, StateHoldoverInSpec, StateHoldoverOutOfSpec})"

datatype ptp_event_type =
    EventSourceDetected
  | EventCalibrationComplete
  | EventSourceLost
  | EventSourceRestored
  | EventHoldoverExpired
  | EventReset
  | UnknownEvent string

definition event_valid :: "ptp_event_type \<Rightarrow> bool" where
  "event_valid e = (case e of UnknownEvent _ \<Rightarrow> False | _ \<Rightarrow> True)"

record ptp_event =
  pe_Type :: ptp_event_type
  pe_Reason :: string

fun nextState :: "string \<Rightarrow> ptp_event_type \<Rightarrow> string \<times> bool" where
  "nextState from EventSourceDetected =
     (if from = StateFreerun then (StateAcquiring, True) else (from, False))"
| "nextState from EventCalibrationComplete =
     (if from = StateAcquiring then (StateLocked, True) else (from, False))"
| "nextState from EventSourceLost =
     (if from = StateLocked then (StateHoldoverInSpec, True)
      else if from = StateAcquiring then (StateFreerun, True) else (from, False))"
| "nextState from EventHoldoverExpired =
     (if from = StateHoldoverInSpec then (StateHoldoverOutOfSpec, True) else (from, False))"
| "nextState from EventSourceRestored =
     (if from = StateHoldoverInSpec \<or> from = StateHoldoverOutOfSpec then (StateLocked, True)
      else (from, False))"
| "nextState from EventReset = (if from \<noteq> StateFreerun then (StateFreerun, True) else (from, False))"
| "nextState from (UnknownEvent _) = (from, False)"

section \<open>The manager\<close>

datatype 'e sync_error =
    SyncNoRouter
  | ErrUnknownEvent ptp_event_type
  | ErrUnknownSource string
  | SnapshotFailed 'e
  | WriteFailed "(string \<times> 'e) list"

definition DefaultTickInterval :: duration where "DefaultTickInterval = 5000000000"
definition DefaultDriftPPB :: float64 where "DefaultDriftPPB = Fin 100"
definition DefaultJitterNS :: float64 where "DefaultJitterNS = Fin 25"
definition DefaultFreerunOffsetNS :: float64 where "DefaultFreerunOffsetNS = Fin 1000"

record ('e, 'w) sync_env =
  env_Snapshot :: "'w \<Rightarrow> 'e + Device"
  env_SetState :: "('e, 'w) set_state"
  env_Float64 :: "nat \<Rightarrow> float64"

text \<open>The callbacks the domain schedules: the wake-up of \<open>Run\<close> and the holdover expiry.\<close>

datatype sync_callback = TickFn | ExpireFn

record 'w sync_manager =
  sm_hasBus :: bool
  sm_tickInterval :: duration
  sm_state :: string
  sm_known :: bool
  sm_offset :: float64
  sm_holdoverOffset :: float64
  sm_holdoverStart :: time
  sm_timer :: "nat option"
  sm_expired :: bool
  sm_draws :: nat
  sm_ticks :: bool
  sm_runTimer :: "nat option"
  sm_clock :: "sync_callback fakeClock"
  sm_world :: 'w
  sm_published :: "event list"

definition New_sync ::
    "bool \<Rightarrow> bool \<Rightarrow> duration \<Rightarrow> sync_callback fakeClock \<Rightarrow> 'w \<Rightarrow> 'e sync_error + 'w sync_manager" where
  "New_sync hasRouter hasBus tickInterval clk w =
     (if \<not> hasRouter then Inl SyncNoRouter
      else Inr \<lparr>sm_hasBus = hasBus,
                sm_tickInterval = (if tickInterval \<le> 0 then DefaultTickInterval else tickInterval),
                sm_state = [], sm_known = False, sm_offset = Fin 0, sm_holdoverOffset = Fin 0,
                sm_holdoverStart = 0, sm_timer = None, sm_expired = False, sm_draws = 0,
                sm_ticks = False, sm_runTimer = None, sm_clock = clk, sm_world = w,
                sm_published = []\<rparr>)"

definition publish :: "event \<Rightarrow> 'w sync_manager \<Rightarrow> 'w sync_manager" where
  "publish e s =
     (if \<not> sm_hasBus s then s
      else s\<lparr>sm_published := sm_published s @ [stamp (now (sm_clock s)) e]\<rparr>)"

definition stateWrite ::
    "('e, 'w) sync_env \<Rightarrow> string \<Rightarrow> goval \<Rightarrow> 'w sync_manager \<Rightarrow> (string \<times> 'e) list \<times> 'w sync_manager" where
  "stateWrite env path v s =
     (case env_SetState env path v (sm_world s) of
        (err, w) \<Rightarrow> ((case err of None \<Rightarrow> [] | Some e \<Rightarrow> [(path, e)]), s\<lparr>sm_world := w\<rparr>))"

definition stopHoldover :: "'w sync_manager \<Rightarrow> 'w sync_manager" where
  "stopHoldover s =
     (let s1 = (case sm_timer s of
                  None \<Rightarrow> s
                | Some i \<Rightarrow> s\<lparr>sm_clock := snd (Stop i (sm_clock s)), sm_timer := None\<rparr>)
      in s1\<lparr>sm_holdoverStart := 0, sm_holdoverOffset := Fin 0\<rparr>)"

definition startHoldover :: "Device \<Rightarrow> 'w sync_manager \<Rightarrow> 'w sync_manager" where
  "startHoldover device s =
     (let s1 = stopHoldover s;
          timeout = uint (ptp_HoldoverTimeout (dv_PTP device)) * 1000000000;
          (i, c) = AfterFunc timeout ExpireFn (sm_clock s1)
      in s1\<lparr>sm_holdoverStart := now (sm_clock s1), sm_holdoverOffset := sm_offset s1,
            sm_clock := c, sm_timer := Some i\<rparr>)"

definition adopt :: "Device \<Rightarrow> 'w sync_manager \<Rightarrow> 'w sync_manager" where
  "adopt device s =
     (if sm_known s then s
      else let stored = ptp_State (dv_PTP device);
               state = (if validState stored then stored else StateFreerun);
               s1 = s\<lparr>sm_state := state, sm_known := True\<rparr>
           in if state = StateHoldoverInSpec then startHoldover device s1 else s1)"

definition ensureState ::
    "('e, 'w) sync_env \<Rightarrow> 'w sync_manager \<Rightarrow> 'e sync_error option \<times> 'w sync_manager" where
  "ensureState env s =
     (if sm_known s then (None, s)
      else case env_Snapshot env (sm_world s) of
             Inl e \<Rightarrow> (Some (SnapshotFailed e), s)
           | Inr device \<Rightarrow> (None, adopt device s))"

text \<open>The events of a transition, before they are stamped.\<close>

definition transition_event :: "string \<Rightarrow> string \<Rightarrow> string \<Rightarrow> event" where
  "transition_event from nxt reason =
     \<lparr>ev_type = TypeStateTransition, ev_resource = ''ptp/clock'', ev_severity = [],
      ev_message = ''ptp clock: '' @ from @ '' -> '' @ nxt @ '' ('' @ reason @ '')'',
      ev_domain = DomainSync, ev_alarm = [], ev_from = from, ev_to = nxt, ev_timestamp = 0\<rparr>"

definition holdover_raised :: "string \<Rightarrow> event" where
  "holdover_raised from =
     \<lparr>ev_type = TypeAlarmRaised, ev_resource = ''ptp/clock'', ev_severity = ''major'',
      ev_message = ''ptp clock holdover expired in '' @ from @ '': source not restored'',
      ev_domain = DomainSync, ev_alarm = AlarmSyncHoldover, ev_from = [], ev_to = [], ev_timestamp = 0\<rparr>"

definition holdover_cleared :: "string \<Rightarrow> string \<Rightarrow> event" where
  "holdover_cleared from nxt =
     \<lparr>ev_type = TypeAlarmCleared, ev_resource = ''ptp/clock'', ev_severity = ''cleared'',
      ev_message = ''ptp clock recovered from holdover: '' @ from @ '' -> '' @ nxt,
      ev_domain = DomainSync, ev_alarm = AlarmSyncHoldover, ev_from = [], ev_to = [], ev_timestamp = 0\<rparr>"

text \<open>What \<open>transition\<close> does once the new state is stored: the holdover timer and the events.\<close>

definition entered :: "Device option \<Rightarrow> string \<Rightarrow> string \<Rightarrow> 'w sync_manager \<Rightarrow> 'w sync_manager" where
  "entered holdoverDevice nxt reason s =
     (let from = sm_state s;
          s1 = s\<lparr>sm_state := nxt\<rparr>;
          s2 = (if nxt = StateHoldoverInSpec
                then (case holdoverDevice of None \<Rightarrow> s1 | Some d \<Rightarrow> startHoldover d s1)
                else if nxt = StateHoldoverOutOfSpec then s1\<lparr>sm_timer := None\<rparr>
                else stopHoldover s1);
          s3 = publish (transition_event from nxt (if reason = [] then nxt else reason)) s2
      in if nxt = StateHoldoverOutOfSpec then publish (holdover_raised from) s3
         else if from = StateHoldoverOutOfSpec then publish (holdover_cleared from nxt) s3
         else s3)"

definition enter_state ::
    "('e, 'w) sync_env \<Rightarrow> Device option \<Rightarrow> string \<Rightarrow> string \<Rightarrow> 'w sync_manager
      \<Rightarrow> (string \<times> 'e sync_error option) \<times> 'w sync_manager" where
  "enter_state env holdoverDevice nxt reason s =
     (case stateWrite env ''ptp/clock/state'' (GString nxt) s of
        (errs, s1) \<Rightarrow>
          if errs \<noteq> [] then ((sm_state s, Some (WriteFailed errs)), s1)
          else ((nxt, None), entered holdoverDevice nxt reason s1))"

definition ptp_transition ::
    "('e, 'w) sync_env \<Rightarrow> string \<Rightarrow> string \<Rightarrow> 'w sync_manager
      \<Rightarrow> (string \<times> 'e sync_error option) \<times> 'w sync_manager" where
  "ptp_transition env nxt reason s =
     (if nxt = StateHoldoverInSpec
      then (case env_Snapshot env (sm_world s) of
              Inl e \<Rightarrow> ((sm_state s, Some (SnapshotFailed e)), s)
            | Inr device \<Rightarrow> enter_state env (Some device) nxt reason s)
      else enter_state env None nxt reason s)"

definition handleLocked ::
    "('e, 'w) sync_env \<Rightarrow> ptp_event \<Rightarrow> 'w sync_manager
      \<Rightarrow> (string \<times> 'e sync_error option) \<times> 'w sync_manager" where
  "handleLocked env e s =
     (if \<not> event_valid (pe_Type e) then ((sm_state s, Some (ErrUnknownEvent (pe_Type e))), s)
      else case ensureState env s of
             (Some err, s1) \<Rightarrow> ((sm_state s1, Some err), s1)
           | (None, s1) \<Rightarrow>
               (case nextState (sm_state s1) (pe_Type e) of
                  (nxt, ok) \<Rightarrow>
                    if \<not> ok \<or> nxt = sm_state s1 then ((sm_state s1, None), s1)
                    else ptp_transition env nxt (pe_Reason e) s1))"

definition Handle_ptp where
  "Handle_ptp env e s = handleLocked env e s"

fun hasSyncInterface :: "SyncEInterface list \<Rightarrow> string \<Rightarrow> bool" where
  "hasSyncInterface [] name = False"
| "hasSyncInterface (i # is) name = (if si_Name i = name then True else hasSyncInterface is name)"

definition SyncLoss ::
    "('e, 'w) sync_env \<Rightarrow> string \<Rightarrow> 'w sync_manager
      \<Rightarrow> (string \<times> 'e sync_error option) \<times> 'w sync_manager" where
  "SyncLoss env source s =
     (if source = []
      then handleLocked env \<lparr>pe_Type = EventSourceLost, pe_Reason = ''synchronization source lost''\<rparr> s
      else case env_Snapshot env (sm_world s) of
             Inl e \<Rightarrow> ((sm_state s, Some (SnapshotFailed e)), s)
           | Inr device \<Rightarrow>
               if \<not> hasSyncInterface (se_Interfaces (dv_SyncE device)) source
               then ((sm_state s, Some (ErrUnknownSource source)), s)
               else handleLocked env
                      \<lparr>pe_Type = EventSourceLost,
                       pe_Reason = ''synchronization source '' @ source @ '' lost''\<rparr>
                      (adopt device s))"

definition handleDomainEvent ::
    "('e, 'w) sync_env \<Rightarrow> event \<Rightarrow> 'w sync_manager \<Rightarrow> 'e sync_error option \<times> 'w sync_manager" where
  "handleDomainEvent env e s =
     (if ev_type e = TypeAlarmRaised \<and> ev_alarm e = AlarmRadioLinkDown
      then (case handleLocked env \<lparr>pe_Type = EventSourceLost,
                pe_Reason = ''radio link '' @ ev_resource e @ '' down''\<rparr> s of
              ((_, err), s1) \<Rightarrow> (err, s1))
      else if ev_type e = TypeAlarmCleared \<and> ev_alarm e = AlarmRadioLinkDown
      then (case handleLocked env \<lparr>pe_Type = EventSourceRestored,
                pe_Reason = ''radio link '' @ ev_resource e @ '' restored''\<rparr> s of
              ((_, err), s1) \<Rightarrow> (err, s1))
      else (None, s))"

definition expireHoldover ::
    "('e, 'w) sync_env \<Rightarrow> 'w sync_manager \<Rightarrow> 'e sync_error option \<times> 'w sync_manager" where
  "expireHoldover env s =
     (if sm_state s \<noteq> StateHoldoverInSpec then (None, s)
      else case handleLocked env
                  \<lparr>pe_Type = EventHoldoverExpired, pe_Reason = ''holdover timer expired''\<rparr> s of
             ((_, err), s1) \<Rightarrow> (err, s1))"

section \<open>The periodic work\<close>

definition reconcilePTP ::
    "('e, 'w) sync_env \<Rightarrow> Device \<Rightarrow> 'w sync_manager \<Rightarrow> 'e sync_error option \<times> 'w sync_manager" where
  "reconcilePTP env device s =
     (let s1 = adopt device s
      in if ptp_Mode (dv_PTP device) \<noteq> PTPModeMaster \<or> sm_state s1 \<noteq> StateFreerun then (None, s1)
         else case handleLocked env
                     \<lparr>pe_Type = EventSourceDetected, pe_Reason = ''master clock reference present''\<rparr> s1 of
                ((_, Some err), s2) \<Rightarrow> (Some err, s2)
              | ((_, None), s2) \<Rightarrow>
                  (case handleLocked env
                          \<lparr>pe_Type = EventCalibrationComplete, pe_Reason = ''master clock calibrated''\<rparr> s2 of
                     ((_, err), s3) \<Rightarrow> (err, s3)))"

text \<open>A leaf whose stored value differs is written; the errors of several writes are joined.\<close>

fun write_changed ::
    "('e, 'w) sync_env \<Rightarrow> (bool \<times> string \<times> goval) list \<Rightarrow> 'w sync_manager
      \<Rightarrow> (string \<times> 'e) list \<times> 'w sync_manager" where
  "write_changed env [] s = ([], s)"
| "write_changed env ((differs, path, v) # ws) s =
     (case (if differs then stateWrite env path v s else ([], s)) of
        (errs, s1) \<Rightarrow> (case write_changed env ws s1 of (errs', s2) \<Rightarrow> (errs @ errs', s2)))"

definition joined :: "(string \<times> 'e) list \<Rightarrow> 'e sync_error option" where
  "joined errs = (if errs = [] then None else Some (WriteFailed errs))"

definition refreshSyncE ::
    "('e, 'w) sync_env \<Rightarrow> Device \<Rightarrow> 'w sync_manager \<Rightarrow> 'e sync_error option \<times> 'w sync_manager" where
  "refreshSyncE env device s =
     (case selectSyncESource (dv_SyncE device) of
        (name, ql, extended) \<Rightarrow>
          (case write_changed env
              [(se_SelectedSource (dv_SyncE device) \<noteq> name, ''synce/selected-source'', GString name),
               (se_SelectedQL (dv_SyncE device) \<noteq> ql, ''synce/selected-ql'', GString ql),
               (se_SelectedExtendedQL (dv_SyncE device) \<noteq> extended,
                  ''synce/selected-extended-ql'', GString extended)] s of
             (errs, s1) \<Rightarrow> (joined errs, s1)))"

text \<open>\<open>Duration.Seconds\<close>, on the saturating difference \<open>Time.Sub\<close>.\<close>

definition time_sub :: "time \<Rightarrow> time \<Rightarrow> duration" where
  "time_sub t u = max int64_min (min int64_max (t - u))"

definition Seconds :: "duration \<Rightarrow> float64" where
  "Seconds d =
     (let sec = sgn d * (\<bar>d\<bar> div 1000000000); nsec = sgn d * (\<bar>d\<bar> mod 1000000000)
      in f64_add (f64_round (of_int sec)) (f64_round (of_int nsec / 1000000000)))"

definition noise ::
    "('e, 'w) sync_env \<Rightarrow> float64 \<Rightarrow> 'w sync_manager \<Rightarrow> float64 \<times> 'w sync_manager" where
  "noise env scale s =
     (f64_mul (f64_sub (f64_mul (env_Float64 env (sm_draws s)) (Fin 2)) (Fin 1)) scale,
      s\<lparr>sm_draws := Suc (sm_draws s)\<rparr>)"

abbreviation in_holdover :: "'w sync_manager \<Rightarrow> bool" where
  "in_holdover s \<equiv> sm_state s = StateHoldoverInSpec \<or> sm_state s = StateHoldoverOutOfSpec"

definition simulated_offset ::
    "('e, 'w) sync_env \<Rightarrow> 'w sync_manager \<Rightarrow> float64 \<times> 'w sync_manager" where
  "simulated_offset env s =
     (if sm_state s = StateLocked then noise env DefaultJitterNS s
      else if in_holdover s
      then (let elapsed = Seconds (time_sub (now (sm_clock s)) (sm_holdoverStart s));
                elapsed' = (if f64_lt elapsed (Fin 0) then Fin 0 else elapsed)
            in (f64_add (sm_holdoverOffset s) (f64_mul DefaultDriftPPB elapsed'), s))
      else noise env DefaultFreerunOffsetNS s)"

definition simulated_jitter :: "float64 \<Rightarrow> 'w sync_manager \<Rightarrow> float64" where
  "simulated_jitter offset s =
     (let jitter = (if in_holdover s then f64_sub offset (sm_holdoverOffset s) else offset)
      in if f64_lt jitter (Fin 0) then f64_neg jitter else jitter)"

definition refreshQuality ::
    "('e, 'w) sync_env \<Rightarrow> Device \<Rightarrow> 'w sync_manager \<Rightarrow> 'e sync_error option \<times> 'w sync_manager" where
  "refreshQuality env device s =
     (case simulated_offset env s of
        (offset, s0) \<Rightarrow>
          let s1 = s0\<lparr>sm_offset := offset\<rparr>; jitter = simulated_jitter offset s1
          in (case write_changed env
                [(\<not> f64_eq (ptp_Offset (dv_PTP device)) offset, ''ptp/clock/offset'', GFloat offset),
                 (\<not> f64_eq (ptp_Jitter (dv_PTP device)) jitter, ''ptp/clock/jitter'', GFloat jitter)] s1 of
                (errs, s2) \<Rightarrow> (joined errs, s2)))"

definition Tick_sync ::
    "('e, 'w) sync_env \<Rightarrow> 'w sync_manager \<Rightarrow> 'e sync_error option \<times> 'w sync_manager" where
  "Tick_sync env s =
     (case env_Snapshot env (sm_world s) of
        Inl e \<Rightarrow> (Some (SnapshotFailed e), s)
      | Inr device \<Rightarrow>
          (case reconcilePTP env device s of
             (Some err, s1) \<Rightarrow> (Some err, s1)
           | (None, s1) \<Rightarrow>
               (case refreshSyncE env device s1 of
                  (Some err, s2) \<Rightarrow> (Some err, s2)
                | (None, s2) \<Rightarrow> refreshQuality env device s2)))"

section \<open>The select loop\<close>

text \<open>\<open>Run\<close> is a loop whose head schedules the next wake-up and whose body is a \<open>select\<close>.  A branch
  can be taken when its channel is ready; the loop ends when the context is cancelled or the bus
  closes the subscription.\<close>

datatype run_branch = OnDone | OnTick | OnExpired | OnEvent event | OnClosed

definition run_head :: "'w sync_manager \<Rightarrow> 'w sync_manager" where
  "run_head s =
     (case AfterFunc (sm_tickInterval s) TickFn (sm_clock s) of
        (i, c) \<Rightarrow> s\<lparr>sm_clock := c, sm_runTimer := Some i\<rparr>)"

definition run_start :: "('e, 'w) sync_env \<Rightarrow> 'w sync_manager \<Rightarrow> 'w sync_manager" where
  "run_start env s = run_head (snd (Tick_sync env s))"

definition run_end :: "'w sync_manager \<Rightarrow> 'w sync_manager" where
  "run_end s =
     stopHoldover (case sm_runTimer s of
        None \<Rightarrow> s
      | Some i \<Rightarrow> s\<lparr>sm_clock := snd (Stop i (sm_clock s)), sm_runTimer := None\<rparr>)"

fun run_select :: "('e, 'w) sync_env \<Rightarrow> run_branch \<Rightarrow> 'w sync_manager \<Rightarrow> 'w sync_manager option" where
  "run_select env OnDone s = Some (run_end s)"
| "run_select env OnClosed s = Some (run_end s)"
| "run_select env OnTick s =
     (if sm_ticks s then Some (run_head (snd (Tick_sync env (s\<lparr>sm_ticks := False\<rparr>)))) else None)"
| "run_select env OnExpired s =
     (if sm_expired s then Some (run_head (snd (expireHoldover env (s\<lparr>sm_expired := False\<rparr>)))) else None)"
| "run_select env (OnEvent e) s = Some (run_head (snd (handleDomainEvent env e s)))"

text \<open>The callbacks on the clock only fill a channel of capacity one.\<close>

fun wake :: "sync_callback \<Rightarrow> time \<Rightarrow> bool \<times> bool \<Rightarrow> bool \<times> bool" where
  "wake TickFn t (ticks, expired) = (True, expired)"
| "wake ExpireFn t (ticks, expired) = (ticks, True)"

definition elapse :: "duration \<Rightarrow> 'w sync_manager \<Rightarrow> 'w sync_manager option" where
  "elapse d s =
     (case Advance (quiet wake) d (sm_clock s, (sm_ticks s, sm_expired s)) of
        None \<Rightarrow> None
      | Some (c, (ticks, expired)) \<Rightarrow>
          Some (s\<lparr>sm_clock := c, sm_ticks := ticks, sm_expired := expired\<rparr>))"

end
