(* ===== verification/SyncLaws.thy ===== *)
theory SyncLaws
  imports Sync Contracts "HOL-Library.Multiset"
begin

text \<open>
  Properties of the synchronization domain: the SSM codec, the SyncE selection, the state machine
  with its holdover timer and alarms as a transition system, the expiry of a holdover and the
  simulated quality.
\<close>

lemmas sync_consts =
  PTPStateFreerun_def PTPStateAcquiring_def PTPStateLocked_def PTPStateHoldoverInSpec_def
  PTPStateHoldoverOutOfSpec_def

lemmas ql_consts = QLPRC_def QLSSUA_def QLSSUB_def QLSEC_def QLDNU_def

section \<open>SSM codes\<close>

lemmas ssm_consts = SSMCodePRC_def SSMCodeSSUA_def SSMCodeSSUB_def SSMCodeSEC_def SSMCodeDNU_def

lemma SSMCode_Some: "SSMCode q = Some c \<longleftrightarrow> QLFromSSM c = Some q"
  by (auto simp: SSMCode_def QLFromSSM_def ssm_consts ql_consts split: if_splits)

interpretation ssm_codec: codec SSMCode QLFromSSM "\<lambda>q. QL_Validate q = None"
  by unfold_locales
    (auto simp: SSMCode_def QLFromSSM_def QL_Validate_def chk_def ssm_consts ql_consts split: if_splits)

section \<open>Source selection\<close>

definition eligible :: "SyncEInterface \<Rightarrow> bool" where
  "eligible i = (si_SSMEnabled i \<and> Rank (si_QL i) \<noteq> None)"

definition source :: "SyncEInterface \<Rightarrow> syncESource" where
  "source i = source_of i (the (Rank (si_QL i)))"

interpretation source_order: selection betterSource "pick_by betterSource"
  by unfold_locales (auto simp: betterSource_def split: if_splits)

lemma best_source_pick: "best_source b is = pick_by betterSource b (map source (filter eligible is))"
  by (induction b "is" rule: best_source.induct)
    (auto simp: eligible_def source_def Let_def split: option.splits)

lemma betterSource_total: "ss_name a \<noteq> ss_name b \<Longrightarrow> betterSource a b \<or> betterSource b a"
  by (auto simp: betterSource_def)

lemma source_name [simp]: "ss_name (source i) = si_Name i"
  by (simp add: source_def source_of_def)

lemma selected_unique:
  assumes "distinct (map si_Name is)" "i \<in> set is" "j \<in> set is"
    "\<not> betterSource (source j) (source i)" "j \<noteq> i"
  shows "betterSource (source i) (source j)"
proof -
  have "si_Name i \<noteq> si_Name j" using assms by (auto simp: distinct_map inj_on_def)
  then show ?thesis using betterSource_total[of "source i" "source j"] assms(4) by simp
qed

definition selected :: "SyncEInterface list \<Rightarrow> SyncEInterface \<Rightarrow> bool" where
  "selected is i = (i \<in> set is \<and> eligible i \<and>
     (\<forall>j \<in> set is. eligible j \<and> j \<noteq> i \<longrightarrow> betterSource (source i) (source j)))"

lemma selected_det: "selected is i \<Longrightarrow> selected is j \<Longrightarrow> i = j"
  using source_order.better_irrefl source_order.better_trans unfolding selected_def by blast

lemma select_best:
  assumes "se_Enabled se" "distinct (map si_Name (se_Interfaces se))"
    "filter eligible (se_Interfaces se) \<noteq> []"
  shows "\<exists>i. selected (se_Interfaces se) i \<and> selectSyncESource se = (si_Name i, si_QL i, si_ExtendedQL i)"
proof -
  let ?is = "se_Interfaces se" let ?c = "map source (filter eligible ?is)"
  obtain b where b: "best_source None ?is = Some b"
    using assms(3) source_order.pick_None_iff[of ?c] by (auto simp: best_source_pick simp del: map_eq_conv)
  with source_order.pick_best[of ?c b] obtain i where
    i: "i \<in> set ?is" "eligible i" "b = source i" "\<forall>x \<in> set ?c. \<not> betterSource x b"
    by (auto simp: best_source_pick)
  have "selected ?is i"
    using i selected_unique[OF assms(2) i(1)] by (auto simp: selected_def)
  with b assms(1) i(3) show ?thesis
    by (auto simp: selectSyncESource_def source_def source_of_def)
qed

lemma select_none:
  "\<not> se_Enabled se \<or> filter eligible (se_Interfaces se) = [] \<Longrightarrow> selectSyncESource se = ([], [], [])"
  by (auto simp: selectSyncESource_def best_source_pick simp del: filter_empty_conv)


definition sample_synce :: SyncEState where
  "sample_synce = \<lparr>se_Enabled = True, se_SelectedSource = [], se_SelectedQL = [], se_SelectedExtendedQL = [],
     se_Interfaces =
       [\<lparr>si_Name = ''eth1'', si_SSMEnabled = True, si_QL = QLDNU, si_ExtendedQL = [], si_Priority = 0, si_PTPPreference = True\<rparr>,
        \<lparr>si_Name = ''eth2'', si_SSMEnabled = True, si_QL = QLSEC, si_ExtendedQL = [], si_Priority = 1, si_PTPPreference = True\<rparr>,
        \<lparr>si_Name = ''eth3'', si_SSMEnabled = True, si_QL = QLPRC, si_ExtendedQL = ExtendedQLPRTC, si_Priority = 9, si_PTPPreference = False\<rparr>],
     se_ESMC = \<lparr>es_Enabled = True, es_TxInterval = 1, es_ExtendedCodes = True\<rparr>\<rparr>"

lemma sample_synce_distinct: "distinct (map si_Name (se_Interfaces sample_synce))"
  by (simp add: sample_synce_def)

lemma sample_synce_selects: "selectSyncESource sample_synce = (''eth3'', QLPRC, ExtendedQLPRTC)"
  by (simp add: selectSyncESource_def sample_synce_def Rank_def ql_consts betterSource_def source_of_def Let_def)


section \<open>The manager as a transition system\<close>

text \<open>What can happen while \<open>Run\<close> is alive: a call of a management plane (the expiry event is produced
  by the manager itself), the start of \<open>Run\<close>, a branch
  of its select, the passing of time, and any change the rest of the simulator makes to the world.\<close>

fun live :: "run_branch \<Rightarrow> bool" where
  "live OnDone = False"
| "live OnClosed = False"
| "live _ = True"

inductive sync_step :: "('e, 'w) sync_env \<Rightarrow> 'w sync_manager \<Rightarrow> 'w sync_manager \<Rightarrow> bool" for env where
  handle: "pe_Type e \<noteq> EventHoldoverExpired \<Longrightarrow> sync_step env s (snd (Handle_ptp env e s))"
| loss: "sync_step env s (snd (SyncLoss env src s))"
| start: "sync_step env s (run_start env s)"
| select: "live b \<Longrightarrow> run_select env b s = Some s' \<Longrightarrow> sync_step env s s'"
| time: "0 \<le> d \<Longrightarrow> elapse d s = Some s' \<Longrightarrow> sync_step env s s'"
| world: "sync_step env s (s\<lparr>sm_world := w\<rparr>)"

definition fresh_manager :: "'w sync_manager \<Rightarrow> bool" where
  "fresh_manager s =
     (\<exists>hasBus d t w. New_sync True hasBus d (NewFakeClock t) w = (Inr s :: unit sync_error + 'w sync_manager))"

inductive sync_reachable :: "('e, 'w) sync_env \<Rightarrow> 'w sync_manager \<Rightarrow> bool" for env where
  fresh: "fresh_manager s \<Longrightarrow> sync_reachable env s"
| more: "sync_reachable env s \<Longrightarrow> sync_step env s s' \<Longrightarrow> sync_reachable env s'"

text \<open>An edge of the state diagram.\<close>

definition edge :: "string \<Rightarrow> string \<Rightarrow> bool" where
  "edge a b = list_ex (\<lambda>t. nextState a t = (b, True))
     [EventSourceDetected, EventCalibrationComplete, EventSourceLost, EventSourceRestored,
      EventHoldoverExpired, EventReset]"

lemma nextState_edge: "nextState a t = (b, True) \<Longrightarrow> edge a b"
  by (cases t) (auto simp: edge_def split: if_splits)

lemma edge_valid: "edge a b \<Longrightarrow> validState b"
  by (auto simp: edge_def validState_def split: if_splits)

lemma edge_OutOfSpec: "edge a StateHoldoverOutOfSpec \<Longrightarrow> a = StateHoldoverInSpec"
  by (auto simp: edge_def sync_consts split: if_splits)

lemma stopHoldover_simps [simp]:
  "sm_known (stopHoldover s) = sm_known s" "sm_state (stopHoldover s) = sm_state s"
  "sm_timer (stopHoldover s) = None" "sm_hasBus (stopHoldover s) = sm_hasBus s"
  "sm_published (stopHoldover s) = sm_published s" "sm_expired (stopHoldover s) = sm_expired s"
  by (auto simp: stopHoldover_def split: option.splits)

lemma startHoldover_simps [simp]:
  "sm_known (startHoldover d s) = sm_known s" "sm_state (startHoldover d s) = sm_state s"
  "sm_hasBus (startHoldover d s) = sm_hasBus s" "sm_published (startHoldover d s) = sm_published s"
  "sm_expired (startHoldover d s) = sm_expired s"
  by (simp_all add: startHoldover_def AfterFunc_def Let_def)

lemma adopt_simps [simp]:
  "sm_known (adopt d s)" "sm_hasBus (adopt d s) = sm_hasBus s"
  "sm_published (adopt d s) = sm_published s" "sm_expired (adopt d s) = sm_expired s"
  by (simp_all add: adopt_def Let_def)

text \<open>Every operation is composed of a few primitive changes.  A predicate that each of them keeps is
  kept by the operations.\<close>

locale sync_closed =
  fixes env :: "('e, 'w) sync_env"
    and P :: "'w sync_manager \<Rightarrow> bool"
  assumes adopt: "P s \<Longrightarrow> \<not> sm_known s \<Longrightarrow> P (adopt d s)"
    and entered: "P s \<Longrightarrow> sm_known s \<Longrightarrow> edge (sm_state s) nxt \<Longrightarrow> nxt \<noteq> sm_state s \<Longrightarrow>
      (nxt = StateHoldoverInSpec \<longrightarrow> dev \<noteq> None) \<Longrightarrow> P (entered dev nxt reason s)"
    and world: "P s \<Longrightarrow> P (s\<lparr>sm_world := w\<rparr>)"
    and offset: "P s \<Longrightarrow> P (s\<lparr>sm_offset := x\<rparr>)"
    and draws: "P s \<Longrightarrow> P (s\<lparr>sm_draws := n\<rparr>)"
begin

lemma keep_adopt: "P s \<Longrightarrow> P (Sync.adopt d s)"
  using adopt[of s d] by (cases "sm_known s") (auto simp: Sync.adopt_def)

lemma keep_write: "P s \<Longrightarrow> P (snd (stateWrite env p v s))"
  by (auto simp: stateWrite_def world split: prod.splits)

lemma keep_enter:
  assumes "P s" "sm_known s" "edge (sm_state s) nxt" "nxt \<noteq> sm_state s"
    "nxt = StateHoldoverInSpec \<longrightarrow> dev \<noteq> None"
  shows "P (snd (enter_state env dev nxt reason s))"
  using assms world[OF assms(1)]
  by (auto simp: enter_state_def stateWrite_def intro!: entered split: prod.splits option.splits)

lemma keep_transition:
  assumes "P s" "sm_known s" "edge (sm_state s) nxt" "nxt \<noteq> sm_state s"
  shows "P (snd (ptp_transition env nxt reason s))"
  using assms by (auto simp: ptp_transition_def intro!: keep_enter split: sum.splits)

lemma keep_handle: "P s \<Longrightarrow> P (snd (handleLocked env e s))"
proof (cases "event_valid (pe_Type e) \<and> fst (ensureState env s) = None")
  case True
  assume "P s"
  obtain s1 where s1: "ensureState env s = (None, s1)" using True by (cases "ensureState env s") auto
  have "P s1" "sm_known s1"
    using s1 \<open>P s\<close> by (auto simp: ensureState_def keep_adopt split: if_splits sum.splits)
  then show ?thesis
    using True s1 nextState_edge
    by (auto simp: handleLocked_def intro!: keep_transition split: prod.splits)
qed (auto simp: handleLocked_def ensureState_def keep_adopt split: prod.splits option.splits if_splits sum.splits)

lemma keep_loss: "P s \<Longrightarrow> P (snd (SyncLoss env src s))"
  by (auto simp: SyncLoss_def keep_handle keep_adopt split: sum.splits)

lemma keep_domain: "P s \<Longrightarrow> P (snd (handleDomainEvent env e s))"
  unfolding handleDomainEvent_def
  using keep_handle[of s "\<lparr>pe_Type = EventSourceLost, pe_Reason = ''radio link '' @ ev_resource e @ '' down''\<rparr>"]
    keep_handle[of s "\<lparr>pe_Type = EventSourceRestored, pe_Reason = ''radio link '' @ ev_resource e @ '' restored''\<rparr>"]
  by (auto split: prod.splits)

lemma keep_expire: "P s \<Longrightarrow> P (snd (expireHoldover env s))"
  unfolding expireHoldover_def
  using keep_handle[of s "\<lparr>pe_Type = EventHoldoverExpired, pe_Reason = ''holdover timer expired''\<rparr>"]
  by (auto split: prod.splits)

lemma keep_reconcile: "P s \<Longrightarrow> P (snd (reconcilePTP env d s))"
proof -
  assume "P s"
  let ?e1 = "\<lparr>pe_Type = EventSourceDetected, pe_Reason = ''master clock reference present''\<rparr>"
  let ?e2 = "\<lparr>pe_Type = EventCalibrationComplete, pe_Reason = ''master clock calibrated''\<rparr>"
  have 1: "P (Sync.adopt d s)" using \<open>P s\<close> by (rule keep_adopt)
  have 2: "P (snd (handleLocked env ?e1 (Sync.adopt d s)))" using 1 by (rule keep_handle)
  have 3: "P (snd (handleLocked env ?e2 (snd (handleLocked env ?e1 (Sync.adopt d s)))))"
    using 2 by (rule keep_handle)
  show ?thesis using 1 2 3 by (auto simp: reconcilePTP_def Let_def split: prod.splits option.splits)
qed

lemma keep_write_changed: "P s \<Longrightarrow> P (snd (write_changed env ws s))"
proof (induction ws arbitrary: s)
  case (Cons c ws)
  obtain differs path v where c: "c = (differs, path, v)" by (cases c)
  have "P (snd (if differs then stateWrite env path v s else ([], s)))"
    using Cons.prems keep_write by simp
  from Cons.IH[OF this] show ?case by (simp add: c split_def)
qed simp

lemma keep_tick: "P s \<Longrightarrow> P (snd (Tick_sync env s))"
proof -
  assume "P s"
  have q: "P (snd (refreshQuality env d s1))" if "P s1" for d s1
  proof -
    obtain x s0 where o: "simulated_offset env s1 = (x, s0)" by force
    have "P s0" using o that draws by (auto simp: simulated_offset_def noise_def Let_def split: if_splits)
    then have "P (s0\<lparr>sm_offset := x\<rparr>)" by (rule offset)
    then show ?thesis
      by (simp add: refreshQuality_def o Let_def split_def keep_write_changed del: write_changed.simps)
  qed
  have e: "P (snd (refreshSyncE env d s1))" if "P s1" for d s1
    by (simp add: refreshSyncE_def split_def keep_write_changed[OF that] del: write_changed.simps)
  have r: "P (snd (reconcilePTP env d s))" for d using \<open>P s\<close> by (rule keep_reconcile)
  show ?thesis
  proof (cases "env_Snapshot env (sm_world s)")
    case (Inr d)
    obtain r1 s1 where 1: "reconcilePTP env d s = (r1, s1)" by force
    obtain r2 s2 where 2: "refreshSyncE env d s1 = (r2, s2)" by force
    have "P s1" using r[of d] 1 by simp
    moreover have "P s2" using e[OF \<open>P s1\<close>, of d] 2 by simp
    ultimately show ?thesis using q[OF \<open>P s2\<close>, of d] Inr 1 2 by (simp add: Tick_sync_def split: option.splits)
  qed (use \<open>P s\<close> in \<open>simp add: Tick_sync_def\<close>)
qed

end

text \<open>An invariant that the wake-ups, the clock and the loop head keep too holds in every reachable
  state.\<close>

locale sync_invariant = sync_closed env P
  for env :: "('e, 'w) sync_env" and P :: "'w sync_manager \<Rightarrow> bool" +
  assumes init: "fresh_manager s \<Longrightarrow> P s"
    and head: "P s \<Longrightarrow> P (run_head s)"
    and ticked: "P s \<Longrightarrow> P (s\<lparr>sm_ticks := b\<rparr>)"
    and expired: "P s \<Longrightarrow> sm_expired s \<Longrightarrow> P (snd (expireHoldover env (s\<lparr>sm_expired := False\<rparr>)))"
    and elapsed: "P s \<Longrightarrow> 0 \<le> d \<Longrightarrow> elapse d s = Some s' \<Longrightarrow> P s'"
begin

lemma keep_select: "P s \<Longrightarrow> live b \<Longrightarrow> run_select env b s = Some s' \<Longrightarrow> P s'"
  by (cases b) (auto intro: head keep_tick ticked keep_domain expired split: if_splits)

lemma keep_step: "sync_step env s s' \<Longrightarrow> P s \<Longrightarrow> P s'"
  by (induction rule: sync_step.induct)
    (auto simp: Handle_ptp_def run_start_def intro: keep_handle keep_loss keep_tick keep_select head elapsed world)

lemma reachable: "sync_reachable env s \<Longrightarrow> P s"
  by (induction rule: sync_reachable.induct) (auto intro: init keep_step)

end

section \<open>The holdover timer\<close>

lemma elapse_Some:
  assumes "0 \<le> d"
  shows "elapse d s = Some (s\<lparr>sm_clock := (sm_clock s)\<lparr>now := now (sm_clock s) + d,
        timers := map (spend (now (sm_clock s) + d)) (timers (sm_clock s))\<rparr>,
      sm_ticks := sm_ticks s \<or> (\<exists>t \<in> set (timers (sm_clock s)). due (now (sm_clock s) + d) t \<and> fn t = TickFn),
      sm_expired := sm_expired s \<or> (\<exists>t \<in> set (timers (sm_clock s)). due (now (sm_clock s) + d) t \<and> fn t = ExpireFn)\<rparr>)"
proof -
  have wake: "run_callbacks wake ts p =
      (fst p \<or> (\<exists>t \<in> set ts. fn t = TickFn), snd p \<or> (\<exists>t \<in> set ts. fn t = ExpireFn))" for ts p
  proof (induction ts arbitrary: p)
    case (Cons t ts)
    obtain a b where "p = (a, b)" by force
    with Cons show ?case by (cases "fn t") (auto simp: run_callbacks_def)
  qed (simp add: run_callbacks_def)
  obtain n where "advance_loop (quiet wake) (now (sm_clock s) + d) (sm_clock s, sm_ticks s, sm_expired s) =
      Some ((sm_clock s)\<lparr>now := n, timers := map (spend (now (sm_clock s) + d)) (timers (sm_clock s))\<rparr>,
        run_callbacks wake (sort_key deadline (filter (due (now (sm_clock s) + d)) (timers (sm_clock s))))
          (sm_ticks s, sm_expired s))"
    using advance_loop_quiet[of wake "now (sm_clock s) + d" "sm_clock s"] by blast
  then show ?thesis
    using assms by (simp add: elapse_def Advance_def Let_def wake Bex_def conj_ac)
qed

lemma publish_simps [simp]:
  "sm_known (publish e s) = sm_known s" "sm_state (publish e s) = sm_state s"
  "sm_timer (publish e s) = sm_timer s" "sm_clock (publish e s) = sm_clock s"
  "sm_hasBus (publish e s) = sm_hasBus s" "sm_expired (publish e s) = sm_expired s"
  by (simp_all add: publish_def)

lemma entered_simps [simp]:
  "sm_known (entered dev nxt r s) = sm_known s" "sm_state (entered dev nxt r s) = nxt"
  "sm_hasBus (entered dev nxt r s) = sm_hasBus s" "sm_expired (entered dev nxt r s) = sm_expired s"
  by (simp_all add: entered_def Let_def split: option.splits)

text \<open>The invariant of the holdover timer: a timer is kept exactly while the clock is in holdover
  within specification, it is due within the largest configurable timeout, and it has not fired
  unless the expiry is waiting for \<open>Run\<close>.  The last part needs writes of the clock state that
  succeed: an expiry whose write fails is not repeated.\<close>

definition writes_ok :: "('e, 'w) sync_env \<Rightarrow> bool" where
  "writes_ok env = (\<forall>v w. fst (env_SetState env ''ptp/clock/state'' v w) = None)"

definition timer_ok :: "bool \<Rightarrow> nat \<Rightarrow> sync_callback fakeClock \<Rightarrow> bool" where
  "timer_ok spent i c =
     (i < length (timers c) \<and> fn (timers c ! i) = ExpireFn \<and>
      deadline (timers c ! i) \<le> now c + 2 ^ 32 * second \<and> (active (timers c ! i) \<or> spent))"

definition holdover_inv :: "('e, 'w) sync_env \<Rightarrow> 'w sync_manager \<Rightarrow> bool" where
  "holdover_inv env s =
     ((if sm_known s then validState (sm_state s) else sm_state s = []) \<and>
      (sm_timer s \<noteq> None \<longleftrightarrow> sm_state s = StateHoldoverInSpec) \<and>
      (\<forall>i. sm_timer s = Some i \<longrightarrow> timer_ok (sm_expired s \<or> \<not> writes_ok env) i (sm_clock s)))"

lemma holdover_inv_known: "holdover_inv env s \<Longrightarrow> sm_state s = StateHoldoverInSpec \<Longrightarrow> sm_known s"
  by (auto simp: holdover_inv_def sync_consts split: if_splits)

lemma timer_ok_new:
  assumes "AfterFunc t ExpireFn c = (i, c')" "t < 2 ^ 32 * second"
  shows "timer_ok spent i c'"
  using assms by (auto simp: timer_ok_def AfterFunc_def nth_append)

lemma timer_ok_start: "\<exists>i. sm_timer (startHoldover d s) = Some i \<and> timer_ok spent i (sm_clock (startHoldover d s))"
proof -
  have "uint (ptp_HoldoverTimeout (dv_PTP d)) < 2 ^ 32"
    using uint_bounded[of "ptp_HoldoverTimeout (dv_PTP d)"] by simp
  then show ?thesis
    using timer_ok_new[OF surjective_pairing, of "uint (ptp_HoldoverTimeout (dv_PTP d)) * second"]
    by (simp add: startHoldover_def Let_def split_def)
qed

lemma timer_ok_elapse:
  assumes "timer_ok spent i c" "0 \<le> d"
  shows "timer_ok (spent \<or> (\<exists>t \<in> set (timers c). due (now c + d) t \<and> fn t = ExpireFn)) i
    (c\<lparr>now := now c + d, timers := map (spend (now c + d)) (timers c)\<rparr>)"
  using assms by (auto simp: timer_ok_def spend_def)

lemma timer_ok_tick: "timer_ok spent i c \<Longrightarrow> timer_ok spent i (snd (AfterFunc t TickFn c))"
  by (auto simp: timer_ok_def AfterFunc_def nth_append)

lemma entered_timer:
  "sm_timer (entered dev nxt r s) =
     (if nxt = StateHoldoverInSpec
      then (case dev of None \<Rightarrow> sm_timer s | Some d \<Rightarrow> sm_timer (startHoldover d (s\<lparr>sm_state := nxt\<rparr>))) else None)"
  "nxt = StateHoldoverInSpec \<Longrightarrow> dev = Some d \<Longrightarrow>
     sm_clock (entered dev nxt r s) = sm_clock (startHoldover d (s\<lparr>sm_state := nxt\<rparr>))"
  by (simp_all add: entered_def Let_def split: option.splits)

lemma holdover_inv_entered:
  assumes "holdover_inv env s" "sm_known s" "edge (sm_state s) nxt" "nxt = StateHoldoverInSpec \<longrightarrow> dev \<noteq> None"
  shows "holdover_inv env (entered dev nxt r s)"
proof (cases "nxt = StateHoldoverInSpec")
  case True
  with assms(4) obtain d where "dev = Some d" by blast
  with True assms(2) edge_valid[OF assms(3)] timer_ok_start[of d "s\<lparr>sm_state := nxt\<rparr>"]
  show ?thesis by (auto simp: holdover_inv_def entered_timer)
qed (use assms edge_valid in \<open>auto simp: holdover_inv_def entered_timer\<close>)

lemma holdover_inv_adopt:
  assumes "holdover_inv env s" "\<not> sm_known s"
  shows "holdover_inv env (adopt d s)"
proof -
  have n: "sm_timer s = None" using assms by (auto simp: holdover_inv_def sync_consts)
  show ?thesis
    using n assms(2) timer_ok_start[of d "s\<lparr>sm_state := StateHoldoverInSpec, sm_known := True\<rparr>"]
    by (auto simp: adopt_def Let_def holdover_inv_def validState_def)
qed

lemma holdover_inv_expire:
  assumes "holdover_inv env s" "sm_expired s"
  shows "holdover_inv env (snd (expireHoldover env (s\<lparr>sm_expired := False\<rparr>)))"
proof (cases "sm_state s = StateHoldoverInSpec")
  case True
  then have k: "sm_known s" using assms(1) holdover_inv_known by blast
  have ne: "StateHoldoverOutOfSpec \<noteq> StateHoldoverInSpec" by (simp add: sync_consts)
  obtain r w where w: "env_SetState env ''ptp/clock/state'' (GString StateHoldoverOutOfSpec) (sm_world s) = (r, w)"
    by force
  have "r = None \<or> \<not> writes_ok env" using w by (metis fst_conv writes_ok_def)
  then show ?thesis
    using assms(1) True k ne
    by (auto simp: expireHoldover_def handleLocked_def event_valid_def ensureState_def ptp_transition_def
        enter_state_def stateWrite_def holdover_inv_def entered_timer validState_def w split: option.splits)
qed (use assms in \<open>auto simp: expireHoldover_def holdover_inv_def\<close>)

lemma holdover_inv_frame [simp]:
  "holdover_inv env (s\<lparr>sm_world := w\<rparr>) = holdover_inv env s"
  "holdover_inv env (s\<lparr>sm_offset := x\<rparr>) = holdover_inv env s"
  "holdover_inv env (s\<lparr>sm_draws := n\<rparr>) = holdover_inv env s"
  "holdover_inv env (s\<lparr>sm_ticks := b\<rparr>) = holdover_inv env s"
  by (simp_all add: holdover_inv_def)

lemma holdover_inv_fresh: "fresh_manager s \<Longrightarrow> holdover_inv env s"
  by (auto simp: fresh_manager_def New_sync_def holdover_inv_def sync_consts)

interpretation holdover: sync_invariant env "holdover_inv env" for env :: "('e, 'w) sync_env"
proof unfold_locales
  fix s s' :: "'w sync_manager" and d
  assume "holdover_inv env s" "0 \<le> d" "elapse d s = Some s'"
  then show "holdover_inv env s'"
    using timer_ok_elapse[of "sm_expired s \<or> \<not> writes_ok env" _ "sm_clock s" d]
    by (auto simp: elapse_Some holdover_inv_def disj_ac)
next
  fix s :: "'w sync_manager" assume "holdover_inv env s"
  then show "holdover_inv env (run_head s)"
    using timer_ok_tick by (auto simp: holdover_inv_def run_head_def split: prod.splits) (metis snd_conv)+
qed (simp_all add: holdover_inv_entered holdover_inv_adopt holdover_inv_expire holdover_inv_fresh)

text \<open>C16: a holdover ends.  From every reachable state in holdover within specification, whatever
  happened before, once the largest configurable timeout has passed the expiry is waiting for \<open>Run\<close>,
  and \<open>Run\<close> then moves the clock out of specification and raises the holdover alarm, provided writes
  of the clock state succeed.\<close>

theorem holdover_expires:
  assumes "sync_reachable env s" "sm_state s = StateHoldoverInSpec" "writes_ok env" "sm_hasBus s"
  shows "\<exists>s1 s2. elapse (2 ^ 32 * second) s = Some s1 \<and> run_select env OnExpired s1 = Some s2 \<and>
    sm_state s2 = StateHoldoverOutOfSpec \<and> AlarmSyncHoldover \<in> foldl apply_alarm as (sm_published s2)"
proof -
  have inv: "holdover_inv env s" using assms(1) by (rule holdover.reachable)
  then obtain i where i: "sm_timer s = Some i" "timer_ok (sm_expired s \<or> \<not> writes_ok env) i (sm_clock s)"
    using assms(2) by (auto simp: holdover_inv_def)
  let ?t = "timers (sm_clock s) ! i"
  have mem: "?t \<in> set (timers (sm_clock s))" "fn ?t = ExpireFn"
    "deadline ?t \<le> now (sm_clock s) + 2 ^ 32 * second" "active ?t \<or> sm_expired s"
    using i(2) assms(3) by (auto simp: timer_ok_def)
  obtain s1 where s1: "elapse (2 ^ 32 * second) s = Some s1" "sm_expired s1" "sm_state s1 = sm_state s"
    "sm_hasBus s1 = sm_hasBus s" "sm_known s1 = sm_known s"
    using mem by (subst (asm) elapse_Some) (auto simp: elapse_Some)
  have k: "sm_known s1" using s1(5) inv assms(2) holdover_inv_known by blast
  obtain w where w: "env_SetState env ''ptp/clock/state'' (GString StateHoldoverOutOfSpec) (sm_world s1) = (None, w)"
    using assms(3) by (metis writes_ok_def prod.collapse)
  have ne: "StateHoldoverOutOfSpec \<noteq> StateHoldoverInSpec" by (simp add: sync_consts)
  have "\<exists>s2. run_select env OnExpired s1 = Some s2 \<and> sm_state s2 = StateHoldoverOutOfSpec \<and>
      AlarmSyncHoldover \<in> foldl apply_alarm as (sm_published s2)"
    using s1 assms(2,4) k ne
    by (simp add: expireHoldover_def handleLocked_def event_valid_def ensureState_def ptp_transition_def
        enter_state_def stateWrite_def w entered_def publish_def run_head_def AfterFunc_def Let_def)
      (simp add: apply_alarm_def holdover_raised_def)
  then show ?thesis using s1(1) by blast
qed

text \<open>A manager over a router that accepts every write and reports a locked clock with a holdover
  timeout of one second.\<close>

definition sample_device :: Device where
  "sample_device = DefaultDevice\<lparr>dv_PTP := defaultPTPClock\<lparr>ptp_State := StateLocked, ptp_HoldoverTimeout := 1\<rparr>\<rparr>"

definition sample_env :: "(unit, unit) sync_env" where
  "sample_env = \<lparr>env_Snapshot = (\<lambda>w. Inr sample_device), env_SetState = (\<lambda>p v w. (None, w)),
     env_Float64 = (\<lambda>n. Fin (1/2))\<rparr>"

definition sample_manager :: "unit sync_manager" where
  "sample_manager = \<lparr>sm_hasBus = True, sm_tickInterval = DefaultTickInterval, sm_state = [], sm_known = False,
     sm_offset = Fin 0, sm_holdoverOffset = Fin 0, sm_holdoverStart = 0, sm_timer = None, sm_expired = False,
     sm_draws = 0, sm_ticks = False, sm_runTimer = None, sm_clock = NewFakeClock 1000, sm_world = (),
     sm_published = []\<rparr>"

definition lost :: ptp_event where "lost = \<lparr>pe_Type = EventSourceLost, pe_Reason = ''test''\<rparr>"

definition held_manager :: "unit sync_manager" where
  "held_manager = snd (Handle_ptp sample_env lost sample_manager)"

lemma sample_manager_fresh: "fresh_manager sample_manager"
  unfolding fresh_manager_def
  by (rule exI[of _ True], rule exI[of _ 0], rule exI[of _ 1000], rule exI[of _ "()"])
    (simp add: New_sync_def sample_manager_def)

lemma held_manager_reachable: "sync_reachable sample_env held_manager"
  unfolding held_manager_def
  by (rule sync_reachable.more[OF sync_reachable.fresh[OF sample_manager_fresh] sync_step.handle])
    (simp add: lost_def)

lemmas sync_run_defs =
  Handle_ptp_def handleLocked_def event_valid_def ensureState_def adopt_def ptp_transition_def enter_state_def
  stateWrite_def entered_def startHoldover_def stopHoldover_def publish_def AfterFunc_def Stop_def
  validState_def Let_def

lemma held_manager_eq:
  "held_manager = sample_manager\<lparr>sm_state := StateHoldoverInSpec, sm_known := True, sm_holdoverStart := 1000,
     sm_timer := Some 0,
     sm_clock := \<lparr>now = 1000, timers = [\<lparr>deadline = 1000 + second, fn = ExpireFn, active = True\<rparr>]\<rparr>,
     sm_published := [stamp 1000 (transition_event StateLocked StateHoldoverInSpec ''test'')]\<rparr>"
  by (simp add: held_manager_def sample_manager_def sample_env_def sample_device_def lost_def NewFakeClock_def
      sync_run_defs sync_consts)

theorem holdover_expires_witness:
  "\<exists>s1 s2. elapse (2 ^ 32 * second) held_manager = Some s1 \<and> run_select sample_env OnExpired s1 = Some s2 \<and>
    sm_state s2 = StateHoldoverOutOfSpec \<and> AlarmSyncHoldover \<in> foldl apply_alarm {} (sm_published s2)"
  by (rule holdover_expires[OF held_manager_reachable])
    (simp_all add: held_manager_eq sample_manager_def writes_ok_def sample_env_def)

section \<open>The published transitions\<close>

text \<open>The transitions of a trace, followed from a state: each must start where the last one ended
  and be an edge of the state diagram.\<close>

fun walk :: "string \<Rightarrow> event list \<Rightarrow> string option" where
  "walk a [] = Some a"
| "walk a (e # es) =
     (if ev_type e = TypeStateTransition
      then if ev_from e = a \<and> edge a (ev_to e) then walk (ev_to e) es else None
      else walk a es)"

lemma walk_append: "walk a (xs @ ys) = (case walk a xs of None \<Rightarrow> None | Some b \<Rightarrow> walk b ys)"
  by (induction xs arbitrary: a) auto

definition holdover_alarms :: "string \<Rightarrow> string set" where
  "holdover_alarms s = (if s = StateHoldoverOutOfSpec then {AlarmSyncHoldover} else {})"

definition trace_from :: "string \<Rightarrow> event list \<Rightarrow> string \<Rightarrow> bool" where
  "trace_from a es b =
     (walk a es = Some b \<and> foldl apply_alarm (holdover_alarms a) es = holdover_alarms b)"

definition trace_inv :: "'w sync_manager \<Rightarrow> bool" where
  "trace_inv s =
     (if \<not> sm_hasBus s then sm_published s = []
      else if sm_known s then \<exists>a. validState a \<and> trace_from a (sm_published s) (sm_state s)
      else sm_published s = [])"

lemma entered_published:
  "sm_hasBus s \<Longrightarrow> sm_published (entered dev nxt r s) = sm_published s @
     map (stamp (now (sm_clock (entered dev nxt r s))))
       (transition_event (sm_state s) nxt (if r = [] then nxt else r) #
        (if nxt = StateHoldoverOutOfSpec then [holdover_raised (sm_state s)]
         else if sm_state s = StateHoldoverOutOfSpec then [holdover_cleared (sm_state s) nxt] else []))"
  "\<not> sm_hasBus s \<Longrightarrow> sm_published (entered dev nxt r s) = sm_published s"
  by (auto simp: entered_def Let_def publish_def split: option.splits)

lemma stamp_fields [simp]:
  "ev_type (stamp t e) = ev_type e" "ev_from (stamp t e) = ev_from e" "ev_to (stamp t e) = ev_to e"
  "ev_alarm (stamp t e) = ev_alarm e"
  by (simp_all add: stamp_def)

lemma trace_entered:
  assumes "trace_inv s" "sm_known s" "edge (sm_state s) nxt" "nxt \<noteq> sm_state s"
  shows "trace_inv (entered dev nxt r s)"
proof (cases "sm_hasBus s")
  case True
  let ?es = "transition_event (sm_state s) nxt (if r = [] then nxt else r) #
        (if nxt = StateHoldoverOutOfSpec then [holdover_raised (sm_state s)]
         else if sm_state s = StateHoldoverOutOfSpec then [holdover_cleared (sm_state s) nxt] else [])"
  from assms True obtain a where a: "validState a" "trace_from a (sm_published s) (sm_state s)"
    by (auto simp: trace_inv_def)
  have "walk (sm_state s) (map (stamp t) ?es) = Some nxt" for t
    using assms(3) by (simp add: transition_event_def holdover_raised_def holdover_cleared_def)
  moreover have "foldl apply_alarm (holdover_alarms (sm_state s)) (map (stamp t) ?es) = holdover_alarms nxt" for t
    using assms(4) by (auto simp: transition_event_def holdover_raised_def holdover_cleared_def
        holdover_alarms_def apply_alarm_def)
  ultimately have "trace_from a (sm_published (entered dev nxt r s)) nxt"
    using a(2) by (simp only: trace_from_def entered_published(1)[OF True] walk_append foldl_append option.case)
  then show ?thesis using a(1) assms(2) True by (auto simp: trace_inv_def)
qed (use assms in \<open>simp add: trace_inv_def entered_published\<close>)

lemma trace_adopt: "trace_inv s \<Longrightarrow> \<not> sm_known s \<Longrightarrow> trace_inv (adopt d s)"
  by (auto simp: trace_inv_def trace_from_def adopt_def Let_def validState_def)

lemma trace_frame [simp]:
  "trace_inv (s\<lparr>sm_world := w\<rparr>) = trace_inv s" "trace_inv (s\<lparr>sm_offset := x\<rparr>) = trace_inv s"
  "trace_inv (s\<lparr>sm_draws := n\<rparr>) = trace_inv s" "trace_inv (s\<lparr>sm_ticks := b\<rparr>) = trace_inv s"
  "trace_inv (s\<lparr>sm_expired := b\<rparr>) = trace_inv s" "trace_inv (run_head s) = trace_inv s"
  by (simp_all add: trace_inv_def run_head_def AfterFunc_def)

lemma trace_elapse: "trace_inv s \<Longrightarrow> 0 \<le> d \<Longrightarrow> elapse d s = Some s' \<Longrightarrow> trace_inv s'"
  by (auto simp: elapse_Some trace_inv_def)

lemma trace_fresh: "fresh_manager s \<Longrightarrow> trace_inv s"
  by (auto simp: fresh_manager_def New_sync_def trace_inv_def)

interpretation trace_closed: sync_closed env trace_inv for env :: "('e, 'w) sync_env"
  by unfold_locales (simp_all add: trace_entered trace_adopt)

interpretation trace: sync_invariant env trace_inv for env :: "('e, 'w) sync_env"
  by unfold_locales (simp_all add: trace_elapse trace_fresh trace_closed.keep_expire)



section \<open>A stale expiry\<close>

text \<open>The expiry of a holdover that has already ended stays in its channel: a reference that is restored
  and lost again before \<open>Run\<close> takes it out starts a new holdover, and the old expiry ends it.\<close>

definition radio_alarm :: "EventType \<Rightarrow> event" where
  "radio_alarm t = \<lparr>ev_type = t, ev_resource = ''radio0'', ev_severity = [], ev_message = [],
     ev_domain = DomainRadio, ev_alarm = AlarmRadioLinkDown, ev_from = [], ev_to = [], ev_timestamp = 1\<rparr>"

definition relock :: "unit sync_manager \<Rightarrow> unit sync_manager option" where
  "relock s =
     Option.bind (run_select sample_env (OnEvent (radio_alarm TypeAlarmCleared)) s)
       (run_select sample_env (OnEvent (radio_alarm TypeAlarmRaised)))"

text \<open>C17: a late expiry ends a holdover that has just begun.  The clock is locked with a holdover
  timeout of one second and loses its reference; after that second the expiry is waiting in its
  channel; the reference is restored and lost again; the new holdover starts at the current time
  with its own timer still running, yet the next pass of \<open>Run\<close> moves the clock out of specification at
  that same instant.\<close>

theorem stale_expiry_ends_new_holdover:
  "\<exists>s1 s2 s3. elapse second held_manager = Some s1 \<and> relock s1 = Some s2 \<and>
     run_select sample_env OnExpired s2 = Some s3 \<and>
     sm_state s2 = StateHoldoverInSpec \<and> sm_holdoverStart s2 = now (sm_clock s2) \<and>
     sm_state s3 = StateHoldoverOutOfSpec \<and> now (sm_clock s3) = sm_holdoverStart s2"
proof -
  let ?s1 = "held_manager\<lparr>sm_clock := \<lparr>now = 1000 + second,
      timers = [\<lparr>deadline = 1000 + second, fn = ExpireFn, active = False\<rparr>]\<rparr>, sm_expired := True\<rparr>"
  have 1: "elapse second held_manager = Some ?s1"
    by (subst elapse_Some) (simp_all add: held_manager_eq sample_manager_def spend_def)
  let ?s = "run_head (?s1\<lparr>sm_state := StateLocked, sm_timer := None, sm_holdoverStart := 0,
      sm_published := sm_published ?s1 @
        [stamp (1000 + second) (transition_event StateHoldoverInSpec StateLocked ''radio link radio0 restored'')]\<rparr>)"
  have 2: "run_select sample_env (OnEvent (radio_alarm TypeAlarmCleared)) ?s1 = Some ?s"
    by (simp add: handleDomainEvent_def radio_alarm_def held_manager_eq sample_manager_def
        sample_env_def sync_run_defs sync_consts)
  obtain s2 where s2: "run_select sample_env (OnEvent (radio_alarm TypeAlarmRaised)) ?s = Some s2"
    "sm_state s2 = StateHoldoverInSpec" "sm_known s2" "sm_expired s2" "now (sm_clock s2) = 1000 + second"
    "sm_holdoverStart s2 = 1000 + second"
    by (simp add: handleDomainEvent_def radio_alarm_def held_manager_eq sample_manager_def
        sample_env_def sample_device_def run_head_def sync_run_defs sync_consts)
  have "\<exists>s3. run_select sample_env OnExpired s2 = Some s3 \<and> sm_state s3 = StateHoldoverOutOfSpec \<and>
      now (sm_clock s3) = 1000 + second"
    using s2(2-5) by (simp add: expireHoldover_def run_head_def sample_env_def sync_run_defs sync_consts)
  then show ?thesis using 1 2 s2 by (simp add: relock_def)
qed

section \<open>Wake-ups of the loop\<close>

definition tick_timers :: "'w sync_manager \<Rightarrow> nat" where
  "tick_timers s = length (filter (\<lambda>t. active t \<and> fn t = TickFn) (timers (sm_clock s)))"

lemma filter_update_out:
  "\<not> Q x \<Longrightarrow> i < length xs \<Longrightarrow> \<not> Q (xs ! i) \<Longrightarrow> filter Q (xs[i := x]) = filter Q xs"
proof (induction xs arbitrary: i)
  case (Cons y ys)
  then show ?case by (cases i) auto
qed simp

lemma tick_timers_stop:
  assumes "\<forall>i. sm_timer s = Some i \<longrightarrow> timer_ok b i (sm_clock s)"
  shows "tick_timers (stopHoldover s) = tick_timers s"
proof (cases "sm_timer s")
  case (Some i)
  with assms have "i < length (timers (sm_clock s))" "fn (timers (sm_clock s) ! i) = ExpireFn"
    by (auto simp: timer_ok_def)
  with Some show ?thesis by (simp add: tick_timers_def stopHoldover_def Stop_def filter_update_out)
qed (simp add: tick_timers_def stopHoldover_def)

lemma tick_timers_start:
  assumes "\<forall>i. sm_timer s = Some i \<longrightarrow> timer_ok b i (sm_clock s)"
  shows "tick_timers (startHoldover d s) = tick_timers s"
  using tick_timers_stop[OF assms] by (simp add: tick_timers_def startHoldover_def AfterFunc_def Let_def)

lemma tick_timers_frame [simp]:
  "tick_timers (s\<lparr>sm_state := x\<rparr>) = tick_timers s" "tick_timers (s\<lparr>sm_known := b\<rparr>) = tick_timers s"
  "tick_timers (s\<lparr>sm_world := w\<rparr>) = tick_timers s" "tick_timers (s\<lparr>sm_offset := y\<rparr>) = tick_timers s"
  "tick_timers (s\<lparr>sm_draws := n\<rparr>) = tick_timers s" "tick_timers (s\<lparr>sm_timer := t\<rparr>) = tick_timers s"
  "tick_timers (publish e s) = tick_timers s"
  by (simp_all add: tick_timers_def publish_def)

lemma tick_timers_entered:
  assumes "holdover_inv env s"
  shows "tick_timers (entered dev nxt r s) = tick_timers s"
proof -
  let ?s = "s\<lparr>sm_state := nxt\<rparr>"
  have t: "\<forall>i. sm_timer ?s = Some i \<longrightarrow> timer_ok (sm_expired s \<or> \<not> writes_ok env) i (sm_clock ?s)"
    using assms by (simp add: holdover_inv_def)
  show ?thesis
    using tick_timers_stop[OF t] tick_timers_start[OF t] by (auto simp: entered_def Let_def split: option.splits)
qed

lemma tick_timers_adopt:
  assumes "holdover_inv env s" "\<not> sm_known s"
  shows "tick_timers (adopt d s) = tick_timers s"
proof -
  have "sm_timer s = None" using assms by (auto simp: holdover_inv_def sync_consts)
  then show ?thesis by (auto simp: adopt_def Let_def tick_timers_start)
qed

interpretation tick_count: sync_closed env "\<lambda>s. holdover_inv env s \<and> tick_timers s = n"
  for env :: "('e, 'w) sync_env" and n
  by unfold_locales
    (auto simp: holdover_inv_entered holdover_inv_adopt tick_timers_entered[of env] tick_timers_adopt[of env])



section \<open>The simulated quality\<close>

definition draws_ok :: "('e, 'w) sync_env \<Rightarrow> bool" where
  "draws_ok env = (\<forall>n. \<exists>r. env_Float64 env n = Fin r \<and> 0 \<le> r \<and> r < 1)"

lemma noise_bounds:
  assumes "draws_ok env" "0 \<le> c" "c < 2 ^ 53"
  shows "\<exists>x. fst (noise env (Fin (of_int c)) s) = Fin x \<and> \<bar>x\<bar> \<le> of_int c"
proof -
  obtain r where r: "env_Float64 env (sm_draws s) = Fin r" "0 \<le> r" "r < 1"
    using assms(1) by (auto simp: draws_ok_def)
  obtain a where a: "f64_round (r * 2) = Fin a" "0 \<le> a" "a \<le> 2"
    using f64_round_between[of 0 "r * 2" 2] r by auto
  obtain b where b: "f64_round (a + - 1) = Fin b" "- 1 \<le> b" "b \<le> 1"
    using f64_round_between[of "- 1" "a + - 1" 1] a by auto
  have "\<bar>b * of_int c\<bar> \<le> 1 * of_int c"
    unfolding abs_mult using b assms(2) by (intro mult_mono) auto
  then obtain x where "f64_round (b * of_int c) = Fin x" "- of_int c \<le> x" "x \<le> of_int c"
    using f64_round_between[of "- c" "b * of_int c" c] assms(2,3) by (auto simp: abs_le_iff)
  then show ?thesis using r a b by (auto simp: noise_def f64_sub_def)
qed

lemma seconds_parts:
  assumes "\<bar>sec\<bar> \<le> 9223372036" "\<bar>nsec\<bar> \<le> second"
  shows "\<exists>z. f64_add (f64_round (of_int sec)) (f64_round (of_int nsec / 1000000000)) = Fin z \<and> \<bar>z\<bar> \<le> 10 ^ 10"
proof -
  have x: "f64_round (of_int sec) = Fin (of_int sec)" by (rule f64_round_of_int) (use assms(1) in simp)
  have sec: "\<bar>real_of_int sec\<bar> \<le> 9223372036" using assms(1) by linarith
  have "\<bar>real_of_int nsec\<bar> \<le> 1000000000" using assms(2) by linarith
  then obtain y where y: "f64_round (of_int nsec / 1000000000) = Fin y" "\<bar>y\<bar> \<le> 1"
    using f64_round_between[of "- 1" "of_int nsec / 1000000000" 1] by (auto simp: field_simps abs_le_iff)
  obtain z where "f64_round (of_int sec + y) = Fin z" "\<bar>z\<bar> \<le> 9223372037"
    using f64_round_between[of "- 9223372037" "of_int sec + y" 9223372037] sec y(2) by (auto simp: abs_le_iff)
  then show ?thesis using x y(1) by auto
qed

lemma Seconds_bounds:
  assumes "int64_min \<le> d" "d \<le> int64_max"
  shows "\<exists>x. Seconds d = Fin x \<and> \<bar>x\<bar> \<le> 10 ^ 10"
proof -
  have "\<bar>d\<bar> \<le> 9223372036854775808" using assms by (auto simp: int64_max_def int64_min_def)
  then have "\<bar>d\<bar> div second \<le> 9223372036" "0 \<le> \<bar>d\<bar> div second" by linarith+
  moreover have "\<bar>d\<bar> mod second \<le> second" "0 \<le> \<bar>d\<bar> mod second" by simp_all
  ultimately show ?thesis
    unfolding Seconds_def Let_def by (intro seconds_parts) (auto simp: sgn_if)
qed

lemma holdover_offset_finite:
  assumes "in_holdover s" "sm_holdoverOffset s = Fin h" "\<bar>h\<bar> \<le> 2 ^ 900"
  shows "\<exists>x. fst (simulated_offset env s) = Fin x \<and> \<bar>x\<bar> \<le> 2 ^ 903"
proof -
  let ?e = "Seconds (time_sub (now (sm_clock s)) (sm_holdoverStart s))"
  have nl: "sm_state s \<noteq> StateLocked" using assms(1) by (auto simp: sync_consts)
  have "\<exists>z. ?e = Fin z \<and> \<bar>z\<bar> \<le> 10 ^ 10"
    by (rule Seconds_bounds) (auto simp: time_sub_def int64_max_def int64_min_def)
  then obtain e where e: "(if f64_lt ?e (Fin 0) then Fin 0 else ?e) = Fin e" "0 \<le> e" "e \<le> 10 ^ 10"
    by (cases "f64_lt ?e (Fin 0)") auto
  obtain y where y: "f64_round (100 * e) = Fin y" "0 \<le> y" "y \<le> 10 ^ 12"
    using f64_round_between[of 0 "100 * e" "10 ^ 12"] e(2,3) by auto
  have "(10 ^ 12 :: real) \<le> 2 ^ 900" by simp
  then have s: "\<bar>h + y\<bar> \<le> 2 * 2 ^ 900" using assms(3) y(2,3) by linarith
  then have "\<bar>h + y\<bar> \<le> 2 ^ 1000" by simp
  then obtain x where x: "f64_round (h + y) = Fin x" "\<bar>x\<bar> \<le> 2 * \<bar>h + y\<bar> + 1"
    using f64_round_bound by blast
  have arith: "X \<le> Q" if "X \<le> 2 * a + 1" "a \<le> 2 * P" "Q = 8 * P" "1 \<le> P" for X a P Q :: real
    using that by linarith
  have "\<bar>x\<bar> \<le> 2 ^ 903" by (rule arith[OF x(2) s]) simp_all
  moreover have "fst (simulated_offset env s) = Fin x"
    using assms(1,2) nl e(1) y(1) x(1) by (simp add: simulated_offset_def Let_def DefaultDriftPPB_def)
  ultimately show ?thesis by blast
qed

lemma holdover_jitter_finite:
  assumes "in_holdover s" "sm_holdoverOffset s = Fin h" "\<bar>h\<bar> \<le> 2 ^ 900" "\<bar>x\<bar> \<le> 2 ^ 903"
  shows "\<exists>j. simulated_jitter (Fin x) s = Fin j \<and> 0 \<le> j"
proof -
  have "(2 ^ 900 + 2 ^ 903 :: real) \<le> 2 ^ 1000" by simp
  then have "\<bar>x + - h\<bar> \<le> 2 ^ 1000" using assms(3,4) by linarith
  then obtain y where "f64_round (x + - h) = Fin y" using f64_round_finite by blast
  then show ?thesis using assms(1,2) by (auto simp: simulated_jitter_def f64_sub_def Let_def)
qed



end
