(* ===== verification/Bridge.thy ===== *)
theory Bridge
  imports Model Domain MacAddr "HOL-Library.List_Lexorder" "HOL-Library.Char_ord"
begin

text \<open>
  The L2 switching domain (\<open>src/internal/l2\<close>) except spanning tree: the manager (\<open>l2.go\<close>), VLANs and
  QinQ (\<open>vlan.go\<close>), the forwarding database (\<open>mac.go\<close>), frame forwarding and counters
  (\<open>counters.go\<close>), storm control (\<open>storm.go\<close>) and LLDP (\<open>lldp.go\<close>).

  The router's operations on the running datastore are the fields of \<open>l2_env\<close>; the state holds the
  manager's fields, the world those operations change, the clock reading and the published events.
  Lists the code sorts have distinct keys, so a stable sort gives the same order.
\<close>

section \<open>The manager\<close>

datatype 'e l2_error =
    L2NoRouter
  | ErrVLANNotFound u16
  | ErrVLANExists u16
  | ErrMemberNotFound u16 string
  | ErrMACNotFound string
  | ErrInvalidMAC string
  | ErrTableFull u32
  | ErrPortUnknown string
  | ErrPortNumber u32
  | ErrSTPDisabled
  | STPEventWithoutPort
  | UnknownSTPEvent string
  | ErrStormTooLarge u32
  | ErrNeighborNotFound string
  | ErrInvalidObject string
  | ErrRouter 'e

record ('e, 'w) l2_env =
  r_Snapshot :: "'w \<Rightarrow> 'e + Device"
  r_Set :: "('e, 'w) set_state"
  r_SetState :: "('e, 'w) set_state"
  r_List :: "string \<Rightarrow> 'w \<Rightarrow> 'e + string list"
  r_Delete :: "string \<Rightarrow> 'w \<Rightarrow> 'e option \<times> 'w"

datatype STPPhase = STPPhaseDisabled | STPPhaseBlocking | STPPhaseListening | STPPhaseLearning | STPPhaseForwarding

record stpDeadline =
  sd_at :: time
  sd_phase :: STPPhase

record stormSample =
  smp_at :: time
  smp_packets :: u32

record 'w l2_manager =
  lm_hasBus :: bool
  lm_tickInterval :: duration
  lm_forwardDelay :: duration
  lm_stormThreshold :: u32
  lm_stormWindow :: duration
  lm_lastAging :: time
  lm_stpPending :: "(string, stpDeadline) gomap"
  lm_stormSamples :: "(string, stormSample list) gomap"
  lm_stormAlarm :: "(string, bool) gomap"
  lm_now :: time
  lm_world :: 'w
  lm_published :: "event list"

record l2_deps =
  ld_TickInterval :: duration
  ld_ForwardDelay :: duration
  ld_StormThresholdPPS :: u32
  ld_StormWindow :: duration

definition L2DefaultTickInterval :: duration where "L2DefaultTickInterval = 5 * second"
definition DefaultForwardDelay :: duration where "DefaultForwardDelay = 15 * second"
definition DefaultStormThresholdPPS :: u32 where "DefaultStormThresholdPPS = 1000"
definition DefaultStormWindow :: duration where "DefaultStormWindow = second"
definition MaxStormPackets :: u32 where "MaxStormPackets = 1000000"
definition MinFrameBytes :: u64 where "MinFrameBytes = 64"

definition New_l2 ::
    "bool \<Rightarrow> bool \<Rightarrow> l2_deps \<Rightarrow> time \<Rightarrow> 'w \<Rightarrow> 'e l2_error + 'w l2_manager" where
  "New_l2 hasRouter hasBus deps now w =
     (if \<not> hasRouter then Inl L2NoRouter
      else Inr \<lparr>lm_hasBus = hasBus,
                lm_tickInterval = (if ld_TickInterval deps \<le> 0 then L2DefaultTickInterval else ld_TickInterval deps),
                lm_forwardDelay = (if ld_ForwardDelay deps \<le> 0 then DefaultForwardDelay else ld_ForwardDelay deps),
                lm_stormThreshold =
                  (if ld_StormThresholdPPS deps = 0 then DefaultStormThresholdPPS else ld_StormThresholdPPS deps),
                lm_stormWindow = (if ld_StormWindow deps \<le> 0 then DefaultStormWindow else ld_StormWindow deps),
                lm_lastAging = 0, lm_stpPending = [], lm_stormSamples = [], lm_stormAlarm = [],
                lm_now = now, lm_world = w, lm_published = []\<rparr>)"

definition publish_l2 :: "event \<Rightarrow> 'w l2_manager \<Rightarrow> 'w l2_manager" where
  "publish_l2 e s =
     (if \<not> lm_hasBus s then s else s\<lparr>lm_published := lm_published s @ [stamp (lm_now s) e]\<rparr>)"

definition state_l2 ::
    "('e, 'w) l2_env \<Rightarrow> string \<Rightarrow> goval \<Rightarrow> 'w l2_manager \<Rightarrow> 'e l2_error option \<times> 'w l2_manager" where
  "state_l2 env path v s =
     (case r_SetState env path v (lm_world s) of
        (err, w) \<Rightarrow> (map_option ErrRouter err, s\<lparr>lm_world := w\<rparr>))"

definition set_l2 ::
    "('e, 'w) l2_env \<Rightarrow> string \<Rightarrow> goval \<Rightarrow> 'w l2_manager \<Rightarrow> 'e l2_error option \<times> 'w l2_manager" where
  "set_l2 env path v s =
     (case r_Set env path v (lm_world s) of
        (err, w) \<Rightarrow> (map_option ErrRouter err, s\<lparr>lm_world := w\<rparr>))"

definition snapshot_l2 :: "('e, 'w) l2_env \<Rightarrow> 'w l2_manager \<Rightarrow> 'e l2_error + Device" where
  "snapshot_l2 env s = (case r_Snapshot env (lm_world s) of Inl e \<Rightarrow> Inl (ErrRouter e) | Inr d \<Rightarrow> Inr d)"

text \<open>A read that fails ends the operation with its error; otherwise the rest runs on the result.\<close>

definition reading :: "'e + 'a \<Rightarrow> 's \<Rightarrow> ('a \<Rightarrow> 'e option \<times> 's) \<Rightarrow> 'e option \<times> 's" where
  "reading r s k = (case r of Inl e \<Rightarrow> (Some e, s) | Inr x \<Rightarrow> k x)"

definition removeSubtree ::
    "('e, 'w) l2_env \<Rightarrow> string \<Rightarrow> 'w l2_manager \<Rightarrow> 'e l2_error option \<times> 'w l2_manager" where
  "removeSubtree env base s =
     (case r_List env base (lm_world s) of
        Inl e \<Rightarrow> (Some (ErrRouter e), s)
      | Inr leaves \<Rightarrow>
          each (\<lambda>path s. case r_Delete env path (lm_world s) of
                 (err, w) \<Rightarrow> (map_option ErrRouter err, s\<lparr>lm_world := w\<rparr>)) leaves s)"

section \<open>VLANs\<close>

fun findVLAN :: "VLAN list \<Rightarrow> u16 \<Rightarrow> VLAN option" where
  "findVLAN [] i = None"
| "findVLAN (v # vs) i = (if vl_ID v = i then Some v else findVLAN vs i)"

fun findMember :: "VLANPort list \<Rightarrow> string \<Rightarrow> VLANPort option" where
  "findMember [] port = None"
| "findMember (m # ms) port = (if vp_Port m = port then Some m else findMember ms port)"

definition vlanPrefix :: "u16 \<Rightarrow> string" where
  "vlanPrefix i = ''vlans/vlan[id='' @ itoa (unat i) @ '']''"

definition memberPrefix :: "u16 \<Rightarrow> string \<Rightarrow> string" where
  "memberPrefix i port = vlanPrefix i @ ''/ports/port[port='' @ port @ '']''"

definition VLANs :: "('e, 'w) l2_env \<Rightarrow> 'w l2_manager \<Rightarrow> 'e l2_error + VLAN list" where
  "VLANs env s = bind_res (snapshot_l2 env s) (\<lambda>d. Inr (sort_key vl_ID (dv_VLANs d)))"

definition VLAN_by_id :: "('e, 'w) l2_env \<Rightarrow> u16 \<Rightarrow> 'w l2_manager \<Rightarrow> 'e l2_error + VLAN" where
  "VLAN_by_id env i s =
     bind_res (VLANs env s) (\<lambda>vs. case findVLAN vs i of None \<Rightarrow> Inl (ErrVLANNotFound i) | Some v \<Rightarrow> Inr v)"

definition writeVLAN ::
    "('e, 'w) l2_env \<Rightarrow> VLAN \<Rightarrow> 'w l2_manager \<Rightarrow> 'e l2_error option \<times> 'w l2_manager" where
  "writeVLAN env v =
     each (\<lambda>(name, x). set_l2 env (vlanPrefix (vl_ID v) @ ''/'' @ name) x)
       [(''name'', GString (vl_Name v)), (''description'', GString (vl_Description v))]"

definition writeMember ::
    "('e, 'w) l2_env \<Rightarrow> u16 \<Rightarrow> VLANPort \<Rightarrow> 'w l2_manager \<Rightarrow> 'e l2_error option \<times> 'w l2_manager" where
  "writeMember env i m =
     each (\<lambda>(name, x). set_l2 env (memberPrefix i (vp_Port m) @ ''/'' @ name) x)
       [(''mode'', GString (vp_Mode m)), (''pvid'', GUint16 (vp_PVID m)), (''tagged'', GBool (vp_Tagged m)),
        (''qinq'', GBool (vp_QinQ m)), (''s-tag-vid'', GUint16 (vp_OuterVID m)),
        (''c-tag-handling'', GString (vp_CTagHandling m))]"

definition removeMember where
  "removeMember env i port s = removeSubtree env (memberPrefix i port) s"

text \<open>Validation before anything is stored.\<close>

definition validated :: "verdict \<Rightarrow> 's \<Rightarrow> 'e l2_error option \<times> 's" where
  "validated v s = (map_option ErrInvalidObject v, s)"

definition CreateVLAN ::
    "('e, 'w) l2_env \<Rightarrow> VLAN \<Rightarrow> 'w l2_manager \<Rightarrow> 'e l2_error option \<times> 'w l2_manager" where
  "CreateVLAN env v s =
     then_ok (validated (VLAN_Validate v) s) (\<lambda>s.
       case VLAN_by_id env (vl_ID v) s of
         Inr _ \<Rightarrow> (Some (ErrVLANExists (vl_ID v)), s)
       | Inl (ErrVLANNotFound _) \<Rightarrow>
           then_ok (writeVLAN env v s) (each (writeMember env (vl_ID v)) (vl_Ports v))
       | Inl e \<Rightarrow> (Some e, s))"

definition ReplaceVLAN ::
    "('e, 'w) l2_env \<Rightarrow> VLAN \<Rightarrow> 'w l2_manager \<Rightarrow> 'e l2_error option \<times> 'w l2_manager" where
  "ReplaceVLAN env v s =
     then_ok (validated (VLAN_Validate v) s) (\<lambda>s.
       reading (VLAN_by_id env (vl_ID v) s) s (\<lambda>current.
         then_ok (each (removeMember env (vl_ID v))
                    (filter (\<lambda>p. findMember (vl_Ports v) p = None) (map vp_Port (vl_Ports current))) s)
           (\<lambda>s. then_ok (writeVLAN env v s) (each (writeMember env (vl_ID v)) (vl_Ports v)))))"

definition DeleteVLAN ::
    "('e, 'w) l2_env \<Rightarrow> u16 \<Rightarrow> 'w l2_manager \<Rightarrow> 'e l2_error option \<times> 'w l2_manager" where
  "DeleteVLAN env i s = reading (VLAN_by_id env i s) s (\<lambda>_. removeSubtree env (vlanPrefix i) s)"

definition Members :: "('e, 'w) l2_env \<Rightarrow> u16 \<Rightarrow> 'w l2_manager \<Rightarrow> 'e l2_error + VLANPort list" where
  "Members env i s = bind_res (VLAN_by_id env i s) (\<lambda>v. Inr (sort_key vp_Port (vl_Ports v)))"

definition Member :: "('e, 'w) l2_env \<Rightarrow> u16 \<Rightarrow> string \<Rightarrow> 'w l2_manager \<Rightarrow> 'e l2_error + VLANPort" where
  "Member env i port s =
     bind_res (VLAN_by_id env i s)
       (\<lambda>v. case findMember (vl_Ports v) port of None \<Rightarrow> Inl (ErrMemberNotFound i port) | Some m \<Rightarrow> Inr m)"

definition SetMember ::
    "('e, 'w) l2_env \<Rightarrow> u16 \<Rightarrow> VLANPort \<Rightarrow> 'w l2_manager \<Rightarrow> 'e l2_error option \<times> 'w l2_manager" where
  "SetMember env i m s =
     then_ok (validated (VLANPort_Validate m) s)
       (\<lambda>s. reading (VLAN_by_id env i s) s (\<lambda>_. writeMember env i m s))"

definition RemoveMember ::
    "('e, 'w) l2_env \<Rightarrow> u16 \<Rightarrow> string \<Rightarrow> 'w l2_manager \<Rightarrow> 'e l2_error option \<times> 'w l2_manager" where
  "RemoveMember env i port s = reading (Member env i port s) s (\<lambda>_. removeMember env i port s)"

definition PortVLANs :: "('e, 'w) l2_env \<Rightarrow> string \<Rightarrow> 'w l2_manager \<Rightarrow> 'e l2_error + VLAN list" where
  "PortVLANs env port s =
     bind_res (VLANs env s) (\<lambda>vs. Inr (filter (\<lambda>v. findMember (vl_Ports v) port \<noteq> None) vs))"

definition Accepts :: "('e, 'w) l2_env \<Rightarrow> string \<Rightarrow> u16 \<Rightarrow> 'w l2_manager \<Rightarrow> 'e l2_error + bool" where
  "Accepts env port i s =
     (case VLAN_by_id env i s of
        Inl (ErrVLANNotFound _) \<Rightarrow> Inr False
      | Inl e \<Rightarrow> Inl e
      | Inr v \<Rightarrow> Inr (findMember (vl_Ports v) port \<noteq> None))"

definition TagStack :: "('e, 'w) l2_env \<Rightarrow> u16 \<Rightarrow> string \<Rightarrow> 'w l2_manager \<Rightarrow> 'e l2_error + u16 \<times> u16" where
  "TagStack env i port s =
     bind_res (Member env i port s)
       (\<lambda>m. Inr (if vp_Tagged m then vp_PVID m else 0, if vp_QinQ m then vp_OuterVID m else 0))"

section \<open>The forwarding database\<close>

definition normalizeMAC :: "string \<Rightarrow> 'e l2_error + string" where
  "normalizeMAC text =
     (case parseMAC text of
        Some bs \<Rightarrow> if length bs = 6 then Inr (mac_string bs) else Inl (ErrInvalidMAC text)
      | None \<Rightarrow> Inl (ErrInvalidMAC text))"

definition equalMAC :: "string \<Rightarrow> string \<Rightarrow> bool" where
  "equalMAC a b =
     (case (normalizeMAC a :: unit l2_error + string) of
        Inl _ \<Rightarrow> a = b
      | Inr l \<Rightarrow> (case (normalizeMAC b :: unit l2_error + string) of Inl _ \<Rightarrow> a = b | Inr r \<Rightarrow> l = r))"

definition normalizeMACString :: "string \<Rightarrow> string" where
  "normalizeMACString text =
     (case (normalizeMAC text :: unit l2_error + string) of Inl _ \<Rightarrow> text | Inr m \<Rightarrow> m)"

fun findMAC :: "MACEntry list \<Rightarrow> string \<Rightarrow> MACEntry option" where
  "findMAC [] mac = None"
| "findMAC (e # es) mac = (if equalMAC (me_MAC e) mac then Some e else findMAC es mac)"

fun bridge_port_from :: "u32 \<Rightarrow> Interface list \<Rightarrow> string \<Rightarrow> u32 option" where
  "bridge_port_from n [] name = None"
| "bridge_port_from n (i # is) name = (if if_Name i = name then Some n else bridge_port_from (n + 1) is name)"

definition bridgePortOf :: "Device \<Rightarrow> string \<Rightarrow> 'e l2_error + u32" where
  "bridgePortOf d name =
     (case bridge_port_from 1 (dv_Interfaces d) name of None \<Rightarrow> Inl (ErrPortUnknown name) | Some n \<Rightarrow> Inr n)"

definition portNameOf :: "Device \<Rightarrow> u32 \<Rightarrow> 'e l2_error + string" where
  "portNameOf d number =
     (if number = 0 \<or> number > of_nat (length (dv_Interfaces d)) then Inl (ErrPortNumber number)
      else Inr (if_Name (dv_Interfaces d ! unat (number - 1))))"

definition portAccepts :: "Device \<Rightarrow> string \<Rightarrow> u16 \<Rightarrow> bool" where
  "portAccepts d port i =
     (case findVLAN (dv_VLANs d) i of None \<Rightarrow> False | Some v \<Rightarrow> findMember (vl_Ports v) port \<noteq> None)"

definition macPrefix :: "string \<Rightarrow> string" where
  "macPrefix mac = ''mac-table/entry[mac-address='' @ mac @ '']''"

definition MACEntries :: "('e, 'w) l2_env \<Rightarrow> 'w l2_manager \<Rightarrow> 'e l2_error + MACEntry list" where
  "MACEntries env s =
     bind_res (snapshot_l2 env s)
       (\<lambda>d. Inr (sort_key me_VLAN (sort_key (\<lambda>e. normalizeMACString (me_MAC e)) (mt_Entries (dv_MACTable d)))))"

definition MACEntry_of :: "('e, 'w) l2_env \<Rightarrow> string \<Rightarrow> 'w l2_manager \<Rightarrow> 'e l2_error + MACEntry" where
  "MACEntry_of env mac s =
     bind_res (normalizeMAC mac) (\<lambda>address. bind_res (MACEntries env s)
       (\<lambda>es. case findMAC es address of None \<Rightarrow> Inl (ErrMACNotFound address) | Some e \<Rightarrow> Inr e))"

definition syncCount :: "('e, 'w) l2_env \<Rightarrow> 'w l2_manager \<Rightarrow> 'e l2_error option \<times> 'w l2_manager" where
  "syncCount env s =
     reading (MACEntries env s) s
       (\<lambda>es. state_l2 env ''mac-table/current-count'' (GUint32 (of_nat (length es))) s)"

definition writeMAC ::
    "('e, 'w) l2_env \<Rightarrow> MACEntry \<Rightarrow> 'w l2_manager \<Rightarrow> 'e l2_error option \<times> 'w l2_manager" where
  "writeMAC env e s =
     then_ok (each (\<lambda>(name, x). set_l2 env (macPrefix (me_MAC e) @ ''/'' @ name) x)
               [(''vlan-id'', GUint16 (me_VLAN e)), (''port'', GUint32 (me_Port e)),
                (''type'', GString (me_Type e)), (''permanent'', GBool (me_Permanent e))] s)
       (\<lambda>s. then_ok (state_l2 env (macPrefix (me_MAC e) @ ''/age'') (GUint32 (me_Age e)) s) (syncCount env))"

definition removeMAC where
  "removeMAC env mac s = removeSubtree env (macPrefix mac) s"

text \<open>The result of storing an entry: the entry, or the error of the write.\<close>

definition stored :: "MACEntry \<Rightarrow> 'e l2_error option \<times> 's \<Rightarrow> ('e l2_error + MACEntry) \<times> 's" where
  "stored e r = ((case fst r of None \<Rightarrow> Inr e | Some err \<Rightarrow> Inl err), snd r)"

definition learn ::
    "('e, 'w) l2_env \<Rightarrow> string \<Rightarrow> u16 \<Rightarrow> string \<Rightarrow> 'w l2_manager
      \<Rightarrow> ('e l2_error + MACEntry) \<times> 'w l2_manager" where
  "learn env address vlanID port s =
     (case snapshot_l2 env s of
        Inl e \<Rightarrow> (Inl e, s)
      | Inr d \<Rightarrow>
          (case bridgePortOf d port of
             Inl e \<Rightarrow> (Inl e, s)
           | Inr index \<Rightarrow>
               if \<not> portAccepts d port vlanID then (Inl (ErrMemberNotFound vlanID port), s)
               else
                 (let found = findMAC (mt_Entries (dv_MACTable d)) address;
                      permanent = (case found of None \<Rightarrow> False | Some e \<Rightarrow> me_Permanent e);
                      entry = \<lparr>me_MAC = address, me_VLAN = vlanID, me_Port = index,
                               me_Type = MACEntryTypeDynamic, me_Age = 0, me_Permanent = permanent\<rparr>
                  in case found of
                       Some existing \<Rightarrow>
                         if me_Type existing = MACEntryTypeStatic then (Inr existing, s)
                         else stored entry (writeMAC env entry s)
                     | None \<Rightarrow>
                         if of_nat (length (mt_Entries (dv_MACTable d))) \<ge> mt_MaxEntries (dv_MACTable d)
                         then (Inl (ErrTableFull (mt_MaxEntries (dv_MACTable d))), s)
                         else stored entry (writeMAC env entry s))))"

definition Learn where
  "Learn env mac vlanID port s =
     (case normalizeMAC mac of Inl e \<Rightarrow> (Inl e, s) | Inr address \<Rightarrow> learn env address vlanID port s)"

definition SetStatic ::
    "('e, 'w) l2_env \<Rightarrow> MACEntry \<Rightarrow> 'w l2_manager \<Rightarrow> ('e l2_error + MACEntry) \<times> 'w l2_manager" where
  "SetStatic env entry0 s =
     (case normalizeMAC (me_MAC entry0) of
        Inl e \<Rightarrow> (Inl e, s)
      | Inr address \<Rightarrow>
          (let entry = entry0\<lparr>me_MAC := address, me_Type := MACEntryTypeStatic, me_Permanent := True, me_Age := 0\<rparr>
           in case MACEntry_Validate entry of
                Some e \<Rightarrow> (Inl (ErrInvalidObject e), s)
              | None \<Rightarrow>
                  (case snapshot_l2 env s of
                     Inl e \<Rightarrow> (Inl e, s)
                   | Inr d \<Rightarrow>
                       if findMAC (mt_Entries (dv_MACTable d)) address = None \<and>
                          of_nat (length (mt_Entries (dv_MACTable d))) \<ge> mt_MaxEntries (dv_MACTable d)
                       then (Inl (ErrTableFull (mt_MaxEntries (dv_MACTable d))), s)
                       else stored entry (writeMAC env entry s))))"

definition DeleteMAC ::
    "('e, 'w) l2_env \<Rightarrow> string \<Rightarrow> 'w l2_manager \<Rightarrow> 'e l2_error option \<times> 'w l2_manager" where
  "DeleteMAC env mac s =
     reading (normalizeMAC mac) s (\<lambda>address.
       reading (snapshot_l2 env s) s (\<lambda>d.
         if findMAC (mt_Entries (dv_MACTable d)) address = None then (Some (ErrMACNotFound address), s)
         else then_ok (removeMAC env address s) (syncCount env)))"

text \<open>The removal loop of \<open>FlushMAC\<close> counts what it removed before the first error.\<close>

fun flush_loop ::
    "('e, 'w) l2_env \<Rightarrow> MACEntry list \<Rightarrow> nat \<Rightarrow> 'w l2_manager
      \<Rightarrow> nat \<times> 'e l2_error option \<times> 'w l2_manager" where
  "flush_loop env [] n s = (n, None, s)"
| "flush_loop env (e # es) n s =
     (case removeMAC env (me_MAC e) s of
        (Some err, s1) \<Rightarrow> (n, Some err, s1)
      | (None, s1) \<Rightarrow> flush_loop env es (Suc n) s1)"

definition FlushMAC ::
    "('e, 'w) l2_env \<Rightarrow> u16 \<Rightarrow> 'w l2_manager \<Rightarrow> nat \<times> 'e l2_error option \<times> 'w l2_manager" where
  "FlushMAC env vlanID s =
     (case MACEntries env s of
        Inl e \<Rightarrow> (0, Some e, s)
      | Inr entries \<Rightarrow>
          (case flush_loop env
                  (filter (\<lambda>e. me_Type e = MACEntryTypeDynamic \<and> (vlanID = 0 \<or> me_VLAN e = vlanID)) entries) 0 s of
             (n, Some err, s1) \<Rightarrow> (n, Some err, s1)
           | (n, None, s1) \<Rightarrow>
               if n > 0 then (case syncCount env s1 of (err, s2) \<Rightarrow> (n, err, s2)) else (0, None, s1)))"

definition BridgePort where
  "BridgePort env name s = bind_res (snapshot_l2 env s) (\<lambda>d. bridgePortOf d name)"

definition PortName where
  "PortName env number s = bind_res (snapshot_l2 env s) (\<lambda>d. portNameOf d number)"

text \<open>One aging sweep.  The elapsed time is counted in whole seconds, as a 32-bit value.\<close>

definition elapsed_seconds :: "time \<Rightarrow> time \<Rightarrow> u32" where
  "elapsed_seconds lastAging now =
     (if lastAging \<noteq> 0 \<and> lastAging < now then of_int (min int64_max (now - lastAging) div second) else 0)"

fun age_entries ::
    "('e, 'w) l2_env \<Rightarrow> u32 \<Rightarrow> u32 \<Rightarrow> MACEntry list \<Rightarrow> bool \<Rightarrow> 'w l2_manager
      \<Rightarrow> (bool \<times> 'e l2_error option) \<times> 'w l2_manager" where
  "age_entries env agingTime elapsed [] removed s = ((removed, None), s)"
| "age_entries env agingTime elapsed (e # es) removed s =
     (if me_Type e \<noteq> MACEntryTypeDynamic then age_entries env agingTime elapsed es removed s
      else if me_Age e + elapsed \<ge> agingTime
      then (case removeMAC env (me_MAC e) s of
              (Some err, s1) \<Rightarrow> ((removed, Some err), s1)
            | (None, s1) \<Rightarrow> age_entries env agingTime elapsed es True s1)
      else (case state_l2 env (macPrefix (me_MAC e) @ ''/age'') (GUint32 (me_Age e + elapsed)) s of
              (Some err, s1) \<Rightarrow> ((removed, Some err), s1)
            | (None, s1) \<Rightarrow> age_entries env agingTime elapsed es removed s1))"

definition age :: "('e, 'w) l2_env \<Rightarrow> 'w l2_manager \<Rightarrow> 'e l2_error option \<times> 'w l2_manager" where
  "age env s0 =
     (let elapsed = elapsed_seconds (lm_lastAging s0) (lm_now s0);
          s = s0\<lparr>lm_lastAging := lm_now s0\<rparr>
      in if elapsed = 0 then (None, s)
         else reading (snapshot_l2 env s) s (\<lambda>d.
                case age_entries env (mt_AgingTime (dv_MACTable d)) elapsed (mt_Entries (dv_MACTable d)) False s of
                  ((_, Some err), s1) \<Rightarrow> (Some err, s1)
                | ((removed, None), s1) \<Rightarrow> if removed then syncCount env s1 else (None, s1)))"

section \<open>Frames and counters\<close>

fun findInterface :: "Interface list \<Rightarrow> string \<Rightarrow> Interface option" where
  "findInterface [] name = None"
| "findInterface (i # is) name = (if if_Name i = name then Some i else findInterface is name)"

definition addCounters :: "InterfaceCounters \<Rightarrow> InterfaceCounters \<Rightarrow> InterfaceCounters" where
  "addCounters a b =
     \<lparr>ic_InOctets = ic_InOctets a + ic_InOctets b, ic_OutOctets = ic_OutOctets a + ic_OutOctets b,
      ic_InUcastPkts = ic_InUcastPkts a + ic_InUcastPkts b, ic_OutUcastPkts = ic_OutUcastPkts a + ic_OutUcastPkts b,
      ic_InErrors = ic_InErrors a + ic_InErrors b, ic_OutErrors = ic_OutErrors a + ic_OutErrors b,
      ic_InDiscards = ic_InDiscards a + ic_InDiscards b, ic_OutDiscards = ic_OutDiscards a + ic_OutDiscards b\<rparr>"

definition Counters :: "('e, 'w) l2_env \<Rightarrow> string \<Rightarrow> 'w l2_manager \<Rightarrow> 'e l2_error + InterfaceCounters" where
  "Counters env port s =
     bind_res (snapshot_l2 env s)
       (\<lambda>d. case findInterface (dv_Interfaces d) port of
              None \<Rightarrow> Inl (ErrPortUnknown port) | Some i \<Rightarrow> Inr (if_Counters i))"

definition counter_fields :: "InterfaceCounters \<Rightarrow> (string \<times> goval) list" where
  "counter_fields c =
     [(''in-octets'', GUint64 (ic_InOctets c)), (''out-octets'', GUint64 (ic_OutOctets c)),
      (''in-ucast-pkts'', GUint64 (ic_InUcastPkts c)), (''out-ucast-pkts'', GUint64 (ic_OutUcastPkts c)),
      (''in-errors'', GUint32 (ic_InErrors c)), (''out-errors'', GUint32 (ic_OutErrors c)),
      (''in-discards'', GUint32 (ic_InDiscards c)), (''out-discards'', GUint32 (ic_OutDiscards c))]"

definition increment ::
    "('e, 'w) l2_env \<Rightarrow> string \<Rightarrow> InterfaceCounters \<Rightarrow> 'w l2_manager \<Rightarrow> 'e l2_error option \<times> 'w l2_manager" where
  "increment env port delta s =
     reading (Counters env port s) s (\<lambda>current.
       each (\<lambda>(name, x). state_l2 env (''interfaces/interface[name='' @ port @ '']/counters/'' @ name) x)
         (counter_fields (addCounters current delta)) s)"

definition Increment where
  "Increment env port delta s = increment env port delta s"

record frame =
  fr_Src :: string
  fr_Dst :: string
  fr_VLAN :: u16
  fr_Ingress :: string
  fr_Bytes :: u64
  fr_Broadcast :: bool

record frame_result =
  res_Ingress :: string
  res_Egress :: "string list"
  res_Learned :: bool
  res_Dropped :: string

definition egressPorts :: "Device \<Rightarrow> frame \<Rightarrow> string \<Rightarrow> u32 \<Rightarrow> string list" where
  "egressPorts d fr destination ingressIndex =
     (let flood = (case findVLAN (dv_VLANs d) (fr_VLAN fr) of
                     None \<Rightarrow> []
                   | Some v \<Rightarrow> sort (filter (\<lambda>p. p \<noteq> fr_Ingress fr) (map vp_Port (vl_Ports v))))
      in if fr_Broadcast fr then flood
         else case findMAC (mt_Entries (dv_MACTable d)) destination of
                None \<Rightarrow> flood
              | Some e \<Rightarrow>
                  if me_Port e = ingressIndex then []
                  else (case (portNameOf d (me_Port e) :: unit l2_error + string) of
                          Inr name \<Rightarrow> [name] | Inl _ \<Rightarrow> flood))"

text \<open>\<open>Transmit\<close>: the checks in order, then the ingress counters, learning, and the copies sent out.\<close>

definition send_copies ::
    "('e, 'w) l2_env \<Rightarrow> frame \<Rightarrow> frame_result \<Rightarrow> string list \<Rightarrow> 'w l2_manager
      \<Rightarrow> (frame_result \<times> 'e l2_error option) \<times> 'w l2_manager" where
  "send_copies env fr result ports s =
     (case each (\<lambda>p. increment env p (zero_counters\<lparr>ic_OutOctets := fr_Bytes fr, ic_OutUcastPkts := 1\<rparr>)) ports s of
        (err, s1) \<Rightarrow> ((result\<lparr>res_Egress := ports\<rparr>, err), s1))"

definition forward_frame ::
    "('e, 'w) l2_env \<Rightarrow> Device \<Rightarrow> frame \<Rightarrow> string \<Rightarrow> string \<Rightarrow> u32 \<Rightarrow> frame_result \<Rightarrow> 'w l2_manager
      \<Rightarrow> (frame_result \<times> 'e l2_error option) \<times> 'w l2_manager" where
  "forward_frame env d fr source destination ingressIndex result s0 =
     (case increment env (fr_Ingress fr) (zero_counters\<lparr>ic_InOctets := fr_Bytes fr, ic_InUcastPkts := 1\<rparr>) s0 of
        (Some err, s) \<Rightarrow> ((result, Some err), s)
      | (None, s) \<Rightarrow>
          (let ports = egressPorts d fr destination ingressIndex
           in case learn env source (fr_VLAN fr) (fr_Ingress fr) s of
                (Inr _, s1) \<Rightarrow> send_copies env fr (result\<lparr>res_Learned := True\<rparr>) ports s1
              | (Inl (ErrTableFull _), s1) \<Rightarrow> send_copies env fr result ports s1
              | (Inl err, s1) \<Rightarrow> ((result, Some err), s1)))"

definition no_result :: frame_result where
  "no_result = \<lparr>res_Ingress = [], res_Egress = [], res_Learned = False, res_Dropped = []\<rparr>"

definition Transmit ::
    "('e, 'w) l2_env \<Rightarrow> frame \<Rightarrow> 'w l2_manager \<Rightarrow> (frame_result \<times> 'e l2_error option) \<times> 'w l2_manager" where
  "Transmit env fr0 s =
     (let fr = (if fr_Bytes fr0 = 0 then fr0\<lparr>fr_Bytes := MinFrameBytes\<rparr> else fr0);
          result = no_result\<lparr>res_Ingress := fr_Ingress fr\<rparr>;
          drop_as = (\<lambda>reason delta. case increment env (fr_Ingress fr) delta s of
                       (err, s1) \<Rightarrow> ((result\<lparr>res_Dropped := reason\<rparr>, err), s1))
      in case (normalizeMAC (fr_Src fr), normalizeMAC (fr_Dst fr), snapshot_l2 env s) of
           (Inl e, _, _) \<Rightarrow> ((no_result, Some e), s)
         | (_, Inl e, _) \<Rightarrow> ((no_result, Some e), s)
         | (_, _, Inl e) \<Rightarrow> ((no_result, Some e), s)
         | (Inr source, Inr destination, Inr d) \<Rightarrow>
             (case (findInterface (dv_Interfaces d) (fr_Ingress fr), bridgePortOf d (fr_Ingress fr)) of
                (None, _) \<Rightarrow> ((no_result, Some (ErrPortUnknown (fr_Ingress fr))), s)
              | (_, Inl e) \<Rightarrow> ((no_result, Some e), s)
              | (Some iface, Inr ingressIndex) \<Rightarrow>
                  if \<not> portAccepts d (fr_Ingress fr) (fr_VLAN fr)
                  then drop_as (''vlan '' @ itoa (unat (fr_VLAN fr)) @ '' is not on port '' @ fr_Ingress fr)
                         (zero_counters\<lparr>ic_InDiscards := 1\<rparr>)
                  else if fr_Bytes fr > ucast (if_MTU iface)
                  then drop_as (''frame of '' @ itoa (unat (fr_Bytes fr)) @ '' bytes exceeds the ''
                                 @ itoa (unat (if_MTU iface)) @ '' byte MTU'')
                         (zero_counters\<lparr>ic_InErrors := 1\<rparr>)
                  else forward_frame env d fr source destination ingressIndex result s))"

section \<open>Storm control\<close>

text \<open>\<open>recordStorm\<close>: the samples that are still in the window, and the rate they hold, which the code
  adds up in 32 bits.\<close>

definition storm_window :: "'w l2_manager \<Rightarrow> string \<Rightarrow> stormSample list" where
  "storm_window s port =
     filter (\<lambda>x. \<not> smp_at x < lm_now s - lm_stormWindow s) (gm_get_or [] (lm_stormSamples s) port)"

definition recordStorm :: "string \<Rightarrow> u32 \<Rightarrow> 'w l2_manager \<Rightarrow> u32 \<times> 'w l2_manager" where
  "recordStorm port packets s =
     (let window = storm_window s port @ [\<lparr>smp_at = lm_now s, smp_packets = packets\<rparr>]
      in (sum_list (map smp_packets window), s\<lparr>lm_stormSamples := AList.update port window (lm_stormSamples s)\<rparr>))"

text \<open>How much of an injection passes storm control.\<close>

definition storm_accepted :: "u32 \<Rightarrow> u32 \<Rightarrow> u32 \<Rightarrow> u32" where
  "storm_accepted threshold rate packets =
     (if \<not> rate > threshold then packets
      else if rate - packets < threshold then threshold - (rate - packets)
      else 0)"

definition storm_raised :: "string \<Rightarrow> u32 \<Rightarrow> u32 \<Rightarrow> event" where
  "storm_raised port rate threshold =
     \<lparr>ev_type = TypeAlarmRaised, ev_resource = ''l2/storm/'' @ port, ev_severity = ''major'',
      ev_message = ''broadcast storm on '' @ port @ '': '' @ itoa (unat rate) @ '' pps above the '' @ itoa (unat threshold) @ '' pps limit'',
      ev_domain = DomainL2, ev_alarm = AlarmL2Storm, ev_from = [], ev_to = [], ev_timestamp = 0\<rparr>"

definition storm_cleared :: "string \<Rightarrow> u32 \<Rightarrow> u32 \<Rightarrow> event" where
  "storm_cleared port rate threshold =
     \<lparr>ev_type = TypeAlarmCleared, ev_resource = ''l2/storm/'' @ port, ev_severity = ''cleared'',
      ev_message = ''broadcast storm on '' @ port @ '' cleared: '' @ itoa (unat rate) @ '' pps within the '' @ itoa (unat threshold) @ '' pps limit'',
      ev_domain = DomainL2, ev_alarm = AlarmL2Storm, ev_from = [], ev_to = [], ev_timestamp = 0\<rparr>"

definition reportStorm :: "string \<Rightarrow> u32 \<Rightarrow> bool \<Rightarrow> 'w l2_manager \<Rightarrow> 'e l2_error option \<times> 'w l2_manager" where
  "reportStorm port rate storming s =
     (if gm_get_or False (lm_stormAlarm s) port = storming then (None, s)
      else (None, publish_l2
              (if storming then storm_raised port rate (lm_stormThreshold s)
               else storm_cleared port rate (lm_stormThreshold s))
              (s\<lparr>lm_stormAlarm := AList.update port storming (lm_stormAlarm s)\<rparr>)))"

definition stormVLAN :: "Device \<Rightarrow> string \<Rightarrow> VLAN option" where
  "stormVLAN d port =
     (case sort_key vl_ID (filter (\<lambda>v. findMember (vl_Ports v) port \<noteq> None) (dv_VLANs d)) of
        [] \<Rightarrow> None | v # _ \<Rightarrow> Some v)"

definition Storm ::
    "('e, 'w) l2_env \<Rightarrow> string \<Rightarrow> u32 \<Rightarrow> 'w l2_manager \<Rightarrow> 'e l2_error option \<times> 'w l2_manager" where
  "Storm env port packets s0 =
     (if packets = 0 then (None, s0)
      else if packets > MaxStormPackets then (Some (ErrStormTooLarge packets), s0)
      else reading (snapshot_l2 env s0) s0 (\<lambda>d.
        if findInterface (dv_Interfaces d) port = None then (Some (ErrPortUnknown port), s0)
        else case recordStorm port packets s0 of
          (rate, s) \<Rightarrow>
            let storming = (rate > lm_stormThreshold s);
                accepted = storm_accepted (lm_stormThreshold s) rate packets;
                octets = (ucast accepted :: u64) * MinFrameBytes;
                delta = zero_counters\<lparr>ic_InOctets := octets, ic_InUcastPkts := ucast accepted,
                          ic_InDiscards := packets - accepted\<rparr>;
                egress = zero_counters\<lparr>ic_OutOctets := octets, ic_OutUcastPkts := ucast accepted\<rparr>;
                others = (case stormVLAN d port of
                            None \<Rightarrow> [] | Some v \<Rightarrow> filter (\<lambda>p. p \<noteq> port) (map vp_Port (vl_Ports v)))
            in then_ok (increment env port delta s) (\<lambda>s.
                 then_ok (each (\<lambda>p. increment env p egress) others s) (reportStorm port rate storming))))"

definition Storming :: "string \<Rightarrow> 'w l2_manager \<Rightarrow> bool" where
  "Storming port s = gm_get_or False (lm_stormAlarm s) port"

section \<open>LLDP\<close>

definition lldpNeighborPrefix :: "string \<Rightarrow> string" where
  "lldpNeighborPrefix port = ''lldp/neighbors/neighbor[port='' @ port @ '']''"

definition LLDP :: "('e, 'w) l2_env \<Rightarrow> 'w l2_manager \<Rightarrow> 'e l2_error + LLDPConfig" where
  "LLDP env s = bind_res (snapshot_l2 env s) (\<lambda>d. Inr (dv_LLDP d))"

definition Neighbors :: "('e, 'w) l2_env \<Rightarrow> 'w l2_manager \<Rightarrow> 'e l2_error + LLDPNeighbor list" where
  "Neighbors env s = bind_res (LLDP env s) (\<lambda>c. Inr (sort_key ln_Port (lc_Neighbors c)))"

definition Neighbor :: "('e, 'w) l2_env \<Rightarrow> string \<Rightarrow> 'w l2_manager \<Rightarrow> 'e l2_error + LLDPNeighbor" where
  "Neighbor env port s =
     bind_res (Neighbors env s)
       (\<lambda>ns. case find (\<lambda>n. ln_Port n = port) ns of None \<Rightarrow> Inl (ErrNeighborNotFound port) | Some n \<Rightarrow> Inr n)"

definition SetNeighbor ::
    "('e, 'w) l2_env \<Rightarrow> LLDPNeighbor \<Rightarrow> 'w l2_manager \<Rightarrow> 'e l2_error option \<times> 'w l2_manager" where
  "SetNeighbor env n s =
     then_ok (validated (LLDPNeighbor_Validate n) s)
       (each (\<lambda>(name, x). set_l2 env (lldpNeighborPrefix (ln_Port n) @ ''/'' @ name) x)
          [(''chassis-id'', GString (ln_ChassisID n)), (''port-id'', GString (ln_PortID n)),
           (''system-name'', GString (ln_SystemName n)), (''system-description'', GString (ln_SystemDescription n)),
           (''ttl'', GUint32 (ln_TTL n)), (''capabilities'', GString (ln_Capabilities n))])"

definition RemoveNeighbor ::
    "('e, 'w) l2_env \<Rightarrow> string \<Rightarrow> 'w l2_manager \<Rightarrow> 'e l2_error option \<times> 'w l2_manager" where
  "RemoveNeighbor env port s =
     reading (Neighbor env port s) s (\<lambda>_. removeSubtree env (lldpNeighborPrefix port) s)"

definition refreshLLDP :: "('e, 'w) l2_env \<Rightarrow> 'w l2_manager \<Rightarrow> 'e l2_error option \<times> 'w l2_manager" where
  "refreshLLDP env s =
     reading (LLDP env s) s (\<lambda>c.
       let ttl = lc_TxInterval c * lc_TxHoldMultiplier c
       in if \<not> lc_Enabled c \<or> lc_Neighbors c = [] \<or> ttl = 0 \<or> ttl > LLDPTTLMax then (None, s)
          else each (\<lambda>n. set_l2 env (lldpNeighborPrefix (ln_Port n) @ ''/ttl'') (GUint32 ttl))
                 (filter (\<lambda>n. ln_TTL n \<noteq> ttl) (lc_Neighbors c)) s)"

end
