(* ===== verification/Stp.thy ===== *)
theory Stp
  imports Bridge
begin

text \<open>
  The simplified spanning-tree machine (\<open>src/internal/l2/stp.go\<close>) and the periodic work of the L2
  domain (\<open>Tick\<close> of \<open>l2.go\<close>).  A pass works on a copy of the bridge state, which it keeps in step with
  what it writes, so the steps below carry that copy beside the manager.
\<close>

section \<open>Names and helpers\<close>

definition stpPath :: "string \<Rightarrow> string" where
  "stpPath leaf = ''stp/state/'' @ leaf"

definition stpPortPath :: "string \<Rightarrow> string \<Rightarrow> string" where
  "stpPortPath port leaf = ''stp/state/ports/port[port='' @ port @ '']/'' @ leaf"

datatype STPEventKind = EventLinkUp | EventLinkDown | EventBPDU | OtherSTPEvent string

record STPEvent =
  se_Kind :: STPEventKind
  se_Port :: string
  se_RootID :: string
  se_RootPriority :: u16
  se_PathCost :: u32

fun phase_string :: "STPPhase \<Rightarrow> string" where
  "phase_string STPPhaseDisabled = ''disabled''"
| "phase_string STPPhaseBlocking = ''blocking''"
| "phase_string STPPhaseListening = ''listening''"
| "phase_string STPPhaseLearning = ''learning''"
| "phase_string STPPhaseForwarding = ''forwarding''"

definition stateName :: "string \<Rightarrow> STPPhase \<Rightarrow> string" where
  "stateName protocol phase =
     (if protocol = STPProtocolRSTP \<and> phase \<in> {STPPhaseDisabled, STPPhaseBlocking, STPPhaseListening}
      then STPPortStateDiscarding else phase_string phase)"

fun findSTPPort :: "STPPort list \<Rightarrow> string \<Rightarrow> STPPort option" where
  "findSTPPort [] port = None"
| "findSTPPort (p # ps) port = (if sp_Port p = port then Some p else findSTPPort ps port)"

definition zero_stp_port :: STPPort where
  "zero_stp_port = \<lparr>sp_Port = [], sp_Role = [], sp_State = [], sp_Priority = 0, sp_PathCost = 0, sp_EdgePort = False\<rparr>"

definition currentPort :: "STPState \<Rightarrow> string \<Rightarrow> STPPort" where
  "currentPort st port = (case findSTPPort (st_Ports st) port of None \<Rightarrow> zero_stp_port | Some p \<Rightarrow> p)"

text \<open>\<open>strings.Compare\<close>.\<close>

definition string_compare :: "string \<Rightarrow> string \<Rightarrow> int" where
  "string_compare a b = (if a = b then 0 else if a < b then - 1 else 1)"

definition compareBridgeID :: "u16 \<Rightarrow> string \<Rightarrow> u16 \<Rightarrow> string \<Rightarrow> int" where
  "compareBridgeID aPriority aID bPriority bID =
     (if aPriority \<noteq> bPriority then (if aPriority < bPriority then - 1 else 1)
      else string_compare (normalizeMACString aID) (normalizeMACString bID))"

fun set_port :: "string \<Rightarrow> string \<Rightarrow> string \<Rightarrow> STPPort list \<Rightarrow> STPPort list" where
  "set_port port role name [] = []"
| "set_port port role name (p # ps) =
     (if sp_Port p = port then p\<lparr>sp_Role := role, sp_State := name\<rparr> # ps else p # set_port port role name ps)"

section \<open>Transitions\<close>

definition setSTPPort ::
    "('e, 'w) l2_env \<Rightarrow> string \<Rightarrow> string \<Rightarrow> string \<Rightarrow> STPState \<times> 'w l2_manager
      \<Rightarrow> 'e l2_error option \<times> STPState \<times> 'w l2_manager" where
  "setSTPPort env port role name st_s =
     (case st_s of (st, s) \<Rightarrow>
        (case then_ok (set_l2 env (stpPortPath port ''role'') (GString role) s)
                (set_l2 env (stpPortPath port ''state'') (GString name)) of
           (Some err, s1) \<Rightarrow> (Some err, st, s1)
         | (None, s1) \<Rightarrow> (None, st\<lparr>st_Ports := set_port port role name (st_Ports st)\<rparr>, s1)))"

definition scheduleSTP :: "string \<Rightarrow> STPPhase \<Rightarrow> 'w l2_manager \<Rightarrow> 'w l2_manager" where
  "scheduleSTP port phase s =
     (let due = lm_now s + lm_forwardDelay s
      in if phase = STPPhaseBlocking \<or> phase = STPPhaseListening
         then s\<lparr>lm_stpPending := AList.update port \<lparr>sd_at = due, sd_phase = STPPhaseLearning\<rparr> (lm_stpPending s)\<rparr>
         else if phase = STPPhaseLearning
         then s\<lparr>lm_stpPending := AList.update port \<lparr>sd_at = due, sd_phase = STPPhaseForwarding\<rparr> (lm_stpPending s)\<rparr>
         else s\<lparr>lm_stpPending := AList.delete port (lm_stpPending s)\<rparr>)"

definition stp_event :: "string \<Rightarrow> string \<Rightarrow> string \<Rightarrow> string \<Rightarrow> event" where
  "stp_event port from nxt reason =
     \<lparr>ev_type = TypeStateTransition, ev_resource = ''l2/stp/'' @ port, ev_severity = [],
      ev_message = ''stp '' @ port @ '': '' @ from @ '' -> '' @ nxt @ '' ('' @ reason @ '')'',
      ev_domain = DomainL2, ev_alarm = [], ev_from = from, ev_to = nxt, ev_timestamp = 0\<rparr>"

definition stp_transition ::
    "('e, 'w) l2_env \<Rightarrow> string \<Rightarrow> string \<Rightarrow> STPPhase \<Rightarrow> string \<Rightarrow> STPState \<times> 'w l2_manager
      \<Rightarrow> 'e l2_error option \<times> STPState \<times> 'w l2_manager" where
  "stp_transition env port role phase reason st_s =
     (let name = stateName (st_Protocol (fst st_s)) phase;
          current = currentPort (fst st_s) port
      in if sp_Role current = role \<and> sp_State current = name then (None, st_s)
         else then_ok (setSTPPort env port role name st_s)
                (\<lambda>(st, s). (None, st, scheduleSTP port phase
                   (publish_l2 (stp_event port (sp_State current) name reason) s))))"

definition elect ::
    "('e, 'w) l2_env \<Rightarrow> STPEvent \<Rightarrow> STPPort \<Rightarrow> STPState \<times> 'w l2_manager
      \<Rightarrow> 'e l2_error option \<times> STPState \<times> 'w l2_manager" where
  "elect env ev port st_s =
     (case st_s of (st, s) \<Rightarrow>
        let better = compareBridgeID (se_RootPriority ev) (se_RootID ev) (st_BridgePriority st) (st_BridgeAddress st) < 0;
            rootID = (if better then se_RootID ev else st_BridgeAddress st);
            rootCost = (if better then se_PathCost ev + sp_PathCost port else 0);
            otherRole = (if better then STPPortRoleAlternate else STPPortRoleDesignated);
            otherPhase = (if better then STPPhaseBlocking else STPPhaseForwarding);
            role = (if better then STPPortRoleRoot else STPPortRoleDesignated);
            phase = (if better \<and> st_Protocol st \<noteq> STPProtocolRSTP then STPPhaseBlocking else STPPhaseForwarding)
        in (case then_ok (state_l2 env (stpPath ''root-id'') (GString rootID) s)
                   (state_l2 env (stpPath ''root-cost'') (GUint32 rootCost)) of
              (Some err, s1) \<Rightarrow> (Some err, st, s1)
            | (None, s1) \<Rightarrow>
                then_ok (each (\<lambda>other. stp_transition env other otherRole otherPhase ''root election'')
                           (filter (\<lambda>p. p \<noteq> sp_Port port) (map sp_Port (st_Ports st)))
                           (st\<lparr>st_RootID := rootID, st_RootCost := rootCost\<rparr>, s1))
                  (stp_transition env (sp_Port port) role phase (''bpdu from '' @ se_RootID ev))))"

definition handle_port ::
    "('e, 'w) l2_env \<Rightarrow> STPEvent \<Rightarrow> STPPort \<Rightarrow> STPState \<times> 'w l2_manager
      \<Rightarrow> 'e l2_error option \<times> STPState \<times> 'w l2_manager" where
  "handle_port env ev port st_s =
     (case se_Kind ev of
        EventLinkDown \<Rightarrow> stp_transition env (sp_Port port) STPPortRoleAlternate STPPhaseDisabled ''link down'' st_s
      | EventLinkUp \<Rightarrow>
          stp_transition env (sp_Port port) STPPortRoleDesignated
            (if sp_EdgePort port then STPPhaseForwarding else STPPhaseBlocking) ''link up'' st_s
      | EventBPDU \<Rightarrow> elect env ev port st_s
      | OtherSTPEvent k \<Rightarrow> (Some (UnknownSTPEvent k), st_s))"

definition Handle_stp ::
    "('e, 'w) l2_env \<Rightarrow> STPEvent \<Rightarrow> 'w l2_manager \<Rightarrow> 'e l2_error option \<times> 'w l2_manager" where
  "Handle_stp env ev s =
     (if se_Port ev = [] then (Some STPEventWithoutPort, s)
      else reading (snapshot_l2 env s) s (\<lambda>d.
        if \<not> st_Enabled (dv_STP d) then (Some ErrSTPDisabled, s)
        else case findSTPPort (st_Ports (dv_STP d)) (se_Port ev) of
               None \<Rightarrow> (Some (ErrPortUnknown (se_Port ev)), s)
             | Some port \<Rightarrow> (case handle_port env ev port (dv_STP d, s) of (err, _, s1) \<Rightarrow> (err, s1))))"

section \<open>Forward delays and the periodic work\<close>

definition advance_port ::
    "('e, 'w) l2_env \<Rightarrow> string \<Rightarrow> STPState \<times> 'w l2_manager \<Rightarrow> 'e l2_error option \<times> STPState \<times> 'w l2_manager" where
  "advance_port env port st_s =
     (case st_s of (st, s) \<Rightarrow>
        (case map_of (lm_stpPending s) port of
           None \<Rightarrow> (None, st_s)
         | Some d \<Rightarrow>
             (let s1 = s\<lparr>lm_stpPending := AList.delete port (lm_stpPending s)\<rparr>
              in case findSTPPort (st_Ports st) port of
                   None \<Rightarrow> (None, st, s1)
                 | Some p \<Rightarrow> stp_transition env port (sp_Role p) (sd_phase d) ''forward delay'' (st, s1))))"

definition due_ports :: "'w l2_manager \<Rightarrow> string list" where
  "due_ports s = sort (map fst (filter (\<lambda>(_, d). \<not> lm_now s < sd_at d) (lm_stpPending s)))"

definition advanceSTP :: "('e, 'w) l2_env \<Rightarrow> 'w l2_manager \<Rightarrow> 'e l2_error option \<times> 'w l2_manager" where
  "advanceSTP env s =
     (if due_ports s = [] then (None, s)
      else reading (snapshot_l2 env s) s (\<lambda>d.
        if \<not> st_Enabled (dv_STP d) then (None, s\<lparr>lm_stpPending := []\<rparr>)
        else case each (advance_port env) (due_ports s) (dv_STP d, s) of (err, _, s1) \<Rightarrow> (err, s1)))"

definition STPPorts :: "('e, 'w) l2_env \<Rightarrow> 'w l2_manager \<Rightarrow> 'e l2_error + STPPort list" where
  "STPPorts env s = bind_res (snapshot_l2 env s) (\<lambda>d. Inr (sort_key sp_Port (st_Ports (dv_STP d))))"

text \<open>\<open>Tick\<close> runs its three steps whatever the others report and joins their errors.\<close>

definition Tick_l2 :: "('e, 'w) l2_env \<Rightarrow> 'w l2_manager \<Rightarrow> 'e l2_error list \<times> 'w l2_manager" where
  "Tick_l2 env s =
     (case age env s of (e1, s1) \<Rightarrow>
       (case advanceSTP env s1 of (e2, s2) \<Rightarrow>
         (case refreshLLDP env s2 of (e3, s3) \<Rightarrow> (List.map_filter id [e1, e2, e3], s3))))"

end
