(* ===== verification/L2Laws.thy ===== *)
theory L2Laws
  imports Stp Contracts "HOL-Library.Multiset"
begin

text \<open>
  Properties of the L2 switching domain: storm control never lets more than the threshold through a
  window, spanning-tree steps keep the bridge valid, forwarding decisions, MAC aging.
\<close>

section \<open>Storm control\<close>

text \<open>A run of injections on one port: what passes, with the time it passed.\<close>

fun storm_run :: "string \<Rightarrow> (time \<times> u32) list \<Rightarrow> 'w l2_manager \<Rightarrow> (time \<times> u32) list" where
  "storm_run port [] s = []"
| "storm_run port ((t, p) # xs) s =
     (case recordStorm port p (s\<lparr>lm_now := t\<rparr>) of
        (rate, s1) \<Rightarrow> (t, storm_accepted (lm_stormThreshold s) rate p) # storm_run port xs s1)"

text \<open>Traffic of a log inside an interval of time.\<close>

definition volume :: "time \<Rightarrow> time \<Rightarrow> (time \<times> u32) list \<Rightarrow> nat" where
  "volume a b xs = sum_list (map (\<lambda>(t, p). if a \<le> t \<and> t \<le> b then unat p else 0) xs)"

lemma volume_Nil [simp]: "volume a b [] = 0" by (simp add: volume_def)

lemma volume_append [simp]: "volume a b (xs @ ys) = volume a b xs + volume a b ys"
  by (simp add: volume_def)

lemma volume_single [simp]: "volume a b [(t, p)] = (if a \<le> t \<and> t \<le> b then unat p else 0)"
  by (simp add: volume_def)

lemma volume_mono: "a' \<le> a \<Longrightarrow> b \<le> b' \<Longrightarrow> volume a b xs \<le> volume a' b' xs"
  unfolding volume_def by (intro sum_list_mono) auto

lemma unat_sum_list:
  fixes ws :: "u32 list"
  shows "sum_list (map unat ws) < 2 ^ 32 \<Longrightarrow> unat (sum_list ws) = sum_list (map unat ws)"
proof (induction ws)
  case (Cons w ws)
  then have "unat (sum_list ws) = sum_list (map unat ws)" by simp
  with Cons.prems show ?case using unat_add_lem[of w "sum_list ws"] by simp
qed simp

text \<open>What is remembered about the past: injections offered and accepted, the remembered window and
  the bound that holds so far.\<close>

definition storm_past ::
    "string \<Rightarrow> 'w l2_manager \<Rightarrow> time \<Rightarrow> (time \<times> u32) list \<Rightarrow> (time \<times> u32) list \<Rightarrow> bool" where
  "storm_past port s t0 offered accepted =
     (map fst accepted = map fst offered \<and> list_all2 (\<lambda>x y. snd y \<le> snd x) offered accepted \<and>
      (\<forall>t \<in> fst ` set offered. t \<le> t0) \<and>
      map (\<lambda>x. (smp_at x, smp_packets x)) (gm_get_or [] (lm_stormSamples s) port) =
        filter (\<lambda>(t, p). t0 - lm_stormWindow s \<le> t) offered \<and>
      (\<forall>a. volume a (a + lm_stormWindow s) accepted \<le> unat (lm_stormThreshold s)))"

lemma accepted_le_offered:
  assumes "list_all2 (\<lambda>x y. snd y \<le> snd x) offered accepted" "map fst accepted = map fst offered"
  shows "volume a b accepted \<le> volume a b offered"
  using assms
proof (induction rule: list_all2_induct)
  case (Cons x xs y ys)
  then have "unat (snd y) \<le> unat (snd x)" "fst y = fst x" by (simp_all add: word_le_nat_alt)
  with Cons show ?case by (auto simp: volume_def split_def)
qed simp

lemma storm_window_past:
  assumes "storm_past port s t0 offered accepted" "t0 \<le> t"
  shows "map (\<lambda>x. (smp_at x, smp_packets x)) (storm_window (s\<lparr>lm_now := t\<rparr>) port) =
    filter (\<lambda>(u, p). t - lm_stormWindow s \<le> u) offered"
proof -
  let ?f = "\<lambda>x. (smp_at x, smp_packets x)"
  have "map ?f (storm_window (s\<lparr>lm_now := t\<rparr>) port) =
      filter (\<lambda>(u, p). t - lm_stormWindow s \<le> u) (map ?f (gm_get_or [] (lm_stormSamples s) port))"
    by (simp add: storm_window_def filter_map comp_def not_less)
  also have "\<dots> = filter (\<lambda>(u, p). t - lm_stormWindow s \<le> u) (filter (\<lambda>(u, p). t0 - lm_stormWindow s \<le> u) offered)"
    using assms(1) by (simp add: storm_past_def)
  also have "\<dots> = filter (\<lambda>(u, p). t - lm_stormWindow s \<le> u) offered"
    using assms(2) by (auto simp: filter_filter intro: filter_cong)
  finally show ?thesis .
qed

lemma volume_filter:
  "(\<forall>u \<in> fst ` set xs. u \<le> b) \<Longrightarrow> sum_list (map (unat \<circ> snd) (filter (\<lambda>(u, p). a \<le> u) xs)) = volume a b xs"
  by (induction xs) (auto simp: volume_def)

lemma storm_rate:
  assumes past: "storm_past port s t0 offered accepted" and t: "t0 \<le> t"
    and fits: "sum_list (map (unat \<circ> snd) offered) + unat p < 2 ^ 32"
    and r: "recordStorm port p (s\<lparr>lm_now := t\<rparr>) = (rate, s1)"
  shows "unat rate = volume (t - lm_stormWindow s) t offered + unat p"
proof -
  let ?w = "storm_window (s\<lparr>lm_now := t\<rparr>) port"
  have le: "\<forall>u \<in> fst ` set offered. u \<le> t" using past t by (force simp: storm_past_def)
  have "map (unat \<circ> smp_packets) ?w = map (unat \<circ> snd) (map (\<lambda>x. (smp_at x, smp_packets x)) ?w)" by simp
  also have "\<dots> = map (unat \<circ> snd) (filter (\<lambda>(u, p). t - lm_stormWindow s \<le> u) offered)"
    using storm_window_past[OF past t] by simp
  finally have w: "sum_list (map unat (map smp_packets ?w)) = volume (t - lm_stormWindow s) t offered"
    using volume_filter[OF le] by simp
  have "volume (t - lm_stormWindow s) t offered \<le> sum_list (map (unat \<circ> snd) offered)"
    unfolding volume_def by (intro sum_list_mono) auto
  then have "unat (sum_list (map smp_packets ?w @ [p])) = volume (t - lm_stormWindow s) t offered + unat p"
    using fits w by (subst unat_sum_list) simp_all
  then show ?thesis using r by (simp add: recordStorm_def Let_def)
qed

lemma storm_accepted_bounds:
  assumes "unat rate = n + unat p"
  shows "storm_accepted thr rate p \<le> p"
    "n + unat (storm_accepted thr rate p) \<le> unat thr \<or> storm_accepted thr rate p = 0"
proof -
  have d: "unat (rate - p) = n"
    using assms by (simp add: unat_sub word_le_nat_alt)
  have le: "unat (thr - (rate - p)) = unat thr - n" if "rate - p < thr"
    using that d by (simp add: unat_sub word_le_nat_alt word_less_nat_alt)
  show "storm_accepted thr rate p \<le> p"
    using assms d le by (auto simp: storm_accepted_def word_le_nat_alt word_less_nat_alt)
  show "n + unat (storm_accepted thr rate p) \<le> unat thr \<or> storm_accepted thr rate p = 0"
    using assms d le by (auto simp: storm_accepted_def word_less_nat_alt)
qed

lemma storm_past_step:
  assumes past: "storm_past port s t0 offered accepted" and t: "t0 \<le> t" and w: "0 \<le> lm_stormWindow s"
    and fits: "sum_list (map (unat \<circ> snd) offered) + unat p < 2 ^ 32"
    and r: "recordStorm port p (s\<lparr>lm_now := t\<rparr>) = (rate, s1)"
  shows "storm_past port s1 t (offered @ [(t, p)]) (accepted @ [(t, storm_accepted (lm_stormThreshold s) rate p)])"
proof -
  let ?acc = "storm_accepted (lm_stormThreshold s) rate p" and ?W = "lm_stormWindow s"
  note rate = storm_rate[OF past t fits r]
  note b = storm_accepted_bounds[OF rate]
  have s1: "lm_stormWindow s1 = ?W" "lm_stormThreshold s1 = lm_stormThreshold s"
    "map (\<lambda>x. (smp_at x, smp_packets x)) (gm_get_or [] (lm_stormSamples s1) port) =
       filter (\<lambda>(u, p). t - ?W \<le> u) offered @ [(t, p)]"
    using r storm_window_past[OF past t] by (auto simp: recordStorm_def Let_def gm_get_or_update)
  have "volume a (a + ?W) (accepted @ [(t, ?acc)]) \<le> unat (lm_stormThreshold s)" for a
  proof (cases "a \<le> t \<and> t \<le> a + ?W \<and> ?acc \<noteq> 0")
    case True
    have "volume a (a + ?W) accepted \<le> volume a (a + ?W) offered"
      using past by (intro accepted_le_offered) (auto simp: storm_past_def)
    also have "\<dots> \<le> volume (t - ?W) t offered"
    proof -
      have "\<forall>u \<in> fst ` set offered. u \<le> t" using past t by (force simp: storm_past_def)
      then show ?thesis using True unfolding volume_def by (intro sum_list_mono) auto
    qed
    finally show ?thesis using True b(2)[of "lm_stormThreshold s"] by auto
  next
    case False
    then show ?thesis using past by (auto simp: storm_past_def)
  qed
  then show ?thesis using past t w b(1) s1 by (auto simp: storm_past_def list_all2_appendI)
qed

lemma storm_run_bound:
  assumes "storm_past port s t0 offered accepted" "0 \<le> lm_stormWindow s"
    "sorted (t0 # map fst xs)" "sum_list (map (unat \<circ> snd) (offered @ xs)) < 2 ^ 32"
  shows "volume a (a + lm_stormWindow s) (accepted @ storm_run port xs s) \<le> unat (lm_stormThreshold s)"
  using assms
proof (induction port xs s arbitrary: t0 offered accepted rule: storm_run.induct)
  case (1 port s)
  then show ?case by (simp add: storm_past_def)
next
  case (2 port t p xs s)
  obtain rate s1 where r: "recordStorm port p (s\<lparr>lm_now := t\<rparr>) = (rate, s1)" by force
  have keep: "lm_stormWindow s1 = lm_stormWindow s" "lm_stormThreshold s1 = lm_stormThreshold s"
    using r by (auto simp: recordStorm_def Let_def)
  have past: "storm_past port s1 t (offered @ [(t, p)]) (accepted @ [(t, storm_accepted (lm_stormThreshold s) rate p)])"
  proof (rule storm_past_step[OF "2.prems"(1) _ "2.prems"(2) _ r])
    show "t0 \<le> t" using "2.prems"(3) by simp
    show "sum_list (map (unat \<circ> snd) offered) + unat p < 2 ^ 32" using "2.prems"(4) by (simp add: comp_def)
  qed
  from "2.IH"[OF r[symmetric] past] "2.prems" keep r show ?case by simp
qed

text \<open>C21: storm control holds.  For injections on a port in the order of time, none of them yet in the
  port's window and less than \<open>2^32\<close> packets in all, the packets that pass within any interval as long
  as the window never exceed the threshold.\<close>

theorem storm_control_bound:
  assumes "gm_get_or [] (lm_stormSamples s) port = []" "0 \<le> lm_stormWindow s"
    "sorted (map fst xs)" "sum_list (map (unat \<circ> snd) xs) < 2 ^ 32"
  shows "volume a (a + lm_stormWindow s) (storm_run port xs s) \<le> unat (lm_stormThreshold s)"
proof (cases xs)
  case (Cons x ys)
  have "storm_past port s (fst x) [] []" using assms(1) by (simp add: storm_past_def)
  from storm_run_bound[OF this assms(2), of xs a] assms(3,4) Cons show ?thesis by auto
qed simp

definition sample_l2 :: "unit l2_manager" where
  "sample_l2 = \<lparr>lm_hasBus = True, lm_tickInterval = L2DefaultTickInterval, lm_forwardDelay = DefaultForwardDelay,
     lm_stormThreshold = 1000, lm_stormWindow = second, lm_lastAging = 0, lm_stpPending = [], lm_stormSamples = [],
     lm_stormAlarm = [], lm_now = 1000, lm_world = (), lm_published = []\<rparr>"

lemma sample_storm:
  "storm_run ''eth0'' [(5, 600), (7, 600), (9, 600), (3000000000, 700)] sample_l2 =
     [(5, 600), (7, 400), (9, 0), (3000000000, 700)]"
  by code_simp

theorem storm_control_bound_witness:
  "volume 5 (5 + second) (storm_run ''eth0'' [(5, 600), (7, 600), (9, 600), (3000000000, 700)] sample_l2) = 1000
   \<and> volume 5 (5 + lm_stormWindow sample_l2)
       (storm_run ''eth0'' [(5, 600), (7, 600), (9, 600), (3000000000, 700)] sample_l2) \<le> unat (lm_stormThreshold sample_l2)"
proof
  show "volume 5 (5 + second) (storm_run ''eth0'' [(5, 600), (7, 600), (9, 600), (3000000000, 700)] sample_l2) = 1000"
    unfolding sample_storm by code_simp
  show "volume 5 (5 + lm_stormWindow sample_l2)
       (storm_run ''eth0'' [(5, 600), (7, 600), (9, 600), (3000000000, 700)] sample_l2) \<le> unat (lm_stormThreshold sample_l2)"
    by (rule storm_control_bound) (simp_all add: sample_l2_def gm_get_or_def)
qed

section \<open>Spanning tree\<close>

lemmas stp_consts =
  STPPortRoleRoot_def STPPortRoleDesignated_def STPPortRoleAlternate_def STPPortRoleBackup_def
  STPPortStateDisabled_def STPPortStateBlocking_def STPPortStateListening_def STPPortStateDiscarding_def
  STPPortStateLearning_def STPPortStateForwarding_def STPProtocolSTP_def STPProtocolRSTP_def

lemma stateName_vocabulary:
  "stateName protocol phase \<in> set (STPPortStates protocol)"
  by (cases phase) (auto simp: stateName_def STPPortStates_def stp_consts)

text \<open>The validity of a bridge, port by port.\<close>

definition port_ok :: "string \<Rightarrow> STPPort \<Rightarrow> bool" where
  "port_ok protocol p = (STPPort_Validate p = None \<and> sp_State p \<in> set (STPPortStates protocol))"

lemma STPState_Validate_None:
  "STPState_Validate s = None \<longleftrightarrow>
     st_Protocol s \<in> {STPProtocolSTP, STPProtocolRSTP} \<and>
     \<not> (st_BridgePriority s > STPBridgePriorityMax \<or> st_BridgePriority s mod STPBridgePriorityStep \<noteq> 0) \<and>
     (st_BridgeAddress s = [] \<or> validMAC (st_BridgeAddress s)) \<and>
     (st_RootID s = [] \<or> validMAC (st_RootID s)) \<and>
     (st_Enabled s \<longrightarrow> (\<forall>p \<in> set (st_Ports s). port_ok (st_Protocol s) p))"
  by (auto simp: STPState_Validate_def port_ok_def)

definition role_ok :: "string \<Rightarrow> bool" where
  "role_ok r = (r \<in> {STPPortRoleRoot, STPPortRoleDesignated, STPPortRoleAlternate, STPPortRoleBackup})"

lemma port_ok_set:
  assumes "port_ok protocol p" "role_ok role"
  shows "port_ok protocol (p\<lparr>sp_Role := role, sp_State := stateName protocol phase\<rparr>)"
proof -
  have "stateName protocol phase \<in> {STPPortStateDisabled, STPPortStateBlocking, STPPortStateListening,
      STPPortStateDiscarding, STPPortStateLearning, STPPortStateForwarding}"
    by (cases phase) (auto simp: stateName_def stp_consts)
  then show ?thesis
    using assms stateName_vocabulary by (auto simp: port_ok_def STPPort_Validate_def role_ok_def)
qed

lemma set_port_ok:
  "\<forall>p \<in> set ps. port_ok protocol p \<Longrightarrow> role_ok role \<Longrightarrow>
   \<forall>p \<in> set (set_port port role (stateName protocol phase) ps). port_ok protocol p"
  by (induction ps) (auto intro: port_ok_set)

text \<open>A bridge whose copy is valid.\<close>

definition bridge_ok :: "STPState \<times> 'w l2_manager \<Rightarrow> bool" where
  "bridge_ok x = (STPState_Validate (fst x) = None \<and> st_Enabled (fst x))"

lemma bridge_ok_transition:
  assumes "bridge_ok x" "role_ok role"
  shows "bridge_ok (snd (stp_transition env port role phase reason x))"
proof -
  obtain st s where x: "x = (st, s)" by force
  have "STPState_Validate (st\<lparr>st_Ports := set_port port role (stateName (st_Protocol st) phase) (st_Ports st)\<rparr>) = None"
    using assms set_port_ok[of "st_Ports st" "st_Protocol st" role port phase]
    by (auto simp: bridge_ok_def x STPState_Validate_None)
  then show ?thesis
    using assms
    by (auto simp: stp_transition_def setSTPPort_def x bridge_ok_def Let_def then_ok_def split: prod.splits option.splits)
qed

lemma role_ok_simps [simp]:
  "role_ok STPPortRoleRoot" "role_ok STPPortRoleDesignated" "role_ok STPPortRoleAlternate"
  by (simp_all add: role_ok_def)

lemma bridge_ok_elect:
  assumes "bridge_ok x" "se_RootID ev = [] \<or> validMAC (se_RootID ev)"
  shows "bridge_ok (snd (elect env ev port x))"
proof -
  obtain st s where x: "x = (st, s)" by force
  let ?better = "compareBridgeID (se_RootPriority ev) (se_RootID ev) (st_BridgePriority st) (st_BridgeAddress st) < 0"
  let ?root = "if ?better then se_RootID ev else st_BridgeAddress st"
  let ?cost = "if ?better then se_PathCost ev + sp_PathCost port else 0"
  let ?role = "if ?better then STPPortRoleAlternate else STPPortRoleDesignated"
  obtain err s1 where w: "then_ok (state_l2 env (stpPath ''root-id'') (GString ?root) s)
      (state_l2 env (stpPath ''root-cost'') (GUint32 ?cost)) = (err, s1)"
    by force
  have ok: "bridge_ok (st\<lparr>st_RootID := ?root, st_RootCost := ?cost\<rparr>, s1)"
    using assms by (auto simp: bridge_ok_def x STPState_Validate_None)
  have others: "bridge_ok (snd (each (\<lambda>other. stp_transition env other ?role phase reason) ports
      (st\<lparr>st_RootID := ?root, st_RootCost := ?cost\<rparr>, s1)))" for phase reason ports
    by (rule each_keeps[where P = bridge_ok, OF ok]) (simp add: bridge_ok_transition)
  show ?thesis
  proof (cases err)
    case None
    show ?thesis
      unfolding elect_def x Let_def prod.case w None option.case
      by (rule then_ok_keeps[where P = bridge_ok, OF others]) (simp add: bridge_ok_transition)
  next
    case (Some e)
    then show ?thesis
      using assms(1) unfolding elect_def x Let_def prod.case w by (simp add: bridge_ok_def)
  qed
qed

lemma findSTPPort_in: "findSTPPort ps port = Some p \<Longrightarrow> p \<in> set ps"
  by (induction ps) (auto split: if_splits)

lemma bridge_ok_advance:
  assumes "bridge_ok x"
  shows "bridge_ok (snd (advance_port env port x))"
proof -
  obtain st s where x: "x = (st, s)" by force
  show ?thesis
  proof (cases "map_of (lm_stpPending s) port")
    case (Some d)
    let ?x = "(st, s\<lparr>lm_stpPending := AList.delete port (lm_stpPending s)\<rparr>)"
    have ok: "bridge_ok ?x" using assms by (simp add: x bridge_ok_def)
    show ?thesis
    proof (cases "findSTPPort (st_Ports st) port")
      case (Some p)
      then have "port_ok (st_Protocol st) p"
        using findSTPPort_in assms by (fastforce simp: x bridge_ok_def STPState_Validate_None)
      then have "role_ok (sp_Role p)"
        by (auto simp: port_ok_def STPPort_Validate_def role_ok_def)
      then show ?thesis
        using bridge_ok_transition[OF ok] Some \<open>map_of (lm_stpPending s) port = _\<close>
        by (simp add: advance_port_def x Let_def)
    qed (use ok Some in \<open>simp add: advance_port_def x Let_def\<close>)
  qed (use assms in \<open>simp add: advance_port_def x\<close>)
qed


text \<open>A world that holds a bridge, in which the router's writes reach the leaves of its ports.\<close>

definition go_string :: "goval \<Rightarrow> string" where
  "go_string v = (case v of GString t \<Rightarrow> t | _ \<Rightarrow> [])"

definition write_port :: "string \<Rightarrow> goval \<Rightarrow> STPPort \<Rightarrow> STPPort" where
  "write_port path v p =
     (if path = stpPortPath (sp_Port p) ''role'' then p\<lparr>sp_Role := go_string v\<rparr>
      else if path = stpPortPath (sp_Port p) ''state'' then p\<lparr>sp_State := go_string v\<rparr> else p)"

definition bridge_env :: "(unit, STPState) l2_env" where
  "bridge_env = \<lparr>r_Snapshot = (\<lambda>w. Inr (DefaultDevice\<lparr>dv_STP := w\<rparr>)),
     r_Set = (\<lambda>path v w. (None, w\<lparr>st_Ports := map (write_port path v) (st_Ports w)\<rparr>)),
     r_SetState = (\<lambda>path v w. (None, w)), r_List = (\<lambda>path w. Inr []), r_Delete = (\<lambda>path w. (None, w))\<rparr>"

definition bridge_port :: "string \<Rightarrow> string \<Rightarrow> string \<Rightarrow> STPPort" where
  "bridge_port port role state =
     \<lparr>sp_Port = port, sp_Role = role, sp_State = state, sp_Priority = 128, sp_PathCost = 4, sp_EdgePort = False\<rparr>"

definition sample_bridge :: STPState where
  "sample_bridge = \<lparr>st_Enabled = True, st_Protocol = STPProtocolRSTP, st_BridgePriority = 32768,
     st_BridgeAddress = ''02:00:00:00:00:09'', st_RootID = ''02:00:00:00:00:09'', st_RootCost = 0,
     st_Ports = [bridge_port ''e0'' STPPortRoleDesignated STPPortStateForwarding,
                 bridge_port ''e1'' STPPortRoleDesignated STPPortStateForwarding]\<rparr>"

definition better_bpdu :: STPEvent where
  "better_bpdu = \<lparr>se_Kind = EventBPDU, se_Port = ''e0'', se_RootID = ''02:00:00:00:00:01'',
     se_RootPriority = 4096, se_PathCost = 0\<rparr>"

definition bridge_manager :: "STPState l2_manager" where
  "bridge_manager = \<lparr>lm_hasBus = True, lm_tickInterval = L2DefaultTickInterval, lm_forwardDelay = DefaultForwardDelay,
     lm_stormThreshold = 1000, lm_stormWindow = second, lm_lastAging = 0, lm_stpPending = [], lm_stormSamples = [],
     lm_stormAlarm = [], lm_now = second, lm_world = sample_bridge, lm_published = []\<rparr>"

lemma sample_bridge_valid: "STPState_Validate sample_bridge = None"
  by code_simp

lemma better_bpdu_mac: "validMAC (se_RootID better_bpdu)"
  by code_simp


text \<open>The bridge after a superior BPDU on \<open>e0\<close>, then after one and after two forward delays.\<close>

definition after :: "duration \<Rightarrow> STPState l2_manager \<Rightarrow> STPState l2_manager" where
  "after d s = snd (advanceSTP bridge_env (s\<lparr>lm_now := lm_now s + d\<rparr>))"

lemmas stp_eval =
  reading_def snapshot_l2_def bridge_env_def better_bpdu_def bridge_manager_def sample_bridge_def bridge_port_def
  handle_port_def elect_def stp_transition_def setSTPPort_def set_l2_def state_l2_def currentPort_def stateName_def
  compareBridgeID_def write_port_def stpPortPath_def go_string_def publish_l2_def scheduleSTP_def Let_def stp_consts

text \<open>C23: a blocked port starts forwarding.  Two ports of an RSTP bridge forward; a superior BPDU arrives
  on one, so the other becomes an alternate port and discards, as it must to break the loop.  The
  forward delay is armed all the same, and after two delays the alternate port forwards again while
  its role is still alternate.\<close>

theorem alternate_port_forwards:
  "map (\<lambda>p. (sp_Port p, sp_Role p, sp_State p)) (st_Ports (lm_world (snd (Handle_stp bridge_env better_bpdu bridge_manager)))) =
     [(''e0'', STPPortRoleRoot, STPPortStateForwarding), (''e1'', STPPortRoleAlternate, STPPortStateDiscarding)]
   \<and> map (\<lambda>p. (sp_Port p, sp_Role p, sp_State p))
       (st_Ports (lm_world (after DefaultForwardDelay (after DefaultForwardDelay
          (snd (Handle_stp bridge_env better_bpdu bridge_manager)))))) =
     [(''e0'', STPPortRoleRoot, STPPortStateForwarding), (''e1'', STPPortRoleAlternate, STPPortStateForwarding)]"
proof -
  let ?s0 = "snd (Handle_stp bridge_env better_bpdu bridge_manager)"
  let ?p0 = "bridge_port ''e0'' STPPortRoleRoot STPPortStateForwarding"
  let ?p1 = "bridge_port ''e1'' STPPortRoleAlternate"
  have 0: "st_Ports (lm_world ?s0) = [?p0, ?p1 STPPortStateDiscarding]" "st_Enabled (lm_world ?s0)"
    "st_Protocol (lm_world ?s0) = STPProtocolRSTP" "lm_now ?s0 = second" "lm_forwardDelay ?s0 = DefaultForwardDelay"
    "lm_stpPending ?s0 = [(''e1'', \<lparr>sd_at = second + DefaultForwardDelay, sd_phase = STPPhaseLearning\<rparr>)]"
    by (simp_all add: Handle_stp_def stp_eval)
  let ?s1 = "after DefaultForwardDelay ?s0"
  have 1: "st_Ports (lm_world ?s1) = [?p0, ?p1 STPPortStateLearning]" "st_Enabled (lm_world ?s1)"
    "st_Protocol (lm_world ?s1) = STPProtocolRSTP"
    "lm_stpPending ?s1 = [(''e1'', \<lparr>sd_at = lm_now ?s1 + DefaultForwardDelay, sd_phase = STPPhaseForwarding\<rparr>)]"
    unfolding after_def[of _ ?s0] using 0
    by (simp_all add: advanceSTP_def due_ports_def advance_port_def stp_eval)
  have 2: "st_Ports (lm_world (after DefaultForwardDelay ?s1)) = [?p0, ?p1 STPPortStateForwarding]"
    unfolding after_def[of _ ?s1] using 1
    by (simp add: advanceSTP_def due_ports_def advance_port_def stp_eval)
  show ?thesis using 0(1) 2 by (simp add: bridge_port_def)
qed

section \<open>Forwarding\<close>

lemma bridge_port_from_index:
  assumes "bridge_port_from n is name = Some k" "length is < 2 ^ 32" "unat n + length is < 2 ^ 32"
  shows "\<exists>j < length is. if_Name (is ! j) = name \<and> unat k = unat n + j"
  using assms
proof (induction n "is" name rule: bridge_port_from.induct)
  case (2 n i "is" name)
  show ?case
  proof (cases "if_Name i = name")
    case True
    then show ?thesis using "2.prems" by (intro exI[of _ 0]) simp
  next
    case False
    have u: "unat (n + 1) = unat n + 1"
      using "2.prems"(3) unat_add_lem[of n 1] by simp
    have "\<exists>j < length is. if_Name (is ! j) = name \<and> unat k = unat (n + 1) + j"
      using "2.IH"[OF False] "2.prems" False u by simp
    then obtain j where "j < length is" "if_Name (is ! j) = name" "unat k = unat (n + 1) + j" by blast
    then show ?thesis using u by (intro exI[of _ "Suc j"]) simp
  qed
qed simp

lemma portNameOf_other:
  assumes "bridgePortOf d ingress = (Inr index :: unit l2_error + u32)" "portNameOf d n = (Inr name :: unit l2_error + string)"
    "n \<noteq> index" "distinct (map if_Name (dv_Interfaces d))" "length (dv_Interfaces d) < 2 ^ 31"
  shows "name \<noteq> ingress"
proof -
  let ?is = "dv_Interfaces d"
  obtain j where j: "j < length ?is" "if_Name (?is ! j) = ingress" "unat index = 1 + j"
    using assms(1,5) bridge_port_from_index[of 1 ?is ingress index]
    by (auto simp: bridgePortOf_def split: option.splits)
  have n: "n \<noteq> 0" "unat n \<le> length ?is" "name = if_Name (?is ! unat (n - 1))"
    using assms(2,5) by (auto simp: portNameOf_def word_less_nat_alt unat_of_nat not_less split: if_splits)
  have "unat (n - 1) = unat n - 1" using n(1) by (simp add: unat_minus_one)
  moreover have "unat n \<noteq> 0" using n(1) by (simp add: unat_eq_0)
  moreover have "unat n \<noteq> 1 + j" using assms(3) j(3) by (auto simp: word_unat_eq_iff)
  ultimately have "unat (n - 1) < length ?is" "unat (n - 1) \<noteq> j" using n(2) by linarith+
  then show ?thesis using assms(4) j(1,2) n(3) by (metis distinct_conv_nth length_map nth_map)
qed

text \<open>The forwarding decision.  A broadcast frame, and a frame whose destination is not in the
  forwarding database, goes to every member port of its VLAN except the port it came in on, in order;
  a frame whose destination is known on the ingress port is filtered; any other frame goes to the one
  port its destination is known on.  No frame is sent back out of its ingress port.\<close>

theorem egressPorts_correct:
  assumes "bridgePortOf d (fr_Ingress fr) = (Inr index :: unit l2_error + u32)"
    "distinct (map if_Name (dv_Interfaces d))" "length (dv_Interfaces d) < 2 ^ 31"
    "findVLAN (dv_VLANs d) (fr_VLAN fr) = Some v"
  shows "fr_Ingress fr \<notin> set (egressPorts d fr dst index)
    \<and> (fr_Broadcast fr \<or> findMAC (mt_Entries (dv_MACTable d)) dst = None \<longrightarrow>
         sorted (egressPorts d fr dst index) \<and>
         mset (egressPorts d fr dst index) = filter_mset (\<lambda>p. p \<noteq> fr_Ingress fr) (mset (map vp_Port (vl_Ports v))))
    \<and> (\<forall>e. \<not> fr_Broadcast fr \<and> findMAC (mt_Entries (dv_MACTable d)) dst = Some e \<longrightarrow>
         (me_Port e = index \<longrightarrow> egressPorts d fr dst index = []) \<and>
         (\<forall>name. me_Port e \<noteq> index \<and> portNameOf d (me_Port e) = (Inr name :: unit l2_error + string) \<longrightarrow>
            egressPorts d fr dst index = [name]))"
proof (intro conjI)
  show "fr_Ingress fr \<notin> set (egressPorts d fr dst index)"
    using portNameOf_other[OF assms(1) _ _ assms(2,3)] assms(4)
    by (auto simp: egressPorts_def Let_def split: option.splits sum.splits)
qed (use assms(4) in \<open>auto simp: egressPorts_def Let_def\<close>)

definition flood_device :: Device where
  "flood_device = DefaultDevice\<lparr>dv_Interfaces := map (\<lambda>n. \<lparr>if_Name = n, if_Type = [], if_Enabled = True, if_MTU = 1500,
       if_MACAddress = [], if_RadioLink = None, if_Counters = zero_counters\<rparr>) [''e0'', ''e1'', ''e2''],
     dv_VLANs := [\<lparr>vl_ID = 10, vl_Name = [], vl_Description = [], vl_Ports = map (\<lambda>n. \<lparr>vp_Port = n, vp_Mode = [],
       vp_PVID = 10, vp_Tagged = False, vp_QinQ = False, vp_OuterVID = 0, vp_CTagHandling = []\<rparr>) [''e2'', ''e0'', ''e1'']\<rparr>],
     dv_MACTable := \<lparr>mt_Entries = [\<lparr>me_MAC = ''02:00:00:00:00:07'', me_VLAN = 20, me_Port = 3, me_Type = MACEntryTypeDynamic,
       me_Age = 0, me_Permanent = False\<rparr>], mt_AgingTime = 300, mt_MaxEntries = 100, mt_CurrentCount = 1\<rparr>\<rparr>"

definition sample_frame :: frame where
  "sample_frame = \<lparr>fr_Src = ''02:00:00:00:00:01'', fr_Dst = ''02:00:00:00:00:07'', fr_VLAN = 10, fr_Ingress = ''e0'',
     fr_Bytes = 64, fr_Broadcast = True\<rparr>"

theorem egressPorts_correct_witness:
  "''e0'' \<notin> set (egressPorts flood_device sample_frame ''02:00:00:00:00:07'' 1)
   \<and> mset (egressPorts flood_device sample_frame ''02:00:00:00:00:07'' 1) = mset [''e1'', ''e2'']"
  using egressPorts_correct[of flood_device sample_frame 1
      "\<lparr>vl_ID = 10, vl_Name = [], vl_Description = [], vl_Ports = map (\<lambda>n. \<lparr>vp_Port = n, vp_Mode = [],
         vp_PVID = 10, vp_Tagged = False, vp_QinQ = False, vp_OuterVID = 0, vp_CTagHandling = []\<rparr>) [''e2'', ''e0'', ''e1'']\<rparr>"
      "''02:00:00:00:00:07''"]
  by (simp add: flood_device_def sample_frame_def bridgePortOf_def)


section \<open>Aging\<close>

text \<open>C25: sweeps less than a second apart never age the table.  A sweep counts whole seconds since the
  sweep before and then forgets the rest, so however many such sweeps there are, and however much
  time they cover, nothing in the datastore changes.\<close>

theorem subsecond_sweeps_never_age:
  assumes "successively (\<lambda>t u. u - t < second) (lm_lastAging s # ts)"
  shows "lm_world (foldl (\<lambda>s t. snd (age env (s\<lparr>lm_now := t\<rparr>))) s ts) = lm_world s"
  using assms
proof (induction ts arbitrary: s)
  case (Cons t ts)
  have "elapsed_seconds (lm_lastAging s) t = 0"
    using Cons.prems by (auto simp: elapsed_seconds_def div_pos_pos_trivial min_def int64_max_def)
  then have "age env (s\<lparr>lm_now := t\<rparr>) = (None, s\<lparr>lm_now := t, lm_lastAging := t\<rparr>)"
    by (simp add: age_def Let_def)
  then show ?case using Cons.IH[of "s\<lparr>lm_now := t, lm_lastAging := t\<rparr>"] Cons.prems by simp
qed simp

definition sweep_env :: "(unit, nat) l2_env" where
  "sweep_env = \<lparr>r_Snapshot = (\<lambda>w. Inr flood_device), r_Set = (\<lambda>p v w. (None, Suc w)), r_SetState = (\<lambda>p v w. (None, Suc w)),
     r_List = (\<lambda>p w. Inr [p]), r_Delete = (\<lambda>p w. (None, Suc w))\<rparr>"

theorem subsecond_sweeps_never_age_witness:
  "lm_world (foldl (\<lambda>s t. snd (age sweep_env (s\<lparr>lm_now := t\<rparr>)))
     \<lparr>lm_hasBus = False, lm_tickInterval = 900000000, lm_forwardDelay = DefaultForwardDelay, lm_stormThreshold = 1000,
      lm_stormWindow = second, lm_lastAging = 1, lm_stpPending = [], lm_stormSamples = [], lm_stormAlarm = [],
      lm_now = 1, lm_world = 0, lm_published = []\<rparr>
     (map (\<lambda>k. 1 + int k * 900000000) [1..<4])) = 0"
  by (subst subsecond_sweeps_never_age) (simp_all add: upt_rec)

end
