(* ===== verification/Strconv.thy ===== *)
theory Strconv
  imports GoStrings GoFloat
begin

text \<open>
  The conversions of Go's \<open>strconv\<close> package that the router, the data tree and the management
  planes use on leaf values and list keys: booleans, signed and unsigned decimals of a bit size, and
  floating-point text.  A parser returns \<open>None\<close> where Go returns a syntax or range error.
\<close>

section \<open>Booleans and integers\<close>

definition FormatBool :: "bool \<Rightarrow> string" where
  "FormatBool b = (if b then ''true'' else ''false'')"

definition ParseBool :: "string \<Rightarrow> bool option" where
  "ParseBool s =
     (if s \<in> {''1'', ''t'', ''T'', ''TRUE'', ''true'', ''True''} then Some True
      else if s \<in> {''0'', ''f'', ''F'', ''FALSE'', ''false'', ''False''} then Some False
      else None)"

text \<open>\<open>ParseInt(s, 10, bits)\<close>; \<open>Atoi\<close> is the 64-bit case.\<close>

definition split_sign :: "string \<Rightarrow> bool \<times> string" where
  "split_sign s =
     (case s of c # cs \<Rightarrow> if c = CHR ''-'' then (True, cs) else if c = CHR ''+'' then (False, cs) else (False, s)
      | [] \<Rightarrow> (False, []))"

definition ParseInt :: "nat \<Rightarrow> string \<Rightarrow> int option" where
  "ParseInt bits s =
     (case split_sign s of (neg, ds) \<Rightarrow>
        case parse_base 10 ds of
          None \<Rightarrow> None
        | Some n \<Rightarrow>
            let z = (if neg then - int n else int n)
            in if - (2 ^ (bits - 1)) \<le> z \<and> z < 2 ^ (bits - 1) then Some z else None)"

definition Atoi :: "string \<Rightarrow> int option" where
  "Atoi s = ParseInt 64 s"

section \<open>Floating-point text\<close>

text \<open>The logarithm has no executable equation; evaluation leaves it as it is.\<close>

declare raw_ln_real_def [code del]

definition ascii_lower :: "char \<Rightarrow> char" where
  "ascii_lower c =
     (let n = of_char c :: nat in if 65 \<le> n \<and> n \<le> 90 then char_of (n + 32) else c)"

definition is_digit :: "nat \<Rightarrow> char \<Rightarrow> bool" where
  "is_digit b c = (case digit_val c of None \<Rightarrow> False | Some d \<Rightarrow> d < b)"

text \<open>Underscores may only separate digits, or a base prefix from a digit.\<close>

datatype last_seen = SawStart | SawDigit | SawUnderscore | SawOther

fun underscore_loop :: "bool \<Rightarrow> last_seen \<Rightarrow> string \<Rightarrow> bool" where
  "underscore_loop hex saw [] = (saw \<noteq> SawUnderscore)"
| "underscore_loop hex saw (c # cs) =
     (if is_digit (if hex then 16 else 10) c then underscore_loop hex SawDigit cs
      else if c = CHR ''_'' then saw = SawDigit \<and> underscore_loop hex SawUnderscore cs
      else saw \<noteq> SawUnderscore \<and> underscore_loop hex SawOther cs)"

definition underscoreOK :: "string \<Rightarrow> bool" where
  "underscoreOK s =
     (let r = snd (split_sign s)
      in case r of
           c # p # cs \<Rightarrow>
             if c = CHR ''0'' \<and> ascii_lower p \<in> {CHR ''b'', CHR ''o'', CHR ''x''}
             then underscore_loop (ascii_lower p = CHR ''x'') SawDigit cs
             else underscore_loop False SawStart r
         | _ \<Rightarrow> underscore_loop False SawStart r)"

text \<open>A mantissa: the digits, the number of them after the point, whether there is a digit at all,
  and the text that follows.\<close>

definition read_mantissa :: "nat \<Rightarrow> string \<Rightarrow> nat \<times> nat \<times> bool \<times> string" where
  "read_mantissa b s =
     (let ip = takeWhile (is_digit b) s; r = dropWhile (is_digit b) s;
          fp = (case r of c # cs \<Rightarrow> if c = CHR ''.'' then takeWhile (is_digit b) cs else [] | [] \<Rightarrow> []);
          rest = (case r of c # cs \<Rightarrow> if c = CHR ''.'' then dropWhile (is_digit b) cs else r | [] \<Rightarrow> [])
      in (case parse_digits b 0 (ip @ fp) of None \<Rightarrow> 0 | Some n \<Rightarrow> n, length fp, ip @ fp \<noteq> [], rest))"

text \<open>Go stops accumulating an exponent at 10000; every such value is out of range either way.\<close>

definition read_exp_digits :: "string \<Rightarrow> nat" where
  "read_exp_digits ds =
     foldl (\<lambda>e c. if e < 10000 then 10 * e + (case digit_val c of None \<Rightarrow> 0 | Some d \<Rightarrow> d) else e) 0 ds"

definition read_exponent :: "char \<Rightarrow> bool \<Rightarrow> string \<Rightarrow> int option" where
  "read_exponent marker required s =
     (case s of
        [] \<Rightarrow> if required then None else Some 0
      | c # cs \<Rightarrow>
          if ascii_lower c \<noteq> marker then None
          else case split_sign cs of (neg, ds) \<Rightarrow>
                 if ds = [] \<or> \<not> list_all (is_digit 10) ds then None
                 else Some (if neg then - int (read_exp_digits ds) else int (read_exp_digits ds)))"

definition parse_decimal :: "string \<Rightarrow> real option" where
  "parse_decimal s =
     (case read_mantissa 10 s of (m, k, some, rest) \<Rightarrow>
        if \<not> some then None
        else map_option (\<lambda>e. real m * 10 powi (e - int k)) (read_exponent CHR ''e'' False rest))"

definition parse_hex_float :: "string \<Rightarrow> real option" where
  "parse_hex_float s =
     (case read_mantissa 16 s of (m, k, some, rest) \<Rightarrow>
        if \<not> some then None
        else map_option (\<lambda>e. real m * 2 powi (e - 4 * int k)) (read_exponent CHR ''p'' True rest))"

definition parse_magnitude :: "string \<Rightarrow> real option" where
  "parse_magnitude s =
     (case s of
        c # p # r # cs \<Rightarrow>
          if c = CHR ''0'' \<and> ascii_lower p = CHR ''x'' then parse_hex_float (r # cs) else parse_decimal s
      | _ \<Rightarrow> parse_decimal s)"

definition in_range :: "float64 \<Rightarrow> float64 option" where
  "in_range x = (case x of Fin r \<Rightarrow> Some (Fin r) | _ \<Rightarrow> None)"

text \<open>\<open>ParseFloat(s, 64)\<close>.\<close>

definition ParseFloat :: "string \<Rightarrow> float64 option" where
  "ParseFloat s =
     (case split_sign s of (neg, r) \<Rightarrow>
        if map ascii_lower r \<in> {''inf'', ''infinity''} then Some (if neg then NegInf else PosInf)
        else if map ascii_lower s = ''nan'' then Some NaN
        else if CHR ''_'' \<in> set s \<and> \<not> underscoreOK s then None
        else case parse_magnitude (filter (\<lambda>c. c \<noteq> CHR ''_'') r) of
               None \<Rightarrow> None
             | Some x \<Rightarrow> in_range (f64_round (if neg then - x else x)))"

text \<open>
  \<open>FormatFloat(x, 'g', -1, 64)\<close>: the shortest decimal that reads back as \<open>x\<close>.  For \<open>n\<close> significant
  digits the candidates are the two neighbours of \<open>x\<close> among the \<open>n\<close>-digit decimals; the nearer one
  is preferred.
\<close>

definition short_exp :: "real \<Rightarrow> nat \<Rightarrow> int" where
  "short_exp x n = \<lfloor>log 10 x\<rfloor> - int n + 1"

definition short_candidate :: "real \<Rightarrow> nat \<Rightarrow> int option" where
  "short_candidate x n =
     (let u = 10 powi (short_exp x n); near = round_half_even (x / u);
          far = (if near = \<lfloor>x / u\<rfloor> then near + 1 else near - 1)
      in if f64_round (of_int near * u) = Fin x then Some near
         else if f64_round (of_int far * u) = Fin x then Some far else None)"

text \<open>The smallest number of digits with a candidate.  Every finite \<open>float64\<close> has at most 767
  significant decimal digits, so the search ends before its bound.\<close>

fun short_from :: "nat \<Rightarrow> nat \<Rightarrow> real \<Rightarrow> nat" where
  "short_from 0 n x = n"
| "short_from (Suc fuel) n x =
     (case short_candidate x n of Some _ \<Rightarrow> n | None \<Rightarrow> short_from fuel (Suc n) x)"

definition short_len :: "real \<Rightarrow> nat" where
  "short_len x = short_from 800 1 x"

text \<open>Digits without trailing zeros and the position of the decimal point.\<close>

definition short_digits :: "real \<Rightarrow> string \<times> int" where
  "short_digits x =
     (let n = short_len x; ds = itoa (nat (the (short_candidate x n)));
          nz = rev (dropWhile (\<lambda>c. c = CHR ''0'') (rev ds))
      in (nz, short_exp x n + int (length ds)))"

definition fmtE :: "string \<Rightarrow> int \<Rightarrow> string" where
  "fmtE ds dp =
     (let e = dp - 1; a = nat \<bar>e\<bar>
      in take 1 ds @ (if length ds > 1 then ''.'' @ drop 1 ds else []) @ ''e'' @ (if e < 0 then ''-'' else ''+'')
         @ (if a < 10 then ''0'' else []) @ itoa a)"

definition fmtF :: "string \<Rightarrow> int \<Rightarrow> string" where
  "fmtF ds dp =
     (if dp > 0
      then take (nat dp) ds @ replicate (nat dp - length ds) CHR ''0''
           @ (if length ds > nat dp then ''.'' @ drop (nat dp) ds else [])
      else ''0.'' @ replicate (nat (- dp)) CHR ''0'' @ ds)"

definition format_positive :: "real \<Rightarrow> string" where
  "format_positive x =
     (case short_digits x of (ds, dp) \<Rightarrow>
        if dp - 1 < - 4 \<or> 6 \<le> dp - 1 then fmtE ds dp else fmtF ds dp)"

fun FormatFloat :: "float64 \<Rightarrow> string" where
  "FormatFloat NaN = ''NaN''"
| "FormatFloat PosInf = ''+Inf''"
| "FormatFloat NegInf = ''-Inf''"
| "FormatFloat (Fin x) =
     (if x = 0 then ''0'' else if x < 0 then ''-'' @ format_positive (- x) else format_positive x)"

section \<open>Round trips\<close>

lemma ParseBool_FormatBool [simp]: "ParseBool (FormatBool b) = Some b"
  by (simp add: ParseBool_def FormatBool_def)

lemma digit_char_not_sign: "d < 10 \<Longrightarrow> digit_char d \<noteq> CHR ''-'' \<and> digit_char d \<noteq> CHR ''+''"
proof -
  assume "d < 10"
  then have "digit_val (digit_char d) = Some d" by (simp add: digit_val_char)
  moreover have "digit_val CHR ''-'' = None" "digit_val CHR ''+'' = None" by (simp_all add: digit_val_def)
  ultimately show ?thesis by (metis option.distinct(1))
qed

lemma split_sign_itoa [simp]: "split_sign (itoa n) = (False, itoa n)"
proof -
  obtain c cs where eq: "itoa n = c # cs" by (cases "itoa n") (auto simp: itoa_def)
  then have "c \<in> set (format_base 10 n)" by (simp add: itoa_def)
  then obtain d where "d < 10" "c = digit_char d" using digit_chars[of 10 c n] by auto
  then show ?thesis using digit_char_not_sign[of d] by (simp add: split_sign_def eq)
qed

lemma parse_base_itoa [simp]: "parse_base 10 (itoa n) = Some n"
  by (simp add: itoa_def parse_format)

lemma ParseInt_itoa_int:
  assumes "- (2 ^ (bits - 1)) \<le> z" "z < 2 ^ (bits - 1)"
  shows "ParseInt bits (itoa_int z) = Some z"
proof (cases "z < 0")
  case True
  have "split_sign (''-'' @ itoa (nat (- z))) = (True, itoa (nat (- z)))" by (simp add: split_sign_def)
  with True assms show ?thesis by (simp add: ParseInt_def itoa_int_def)
qed (use assms in \<open>simp add: ParseInt_def itoa_int_def\<close>)

end
