(* ===== verification/Reflect.thy ===== *)
theory Reflect
  imports PathSyntax GoValues Strconv
begin

text \<open>
  The reflection layer of the router (\<open>src/internal/router/reflect.go\<close>).  A Go type of the managed
  objects is a \<open>gotype\<close>: scalars, pointers, slices and structs whose fields carry the tags the
  router reads.  A \<open>reflect.Value\<close> is a \<open>gotype\<close> together with a \<open>rvalue\<close> of that type.  The
  managed objects have no arrays, maps, interfaces or signed and sized kinds other than the leaf kinds, so
  the branches for those kinds have no counterpart.

  A float outside the range of an integer type converts to an integer the Go specification leaves
  to the implementation; its bits are the parameter \<open>oor\<close>.
\<close>

section \<open>Types and values\<close>

datatype router_error =
    ErrNotFound_r string
  | ErrInvalidPath_r string
  | ErrReadOnly string
  | ErrTypeMismatch string
  | ErrBadValue string
  | ErrUnknownOID string

record ftag =
  t_path :: "string option"
  t_key :: bool
  t_state :: bool
  t_creatable :: bool

datatype gotype =
    TLeaf leaf_kind
  | TPtr gotype
  | TSlice gotype
  | TStruct "(ftag \<times> gotype) list"

datatype rvalue =
    VLeaf goval
  | VPtr "rvalue option"
  | VSlice "rvalue list"
  | VStruct "rvalue list"

fun typed_leaf :: "leaf_kind \<Rightarrow> goval \<Rightarrow> bool" where
  "typed_leaf k (GInt n) = (k = kindInt \<and> int64_min \<le> n \<and> n \<le> int64_max)"
| "typed_leaf k v = (leafKindOf v = Some k)"

fun has_type :: "gotype \<Rightarrow> rvalue \<Rightarrow> bool" where
  "has_type (TLeaf k) (VLeaf v) = typed_leaf k v"
| "has_type (TPtr t) (VPtr None) = True"
| "has_type (TPtr t) (VPtr (Some v)) = has_type t v"
| "has_type (TSlice t) (VSlice vs) = list_all (has_type t) vs"
| "has_type (TStruct fs) (VStruct vs) = list_all2 (\<lambda>f v. has_type (snd f) v) fs vs"
| "has_type _ _ = False"

fun zero_leaf :: "leaf_kind \<Rightarrow> goval" where
  "zero_leaf kindBool = GBool False"
| "zero_leaf kindInt = GInt 0"
| "zero_leaf kindUint8 = GUint8 0"
| "zero_leaf kindUint16 = GUint16 0"
| "zero_leaf kindUint32 = GUint32 0"
| "zero_leaf kindUint64 = GUint64 0"
| "zero_leaf kindFloat64 = GFloat (Fin 0)"
| "zero_leaf kindString = GString []"

fun zero_value :: "gotype \<Rightarrow> rvalue" where
  "zero_value (TLeaf k) = VLeaf (zero_leaf k)"
| "zero_value (TPtr t) = VPtr None"
| "zero_value (TSlice t) = VSlice []"
| "zero_value (TStruct fs) = VStruct (map (\<lambda>f. zero_value (snd f)) fs)"

fun derefValue :: "gotype \<Rightarrow> rvalue \<Rightarrow> (gotype \<times> rvalue) option" where
  "derefValue (TPtr t) (VPtr None) = None"
| "derefValue (TPtr t) (VPtr (Some v)) = derefValue t v"
| "derefValue t v = Some (t, v)"

fun strip_ptr :: "gotype \<Rightarrow> gotype" where
  "strip_ptr (TPtr t) = strip_ptr t"
| "strip_ptr t = t"

section \<open>Fields and keys\<close>

text \<open>The number of segments a tag consumes when all its parts match.\<close>

definition tag_matches :: "string \<Rightarrow> path \<Rightarrow> nat option" where
  "tag_matches tag segs =
     (let parts = split_on CHR ''/'' tag
      in if length parts > length segs then None
         else if parts = map Name (take (length parts) segs) then Some (length parts) else None)"

definition best_len :: "(nat \<times> nat) option \<Rightarrow> nat" where
  "best_len best = (case best of None \<Rightarrow> 0 | Some (_, n) \<Rightarrow> n)"

fun matchField_loop :: "nat \<Rightarrow> (ftag \<times> gotype) list \<Rightarrow> path \<Rightarrow> (nat \<times> nat) option \<Rightarrow> (nat \<times> nat) option" where
  "matchField_loop i [] segs best = best"
| "matchField_loop i (f # fs) segs best =
     matchField_loop (Suc i) fs segs
       (case t_path (fst f) of
          None \<Rightarrow> best
        | Some tag \<Rightarrow>
            (case tag_matches tag segs of
               None \<Rightarrow> best
             | Some n \<Rightarrow> if best_len best < n then Some (i, n) else best))"

text \<open>The index of the matched field and the number of segments its tag consumes.\<close>

definition matchField :: "(ftag \<times> gotype) list \<Rightarrow> path \<Rightarrow> (nat \<times> nat) option" where
  "matchField fs segs = matchField_loop 0 fs segs None"

fun keyFieldIndex :: "(ftag \<times> gotype) list \<Rightarrow> nat option" where
  "keyFieldIndex [] = None"
| "keyFieldIndex (f # fs) = (if t_key (fst f) then Some 0 else map_option Suc (keyFieldIndex fs))"

definition keyTagName :: "(ftag \<times> gotype) list \<Rightarrow> string" where
  "keyTagName fs =
     (case keyFieldIndex fs of
        None \<Rightarrow> []
      | Some i \<Rightarrow> hd (split_on CHR ''/'' (case t_path (fst (fs ! i)) of None \<Rightarrow> [] | Some tag \<Rightarrow> tag)))"

fun scalarString :: "goval \<Rightarrow> string" where
  "scalarString (GString s) = s"
| "scalarString (GBool b) = FormatBool b"
| "scalarString (GInt n) = itoa_int n"
| "scalarString (GInt64 n) = itoa_int n"
| "scalarString (GUint8 n) = itoa (unat n)"
| "scalarString (GUint16 n) = itoa (unat n)"
| "scalarString (GUint32 n) = itoa (unat n)"
| "scalarString (GUint64 n) = itoa (unat n)"
| "scalarString (GUint n) = itoa (unat n)"
| "scalarString (GFloat x) = FormatFloat x"
| "scalarString _ = []"

text \<open>The key text of a list element: \<open>None\<close> for a nil element or a nil key.\<close>

definition element_key :: "gotype \<Rightarrow> rvalue \<Rightarrow> string option" where
  "element_key et e =
     (case derefValue et e of
        Some (TStruct fs, VStruct vs) \<Rightarrow>
          (case keyFieldIndex fs of
             None \<Rightarrow> None
           | Some i \<Rightarrow>
               (case derefValue (snd (fs ! i)) (vs ! i) of
                  None \<Rightarrow> None
                | Some (_, VLeaf k) \<Rightarrow> Some (scalarString k)
                | Some _ \<Rightarrow> Some []))
      | _ \<Rightarrow> None)"

text \<open>The checks a list access makes on the element type, shared by \<open>selectElement\<close> and the
  rebuild's \<open>appendOrSelect\<close>.\<close>

definition check_list :: "gotype \<Rightarrow> segment \<Rightarrow> router_error option" where
  "check_list base seg =
     (case base of
        TStruct fs \<Rightarrow>
          if keyFieldIndex fs = None then Some (ErrInvalidPath_r (Name seg))
          else if keyTagName fs \<noteq> Key seg then Some (ErrInvalidPath_r (Name seg))
          else None
      | _ \<Rightarrow> Some (ErrInvalidPath_r (Name seg)))"

definition synthesizeElement :: "gotype \<Rightarrow> rvalue" where
  "synthesizeElement et = (case et of TPtr t \<Rightarrow> VPtr (Some (zero_value t)) | _ \<Rightarrow> zero_value et)"

definition selectElement :: "gotype \<Rightarrow> rvalue list \<Rightarrow> segment \<Rightarrow> bool \<Rightarrow> router_error + (gotype \<times> rvalue)" where
  "selectElement et es seg creatable =
     (case check_list (strip_ptr et) seg of
        Some e \<Rightarrow> Inl e
      | None \<Rightarrow>
          (case find (\<lambda>e. element_key et e = Some (Value seg)) es of
             Some e \<Rightarrow> Inr (et, e)
           | None \<Rightarrow>
               if \<not> creatable then Inl (ErrNotFound_r (segment_string seg))
               else Inr (strip_ptr et, synthesizeElement (strip_ptr et))))"

lemma matchField_loop_bounds:
  assumes "matchField_loop i fs segs best = Some (j, n)"
    and "\<And>j n. best = Some (j, n) \<Longrightarrow> j < i \<and> 0 < n \<and> n \<le> length segs"
  shows "j < i + length fs \<and> 0 < n \<and> n \<le> length segs"
  using assms
proof (induction i fs segs best rule: matchField_loop.induct)
  case (2 i f fs segs best)
  have "j < Suc i + length fs \<and> 0 < n \<and> n \<le> length segs"
    by (rule "2.IH"[OF "2.prems"(1)[unfolded matchField_loop.simps]])
      (use "2.prems"(2) in \<open>force simp: tag_matches_def Let_def split: option.splits if_splits\<close>)
  then show ?case by simp
qed auto

lemma matchField_bounds:
  assumes "matchField fs segs = Some (j, n)"
  shows "j < length fs" "0 < n" "n \<le> length segs"
  using matchField_loop_bounds[of 0 fs segs None j n] assms by (auto simp: matchField_def)

section \<open>Resolution\<close>

record node =
  n_type :: gotype
  n_value :: rvalue
  n_readOnly :: bool

text \<open>The loop of \<open>resolve\<close>: the current node and the segments left to walk.\<close>

function resolve_from :: "gotype \<Rightarrow> rvalue \<Rightarrow> bool \<Rightarrow> path \<Rightarrow> router_error + node" where
  "resolve_from t v ro [] = Inr \<lparr>n_type = t, n_value = v, n_readOnly = ro\<rparr>"
| "resolve_from t v ro (g # gs) =
     (case derefValue t v of
        None \<Rightarrow> Inl (ErrNotFound_r (Name g))
      | Some (TStruct fs, VStruct vs) \<Rightarrow>
          (case matchField fs (g # gs) of
             None \<Rightarrow> Inl (ErrNotFound_r (Name g))
           | Some (i, n) \<Rightarrow>
               let last = (g # gs) ! (n - 1); rest = drop n (g # gs);
                   ro' = (ro \<or> t_state (fst (fs ! i)))
               in (case derefValue (snd (fs ! i)) (vs ! i) of
                     None \<Rightarrow> Inl (ErrNotFound_r (Name last))
                   | Some (TSlice et, VSlice es) \<Rightarrow>
                       if Key last = []
                       then if rest = [] then Inr \<lparr>n_type = TSlice et, n_value = VSlice es, n_readOnly = ro'\<rparr>
                            else Inl (ErrInvalidPath_r (Name last))
                       else (case selectElement et es last (t_creatable (fst (fs ! i))) of
                               Inl e \<Rightarrow> Inl e
                             | Inr (et', e) \<Rightarrow> resolve_from et' e ro' rest)
                   | Some (ft, fv) \<Rightarrow> resolve_from ft fv ro' rest))
      | Some (TSlice _, _) \<Rightarrow> Inl (ErrInvalidPath_r (Name g))
      | Some _ \<Rightarrow> Inl (ErrNotFound_r (Name g)))"
  by pat_completeness auto
termination
  by (relation "measure (\<lambda>(t, v, ro, segs). length segs)") (auto dest: matchField_bounds)

definition resolve :: "gotype \<Rightarrow> rvalue \<Rightarrow> path \<Rightarrow> router_error + node" where
  "resolve t v segs =
     (case derefValue t v of
        None \<Rightarrow> Inl (ErrNotFound_r ''nil root'')
      | Some (t', v') \<Rightarrow> resolve_from t' v' False segs)"

definition isLeaf :: "gotype \<Rightarrow> rvalue \<Rightarrow> bool" where
  "isLeaf t v = (case derefValue t v of Some (TLeaf _, _) \<Rightarrow> True | _ \<Rightarrow> False)"

definition leafValue :: "gotype \<Rightarrow> rvalue \<Rightarrow> router_error + goval" where
  "leafValue t v =
     (case derefValue t v of
        Some (TLeaf _, VLeaf x) \<Rightarrow> Inr x
      | Some _ \<Rightarrow> Inl (ErrTypeMismatch ''unsupported leaf kind'')
      | None \<Rightarrow> Inl (ErrTypeMismatch ''nil leaf''))"

section \<open>Conversion\<close>

definition float_to_int64 :: "u64 \<Rightarrow> real \<Rightarrow> int" where
  "float_to_int64 oor r = (if - (2 ^ 63) \<le> r \<and> r < 2 ^ 63 then \<lfloor>r\<rfloor> else sint oor)"

definition float_to_uint64 :: "u64 \<Rightarrow> real \<Rightarrow> u64" where
  "float_to_uint64 oor r = (if 0 \<le> r \<and> r < 2 ^ 64 then of_int \<lfloor>r\<rfloor> else oor)"

text \<open>\<open>math.MaxInt64\<close> and \<open>math.MaxUint64\<close> in a comparison with a \<open>float64\<close> are the powers of two
  above them.\<close>

fun toInt64 :: "u64 \<Rightarrow> goval \<Rightarrow> int option" where
  "toInt64 oor (GInt n) = Some n"
| "toInt64 oor (GInt64 n) = Some n"
| "toInt64 oor (GUint8 n) = Some (uint n)"
| "toInt64 oor (GUint16 n) = Some (uint n)"
| "toInt64 oor (GUint32 n) = Some (uint n)"
| "toInt64 oor (GUint64 n) = (if uint n > int64_max then None else Some (uint n))"
| "toInt64 oor (GUint n) = (if uint n > int64_max then None else Some (uint n))"
| "toInt64 oor (GFloat x) =
     (case x of
        Fin r \<Rightarrow> if f64_trunc x \<noteq> x \<or> r < - (2 ^ 63) \<or> r > 2 ^ 63 then None
                 else Some (float_to_int64 oor r)
      | _ \<Rightarrow> None)"
| "toInt64 oor _ = None"

fun toUint64 :: "u64 \<Rightarrow> goval \<Rightarrow> u64 option" where
  "toUint64 oor (GInt n) = (if n < 0 then None else Some (of_int n))"
| "toUint64 oor (GInt64 n) = (if n < 0 then None else Some (of_int n))"
| "toUint64 oor (GUint8 n) = Some (ucast n)"
| "toUint64 oor (GUint16 n) = Some (ucast n)"
| "toUint64 oor (GUint32 n) = Some (ucast n)"
| "toUint64 oor (GUint64 n) = Some n"
| "toUint64 oor (GUint n) = Some n"
| "toUint64 oor (GFloat x) =
     (case x of
        Fin r \<Rightarrow> if f64_trunc x \<noteq> x \<or> r < 0 \<or> r > 2 ^ 64 then None
                 else Some (float_to_uint64 oor r)
      | _ \<Rightarrow> None)"
| "toUint64 oor _ = None"

fun toFloat64 :: "goval \<Rightarrow> float64 option" where
  "toFloat64 (GInt n) = Some (f64_round (of_int n))"
| "toFloat64 (GInt64 n) = Some (f64_round (of_int n))"
| "toFloat64 (GUint8 n) = Some (f64_round (of_int (uint n)))"
| "toFloat64 (GUint16 n) = Some (f64_round (of_int (uint n)))"
| "toFloat64 (GUint32 n) = Some (f64_round (of_int (uint n)))"
| "toFloat64 (GUint64 n) = Some (f64_round (of_int (uint n)))"
| "toFloat64 (GUint n) = Some (f64_round (of_int (uint n)))"
| "toFloat64 (GFloat x) = Some x"
| "toFloat64 _ = None"

text \<open>The value of an unsigned kind of \<open>bits\<close> bits, built by \<open>mk\<close>.\<close>

definition assign_uint :: "u64 \<Rightarrow> nat \<Rightarrow> (u64 \<Rightarrow> goval) \<Rightarrow> goval \<Rightarrow> router_error + goval" where
  "assign_uint oor bits mk value =
     (case toUint64 oor value of
        Some x \<Rightarrow> if unat x \<ge> 2 ^ bits then Inl (ErrBadValue ''overflows'') else Inr (mk x)
      | None \<Rightarrow>
          (case toInt64 oor value of
             Some z \<Rightarrow> if z < 0 then Inl (ErrBadValue ''overflows'') else Inl (ErrTypeMismatch ''cannot use'')
           | None \<Rightarrow> Inl (ErrTypeMismatch ''cannot use'')))"

definition assignLeaf :: "u64 \<Rightarrow> gotype \<Rightarrow> goval \<Rightarrow> router_error + goval" where
  "assignLeaf oor t value =
     (if value = GNil then Inl (ErrTypeMismatch ''nil value'')
      else case t of
        TLeaf k \<Rightarrow>
          if leafKindOf value = Some k then Inr value
          else (case k of
                  kindString \<Rightarrow> Inl (ErrTypeMismatch ''cannot use'')
                | kindBool \<Rightarrow> Inl (ErrTypeMismatch ''cannot use'')
                | kindInt \<Rightarrow>
                    (case toInt64 oor value of
                       Some x \<Rightarrow> Inr (GInt x) | None \<Rightarrow> Inl (ErrTypeMismatch ''cannot use''))
                | kindUint8 \<Rightarrow> assign_uint oor 8 (\<lambda>x. GUint8 (ucast x)) value
                | kindUint16 \<Rightarrow> assign_uint oor 16 (\<lambda>x. GUint16 (ucast x)) value
                | kindUint32 \<Rightarrow> assign_uint oor 32 (\<lambda>x. GUint32 (ucast x)) value
                | kindUint64 \<Rightarrow> assign_uint oor 64 GUint64 value
                | kindFloat64 \<Rightarrow>
                    (case toFloat64 value of
                       Some x \<Rightarrow> Inr (GFloat x) | None \<Rightarrow> Inl (ErrTypeMismatch ''cannot use'')))
      | _ \<Rightarrow> Inl (ErrTypeMismatch ''cannot use''))"

definition coerce :: "u64 \<Rightarrow> goval \<Rightarrow> gotype \<Rightarrow> router_error + goval" where
  "coerce oor value t = bind_res (assignLeaf oor t value) (\<lambda>x. leafValue t (VLeaf x))"

section \<open>Walking the leaves\<close>

text \<open>The leaves in declaration order, each with its path and access; the callback of the Go walk
  runs over this list and stops at its first error.\<close>

definition tag_segments :: "string \<Rightarrow> path" where
  "tag_segments tag = map (\<lambda>part. \<lparr>Name = part, Key = [], Value = []\<rparr>) (split_on CHR ''/'' tag)"

definition key_segments :: "gotype \<Rightarrow> rvalue \<Rightarrow> path \<Rightarrow> path" where
  "key_segments et e segs =
     (case (strip_ptr et, element_key et e) of
        (TStruct fs, Some k) \<Rightarrow>
          if segs = [] then segs
          else butlast segs @ [last segs\<lparr>Key := keyTagName fs, Value := k\<rparr>]
      | _ \<Rightarrow> segs)"

fun walkLeaves :: "gotype \<Rightarrow> rvalue \<Rightarrow> path \<Rightarrow> bool \<Rightarrow> (path \<times> goval \<times> bool) list"
  and walk_fields :: "(ftag \<times> gotype) list \<Rightarrow> rvalue list \<Rightarrow> path \<Rightarrow> bool \<Rightarrow> (path \<times> goval \<times> bool) list"
  and walk_elements :: "gotype \<Rightarrow> rvalue list \<Rightarrow> path \<Rightarrow> bool \<Rightarrow> (path \<times> goval \<times> bool) list" where
  "walkLeaves (TPtr t) (VPtr None) segs ro = []"
| "walkLeaves (TPtr t) (VPtr (Some v)) segs ro = walkLeaves t v segs ro"
| "walkLeaves (TStruct fs) (VStruct vs) segs ro = walk_fields fs vs segs ro"
| "walkLeaves (TSlice t) (VSlice es) segs ro = walk_elements t es segs ro"
| "walkLeaves (TLeaf k) (VLeaf x) segs ro = [(segs, x, ro)]"
| "walkLeaves _ _ segs ro = []"
| "walk_fields (f # fs) (v # vs) segs ro =
     (case t_path (fst f) of
        None \<Rightarrow> []
      | Some tag \<Rightarrow> walkLeaves (snd f) v (segs @ tag_segments tag) (ro \<or> t_state (fst f)))
     @ walk_fields fs vs segs ro"
| "walk_fields _ _ segs ro = []"
| "walk_elements t [] segs ro = []"
| "walk_elements t (e # es) segs ro = walkLeaves t e (key_segments t e segs) ro @ walk_elements t es segs ro"

end
