(* ===== verification/DeviceType.thy ===== *)
theory DeviceType
  imports Reflect Model
begin

text \<open>
  What reflection sees of the managed objects (\<open>src/internal/model\<close>): the type of every struct with
  the \<open>path\<close>, \<open>key\<close>, \<open>config\<close> and \<open>creatable\<close> tags of its fields, the reflected value of a record
  and the record behind a reflected value.  The two directions are inverse on values of the type.
\<close>

section \<open>Tags\<close>

definition plain :: "string \<Rightarrow> ftag" where
  "plain p = \<lparr>t_path = Some p, t_key = False, t_state = False, t_creatable = False\<rparr>"

definition keyed :: "string \<Rightarrow> ftag" where
  "keyed p = \<lparr>t_path = Some p, t_key = True, t_state = False, t_creatable = False\<rparr>"

definition state :: "string \<Rightarrow> ftag" where
  "state p = \<lparr>t_path = Some p, t_key = False, t_state = True, t_creatable = False\<rparr>"

definition growing :: "string \<Rightarrow> ftag" where
  "growing p = \<lparr>t_path = Some p, t_key = False, t_state = False, t_creatable = True\<rparr>"

lemmas tag_defs = plain_def keyed_def state_def growing_def

section \<open>Types\<close>

definition SystemInfo_type :: gotype where
  "SystemInfo_type = TStruct
     [(plain ''device-id'', TLeaf kindString),
      (plain ''name'', TLeaf kindString),
      (plain ''description'', TLeaf kindString),
      (plain ''contact'', TLeaf kindString),
      (plain ''location'', TLeaf kindString),
      (state ''uptime'', TLeaf kindUint32)]"

definition LinkBudget_type :: gotype where
  "LinkBudget_type = TStruct
     [(plain ''link-length'', TLeaf kindFloat64),
      (plain ''frequency'', TLeaf kindFloat64),
      (plain ''tx-antenna-gain'', TLeaf kindFloat64),
      (plain ''rx-antenna-gain'', TLeaf kindFloat64),
      (plain ''feed-loss'', TLeaf kindFloat64),
      (state ''calculated-rsl'', TLeaf kindFloat64)]"

definition ATPC_type :: gotype where
  "ATPC_type = TStruct
     [(plain ''enabled'', TLeaf kindBool),
      (plain ''target-rsl'', TLeaf kindFloat64),
      (plain ''min-power'', TLeaf kindFloat64),
      (plain ''max-power'', TLeaf kindFloat64),
      (plain ''range'', TLeaf kindFloat64),
      (state ''current-power'', TLeaf kindFloat64)]"

definition ACM_type :: gotype where
  "ACM_type = TStruct
     [(plain ''enabled'', TLeaf kindBool),
      (plain ''mode'', TLeaf kindString),
      (plain ''min-profile'', TLeaf kindUint8),
      (plain ''max-profile'', TLeaf kindUint8),
      (state ''current-profile'', TLeaf kindUint8),
      (state ''current-capacity'', TLeaf kindUint32)]"

definition ModProfile_type :: gotype where
  "ModProfile_type = TStruct
     [(keyed ''id'', TLeaf kindUint8),
      (plain ''name'', TLeaf kindString),
      (plain ''modulation'', TLeaf kindString),
      (plain ''coding-rate'', TLeaf kindString),
      (plain ''spectral-efficiency'', TLeaf kindFloat64),
      (plain ''rsl-threshold'', TLeaf kindFloat64),
      (plain ''capacity'', TLeaf kindUint32)]"

definition RadioLink_type :: gotype where
  "RadioLink_type = TStruct
     [(plain ''name'', TLeaf kindString),
      (plain ''tx-power'', TLeaf kindFloat64),
      (state ''rssi'', TLeaf kindFloat64),
      (state ''fade-margin'', TLeaf kindFloat64),
      (state ''capacity'', TLeaf kindUint32),
      (state ''link-state'', TLeaf kindString),
      (plain ''link-budget'', LinkBudget_type),
      (plain ''atpc'', ATPC_type),
      (plain ''acm'', ACM_type),
      (plain ''modulation-profile'', TSlice ModProfile_type)]"

definition InterfaceCounters_type :: gotype where
  "InterfaceCounters_type = TStruct
     [(state ''in-octets'', TLeaf kindUint64),
      (state ''out-octets'', TLeaf kindUint64),
      (state ''in-ucast-pkts'', TLeaf kindUint64),
      (state ''out-ucast-pkts'', TLeaf kindUint64),
      (state ''in-errors'', TLeaf kindUint32),
      (state ''out-errors'', TLeaf kindUint32),
      (state ''in-discards'', TLeaf kindUint32),
      (state ''out-discards'', TLeaf kindUint32)]"

definition Interface_type :: gotype where
  "Interface_type = TStruct
     [(keyed ''name'', TLeaf kindString),
      (plain ''type'', TLeaf kindString),
      (plain ''enabled'', TLeaf kindBool),
      (plain ''mtu'', TLeaf kindUint32),
      (plain ''mac-address'', TLeaf kindString),
      (plain ''radio-link'', TPtr RadioLink_type),
      (plain ''counters'', InterfaceCounters_type)]"

definition VLANPort_type :: gotype where
  "VLANPort_type = TStruct
     [(keyed ''port'', TLeaf kindString),
      (plain ''mode'', TLeaf kindString),
      (plain ''pvid'', TLeaf kindUint16),
      (plain ''tagged'', TLeaf kindBool),
      (plain ''qinq'', TLeaf kindBool),
      (plain ''s-tag-vid'', TLeaf kindUint16),
      (plain ''c-tag-handling'', TLeaf kindString)]"

definition VLAN_type :: gotype where
  "VLAN_type = TStruct
     [(keyed ''id'', TLeaf kindUint16),
      (plain ''name'', TLeaf kindString),
      (plain ''description'', TLeaf kindString),
      (growing ''ports/port'', TSlice VLANPort_type)]"

definition MACEntry_type :: gotype where
  "MACEntry_type = TStruct
     [(keyed ''mac-address'', TLeaf kindString),
      (plain ''vlan-id'', TLeaf kindUint16),
      (plain ''port'', TLeaf kindUint32),
      (plain ''type'', TLeaf kindString),
      (state ''age'', TLeaf kindUint32),
      (plain ''permanent'', TLeaf kindBool)]"

definition MACTable_type :: gotype where
  "MACTable_type = TStruct
     [(growing ''entry'', TSlice MACEntry_type),
      (plain ''aging-time'', TLeaf kindUint32),
      (plain ''max-entries'', TLeaf kindUint32),
      (state ''current-count'', TLeaf kindUint32)]"

definition LLDPNeighbor_type :: gotype where
  "LLDPNeighbor_type = TStruct
     [(keyed ''port'', TLeaf kindString),
      (plain ''chassis-id'', TLeaf kindString),
      (plain ''port-id'', TLeaf kindString),
      (plain ''system-name'', TLeaf kindString),
      (plain ''system-description'', TLeaf kindString),
      (plain ''ttl'', TLeaf kindUint32),
      (plain ''capabilities'', TLeaf kindString)]"

definition LLDPConfig_type :: gotype where
  "LLDPConfig_type = TStruct
     [(plain ''enabled'', TLeaf kindBool),
      (plain ''tx-interval'', TLeaf kindUint32),
      (plain ''tx-hold-multiplier'', TLeaf kindUint32),
      (plain ''reinit-delay'', TLeaf kindUint32),
      (plain ''tx-delay'', TLeaf kindUint32),
      (plain ''chassis-id'', TLeaf kindString),
      (plain ''system-name'', TLeaf kindString),
      (plain ''system-description'', TLeaf kindString),
      (growing ''neighbors/neighbor'', TSlice LLDPNeighbor_type)]"

definition STPPort_type :: gotype where
  "STPPort_type = TStruct
     [(keyed ''port'', TLeaf kindString),
      (plain ''role'', TLeaf kindString),
      (plain ''state'', TLeaf kindString),
      (plain ''priority'', TLeaf kindUint8),
      (plain ''path-cost'', TLeaf kindUint32),
      (plain ''edge-port'', TLeaf kindBool)]"

definition STPState_type :: gotype where
  "STPState_type = TStruct
     [(plain ''enabled'', TLeaf kindBool),
      (plain ''protocol'', TLeaf kindString),
      (plain ''bridge-priority'', TLeaf kindUint16),
      (plain ''bridge-address'', TLeaf kindString),
      (state ''root-id'', TLeaf kindString),
      (state ''root-cost'', TLeaf kindUint32),
      (plain ''ports/port'', TSlice STPPort_type)]"

definition PTPClock_type :: gotype where
  "PTPClock_type = TStruct
     [(plain ''mode'', TLeaf kindString),
      (plain ''domain'', TLeaf kindUint8),
      (plain ''priority1'', TLeaf kindUint8),
      (plain ''priority2'', TLeaf kindUint8),
      (plain ''clock-class'', TLeaf kindUint8),
      (plain ''clock-accuracy'', TLeaf kindUint8),
      (plain ''holdover-timeout'', TLeaf kindUint32),
      (state ''state'', TLeaf kindString),
      (state ''offset'', TLeaf kindFloat64),
      (state ''jitter'', TLeaf kindFloat64)]"

definition SyncEInterface_type :: gotype where
  "SyncEInterface_type = TStruct
     [(keyed ''name'', TLeaf kindString),
      (plain ''ssm-enabled'', TLeaf kindBool),
      (plain ''ql'', TLeaf kindString),
      (plain ''extended-ql'', TLeaf kindString),
      (plain ''priority'', TLeaf kindUint8),
      (plain ''ptp-preference'', TLeaf kindBool)]"

definition ESMC_type :: gotype where
  "ESMC_type = TStruct
     [(plain ''enabled'', TLeaf kindBool),
      (plain ''tx-interval'', TLeaf kindUint32),
      (plain ''extended-codes'', TLeaf kindBool)]"

definition SyncEState_type :: gotype where
  "SyncEState_type = TStruct
     [(plain ''enabled'', TLeaf kindBool),
      (state ''selected-source'', TLeaf kindString),
      (state ''selected-ql'', TLeaf kindString),
      (state ''selected-extended-ql'', TLeaf kindString),
      (plain ''interfaces/interface'', TSlice SyncEInterface_type),
      (plain ''esmc'', ESMC_type)]"

definition Device_type :: gotype where
  "Device_type = TStruct
     [(plain ''system-info'', SystemInfo_type),
      (plain ''interfaces/interface'', TSlice Interface_type),
      (growing ''vlans/vlan'', TSlice VLAN_type),
      (plain ''mac-table'', MACTable_type),
      (plain ''stp/state'', STPState_type),
      (plain ''lldp'', LLDPConfig_type),
      (plain ''ptp/clock'', PTPClock_type),
      (plain ''synce'', SyncEState_type)]"

lemmas type_defs = SystemInfo_type_def LinkBudget_type_def ATPC_type_def ACM_type_def ModProfile_type_def RadioLink_type_def InterfaceCounters_type_def Interface_type_def VLANPort_type_def VLAN_type_def MACEntry_type_def MACTable_type_def LLDPNeighbor_type_def LLDPConfig_type_def STPPort_type_def STPState_type_def PTPClock_type_def SyncEInterface_type_def ESMC_type_def SyncEState_type_def Device_type_def

section \<open>Values\<close>

definition SystemInfo_value :: "SystemInfo \<Rightarrow> rvalue" where
  "SystemInfo_value x = VStruct
     [VLeaf (GString (sy_DeviceID x)),
      VLeaf (GString (sy_Name x)),
      VLeaf (GString (sy_Description x)),
      VLeaf (GString (sy_Contact x)),
      VLeaf (GString (sy_Location x)),
      VLeaf (GUint32 (sy_Uptime x))]"

definition LinkBudget_value :: "LinkBudget \<Rightarrow> rvalue" where
  "LinkBudget_value x = VStruct
     [VLeaf (GFloat (lb_LinkLength x)),
      VLeaf (GFloat (lb_Frequency x)),
      VLeaf (GFloat (lb_TxAntennaGain x)),
      VLeaf (GFloat (lb_RxAntennaGain x)),
      VLeaf (GFloat (lb_FeedLoss x)),
      VLeaf (GFloat (lb_CalculatedRSL x))]"

definition ATPC_value :: "ATPC \<Rightarrow> rvalue" where
  "ATPC_value x = VStruct
     [VLeaf (GBool (atpc_Enabled x)),
      VLeaf (GFloat (atpc_TargetRSL x)),
      VLeaf (GFloat (atpc_MinPower x)),
      VLeaf (GFloat (atpc_MaxPower x)),
      VLeaf (GFloat (atpc_Range x)),
      VLeaf (GFloat (atpc_CurrentPower x))]"

definition ACM_value :: "ACM \<Rightarrow> rvalue" where
  "ACM_value x = VStruct
     [VLeaf (GBool (acm_Enabled x)),
      VLeaf (GString (acm_Mode x)),
      VLeaf (GUint8 (acm_MinProfile x)),
      VLeaf (GUint8 (acm_MaxProfile x)),
      VLeaf (GUint8 (acm_CurrentProfile x)),
      VLeaf (GUint32 (acm_CurrentCapacity x))]"

definition ModProfile_value :: "ModProfile \<Rightarrow> rvalue" where
  "ModProfile_value x = VStruct
     [VLeaf (GUint8 (mp_ID x)),
      VLeaf (GString (mp_Name x)),
      VLeaf (GString (mp_Modulation x)),
      VLeaf (GString (mp_CodingRate x)),
      VLeaf (GFloat (mp_SpectralEfficiency x)),
      VLeaf (GFloat (mp_RSLThreshold x)),
      VLeaf (GUint32 (mp_Capacity x))]"

definition RadioLink_value :: "RadioLink \<Rightarrow> rvalue" where
  "RadioLink_value x = VStruct
     [VLeaf (GString (rl_Name x)),
      VLeaf (GFloat (rl_TxPower x)),
      VLeaf (GFloat (rl_RSSI x)),
      VLeaf (GFloat (rl_FadeMargin x)),
      VLeaf (GUint32 (rl_Capacity x)),
      VLeaf (GString (rl_LinkState x)),
      LinkBudget_value (rl_LinkBudget x),
      ATPC_value (rl_ATPC x),
      ACM_value (rl_ACM x),
      VSlice (map ModProfile_value (rl_Profiles x))]"

definition InterfaceCounters_value :: "InterfaceCounters \<Rightarrow> rvalue" where
  "InterfaceCounters_value x = VStruct
     [VLeaf (GUint64 (ic_InOctets x)),
      VLeaf (GUint64 (ic_OutOctets x)),
      VLeaf (GUint64 (ic_InUcastPkts x)),
      VLeaf (GUint64 (ic_OutUcastPkts x)),
      VLeaf (GUint32 (ic_InErrors x)),
      VLeaf (GUint32 (ic_OutErrors x)),
      VLeaf (GUint32 (ic_InDiscards x)),
      VLeaf (GUint32 (ic_OutDiscards x))]"

definition Interface_value :: "Interface \<Rightarrow> rvalue" where
  "Interface_value x = VStruct
     [VLeaf (GString (if_Name x)),
      VLeaf (GString (if_Type x)),
      VLeaf (GBool (if_Enabled x)),
      VLeaf (GUint32 (if_MTU x)),
      VLeaf (GString (if_MACAddress x)),
      VPtr (map_option RadioLink_value (if_RadioLink x)),
      InterfaceCounters_value (if_Counters x)]"

definition VLANPort_value :: "VLANPort \<Rightarrow> rvalue" where
  "VLANPort_value x = VStruct
     [VLeaf (GString (vp_Port x)),
      VLeaf (GString (vp_Mode x)),
      VLeaf (GUint16 (vp_PVID x)),
      VLeaf (GBool (vp_Tagged x)),
      VLeaf (GBool (vp_QinQ x)),
      VLeaf (GUint16 (vp_OuterVID x)),
      VLeaf (GString (vp_CTagHandling x))]"

definition VLAN_value :: "VLAN \<Rightarrow> rvalue" where
  "VLAN_value x = VStruct
     [VLeaf (GUint16 (vl_ID x)),
      VLeaf (GString (vl_Name x)),
      VLeaf (GString (vl_Description x)),
      VSlice (map VLANPort_value (vl_Ports x))]"

definition MACEntry_value :: "MACEntry \<Rightarrow> rvalue" where
  "MACEntry_value x = VStruct
     [VLeaf (GString (me_MAC x)),
      VLeaf (GUint16 (me_VLAN x)),
      VLeaf (GUint32 (me_Port x)),
      VLeaf (GString (me_Type x)),
      VLeaf (GUint32 (me_Age x)),
      VLeaf (GBool (me_Permanent x))]"

definition MACTable_value :: "MACTable \<Rightarrow> rvalue" where
  "MACTable_value x = VStruct
     [VSlice (map MACEntry_value (mt_Entries x)),
      VLeaf (GUint32 (mt_AgingTime x)),
      VLeaf (GUint32 (mt_MaxEntries x)),
      VLeaf (GUint32 (mt_CurrentCount x))]"

definition LLDPNeighbor_value :: "LLDPNeighbor \<Rightarrow> rvalue" where
  "LLDPNeighbor_value x = VStruct
     [VLeaf (GString (ln_Port x)),
      VLeaf (GString (ln_ChassisID x)),
      VLeaf (GString (ln_PortID x)),
      VLeaf (GString (ln_SystemName x)),
      VLeaf (GString (ln_SystemDescription x)),
      VLeaf (GUint32 (ln_TTL x)),
      VLeaf (GString (ln_Capabilities x))]"

definition LLDPConfig_value :: "LLDPConfig \<Rightarrow> rvalue" where
  "LLDPConfig_value x = VStruct
     [VLeaf (GBool (lc_Enabled x)),
      VLeaf (GUint32 (lc_TxInterval x)),
      VLeaf (GUint32 (lc_TxHoldMultiplier x)),
      VLeaf (GUint32 (lc_ReinitDelay x)),
      VLeaf (GUint32 (lc_TxDelay x)),
      VLeaf (GString (lc_ChassisID x)),
      VLeaf (GString (lc_SystemName x)),
      VLeaf (GString (lc_SystemDescription x)),
      VSlice (map LLDPNeighbor_value (lc_Neighbors x))]"

definition STPPort_value :: "STPPort \<Rightarrow> rvalue" where
  "STPPort_value x = VStruct
     [VLeaf (GString (sp_Port x)),
      VLeaf (GString (sp_Role x)),
      VLeaf (GString (sp_State x)),
      VLeaf (GUint8 (sp_Priority x)),
      VLeaf (GUint32 (sp_PathCost x)),
      VLeaf (GBool (sp_EdgePort x))]"

definition STPState_value :: "STPState \<Rightarrow> rvalue" where
  "STPState_value x = VStruct
     [VLeaf (GBool (st_Enabled x)),
      VLeaf (GString (st_Protocol x)),
      VLeaf (GUint16 (st_BridgePriority x)),
      VLeaf (GString (st_BridgeAddress x)),
      VLeaf (GString (st_RootID x)),
      VLeaf (GUint32 (st_RootCost x)),
      VSlice (map STPPort_value (st_Ports x))]"

definition PTPClock_value :: "PTPClock \<Rightarrow> rvalue" where
  "PTPClock_value x = VStruct
     [VLeaf (GString (ptp_Mode x)),
      VLeaf (GUint8 (ptp_Domain x)),
      VLeaf (GUint8 (ptp_Priority1 x)),
      VLeaf (GUint8 (ptp_Priority2 x)),
      VLeaf (GUint8 (ptp_ClockClass x)),
      VLeaf (GUint8 (ptp_ClockAccuracy x)),
      VLeaf (GUint32 (ptp_HoldoverTimeout x)),
      VLeaf (GString (ptp_State x)),
      VLeaf (GFloat (ptp_Offset x)),
      VLeaf (GFloat (ptp_Jitter x))]"

definition SyncEInterface_value :: "SyncEInterface \<Rightarrow> rvalue" where
  "SyncEInterface_value x = VStruct
     [VLeaf (GString (si_Name x)),
      VLeaf (GBool (si_SSMEnabled x)),
      VLeaf (GString (si_QL x)),
      VLeaf (GString (si_ExtendedQL x)),
      VLeaf (GUint8 (si_Priority x)),
      VLeaf (GBool (si_PTPPreference x))]"

definition ESMC_value :: "ESMC \<Rightarrow> rvalue" where
  "ESMC_value x = VStruct
     [VLeaf (GBool (es_Enabled x)),
      VLeaf (GUint32 (es_TxInterval x)),
      VLeaf (GBool (es_ExtendedCodes x))]"

definition SyncEState_value :: "SyncEState \<Rightarrow> rvalue" where
  "SyncEState_value x = VStruct
     [VLeaf (GBool (se_Enabled x)),
      VLeaf (GString (se_SelectedSource x)),
      VLeaf (GString (se_SelectedQL x)),
      VLeaf (GString (se_SelectedExtendedQL x)),
      VSlice (map SyncEInterface_value (se_Interfaces x)),
      ESMC_value (se_ESMC x)]"

definition Device_value :: "Device \<Rightarrow> rvalue" where
  "Device_value x = VStruct
     [SystemInfo_value (dv_SystemInfo x),
      VSlice (map Interface_value (dv_Interfaces x)),
      VSlice (map VLAN_value (dv_VLANs x)),
      MACTable_value (dv_MACTable x),
      STPState_value (dv_STP x),
      LLDPConfig_value (dv_LLDP x),
      PTPClock_value (dv_PTP x),
      SyncEState_value (dv_SyncE x)]"

lemmas value_defs = SystemInfo_value_def LinkBudget_value_def ATPC_value_def ACM_value_def ModProfile_value_def RadioLink_value_def InterfaceCounters_value_def Interface_value_def VLANPort_value_def VLAN_value_def MACEntry_value_def MACTable_value_def LLDPNeighbor_value_def LLDPConfig_value_def STPPort_value_def STPState_value_def PTPClock_value_def SyncEInterface_value_def ESMC_value_def SyncEState_value_def Device_value_def

section \<open>Records\<close>

fun field :: "nat \<Rightarrow> rvalue \<Rightarrow> rvalue" where
  "field i (VStruct vs) = (if i < length vs then vs ! i else VStruct [])"
| "field i _ = VStruct []"

fun as_bool :: "rvalue \<Rightarrow> bool" where "as_bool (VLeaf (GBool b)) = b" | "as_bool _ = False"
fun as_u8 :: "rvalue \<Rightarrow> u8" where "as_u8 (VLeaf (GUint8 n)) = n" | "as_u8 _ = 0"
fun as_u16 :: "rvalue \<Rightarrow> u16" where "as_u16 (VLeaf (GUint16 n)) = n" | "as_u16 _ = 0"
fun as_u32 :: "rvalue \<Rightarrow> u32" where "as_u32 (VLeaf (GUint32 n)) = n" | "as_u32 _ = 0"
fun as_u64 :: "rvalue \<Rightarrow> u64" where "as_u64 (VLeaf (GUint64 n)) = n" | "as_u64 _ = 0"
fun as_float :: "rvalue \<Rightarrow> float64" where "as_float (VLeaf (GFloat x)) = x" | "as_float _ = Fin 0"
fun as_string :: "rvalue \<Rightarrow> string" where "as_string (VLeaf (GString s)) = s" | "as_string _ = []"
fun as_slice :: "rvalue \<Rightarrow> rvalue list" where "as_slice (VSlice vs) = vs" | "as_slice _ = []"
fun as_ptr :: "rvalue \<Rightarrow> rvalue option" where "as_ptr (VPtr v) = v" | "as_ptr _ = None"

definition SystemInfo_of :: "rvalue \<Rightarrow> SystemInfo" where
  "SystemInfo_of v =
     \<lparr>sy_DeviceID = as_string (field 0 v),
      sy_Name = as_string (field 1 v),
      sy_Description = as_string (field 2 v),
      sy_Contact = as_string (field 3 v),
      sy_Location = as_string (field 4 v),
      sy_Uptime = as_u32 (field 5 v)\<rparr>"

definition LinkBudget_of :: "rvalue \<Rightarrow> LinkBudget" where
  "LinkBudget_of v =
     \<lparr>lb_LinkLength = as_float (field 0 v),
      lb_Frequency = as_float (field 1 v),
      lb_TxAntennaGain = as_float (field 2 v),
      lb_RxAntennaGain = as_float (field 3 v),
      lb_FeedLoss = as_float (field 4 v),
      lb_CalculatedRSL = as_float (field 5 v)\<rparr>"

definition ATPC_of :: "rvalue \<Rightarrow> ATPC" where
  "ATPC_of v =
     \<lparr>atpc_Enabled = as_bool (field 0 v),
      atpc_TargetRSL = as_float (field 1 v),
      atpc_MinPower = as_float (field 2 v),
      atpc_MaxPower = as_float (field 3 v),
      atpc_Range = as_float (field 4 v),
      atpc_CurrentPower = as_float (field 5 v)\<rparr>"

definition ACM_of :: "rvalue \<Rightarrow> ACM" where
  "ACM_of v =
     \<lparr>acm_Enabled = as_bool (field 0 v),
      acm_Mode = as_string (field 1 v),
      acm_MinProfile = as_u8 (field 2 v),
      acm_MaxProfile = as_u8 (field 3 v),
      acm_CurrentProfile = as_u8 (field 4 v),
      acm_CurrentCapacity = as_u32 (field 5 v)\<rparr>"

definition ModProfile_of :: "rvalue \<Rightarrow> ModProfile" where
  "ModProfile_of v =
     \<lparr>mp_ID = as_u8 (field 0 v),
      mp_Name = as_string (field 1 v),
      mp_Modulation = as_string (field 2 v),
      mp_CodingRate = as_string (field 3 v),
      mp_SpectralEfficiency = as_float (field 4 v),
      mp_RSLThreshold = as_float (field 5 v),
      mp_Capacity = as_u32 (field 6 v)\<rparr>"

definition RadioLink_of :: "rvalue \<Rightarrow> RadioLink" where
  "RadioLink_of v =
     \<lparr>rl_Name = as_string (field 0 v),
      rl_TxPower = as_float (field 1 v),
      rl_RSSI = as_float (field 2 v),
      rl_FadeMargin = as_float (field 3 v),
      rl_Capacity = as_u32 (field 4 v),
      rl_LinkState = as_string (field 5 v),
      rl_LinkBudget = LinkBudget_of (field 6 v),
      rl_ATPC = ATPC_of (field 7 v),
      rl_ACM = ACM_of (field 8 v),
      rl_Profiles = map ModProfile_of (as_slice (field 9 v))\<rparr>"

definition InterfaceCounters_of :: "rvalue \<Rightarrow> InterfaceCounters" where
  "InterfaceCounters_of v =
     \<lparr>ic_InOctets = as_u64 (field 0 v),
      ic_OutOctets = as_u64 (field 1 v),
      ic_InUcastPkts = as_u64 (field 2 v),
      ic_OutUcastPkts = as_u64 (field 3 v),
      ic_InErrors = as_u32 (field 4 v),
      ic_OutErrors = as_u32 (field 5 v),
      ic_InDiscards = as_u32 (field 6 v),
      ic_OutDiscards = as_u32 (field 7 v)\<rparr>"

definition Interface_of :: "rvalue \<Rightarrow> Interface" where
  "Interface_of v =
     \<lparr>if_Name = as_string (field 0 v),
      if_Type = as_string (field 1 v),
      if_Enabled = as_bool (field 2 v),
      if_MTU = as_u32 (field 3 v),
      if_MACAddress = as_string (field 4 v),
      if_RadioLink = map_option RadioLink_of (as_ptr (field 5 v)),
      if_Counters = InterfaceCounters_of (field 6 v)\<rparr>"

definition VLANPort_of :: "rvalue \<Rightarrow> VLANPort" where
  "VLANPort_of v =
     \<lparr>vp_Port = as_string (field 0 v),
      vp_Mode = as_string (field 1 v),
      vp_PVID = as_u16 (field 2 v),
      vp_Tagged = as_bool (field 3 v),
      vp_QinQ = as_bool (field 4 v),
      vp_OuterVID = as_u16 (field 5 v),
      vp_CTagHandling = as_string (field 6 v)\<rparr>"

definition VLAN_of :: "rvalue \<Rightarrow> VLAN" where
  "VLAN_of v =
     \<lparr>vl_ID = as_u16 (field 0 v),
      vl_Name = as_string (field 1 v),
      vl_Description = as_string (field 2 v),
      vl_Ports = map VLANPort_of (as_slice (field 3 v))\<rparr>"

definition MACEntry_of :: "rvalue \<Rightarrow> MACEntry" where
  "MACEntry_of v =
     \<lparr>me_MAC = as_string (field 0 v),
      me_VLAN = as_u16 (field 1 v),
      me_Port = as_u32 (field 2 v),
      me_Type = as_string (field 3 v),
      me_Age = as_u32 (field 4 v),
      me_Permanent = as_bool (field 5 v)\<rparr>"

definition MACTable_of :: "rvalue \<Rightarrow> MACTable" where
  "MACTable_of v =
     \<lparr>mt_Entries = map MACEntry_of (as_slice (field 0 v)),
      mt_AgingTime = as_u32 (field 1 v),
      mt_MaxEntries = as_u32 (field 2 v),
      mt_CurrentCount = as_u32 (field 3 v)\<rparr>"

definition LLDPNeighbor_of :: "rvalue \<Rightarrow> LLDPNeighbor" where
  "LLDPNeighbor_of v =
     \<lparr>ln_Port = as_string (field 0 v),
      ln_ChassisID = as_string (field 1 v),
      ln_PortID = as_string (field 2 v),
      ln_SystemName = as_string (field 3 v),
      ln_SystemDescription = as_string (field 4 v),
      ln_TTL = as_u32 (field 5 v),
      ln_Capabilities = as_string (field 6 v)\<rparr>"

definition LLDPConfig_of :: "rvalue \<Rightarrow> LLDPConfig" where
  "LLDPConfig_of v =
     \<lparr>lc_Enabled = as_bool (field 0 v),
      lc_TxInterval = as_u32 (field 1 v),
      lc_TxHoldMultiplier = as_u32 (field 2 v),
      lc_ReinitDelay = as_u32 (field 3 v),
      lc_TxDelay = as_u32 (field 4 v),
      lc_ChassisID = as_string (field 5 v),
      lc_SystemName = as_string (field 6 v),
      lc_SystemDescription = as_string (field 7 v),
      lc_Neighbors = map LLDPNeighbor_of (as_slice (field 8 v))\<rparr>"

definition STPPort_of :: "rvalue \<Rightarrow> STPPort" where
  "STPPort_of v =
     \<lparr>sp_Port = as_string (field 0 v),
      sp_Role = as_string (field 1 v),
      sp_State = as_string (field 2 v),
      sp_Priority = as_u8 (field 3 v),
      sp_PathCost = as_u32 (field 4 v),
      sp_EdgePort = as_bool (field 5 v)\<rparr>"

definition STPState_of :: "rvalue \<Rightarrow> STPState" where
  "STPState_of v =
     \<lparr>st_Enabled = as_bool (field 0 v),
      st_Protocol = as_string (field 1 v),
      st_BridgePriority = as_u16 (field 2 v),
      st_BridgeAddress = as_string (field 3 v),
      st_RootID = as_string (field 4 v),
      st_RootCost = as_u32 (field 5 v),
      st_Ports = map STPPort_of (as_slice (field 6 v))\<rparr>"

definition PTPClock_of :: "rvalue \<Rightarrow> PTPClock" where
  "PTPClock_of v =
     \<lparr>ptp_Mode = as_string (field 0 v),
      ptp_Domain = as_u8 (field 1 v),
      ptp_Priority1 = as_u8 (field 2 v),
      ptp_Priority2 = as_u8 (field 3 v),
      ptp_ClockClass = as_u8 (field 4 v),
      ptp_ClockAccuracy = as_u8 (field 5 v),
      ptp_HoldoverTimeout = as_u32 (field 6 v),
      ptp_State = as_string (field 7 v),
      ptp_Offset = as_float (field 8 v),
      ptp_Jitter = as_float (field 9 v)\<rparr>"

definition SyncEInterface_of :: "rvalue \<Rightarrow> SyncEInterface" where
  "SyncEInterface_of v =
     \<lparr>si_Name = as_string (field 0 v),
      si_SSMEnabled = as_bool (field 1 v),
      si_QL = as_string (field 2 v),
      si_ExtendedQL = as_string (field 3 v),
      si_Priority = as_u8 (field 4 v),
      si_PTPPreference = as_bool (field 5 v)\<rparr>"

definition ESMC_of :: "rvalue \<Rightarrow> ESMC" where
  "ESMC_of v =
     \<lparr>es_Enabled = as_bool (field 0 v),
      es_TxInterval = as_u32 (field 1 v),
      es_ExtendedCodes = as_bool (field 2 v)\<rparr>"

definition SyncEState_of :: "rvalue \<Rightarrow> SyncEState" where
  "SyncEState_of v =
     \<lparr>se_Enabled = as_bool (field 0 v),
      se_SelectedSource = as_string (field 1 v),
      se_SelectedQL = as_string (field 2 v),
      se_SelectedExtendedQL = as_string (field 3 v),
      se_Interfaces = map SyncEInterface_of (as_slice (field 4 v)),
      se_ESMC = ESMC_of (field 5 v)\<rparr>"

definition Device_of :: "rvalue \<Rightarrow> Device" where
  "Device_of v =
     \<lparr>dv_SystemInfo = SystemInfo_of (field 0 v),
      dv_Interfaces = map Interface_of (as_slice (field 1 v)),
      dv_VLANs = map VLAN_of (as_slice (field 2 v)),
      dv_MACTable = MACTable_of (field 3 v),
      dv_STP = STPState_of (field 4 v),
      dv_LLDP = LLDPConfig_of (field 5 v),
      dv_PTP = PTPClock_of (field 6 v),
      dv_SyncE = SyncEState_of (field 7 v)\<rparr>"

lemmas of_defs = SystemInfo_of_def LinkBudget_of_def ATPC_of_def ACM_of_def ModProfile_of_def RadioLink_of_def InterfaceCounters_of_def Interface_of_def VLANPort_of_def VLAN_of_def MACEntry_of_def MACTable_of_def LLDPNeighbor_of_def LLDPConfig_of_def STPPort_of_def STPState_of_def PTPClock_of_def SyncEInterface_of_def ESMC_of_def SyncEState_of_def Device_of_def

section \<open>Round trips\<close>

lemma has_type_map_option:
  "has_type (TPtr t) (VPtr (map_option f x)) \<longleftrightarrow> (\<forall>y. x = Some y \<longrightarrow> has_type t (f y))"
  by (cases x) auto

lemma typed_leaf_iff [simp]:
  "typed_leaf kindBool v \<longleftrightarrow> (\<exists>b. v = GBool b)"
  "typed_leaf kindUint8 v \<longleftrightarrow> (\<exists>n8. v = GUint8 n8)"
  "typed_leaf kindUint16 v \<longleftrightarrow> (\<exists>n16. v = GUint16 n16)"
  "typed_leaf kindUint32 v \<longleftrightarrow> (\<exists>n32. v = GUint32 n32)"
  "typed_leaf kindUint64 v \<longleftrightarrow> (\<exists>n64. v = GUint64 n64)"
  "typed_leaf kindFloat64 v \<longleftrightarrow> (\<exists>x. v = GFloat x)"
  "typed_leaf kindString v \<longleftrightarrow> (\<exists>s. v = GString s)"
  by (cases v; simp)+

lemma has_type_inv:
  "has_type (TLeaf k) v \<longleftrightarrow> (\<exists>x. v = VLeaf x \<and> typed_leaf k x)"
  "has_type (TPtr t) v \<longleftrightarrow> (\<exists>p. v = VPtr p \<and> pred_option (has_type t) p)"
  "has_type (TSlice t) v \<longleftrightarrow> (\<exists>vs. v = VSlice vs \<and> list_all (has_type t) vs)"
  "has_type (TStruct fs) v \<longleftrightarrow> (\<exists>vs. v = VStruct vs \<and> list_all2 (\<lambda>f v. has_type (snd f) v) fs vs)"
  by (cases v; auto split: option.splits; case_tac x2; auto)+

lemma SystemInfo_of_value [simp]: "SystemInfo_of (SystemInfo_value x) = x"
  by (simp add: SystemInfo_of_def SystemInfo_value_def comp_def option.map_comp option.map_ident)

lemma SystemInfo_value_type [simp]: "has_type SystemInfo_type (SystemInfo_value x)"
  by (simp add: SystemInfo_type_def SystemInfo_value_def list_all_iff has_type_map_option)

lemma SystemInfo_value_of [simp]: "has_type SystemInfo_type v \<Longrightarrow> SystemInfo_value (SystemInfo_of v) = v"
  by (auto simp: SystemInfo_of_def SystemInfo_value_def SystemInfo_type_def has_type_inv list_all2_Cons1 comp_def option.map_comp
      list_all_iff pred_option_def intro!: map_idI option.map_ident_strong)

lemma LinkBudget_of_value [simp]: "LinkBudget_of (LinkBudget_value x) = x"
  by (simp add: LinkBudget_of_def LinkBudget_value_def comp_def option.map_comp option.map_ident)

lemma LinkBudget_value_type [simp]: "has_type LinkBudget_type (LinkBudget_value x)"
  by (simp add: LinkBudget_type_def LinkBudget_value_def list_all_iff has_type_map_option)

lemma LinkBudget_value_of [simp]: "has_type LinkBudget_type v \<Longrightarrow> LinkBudget_value (LinkBudget_of v) = v"
  by (auto simp: LinkBudget_of_def LinkBudget_value_def LinkBudget_type_def has_type_inv list_all2_Cons1 comp_def option.map_comp
      list_all_iff pred_option_def intro!: map_idI option.map_ident_strong)

lemma ATPC_of_value [simp]: "ATPC_of (ATPC_value x) = x"
  by (simp add: ATPC_of_def ATPC_value_def comp_def option.map_comp option.map_ident)

lemma ATPC_value_type [simp]: "has_type ATPC_type (ATPC_value x)"
  by (simp add: ATPC_type_def ATPC_value_def list_all_iff has_type_map_option)

lemma ATPC_value_of [simp]: "has_type ATPC_type v \<Longrightarrow> ATPC_value (ATPC_of v) = v"
  by (auto simp: ATPC_of_def ATPC_value_def ATPC_type_def has_type_inv list_all2_Cons1 comp_def option.map_comp
      list_all_iff pred_option_def intro!: map_idI option.map_ident_strong)

lemma ACM_of_value [simp]: "ACM_of (ACM_value x) = x"
  by (simp add: ACM_of_def ACM_value_def comp_def option.map_comp option.map_ident)

lemma ACM_value_type [simp]: "has_type ACM_type (ACM_value x)"
  by (simp add: ACM_type_def ACM_value_def list_all_iff has_type_map_option)

lemma ACM_value_of [simp]: "has_type ACM_type v \<Longrightarrow> ACM_value (ACM_of v) = v"
  by (auto simp: ACM_of_def ACM_value_def ACM_type_def has_type_inv list_all2_Cons1 comp_def option.map_comp
      list_all_iff pred_option_def intro!: map_idI option.map_ident_strong)

lemma ModProfile_of_value [simp]: "ModProfile_of (ModProfile_value x) = x"
  by (simp add: ModProfile_of_def ModProfile_value_def comp_def option.map_comp option.map_ident)

lemma ModProfile_value_type [simp]: "has_type ModProfile_type (ModProfile_value x)"
  by (simp add: ModProfile_type_def ModProfile_value_def list_all_iff has_type_map_option)

lemma ModProfile_value_of [simp]: "has_type ModProfile_type v \<Longrightarrow> ModProfile_value (ModProfile_of v) = v"
  by (auto simp: ModProfile_of_def ModProfile_value_def ModProfile_type_def has_type_inv list_all2_Cons1 comp_def option.map_comp
      list_all_iff pred_option_def intro!: map_idI option.map_ident_strong)

lemma RadioLink_of_value [simp]: "RadioLink_of (RadioLink_value x) = x"
  by (simp add: RadioLink_of_def RadioLink_value_def comp_def option.map_comp option.map_ident)

lemma RadioLink_value_type [simp]: "has_type RadioLink_type (RadioLink_value x)"
  by (simp add: RadioLink_type_def RadioLink_value_def list_all_iff has_type_map_option)

lemma RadioLink_value_of [simp]: "has_type RadioLink_type v \<Longrightarrow> RadioLink_value (RadioLink_of v) = v"
  by (auto simp: RadioLink_of_def RadioLink_value_def RadioLink_type_def has_type_inv list_all2_Cons1 comp_def option.map_comp
      list_all_iff pred_option_def intro!: map_idI option.map_ident_strong)

lemma InterfaceCounters_of_value [simp]: "InterfaceCounters_of (InterfaceCounters_value x) = x"
  by (simp add: InterfaceCounters_of_def InterfaceCounters_value_def comp_def option.map_comp option.map_ident)

lemma InterfaceCounters_value_type [simp]: "has_type InterfaceCounters_type (InterfaceCounters_value x)"
  by (simp add: InterfaceCounters_type_def InterfaceCounters_value_def list_all_iff has_type_map_option)

lemma InterfaceCounters_value_of [simp]: "has_type InterfaceCounters_type v \<Longrightarrow> InterfaceCounters_value (InterfaceCounters_of v) = v"
  by (auto simp: InterfaceCounters_of_def InterfaceCounters_value_def InterfaceCounters_type_def has_type_inv list_all2_Cons1 comp_def option.map_comp
      list_all_iff pred_option_def intro!: map_idI option.map_ident_strong)

lemma Interface_of_value [simp]: "Interface_of (Interface_value x) = x"
  by (simp add: Interface_of_def Interface_value_def comp_def option.map_comp option.map_ident)

lemma Interface_value_type [simp]: "has_type Interface_type (Interface_value x)"
  by (simp add: Interface_type_def Interface_value_def list_all_iff has_type_map_option)

lemma Interface_value_of [simp]: "has_type Interface_type v \<Longrightarrow> Interface_value (Interface_of v) = v"
  by (auto simp: Interface_of_def Interface_value_def Interface_type_def has_type_inv list_all2_Cons1 comp_def option.map_comp
      list_all_iff pred_option_def intro!: map_idI option.map_ident_strong)

lemma VLANPort_of_value [simp]: "VLANPort_of (VLANPort_value x) = x"
  by (simp add: VLANPort_of_def VLANPort_value_def comp_def option.map_comp option.map_ident)

lemma VLANPort_value_type [simp]: "has_type VLANPort_type (VLANPort_value x)"
  by (simp add: VLANPort_type_def VLANPort_value_def list_all_iff has_type_map_option)

lemma VLANPort_value_of [simp]: "has_type VLANPort_type v \<Longrightarrow> VLANPort_value (VLANPort_of v) = v"
  by (auto simp: VLANPort_of_def VLANPort_value_def VLANPort_type_def has_type_inv list_all2_Cons1 comp_def option.map_comp
      list_all_iff pred_option_def intro!: map_idI option.map_ident_strong)

lemma VLAN_of_value [simp]: "VLAN_of (VLAN_value x) = x"
  by (simp add: VLAN_of_def VLAN_value_def comp_def option.map_comp option.map_ident)

lemma VLAN_value_type [simp]: "has_type VLAN_type (VLAN_value x)"
  by (simp add: VLAN_type_def VLAN_value_def list_all_iff has_type_map_option)

lemma VLAN_value_of [simp]: "has_type VLAN_type v \<Longrightarrow> VLAN_value (VLAN_of v) = v"
  by (auto simp: VLAN_of_def VLAN_value_def VLAN_type_def has_type_inv list_all2_Cons1 comp_def option.map_comp
      list_all_iff pred_option_def intro!: map_idI option.map_ident_strong)

lemma MACEntry_of_value [simp]: "MACEntry_of (MACEntry_value x) = x"
  by (simp add: MACEntry_of_def MACEntry_value_def comp_def option.map_comp option.map_ident)

lemma MACEntry_value_type [simp]: "has_type MACEntry_type (MACEntry_value x)"
  by (simp add: MACEntry_type_def MACEntry_value_def list_all_iff has_type_map_option)

lemma MACEntry_value_of [simp]: "has_type MACEntry_type v \<Longrightarrow> MACEntry_value (MACEntry_of v) = v"
  by (auto simp: MACEntry_of_def MACEntry_value_def MACEntry_type_def has_type_inv list_all2_Cons1 comp_def option.map_comp
      list_all_iff pred_option_def intro!: map_idI option.map_ident_strong)

lemma MACTable_of_value [simp]: "MACTable_of (MACTable_value x) = x"
  by (simp add: MACTable_of_def MACTable_value_def comp_def option.map_comp option.map_ident)

lemma MACTable_value_type [simp]: "has_type MACTable_type (MACTable_value x)"
  by (simp add: MACTable_type_def MACTable_value_def list_all_iff has_type_map_option)

lemma MACTable_value_of [simp]: "has_type MACTable_type v \<Longrightarrow> MACTable_value (MACTable_of v) = v"
  by (auto simp: MACTable_of_def MACTable_value_def MACTable_type_def has_type_inv list_all2_Cons1 comp_def option.map_comp
      list_all_iff pred_option_def intro!: map_idI option.map_ident_strong)

lemma LLDPNeighbor_of_value [simp]: "LLDPNeighbor_of (LLDPNeighbor_value x) = x"
  by (simp add: LLDPNeighbor_of_def LLDPNeighbor_value_def comp_def option.map_comp option.map_ident)

lemma LLDPNeighbor_value_type [simp]: "has_type LLDPNeighbor_type (LLDPNeighbor_value x)"
  by (simp add: LLDPNeighbor_type_def LLDPNeighbor_value_def list_all_iff has_type_map_option)

lemma LLDPNeighbor_value_of [simp]: "has_type LLDPNeighbor_type v \<Longrightarrow> LLDPNeighbor_value (LLDPNeighbor_of v) = v"
  by (auto simp: LLDPNeighbor_of_def LLDPNeighbor_value_def LLDPNeighbor_type_def has_type_inv list_all2_Cons1 comp_def option.map_comp
      list_all_iff pred_option_def intro!: map_idI option.map_ident_strong)

lemma LLDPConfig_of_value [simp]: "LLDPConfig_of (LLDPConfig_value x) = x"
  by (simp add: LLDPConfig_of_def LLDPConfig_value_def comp_def option.map_comp option.map_ident)

lemma LLDPConfig_value_type [simp]: "has_type LLDPConfig_type (LLDPConfig_value x)"
  by (simp add: LLDPConfig_type_def LLDPConfig_value_def list_all_iff has_type_map_option)

lemma LLDPConfig_value_of [simp]: "has_type LLDPConfig_type v \<Longrightarrow> LLDPConfig_value (LLDPConfig_of v) = v"
  by (auto simp: LLDPConfig_of_def LLDPConfig_value_def LLDPConfig_type_def has_type_inv list_all2_Cons1 comp_def option.map_comp
      list_all_iff pred_option_def intro!: map_idI option.map_ident_strong)

lemma STPPort_of_value [simp]: "STPPort_of (STPPort_value x) = x"
  by (simp add: STPPort_of_def STPPort_value_def comp_def option.map_comp option.map_ident)

lemma STPPort_value_type [simp]: "has_type STPPort_type (STPPort_value x)"
  by (simp add: STPPort_type_def STPPort_value_def list_all_iff has_type_map_option)

lemma STPPort_value_of [simp]: "has_type STPPort_type v \<Longrightarrow> STPPort_value (STPPort_of v) = v"
  by (auto simp: STPPort_of_def STPPort_value_def STPPort_type_def has_type_inv list_all2_Cons1 comp_def option.map_comp
      list_all_iff pred_option_def intro!: map_idI option.map_ident_strong)

lemma STPState_of_value [simp]: "STPState_of (STPState_value x) = x"
  by (simp add: STPState_of_def STPState_value_def comp_def option.map_comp option.map_ident)

lemma STPState_value_type [simp]: "has_type STPState_type (STPState_value x)"
  by (simp add: STPState_type_def STPState_value_def list_all_iff has_type_map_option)

lemma STPState_value_of [simp]: "has_type STPState_type v \<Longrightarrow> STPState_value (STPState_of v) = v"
  by (auto simp: STPState_of_def STPState_value_def STPState_type_def has_type_inv list_all2_Cons1 comp_def option.map_comp
      list_all_iff pred_option_def intro!: map_idI option.map_ident_strong)

lemma PTPClock_of_value [simp]: "PTPClock_of (PTPClock_value x) = x"
  by (simp add: PTPClock_of_def PTPClock_value_def comp_def option.map_comp option.map_ident)

lemma PTPClock_value_type [simp]: "has_type PTPClock_type (PTPClock_value x)"
  by (simp add: PTPClock_type_def PTPClock_value_def list_all_iff has_type_map_option)

lemma PTPClock_value_of [simp]: "has_type PTPClock_type v \<Longrightarrow> PTPClock_value (PTPClock_of v) = v"
  by (auto simp: PTPClock_of_def PTPClock_value_def PTPClock_type_def has_type_inv list_all2_Cons1 comp_def option.map_comp
      list_all_iff pred_option_def intro!: map_idI option.map_ident_strong)

lemma SyncEInterface_of_value [simp]: "SyncEInterface_of (SyncEInterface_value x) = x"
  by (simp add: SyncEInterface_of_def SyncEInterface_value_def comp_def option.map_comp option.map_ident)

lemma SyncEInterface_value_type [simp]: "has_type SyncEInterface_type (SyncEInterface_value x)"
  by (simp add: SyncEInterface_type_def SyncEInterface_value_def list_all_iff has_type_map_option)

lemma SyncEInterface_value_of [simp]: "has_type SyncEInterface_type v \<Longrightarrow> SyncEInterface_value (SyncEInterface_of v) = v"
  by (auto simp: SyncEInterface_of_def SyncEInterface_value_def SyncEInterface_type_def has_type_inv list_all2_Cons1 comp_def option.map_comp
      list_all_iff pred_option_def intro!: map_idI option.map_ident_strong)

lemma ESMC_of_value [simp]: "ESMC_of (ESMC_value x) = x"
  by (simp add: ESMC_of_def ESMC_value_def comp_def option.map_comp option.map_ident)

lemma ESMC_value_type [simp]: "has_type ESMC_type (ESMC_value x)"
  by (simp add: ESMC_type_def ESMC_value_def list_all_iff has_type_map_option)

lemma ESMC_value_of [simp]: "has_type ESMC_type v \<Longrightarrow> ESMC_value (ESMC_of v) = v"
  by (auto simp: ESMC_of_def ESMC_value_def ESMC_type_def has_type_inv list_all2_Cons1 comp_def option.map_comp
      list_all_iff pred_option_def intro!: map_idI option.map_ident_strong)

lemma SyncEState_of_value [simp]: "SyncEState_of (SyncEState_value x) = x"
  by (simp add: SyncEState_of_def SyncEState_value_def comp_def option.map_comp option.map_ident)

lemma SyncEState_value_type [simp]: "has_type SyncEState_type (SyncEState_value x)"
  by (simp add: SyncEState_type_def SyncEState_value_def list_all_iff has_type_map_option)

lemma SyncEState_value_of [simp]: "has_type SyncEState_type v \<Longrightarrow> SyncEState_value (SyncEState_of v) = v"
  by (auto simp: SyncEState_of_def SyncEState_value_def SyncEState_type_def has_type_inv list_all2_Cons1 comp_def option.map_comp
      list_all_iff pred_option_def intro!: map_idI option.map_ident_strong)

lemma Device_of_value [simp]: "Device_of (Device_value x) = x"
  by (simp add: Device_of_def Device_value_def comp_def option.map_comp option.map_ident)

lemma Device_value_type [simp]: "has_type Device_type (Device_value x)"
  by (simp add: Device_type_def Device_value_def list_all_iff has_type_map_option)

lemma Device_value_of [simp]: "has_type Device_type v \<Longrightarrow> Device_value (Device_of v) = v"
  by (auto simp: Device_of_def Device_value_def Device_type_def has_type_inv list_all2_Cons1 comp_def option.map_comp
      list_all_iff pred_option_def intro!: map_idI option.map_ident_strong)

end
