(* ===== verification/Schema.thy ===== *)
theory Schema
  imports Reflect
begin

text \<open>
  The type-driven schema of the managed objects (\<open>src/internal/router/schema.go\<close>): the tree of
  containers, lists and leaves the path tags describe, and the children of a node.  Go builds the
  tree by appending to nodes in place; here an insertion returns the updated tree.
\<close>

section \<open>Definitions\<close>

datatype node_kind = KindContainer | KindList | KindLeaf

record schema_info =
  nd_Name :: string
  nd_Kind :: node_kind
  nd_Key :: string
  nd_Leaf :: "leaf_kind option"

datatype schemaNode = SNode (sn_node: schema_info) (sn_children: "schemaNode list")

definition schema_container :: "string \<Rightarrow> schemaNode" where
  "schema_container name = SNode \<lparr>nd_Name = name, nd_Kind = KindContainer, nd_Key = [], nd_Leaf = None\<rparr> []"

definition child :: "schemaNode \<Rightarrow> string \<Rightarrow> schemaNode option" where
  "child n name = find (\<lambda>c. nd_Name (sn_node c) = name) (sn_children n)"

definition named :: "string \<Rightarrow> schemaNode \<Rightarrow> schemaNode" where
  "named name n = SNode ((sn_node n)\<lparr>nd_Name := name\<rparr>) (sn_children n)"

definition append_child :: "schemaNode \<Rightarrow> schemaNode \<Rightarrow> schemaNode" where
  "append_child n c = SNode (sn_node n) (sn_children n @ [c])"

fun replace_first :: "('a \<Rightarrow> bool) \<Rightarrow> 'a \<Rightarrow> 'a list \<Rightarrow> 'a list" where
  "replace_first P y [] = []"
| "replace_first P y (x # xs) = (if P x then y # xs else x # replace_first P y xs)"

definition replace_child :: "schemaNode \<Rightarrow> string \<Rightarrow> schemaNode \<Rightarrow> schemaNode" where
  "replace_child n name c =
     SNode (sn_node n) (replace_first (\<lambda>d. nd_Name (sn_node d) = name) c (sn_children n))"

text \<open>One field of \<open>addSchemaChildren\<close>: walk or create the containers of the tag, then add the node
  of the field's type under its last part.\<close>

fun add_at :: "schemaNode \<Rightarrow> string list \<Rightarrow> string + schemaNode \<Rightarrow> string + schemaNode" where
  "add_at owner [] made = Inr owner"
| "add_at owner [name] made =
     (if child owner name \<noteq> None then Inl ''duplicate node''
      else bind_res made (\<lambda>c. Inr (append_child owner (named name c))))"
| "add_at owner (part # parts) made =
     (case child owner part of
        None \<Rightarrow> bind_res (add_at (schema_container part) parts made) (\<lambda>c. Inr (append_child owner c))
      | Some existing \<Rightarrow>
          if nd_Kind (sn_node existing) \<noteq> KindContainer then Inl ''not a container''
          else bind_res (add_at existing parts made) (\<lambda>c. Inr (replace_child owner part c)))"

lemma size_strip_ptr: "strip_ptr t = TStruct fs \<Longrightarrow> size (TStruct fs) \<le> size t"
  by (induction t rule: strip_ptr.induct) auto

function newSchemaNode :: "gotype \<Rightarrow> string + schemaNode"
  and addSchemaChildren :: "schemaNode \<Rightarrow> (ftag \<times> gotype) list \<Rightarrow> string + schemaNode" where
  "newSchemaNode (TPtr t) = newSchemaNode t"
| "newSchemaNode (TSlice et) =
     (case strip_ptr et of
        TStruct fs \<Rightarrow>
          if keyTagName fs = [] then Inl ''list has no key field''
          else addSchemaChildren
                 (SNode \<lparr>nd_Name = [], nd_Kind = KindList, nd_Key = keyTagName fs, nd_Leaf = None\<rparr> []) fs
      | _ \<Rightarrow> Inl ''not a list of structs'')"
| "newSchemaNode (TStruct fs) = addSchemaChildren (schema_container []) fs"
| "newSchemaNode (TLeaf k) =
     Inr (SNode \<lparr>nd_Name = [], nd_Kind = KindLeaf, nd_Key = [], nd_Leaf = Some k\<rparr> [])"
| "addSchemaChildren parent [] = Inr parent"
| "addSchemaChildren parent (f # fs) =
     (case t_path (fst f) of
        None \<Rightarrow> addSchemaChildren parent fs
      | Some tag \<Rightarrow>
          bind_res (add_at parent (split_on CHR ''/'' tag) (newSchemaNode (snd f)))
            (\<lambda>p. addSchemaChildren p fs))"
  by pat_completeness auto
termination
proof (relation "measure (\<lambda>x. case x of Inl t \<Rightarrow> size t | Inr (p, fs) \<Rightarrow> size_list (size_prod (\<lambda>_. 0) size) fs)",
    goal_cases)
  case (3 et fs)
  then show ?case using size_strip_ptr[of et fs] by simp
qed (auto split: prod.splits)

definition buildSchema :: "gotype \<Rightarrow> string + schemaNode" where
  "buildSchema rt =
     (case strip_ptr rt of
        TStruct fs \<Rightarrow> addSchemaChildren (schema_container []) fs
      | _ \<Rightarrow> Inl ''not a struct'')"

text \<open>\<open>Children\<close> walks a parsed path; \<open>full\<close> is the whole path, for the message.\<close>

fun children_walk :: "string \<Rightarrow> schemaNode \<Rightarrow> path \<Rightarrow> router_error + schemaNode" where
  "children_walk full current [] = Inr current"
| "children_walk full current (g # gs) =
     (case child current (Name g) of
        None \<Rightarrow> Inl (ErrNotFound_r (Name g))
      | Some c \<Rightarrow>
          if nd_Kind (sn_node c) = KindList \<and> Key g = [] then Inl (ErrInvalidPath_r (Name g))
          else if nd_Kind (sn_node c) = KindList \<and> Key g \<noteq> nd_Key (sn_node c) then Inl (ErrInvalidPath_r (Name g))
          else if nd_Kind (sn_node c) \<noteq> KindList \<and> Key g \<noteq> [] then Inl (ErrInvalidPath_r (Name g))
          else if nd_Kind (sn_node c) = KindLeaf
               then if gs \<noteq> [] then Inl (ErrNotFound_r (Name g)) else Inl (ErrInvalidPath_r full)
          else children_walk full c gs)"

definition parse_r :: "string \<Rightarrow> router_error + path" where
  "parse_r s = (case Parse s of Inl (PathSyntax.ErrInvalidPath e) \<Rightarrow> Inl (ErrInvalidPath_r e) | Inr p \<Rightarrow> Inr p)"

definition Children :: "schemaNode \<Rightarrow> string \<Rightarrow> router_error + schema_info list" where
  "Children schema path =
     (if path = [] then Inr (map sn_node (sn_children schema))
      else bind_res (parse_r path) (\<lambda>segs.
             bind_res (children_walk path schema segs) (\<lambda>n. Inr (map sn_node (sn_children n)))))"

text \<open>The exported copy of the tree.\<close>

fun schemaNodeOf :: "schemaNode \<Rightarrow> schemaNode" where
  "schemaNodeOf (SNode n cs) = SNode n (if cs = [] then [] else map schemaNodeOf cs)"

end
