(* ===== verification/Hydrate.thy ===== *)
theory Hydrate
  imports DeviceType Schema
begin

text \<open>
  Rebuilding the device from a flat datastore (\<open>src/internal/router/hydrate.go\<close>,
  \<open>validate.go\<close>): the list instances the datastore holds, the pruning of template entries it does
  not hold, and the assignment of every stored leaf, which appends list entries and allocates nil
  subtrees on demand.  The deep copy of the template is the identity on values.
\<close>

section \<open>List membership\<close>

text \<open>The pairs of list path and key value along one parsed path; the list path is made of the
  segment names only.\<close>

fun instance_pairs :: "string \<Rightarrow> path \<Rightarrow> (string \<times> string) list" where
  "instance_pairs pre [] = []"
| "instance_pairs pre (g # gs) =
     (let pre' = (if pre = [] then Name g else pre @ ''/'' @ Name g)
      in (if Key g = [] then [] else [(pre', Value g)]) @ instance_pairs pre' gs)"

record hydrator =
  h_instances :: "(string \<times> string) list"
  h_seeded :: bool

definition newHydrator :: "vals \<Rightarrow> router_error + hydrator" where
  "newHydrator values =
     bind_res (map_res (\<lambda>(p, v). parse_r p) values)
       (\<lambda>ps. Inr \<lparr>h_instances = concat (map (instance_pairs []) ps), h_seeded = (values \<noteq> [])\<rparr>)"

definition joinPath :: "string \<Rightarrow> string \<Rightarrow> string" where
  "joinPath pre tag = (if pre = [] then tag else pre @ ''/'' @ tag)"

definition pruneList :: "hydrator \<Rightarrow> gotype \<Rightarrow> rvalue list \<Rightarrow> string \<Rightarrow> rvalue list" where
  "pruneList h et es path =
     (if \<not> h_seeded h then es
      else case (case et of TPtr t \<Rightarrow> t | _ \<Rightarrow> et) of
             TStruct fs \<Rightarrow>
               if keyFieldIndex fs = None then es
               else filter (\<lambda>e. case element_key et e of None \<Rightarrow> False
                                | Some k \<Rightarrow> (path, k) \<in> set (h_instances h)) es
           | _ \<Rightarrow> es)"

definition keyPredicateOf :: "gotype \<Rightarrow> rvalue \<Rightarrow> string option" where
  "keyPredicateOf et e =
     (case (strip_ptr et, element_key et e) of
        (TStruct fs, Some k) \<Rightarrow> Some (keyTagName fs @ ''='' @ k)
      | _ \<Rightarrow> None)"

lemma set_pruneList: "e \<in> set (pruneList h et es path) \<Longrightarrow> e \<in> set es"
  by (auto simp: pruneList_def split: gotype.splits if_splits)

function pruneLists :: "hydrator \<Rightarrow> gotype \<Rightarrow> rvalue \<Rightarrow> string \<Rightarrow> rvalue"
  and prune_fields :: "hydrator \<Rightarrow> (ftag \<times> gotype) list \<Rightarrow> rvalue list \<Rightarrow> string \<Rightarrow> rvalue list" where
  "pruneLists h (TPtr t) (VPtr (Some v)) path =
     (if \<not> h_seeded h then VPtr (Some v) else VPtr (Some (pruneLists h t v path)))"
| "pruneLists h (TStruct fs) (VStruct vs) path =
     (if \<not> h_seeded h then VStruct vs else VStruct (prune_fields h fs vs path))"
| "pruneLists h (TSlice t) (VSlice es) path =
     (if \<not> h_seeded h then VSlice es
      else VSlice (map (\<lambda>e. case derefValue t e of
                              None \<Rightarrow> e
                            | Some _ \<Rightarrow>
                                pruneLists h t e
                                  (case keyPredicateOf t e of None \<Rightarrow> path
                                   | Some pr \<Rightarrow> path @ ''['' @ pr @ '']''))
                     (pruneList h t es path)))"
| "pruneLists h (TPtr t) (VPtr None) path = VPtr None"
| "pruneLists h (TPtr t) (VLeaf x) path = VLeaf x"
| "pruneLists h (TPtr t) (VSlice vs) path = VSlice vs"
| "pruneLists h (TPtr t) (VStruct vs) path = VStruct vs"
| "pruneLists h (TStruct fs) (VLeaf x) path = VLeaf x"
| "pruneLists h (TStruct fs) (VPtr p) path = VPtr p"
| "pruneLists h (TStruct fs) (VSlice vs) path = VSlice vs"
| "pruneLists h (TSlice t) (VLeaf x) path = VLeaf x"
| "pruneLists h (TSlice t) (VPtr p) path = VPtr p"
| "pruneLists h (TSlice t) (VStruct vs) path = VStruct vs"
| "pruneLists h (TLeaf k) v path = v"
| "prune_fields h (f # fs) (v # vs) path =
     (case t_path (fst f) of None \<Rightarrow> v | Some tag \<Rightarrow> pruneLists h (snd f) v (joinPath path tag))
     # prune_fields h fs vs path"
| "prune_fields h [] vs path = vs"
| "prune_fields h (f # fs) [] path = []"
  by pat_completeness auto
termination
proof (relation "measure (\<lambda>x. case x of Inl (h, t, v, p) \<Rightarrow> size v | Inr (h, fs, vs, p) \<Rightarrow> size_list size vs)",
    goal_cases)
  case (4 h t es path e z)
  then have "e \<in> set es" using set_pruneList by blast
  then have "size e < Suc (size_list size es)" by (simp add: size_list_estimation' less_Suc_eq_le)
  then show ?case by simp
qed auto

section \<open>Assignment\<close>

fun setKey :: "gotype \<Rightarrow> string \<Rightarrow> goval option" where
  "setKey (TLeaf kindString) s = Some (GString s)"
| "setKey (TLeaf kindBool) s = map_option GBool (ParseBool s)"
| "setKey (TLeaf kindInt) s = map_option GInt (ParseInt 64 s)"
| "setKey (TLeaf kindUint8) s = map_option (\<lambda>n. GUint8 (of_nat n)) (parse_uint 8 s)"
| "setKey (TLeaf kindUint16) s = map_option (\<lambda>n. GUint16 (of_nat n)) (parse_uint 16 s)"
| "setKey (TLeaf kindUint32) s = map_option (\<lambda>n. GUint32 (of_nat n)) (parse_uint 32 s)"
| "setKey (TLeaf kindUint64) s = map_option (\<lambda>n. GUint64 (of_nat n)) (parse_uint 64 s)"
| "setKey (TLeaf kindFloat64) s = map_option GFloat (ParseFloat s)"
| "setKey _ s = None"

definition elem_base :: "gotype \<Rightarrow> gotype" where
  "elem_base et = (case et of TPtr t \<Rightarrow> t | _ \<Rightarrow> et)"

text \<open>A fresh element whose key field holds the predicate's value.\<close>

definition fresh_element :: "gotype \<Rightarrow> segment \<Rightarrow> router_error + rvalue" where
  "fresh_element et seg =
     (case elem_base et of
        TStruct fs \<Rightarrow>
          (case keyFieldIndex fs of
             None \<Rightarrow> Inl (ErrInvalidPath_r (Name seg))
           | Some i \<Rightarrow>
               (case setKey (snd (fs ! i)) (Value seg) of
                  None \<Rightarrow> Inl (ErrTypeMismatch (segment_string seg))
                | Some k \<Rightarrow>
                    let e = VStruct ((map (\<lambda>f. zero_value (snd f)) fs)[i := VLeaf k])
                    in Inr (case et of TPtr _ \<Rightarrow> VPtr (Some e) | _ \<Rightarrow> e)))
      | _ \<Rightarrow> Inl (ErrInvalidPath_r (Name seg)))"

fun find_index :: "('a \<Rightarrow> bool) \<Rightarrow> 'a list \<Rightarrow> nat option" where
  "find_index P [] = None"
| "find_index P (x # xs) = (if P x then Some 0 else map_option Suc (find_index P xs))"

text \<open>The index of the selected element and the slice that holds it.\<close>

definition appendOrSelect :: "gotype \<Rightarrow> rvalue list \<Rightarrow> segment \<Rightarrow> router_error + (nat \<times> rvalue list)" where
  "appendOrSelect et es seg =
     (case check_list (elem_base et) seg of
        Some e \<Rightarrow> Inl e
      | None \<Rightarrow>
          (case find_index (\<lambda>e. element_key et e = Some (Value seg)) es of
             Some i \<Rightarrow> Inr (i, es)
           | None \<Rightarrow> bind_res (fresh_element et seg) (\<lambda>e. Inr (length es, es @ [e]))))"

text \<open>\<open>assignPath\<close> returns the node with the leaf stored.  A nil pointer on the way is allocated.\<close>

function assignPath :: "u64 \<Rightarrow> gotype \<Rightarrow> rvalue \<Rightarrow> path \<Rightarrow> goval \<Rightarrow> router_error + rvalue" where
  "assignPath oor t v [] x = bind_res (assignLeaf oor t x) (\<lambda>y. Inr (VLeaf y))"
| "assignPath oor (TPtr t) v (g # gs) x =
     bind_res (assignPath oor t (case v of VPtr (Some w) \<Rightarrow> w | _ \<Rightarrow> zero_value t) (g # gs) x)
       (\<lambda>w. Inr (VPtr (Some w)))"
| "assignPath oor (TStruct fs) v (g # gs) x =
     (case (v, matchField fs (g # gs)) of
        (VStruct vs, Some (i, n)) \<Rightarrow>
          let last = (g # gs) ! (n - 1); rest = drop n (g # gs)
          in bind_res
               (case (snd (fs ! i), vs ! i) of
                  (TSlice et, VSlice es) \<Rightarrow>
                    if Key last = [] then Inl (ErrInvalidPath_r (Name last))
                    else bind_res (appendOrSelect et es last) (\<lambda>(j, es').
                           bind_res (assignPath oor et (es' ! j) rest x) (\<lambda>e. Inr (VSlice (es'[j := e]))))
                | (ft, fv) \<Rightarrow> assignPath oor ft fv rest x)
               (\<lambda>w. Inr (VStruct (vs[i := w])))
      | _ \<Rightarrow> Inl (ErrNotFound_r (Name g)))"
| "assignPath oor (TLeaf k) v (g # gs) x = Inl (ErrNotFound_r (Name g))"
| "assignPath oor (TSlice t) v (g # gs) x = Inl (ErrNotFound_r (Name g))"
  by pat_completeness auto
termination
  by (relation "measures [\<lambda>(oor, t, v, segs, x). length segs, \<lambda>(oor, t, v, segs, x). size t]")
    (auto dest: matchField_bounds[OF sym])

fun assign_all :: "u64 \<Rightarrow> gotype \<Rightarrow> rvalue \<Rightarrow> vals \<Rightarrow> router_error + rvalue" where
  "assign_all oor t v [] = Inr v"
| "assign_all oor t v ((p, x) # ps) =
     bind_res (parse_r p) (\<lambda>segs. bind_res (assignPath oor t v segs x) (\<lambda>w. assign_all oor t w ps))"

definition sorted_vals :: "vals \<Rightarrow> vals" where
  "sorted_vals values = sort_key fst values"

definition deviceFromValues :: "u64 \<Rightarrow> Device \<Rightarrow> vals \<Rightarrow> router_error + Device" where
  "deviceFromValues oor tmpl values =
     bind_res (newHydrator values) (\<lambda>h.
       bind_res (assign_all oor Device_type (pruneLists h Device_type (Device_value tmpl) []) (sorted_vals values))
         (\<lambda>v. Inr (Device_of v)))"

definition Validate_r :: "u64 \<Rightarrow> Device \<Rightarrow> string option \<Rightarrow> vals \<Rightarrow> string option" where
  "Validate_r oor tmpl ctx values =
     (case ctx of Some e \<Rightarrow> Some e
      | None \<Rightarrow>
          (case deviceFromValues oor tmpl values of
             Inl _ \<Rightarrow> Some ''rebuild''
           | Inr d \<Rightarrow> Device_Validate d))"

end
