(* ===== verification/Oid.thy ===== *)
theory Oid
  imports Hydrate
begin

text \<open>
  The SNMP object table of the router (\<open>src/internal/router/oid.go\<close> and the table construction of
  \<open>router.go\<close>): the rules that expose model leaves as MIB objects, the value conversions, the
  comparison of object identifiers, and the objects of a device.
\<close>

section \<open>Rules\<close>

definition EnterpriseOID :: string where "EnterpriseOID = ''1.3.6.1.4.1.99999''"

datatype SNMPType = TypeInteger | TypeOctetString | TypeObjectID | TypeGauge32 | TypeCounter32
  | TypeCounter64 | TypeTimeTicks | TypeOpaqueDouble

datatype scope = ScopeScalar | ScopeInterface | ScopeRadio | ScopeSTPPort | ScopeMAC | ScopeVLAN | ScopeSyncE

record objectRule =
  ru_scope :: scope
  ru_suffix :: string
  ru_oid :: string
  ru_typ :: SNMPType
  ru_writable :: bool
  ru_convert :: "(goval \<Rightarrow> goval) option"
  ru_decode :: "(goval \<Rightarrow> string + goval) option"

section \<open>Conversions\<close>

definition ifTypeValue :: "goval \<Rightarrow> goval" where
  "ifTypeValue v = (if v = GString ''radio'' then GInt 1 else GInt 6)"

definition ifOperStatusValue :: "goval \<Rightarrow> goval" where
  "ifOperStatusValue v = (if v = GBool True then GInt 1 else GInt 2)"

definition truthValue :: "goval \<Rightarrow> goval" where
  "truthValue v = (if v = GBool True then GInt 1 else GInt 2)"

definition truthFromInt :: "goval \<Rightarrow> string + goval" where
  "truthFromInt v =
     (case v of
        GBool b \<Rightarrow> Inr (GBool b)
      | GInt n \<Rightarrow> if n = 1 then Inr (GBool True) else if n = 2 then Inr (GBool False)
                  else Inl ''expected TruthValue 1 or 2''
      | GUint32 n \<Rightarrow> if n = 1 then Inr (GBool True) else if n = 2 then Inr (GBool False)
                     else Inl ''expected TruthValue 1 or 2''
      | _ \<Rightarrow> Inl ''expected TruthValue 1 or 2'')"

definition ticksFromSeconds :: "goval \<Rightarrow> goval" where
  "ticksFromSeconds v = (case v of GUint32 n \<Rightarrow> GUint32 (n * 100) | _ \<Rightarrow> v)"

definition macOctets :: "goval \<Rightarrow> goval" where
  "macOctets v =
     (case v of
        GString text \<Rightarrow>
          (case parseMAC text of
             Some bs \<Rightarrow> if length bs \<noteq> 6 then v else GBytes (map char_of bs)
           | None \<Rightarrow> v)
      | _ \<Rightarrow> v)"

definition macInstance :: "string \<Rightarrow> string" where
  "macInstance text =
     (case parseMAC text of
        Some bs \<Rightarrow> if length bs \<noteq> 6 then [] else join_with CHR ''.'' (map itoa bs)
      | None \<Rightarrow> [])"

text \<open>A named state mapped to a number; a value that is not a string is passed through.\<close>

definition by_name :: "(string \<times> int) list \<Rightarrow> int \<Rightarrow> goval \<Rightarrow> goval" where
  "by_name table dflt v =
     (case v of GString name \<Rightarrow> GInt (gm_get_or dflt table name) | _ \<Rightarrow> v)"

definition stpPortStateValue :: "goval \<Rightarrow> goval" where
  "stpPortStateValue = by_name
     [(''disabled'', 1), (''blocking'', 2), (''discarding'', 2), (''listening'', 3), (''learning'', 4),
      (''forwarding'', 5)] 1"

definition stpPortEnableValue :: "goval \<Rightarrow> goval" where
  "stpPortEnableValue v = (if v = GString ''disabled'' then GInt 2 else GInt 1)"

definition fdbStatusValue :: "goval \<Rightarrow> goval" where
  "fdbStatusValue v = (if v = GString ''static'' then GInt 5 else GInt 3)"

definition ptpStateValue :: "goval \<Rightarrow> goval" where
  "ptpStateValue = by_name
     [(''freerun'', 1), (''acquiring'', 2), (''locked'', 3), (''holdover-in-spec'', 4),
      (''holdover-out-of-spec'', 5)] 1"

definition linkStateValue :: "goval \<Rightarrow> goval" where
  "linkStateValue = by_name [(''degraded'', 2), (''down'', 3)] 1"

definition qlValue :: "goval \<Rightarrow> goval" where
  "qlValue = by_name
     [(''QL-PRC'', 2), (''QL-SSU-A'', 4), (''QL-SSU-B'', 8), (''QL-SEC'', 11), (''QL-DNU'', 15)] 0"

definition extendedQLValue :: "goval \<Rightarrow> goval" where
  "extendedQLValue = by_name [(''QL-PRTC'', 32), (''QL-ePRTC'', 33), (''QL-eEEC'', 34)] 0"

lemmas convert_defs = ifTypeValue_def ifOperStatusValue_def truthValue_def ticksFromSeconds_def
  stpPortStateValue_def stpPortEnableValue_def fdbStatusValue_def ptpStateValue_def linkStateValue_def
  qlValue_def extendedQLValue_def by_name_def

definition rule ::
    "scope \<Rightarrow> string \<Rightarrow> string \<Rightarrow> SNMPType \<Rightarrow> bool \<Rightarrow> (goval \<Rightarrow> goval) option \<Rightarrow>
     (goval \<Rightarrow> string + goval) option \<Rightarrow> objectRule" where
  "rule sc suf oid typ w conv dec =
     \<lparr>ru_scope = sc, ru_suffix = suf, ru_oid = oid, ru_typ = typ, ru_writable = w,
      ru_convert = conv, ru_decode = dec\<rparr>"

definition objectRules :: "objectRule list" where
  "objectRules =
     [rule ScopeScalar ''system-info/description'' (''1.3.6.1.2.1.1.1'') TypeOctetString False None None,
      rule ScopeScalar ''system-info/uptime'' (''1.3.6.1.2.1.1.3'') TypeTimeTicks False (Some ticksFromSeconds) None,
      rule ScopeScalar ''system-info/contact'' (''1.3.6.1.2.1.1.4'') TypeOctetString True None None,
      rule ScopeScalar ''system-info/name'' (''1.3.6.1.2.1.1.5'') TypeOctetString True None None,
      rule ScopeScalar ''system-info/location'' (''1.3.6.1.2.1.1.6'') TypeOctetString True None None,
      rule ScopeInterface ''name'' (''1.3.6.1.2.1.2.2.1.2'') TypeOctetString False None None,
      rule ScopeInterface ''type'' (''1.3.6.1.2.1.2.2.1.3'') TypeInteger False (Some ifTypeValue) None,
      rule ScopeInterface ''mtu'' (''1.3.6.1.2.1.2.2.1.4'') TypeInteger False None None,
      rule ScopeInterface ''mac-address'' (''1.3.6.1.2.1.2.2.1.6'') TypeOctetString False (Some macOctets) None,
      rule ScopeInterface ''enabled'' (''1.3.6.1.2.1.2.2.1.7'') TypeInteger True (Some ifOperStatusValue) (Some truthFromInt),
      rule ScopeInterface ''enabled'' (''1.3.6.1.2.1.2.2.1.8'') TypeInteger False (Some ifOperStatusValue) None,
      rule ScopeInterface ''counters/in-octets'' (''1.3.6.1.2.1.2.2.1.10'') TypeCounter32 False None None,
      rule ScopeInterface ''counters/in-ucast-pkts'' (''1.3.6.1.2.1.2.2.1.11'') TypeCounter32 False None None,
      rule ScopeInterface ''counters/in-discards'' (''1.3.6.1.2.1.2.2.1.13'') TypeCounter32 False None None,
      rule ScopeInterface ''counters/in-errors'' (''1.3.6.1.2.1.2.2.1.14'') TypeCounter32 False None None,
      rule ScopeInterface ''counters/out-octets'' (''1.3.6.1.2.1.2.2.1.16'') TypeCounter32 False None None,
      rule ScopeInterface ''counters/out-ucast-pkts'' (''1.3.6.1.2.1.2.2.1.17'') TypeCounter32 False None None,
      rule ScopeInterface ''counters/out-discards'' (''1.3.6.1.2.1.2.2.1.19'') TypeCounter32 False None None,
      rule ScopeInterface ''counters/out-errors'' (''1.3.6.1.2.1.2.2.1.20'') TypeCounter32 False None None,
      rule ScopeInterface ''name'' (''1.3.6.1.2.1.31.1.1.1.1'') TypeOctetString False None None,
      rule ScopeInterface ''counters/in-octets'' (''1.3.6.1.2.1.31.1.1.1.6'') TypeCounter64 False None None,
      rule ScopeInterface ''counters/in-ucast-pkts'' (''1.3.6.1.2.1.31.1.1.1.7'') TypeCounter64 False None None,
      rule ScopeInterface ''counters/out-octets'' (''1.3.6.1.2.1.31.1.1.1.10'') TypeCounter64 False None None,
      rule ScopeInterface ''counters/out-ucast-pkts'' (''1.3.6.1.2.1.31.1.1.1.11'') TypeCounter64 False None None,
      rule ScopeScalar ''stp/state/bridge-address'' (''1.3.6.1.2.1.17.1.1'') TypeOctetString False (Some macOctets) None,
      rule ScopeScalar ''stp/state/bridge-priority'' (''1.3.6.1.2.1.17.2.2'') TypeInteger True None None,
      rule ScopeSTPPort ''priority'' (''1.3.6.1.2.1.17.2.15.1.2'') TypeInteger True None None,
      rule ScopeSTPPort ''state'' (''1.3.6.1.2.1.17.2.15.1.3'') TypeInteger False (Some stpPortStateValue) None,
      rule ScopeSTPPort ''state'' (''1.3.6.1.2.1.17.2.15.1.4'') TypeInteger False (Some stpPortEnableValue) None,
      rule ScopeSTPPort ''path-cost'' (''1.3.6.1.2.1.17.2.15.1.5'') TypeInteger True None None,
      rule ScopeScalar ''mac-table/aging-time'' (''1.3.6.1.2.1.17.4.2'') TypeInteger True None None,
      rule ScopeMAC ''mac-address'' (''1.3.6.1.2.1.17.4.3.1.1'') TypeOctetString False (Some macOctets) None,
      rule ScopeMAC ''port'' (''1.3.6.1.2.1.17.4.3.1.2'') TypeInteger False None None,
      rule ScopeMAC ''type'' (''1.3.6.1.2.1.17.4.3.1.3'') TypeInteger False (Some fdbStatusValue) None,
      rule ScopeVLAN ''name'' (''1.3.6.1.2.1.17.7.1.4.3.1.1'') TypeOctetString False None None,
      rule ScopeRadio ''rssi'' (EnterpriseOID @ ''.1.1.1'') TypeOpaqueDouble False None None,
      rule ScopeRadio ''fade-margin'' (EnterpriseOID @ ''.1.1.2'') TypeOpaqueDouble False None None,
      rule ScopeRadio ''capacity'' (EnterpriseOID @ ''.1.1.3'') TypeGauge32 False None None,
      rule ScopeRadio ''tx-power'' (EnterpriseOID @ ''.1.1.4'') TypeOpaqueDouble True None None,
      rule ScopeRadio ''atpc/enabled'' (EnterpriseOID @ ''.1.1.5'') TypeInteger True (Some truthValue) (Some truthFromInt),
      rule ScopeRadio ''acm/current-profile'' (EnterpriseOID @ ''.1.1.6'') TypeInteger False None None,
      rule ScopeRadio ''acm/current-capacity'' (EnterpriseOID @ ''.1.1.7'') TypeGauge32 False None None,
      rule ScopeRadio ''link-state'' (EnterpriseOID @ ''.1.1.8'') TypeInteger False (Some linkStateValue) None,
      rule ScopeScalar ''ptp/clock/state'' (EnterpriseOID @ ''.2.1.1'') TypeInteger False (Some ptpStateValue) None,
      rule ScopeScalar ''ptp/clock/offset'' (EnterpriseOID @ ''.2.1.2'') TypeOpaqueDouble False None None,
      rule ScopeScalar ''ptp/clock/domain'' (EnterpriseOID @ ''.2.1.3'') TypeGauge32 True None None,
      rule ScopeScalar ''ptp/clock/priority1'' (EnterpriseOID @ ''.2.1.4'') TypeGauge32 True None None,
      rule ScopeScalar ''synce/selected-ql'' (EnterpriseOID @ ''.2.1.5'') TypeInteger False (Some qlValue) None,
      rule ScopeScalar ''synce/selected-extended-ql'' (EnterpriseOID @ ''.2.1.6'') TypeInteger False (Some extendedQLValue) None,
      rule ScopeSyncE ''ql'' (EnterpriseOID @ ''.2.1.7.1.1'') TypeInteger False (Some qlValue) None,
      rule ScopeSyncE ''ssm-enabled'' (EnterpriseOID @ ''.2.1.7.1.2'') TypeInteger False (Some truthValue) None,
      rule ScopeScalar ''ptp/clock/jitter'' (EnterpriseOID @ ''.2.1.8'') TypeOpaqueDouble False None None]"

definition sysObjectIDOID :: string where "sysObjectIDOID = ''1.3.6.1.2.1.1.2.0''"
definition ifIndexOID :: string where "ifIndexOID = ''1.3.6.1.2.1.2.2.1.1''"

section \<open>Object identifiers\<close>

definition trim_prefix :: "string \<Rightarrow> string \<Rightarrow> string" where
  "trim_prefix s pre = (if has_prefix s pre then drop (length pre) s else s)"

definition str_compare :: "string \<Rightarrow> string \<Rightarrow> int" where
  "str_compare a b = (if a < b then - 1 else if a = b then 0 else 1)"

fun compare_parts :: "string list \<Rightarrow> string list \<Rightarrow> int" where
  "compare_parts (a # as) (b # bs) =
     (case (Atoi a, Atoi b) of
        (Some ai, Some bi) \<Rightarrow> if ai \<noteq> bi then if ai < bi then - 1 else 1 else compare_parts as bs
      | _ \<Rightarrow> let c = str_compare a b in if c \<noteq> 0 then c else compare_parts as bs)"
| "compare_parts [] [] = 0"
| "compare_parts [] (b # bs) = - 1"
| "compare_parts (a # as) [] = 1"

definition CompareOID :: "string \<Rightarrow> string \<Rightarrow> int" where
  "CompareOID a b =
     compare_parts (split_on CHR ''.'' (trim_prefix a ''.'')) (split_on CHR ''.'' (trim_prefix b ''.''))"

definition indexOID :: "string \<Rightarrow> string \<Rightarrow> string" where
  "indexOID base index = base @ ''.'' @ index"

definition instanceOID :: "string \<Rightarrow> nat \<Rightarrow> string" where
  "instanceOID base instance_no = base @ ''.'' @ itoa instance_no"

fun index_of_name :: "nat \<Rightarrow> Interface list \<Rightarrow> string \<Rightarrow> nat" where
  "index_of_name i [] name = 0"
| "index_of_name i (x # xs) name = (if if_Name x = name then i + 1 else index_of_name (i + 1) xs name)"

definition interfaceIndexOf :: "Device \<Rightarrow> string \<Rightarrow> nat" where
  "interfaceIndexOf d name = index_of_name 0 (dv_Interfaces d) name"

section \<open>Objects of a device\<close>

record indexedObject =
  ob_oid :: string
  ob_path :: string
  ob_typ :: SNMPType
  ob_writable :: bool
  ob_convert :: "(goval \<Rightarrow> goval) option"
  ob_decode :: "(goval \<Rightarrow> string + goval) option"
  ob_constant :: goval

definition constant_object :: "string \<Rightarrow> SNMPType \<Rightarrow> goval \<Rightarrow> indexedObject" where
  "constant_object oid typ c =
     \<lparr>ob_oid = oid, ob_path = [], ob_typ = typ, ob_writable = False, ob_convert = None, ob_decode = None,
      ob_constant = c\<rparr>"

definition rule_object :: "objectRule \<Rightarrow> string \<Rightarrow> string \<Rightarrow> indexedObject" where
  "rule_object r oid path =
     \<lparr>ob_oid = oid, ob_path = path, ob_typ = ru_typ r, ob_writable = ru_writable r,
      ob_convert = ru_convert r, ob_decode = ru_decode r, ob_constant = GNil\<rparr>"

definition checkPath :: "Device \<Rightarrow> string \<Rightarrow> router_error option" where
  "checkPath d path =
     (case bind_res (parse_r path) (\<lambda>segs. resolve Device_type (Device_value d) segs) of
        Inl e \<Rightarrow> Some e
      | Inr n \<Rightarrow> if isLeaf (n_type n) (n_value n) then None else Some (ErrNotFound_r path))"

definition scalar_objects :: "Device \<Rightarrow> indexedObject list" where
  "scalar_objects d =
     map (\<lambda>r. rule_object r (ru_oid r @ ''.0'') (ru_suffix r))
       (filter (\<lambda>r. ru_scope r = ScopeScalar \<and> Option.is_none (checkPath d (ru_suffix r))) objectRules)"

definition interface_path :: "string \<Rightarrow> string" where
  "interface_path name = ''interfaces/interface[name='' @ name @ '']''"

definition rule_of_interface :: "nat \<Rightarrow> bool \<Rightarrow> Interface \<Rightarrow> objectRule \<Rightarrow> indexedObject list" where
  "rule_of_interface i radioExposed iface r =
     (case ru_scope r of
        ScopeInterface \<Rightarrow>
          [rule_object r (instanceOID (ru_oid r) i) (interface_path (if_Name iface) @ ''/'' @ ru_suffix r)]
      | ScopeRadio \<Rightarrow>
          if Option.is_none (if_RadioLink iface) \<or> radioExposed then []
          else [rule_object r (ru_oid r @ ''.0'') (interface_path (if_Name iface) @ ''/radio-link/'' @ ru_suffix r)]
      | _ \<Rightarrow> [])"

fun interface_objects :: "nat \<Rightarrow> bool \<Rightarrow> Interface list \<Rightarrow> indexedObject list" where
  "interface_objects i radioExposed [] = []"
| "interface_objects i radioExposed (iface # ifaces) =
     constant_object (instanceOID ifIndexOID i) TypeInteger (GInt (int i))
     # concat (map (rule_of_interface i radioExposed iface) objectRules)
     @ interface_objects (Suc i) (radioExposed \<or> \<not> Option.is_none (if_RadioLink iface)) ifaces"

definition tableKeys :: "Device \<Rightarrow> scope \<Rightarrow> string list" where
  "tableKeys d kind =
     (case kind of
        ScopeSTPPort \<Rightarrow> map sp_Port (st_Ports (dv_STP d))
      | ScopeMAC \<Rightarrow> map me_MAC (mt_Entries (dv_MACTable d))
      | ScopeVLAN \<Rightarrow> map (\<lambda>v. itoa (unat (vl_ID v))) (dv_VLANs d)
      | ScopeSyncE \<Rightarrow> map si_Name (se_Interfaces (dv_SyncE d))
      | _ \<Rightarrow> [])"

definition tableObjects :: "Device \<Rightarrow> scope \<Rightarrow> string \<Rightarrow> (string \<Rightarrow> string) \<Rightarrow> indexedObject list" where
  "tableObjects d kind pre key_index =
     concat (map (\<lambda>key.
       let index = key_index key
       in if index = [] then []
          else map (\<lambda>r. rule_object r (indexOID (ru_oid r) index) (pre @ key @ '']/'' @ ru_suffix r))
                 (filter (\<lambda>r. ru_scope r = kind) objectRules)) (tableKeys d kind))"

definition interface_instance :: "Device \<Rightarrow> string \<Rightarrow> string" where
  "interface_instance d name =
     (let i = interfaceIndexOf d name in if i > 0 then itoa i else [])"

text \<open>\<open>sort.Slice\<close> with the OID order; \<open>New\<close> refuses two objects with the same OID.\<close>

fun insert_by :: "('a \<Rightarrow> 'a \<Rightarrow> bool) \<Rightarrow> 'a \<Rightarrow> 'a list \<Rightarrow> 'a list" where
  "insert_by lt x [] = [x]"
| "insert_by lt x (y # ys) = (if lt y x then y # insert_by lt x ys else x # y # ys)"

definition sort_by :: "('a \<Rightarrow> 'a \<Rightarrow> bool) \<Rightarrow> 'a list \<Rightarrow> 'a list" where
  "sort_by lt xs = foldr (insert_by lt) xs []"

definition all_objects :: "Device \<Rightarrow> indexedObject list" where
  "all_objects d =
     scalar_objects d
     @ [constant_object sysObjectIDOID TypeObjectID (GString (EnterpriseOID @ ''.1''))]
     @ interface_objects 1 False (dv_Interfaces d)
     @ tableObjects d ScopeSTPPort ''stp/state/ports/port[port='' (interface_instance d)
     @ tableObjects d ScopeMAC ''mac-table/entry[mac-address='' macInstance
     @ tableObjects d ScopeVLAN ''vlans/vlan[id='' (\<lambda>key. key)
     @ tableObjects d ScopeSyncE ''synce/interfaces/interface[name='' (interface_instance d)"

definition buildObjects :: "Device \<Rightarrow> indexedObject list" where
  "buildObjects d = sort_by (\<lambda>a b. CompareOID (ob_oid a) (ob_oid b) < 0) (all_objects d)"

end
