(* ===== verification/Router.thy ===== *)
theory Router
  imports Oid Store
begin

text \<open>
  The router (\<open>src/internal/router/router.go\<close>): leaf access to the datastores through the model's
  types and access rules, the SNMP object index with its cache, and the rebuild of the device.  The
  store is a field of the router's state; an operation that writes returns the updated router.  A
  context is its error, \<open>None\<close> while it is alive.
\<close>

section \<open>State\<close>

datatype rt_error = RErr router_error | SErr store_error | CErr string

record result =
  rs_Path :: string
  rs_OID :: string
  rs_Value :: goval
  rs_Type :: "SNMPType option"
  rs_Writable :: bool

record binding =
  bd_OID :: string
  bd_Path :: string
  bd_Value :: goval
  bd_Type :: SNMPType
  bd_Writable :: bool

record bindingCache =
  bc_ds :: datastore
  bc_generation :: u64
  bc_bindings :: "binding list"

record router =
  r_root :: Device
  r_store :: memory
  r_schema :: schemaNode
  r_byOID :: "(string, indexedObject) gomap"
  r_byPath :: "(string, indexedObject) gomap"
  r_bindCache :: bindingCache
  r_oor :: u64

section \<open>Construction\<close>

fun index_objects ::
    "indexedObject list \<Rightarrow> (string, indexedObject) gomap \<Rightarrow> (string, indexedObject) gomap \<Rightarrow>
     string + (string, indexedObject) gomap \<times> (string, indexedObject) gomap" where
  "index_objects [] byOID byPath = Inr (byOID, byPath)"
| "index_objects (ob # obs) byOID byPath =
     (if map_of byOID (ob_oid ob) \<noteq> None then Inl (''duplicate OID '' @ ob_oid ob)
      else index_objects obs (AList.update (ob_oid ob) ob byOID)
             (if ob_path ob = [] then byPath
              else case map_of byPath (ob_path ob) of
                     Some existing \<Rightarrow>
                       (case ob_decode existing of Some _ \<Rightarrow> byPath | None \<Rightarrow> AList.update (ob_path ob) ob byPath)
                   | None \<Rightarrow> AList.update (ob_path ob) ob byPath))"

definition NewRouter :: "u64 \<Rightarrow> Device \<Rightarrow> memory \<Rightarrow> string + router" where
  "NewRouter oor tmpl st =
     bind_res (buildSchema Device_type) (\<lambda>schema.
       bind_res (index_objects (buildObjects tmpl) [] []) (\<lambda>(byOID, byPath).
         Inr \<lparr>r_root = tmpl, r_store = st, r_schema = schema, r_byOID = byOID, r_byPath = byPath,
              r_bindCache = \<lparr>bc_ds = OtherDS [], bc_generation = 0, bc_bindings = []\<rparr>, r_oor = oor\<rparr>))"

section \<open>Leaves\<close>

definition mk_result :: "router \<Rightarrow> string \<Rightarrow> goval \<Rightarrow> bool \<Rightarrow> result" where
  "mk_result r path value w =
     (case map_of (r_byPath r) path of
        None \<Rightarrow> \<lparr>rs_Path = path, rs_OID = [], rs_Value = value, rs_Type = None, rs_Writable = w\<rparr>
      | Some ob \<Rightarrow>
          \<lparr>rs_Path = path, rs_OID = ob_oid ob, rs_Value = value, rs_Type = Some (ob_typ ob), rs_Writable = w\<rparr>)"

text \<open>Parse, resolve and require a leaf: the prologue shared by the leaf operations.  It returns the
  canonical path and the node.\<close>

definition resolve_leaf :: "router \<Rightarrow> string \<Rightarrow> router_error + (string \<times> node)" where
  "resolve_leaf r path =
     bind_res (parse_r path) (\<lambda>segs.
       bind_res (resolve Device_type (Device_value (r_root r)) segs) (\<lambda>n.
         if isLeaf (n_type n) (n_value n) then Inr (path_String segs, n)
         else Inl (ErrNotFound_r (path_String segs))))"

definition lift_r :: "router_error + 'a \<Rightarrow> rt_error + 'a" where
  "lift_r x = (case x of Inl e \<Rightarrow> Inl (RErr e) | Inr y \<Rightarrow> Inr y)"

text \<open>A store error, with the store's not-found turned into the router's.\<close>

definition store_err :: "store_error \<Rightarrow> rt_error" where
  "store_err e = (case e of ErrNotFound p \<Rightarrow> RErr (ErrNotFound_r p) | _ \<Rightarrow> SErr e)"

definition Router_Get :: "string option \<Rightarrow> router \<Rightarrow> datastore \<Rightarrow> string \<Rightarrow> rt_error + result" where
  "Router_Get ctx r ds path =
     (case ctx of Some e \<Rightarrow> Inl (CErr e)
      | None \<Rightarrow>
          bind_res (lift_r (resolve_leaf r path)) (\<lambda>(p, n).
            case Get ctx (r_store r) ds p of
              Inl e \<Rightarrow> Inl (store_err e)
            | Inr v \<Rightarrow> Inr (mk_result r p v (\<not> n_readOnly n))))"

definition decode_value :: "router \<Rightarrow> string \<Rightarrow> goval \<Rightarrow> router_error + goval" where
  "decode_value r p value =
     (case map_of (r_byPath r) p of
        None \<Rightarrow> Inr value
      | Some ob \<Rightarrow>
          (case ob_decode ob of
             None \<Rightarrow> Inr value
           | Some dec \<Rightarrow> (case dec value of Inl _ \<Rightarrow> Inl (ErrBadValue p) | Inr v \<Rightarrow> Inr v)))"

definition convert :: "router \<Rightarrow> string \<Rightarrow> goval \<Rightarrow> bool \<Rightarrow> router_error + result" where
  "convert r path value allowReadOnly =
     bind_res (resolve_leaf r path) (\<lambda>(p, n).
       if n_readOnly n \<and> \<not> allowReadOnly then Inl (ErrReadOnly p)
       else bind_res (decode_value r p value) (\<lambda>v.
              bind_res (coerce (r_oor r) v (n_type n)) (\<lambda>c. Inr (mk_result r p c True))))"

definition Convert :: "router \<Rightarrow> string \<Rightarrow> goval \<Rightarrow> router_error + result" where
  "Convert r path value = convert r path value False"

definition Router_Set ::
    "string option \<Rightarrow> time \<Rightarrow> datastore \<Rightarrow> string \<Rightarrow> goval \<Rightarrow> router \<Rightarrow> (rt_error + result) \<times> router" where
  "Router_Set ctx now ds path value r =
     (case ctx of Some e \<Rightarrow> (Inl (CErr e), r)
      | None \<Rightarrow>
          (case Convert r path value of
             Inl e \<Rightarrow> (Inl (RErr e), r)
           | Inr res \<Rightarrow>
               (case Set_leaf ctx now ds (rs_Path res) (rs_Value res) (r_store r) of
                  (Some e, m) \<Rightarrow> (Inl (SErr e), r\<lparr>r_store := m\<rparr>)
                | (None, m) \<Rightarrow> (Inr res, r\<lparr>r_store := m\<rparr>))))"

definition SetState ::
    "string option \<Rightarrow> time \<Rightarrow> string \<Rightarrow> goval \<Rightarrow> router \<Rightarrow> (rt_error + result) \<times> router" where
  "SetState ctx now path value r =
     (case ctx of Some e \<Rightarrow> (Inl (CErr e), r)
      | None \<Rightarrow>
          (case convert r path value True of
             Inl e \<Rightarrow> (Inl (RErr e), r)
           | Inr res \<Rightarrow>
               (case Set_leaf ctx now Running (rs_Path res) (rs_Value res) (r_store r) of
                  (Some e, m) \<Rightarrow> (Inl (SErr e), r\<lparr>r_store := m\<rparr>)
                | (None, m) \<Rightarrow> (Inr res, r\<lparr>r_store := m\<rparr>))))"

definition DeleteState :: "string option \<Rightarrow> time \<Rightarrow> string \<Rightarrow> router \<Rightarrow> rt_error option \<times> router" where
  "DeleteState ctx now path r =
     (case ctx of Some e \<Rightarrow> (Some (CErr e), r)
      | None \<Rightarrow>
          (case resolve_leaf r path of
             Inl e \<Rightarrow> (Some (RErr e), r)
           | Inr (p, n) \<Rightarrow>
               (case Delete_leaf ctx now Running p (r_store r) of
                  (Some (ErrNotFound _), m) \<Rightarrow> (None, r\<lparr>r_store := m\<rparr>)
                | (Some e, m) \<Rightarrow> (Some (SErr e), r\<lparr>r_store := m\<rparr>)
                | (None, m) \<Rightarrow> (None, r\<lparr>r_store := m\<rparr>))))"

definition Router_Delete ::
    "string option \<Rightarrow> time \<Rightarrow> datastore \<Rightarrow> string \<Rightarrow> router \<Rightarrow> rt_error option \<times> router" where
  "Router_Delete ctx now ds path r =
     (case ctx of Some e \<Rightarrow> (Some (CErr e), r)
      | None \<Rightarrow>
          (case resolve_leaf r path of
             Inl e \<Rightarrow> (Some (RErr e), r)
           | Inr (p, n) \<Rightarrow>
               (case Delete_leaf ctx now ds p (r_store r) of
                  (Some e, m) \<Rightarrow> (Some (store_err e), r\<lparr>r_store := m\<rparr>)
                | (None, m) \<Rightarrow> (None, r\<lparr>r_store := m\<rparr>))))"

section \<open>Batches\<close>

text \<open>The transaction mutex serialises its callers: a transaction runs its body as one step.\<close>

definition Transaction :: "string option \<Rightarrow> (router \<Rightarrow> (string + 'a) \<times> router) \<Rightarrow> router \<Rightarrow> (string + 'a) \<times> router" where
  "Transaction ctx fn r = (case ctx of Some e \<Rightarrow> (Inl e, r) | None \<Rightarrow> fn r)"

fun convert_all :: "router \<Rightarrow> vals \<Rightarrow> vals \<Rightarrow> router_error + vals" where
  "convert_all r [] acc = Inr acc"
| "convert_all r ((p, v) # vs) acc =
     (case Convert r p v of
        Inl e \<Rightarrow> Inl e
      | Inr res \<Rightarrow> convert_all r vs (AList.update (rs_Path res) (rs_Value res) acc))"

definition Router_Apply ::
    "string option \<Rightarrow> time \<Rightarrow> datastore \<Rightarrow> vals \<Rightarrow> string list \<Rightarrow> router \<Rightarrow> rt_error option \<times> router" where
  "Router_Apply ctx now ds values deletions r =
     (case ctx of Some e \<Rightarrow> (Some (CErr e), r)
      | None \<Rightarrow>
          (case convert_all r values [] of
             Inl e \<Rightarrow> (Some (RErr e), r)
           | Inr converted \<Rightarrow>
               (case Apply_batch ctx now ds converted deletions (r_store r) of
                  (err, m) \<Rightarrow> (map_option SErr err, r\<lparr>r_store := m\<rparr>))))"

section \<open>Bulk reads\<close>

definition describe :: "router \<Rightarrow> string \<Rightarrow> goval \<Rightarrow> router_error + result" where
  "describe r path value =
     bind_res (resolve_leaf r path) (\<lambda>(p, n). Inr (mk_result r p value (\<not> n_readOnly n)))"

definition Router_List :: "string option \<Rightarrow> router \<Rightarrow> datastore \<Rightarrow> string \<Rightarrow> rt_error + result list" where
  "Router_List ctx r ds pre =
     (case ctx of Some e \<Rightarrow> Inl (CErr e)
      | None \<Rightarrow>
          (case Values_of ctx (r_store r) ds of
             Inl e \<Rightarrow> Inl (SErr e)
           | Inr values \<Rightarrow>
               lift_r (map_res (\<lambda>(p, v). describe r p v)
                 (sorted_vals (filter (\<lambda>(p, v). pre = [] \<or> has_prefix p (pre @ ''/'')) values)))))"

definition Router_Values :: "string option \<Rightarrow> router \<Rightarrow> datastore \<Rightarrow> rt_error + (string, result) gomap" where
  "Router_Values ctx r ds =
     (case ctx of Some e \<Rightarrow> Inl (CErr e)
      | None \<Rightarrow>
          (case Values_of ctx (r_store r) ds of
             Inl e \<Rightarrow> Inl (SErr e)
           | Inr values \<Rightarrow>
               lift_r (map_res (\<lambda>(p, v). bind_res (describe r p v) (\<lambda>res. Inr (p, res))) values)))"

definition IsState :: "router \<Rightarrow> string \<Rightarrow> bool" where
  "IsState r path =
     (case bind_res (parse_r path) (\<lambda>segs. resolve Device_type (Device_value (r_root r)) segs) of
        Inl _ \<Rightarrow> False
      | Inr n \<Rightarrow> n_readOnly n)"

datatype op_kind = OpGet | OpSet | OpDelete_r | OpList | OpOther string

record op_request =
  op_Kind :: op_kind
  op_Datastore :: datastore
  op_Path :: string
  op_Value :: goval

datatype op_result = OneResult result | DeletedPath string | ManyResults string "result list"

definition Dispatch :: "string option \<Rightarrow> time \<Rightarrow> op_request \<Rightarrow> router \<Rightarrow> (rt_error + op_result) \<times> router" where
  "Dispatch ctx now q r =
     (case op_Kind q of
        OpGet \<Rightarrow> (bind_res (Router_Get ctx r (op_Datastore q) (op_Path q)) (\<lambda>x. Inr (OneResult x)), r)
      | OpSet \<Rightarrow>
          (case Router_Set ctx now (op_Datastore q) (op_Path q) (op_Value q) r of
             (x, r1) \<Rightarrow> (bind_res x (\<lambda>y. Inr (OneResult y)), r1))
      | OpDelete_r \<Rightarrow>
          (case Router_Delete ctx now (op_Datastore q) (op_Path q) r of
             (Some e, r1) \<Rightarrow> (Inl e, r1) | (None, r1) \<Rightarrow> (Inr (DeletedPath (op_Path q)), r1))
      | OpList \<Rightarrow>
          (bind_res (Router_List ctx r (op_Datastore q) (op_Path q)) (\<lambda>xs. Inr (ManyResults (op_Path q) xs)), r)
      | OpOther k \<Rightarrow> (Inl (RErr (ErrInvalidPath_r k)), r))"

fun seed_leaves ::
    "time \<Rightarrow> datastore \<Rightarrow> (path \<times> goval \<times> bool) list \<Rightarrow> memory \<Rightarrow> store_error option \<times> memory" where
  "seed_leaves now ds [] m = (None, m)"
| "seed_leaves now ds ((segs, v, ro) # ls) m =
     (case Set_leaf None now ds (path_String segs) v m of
        (Some e, m1) \<Rightarrow> (Some e, m1)
      | (None, m1) \<Rightarrow> seed_leaves now ds ls m1)"

definition Seed :: "string option \<Rightarrow> time \<Rightarrow> datastore \<Rightarrow> router \<Rightarrow> rt_error option \<times> router" where
  "Seed ctx now ds r =
     (case ctx of Some e \<Rightarrow> (Some (CErr e), r)
      | None \<Rightarrow>
          (case seed_leaves now ds (walkLeaves Device_type (Device_value (r_root r)) [] False) (r_store r) of
             (err, m) \<Rightarrow> (map_option SErr err, r\<lparr>r_store := m\<rparr>)))"

section \<open>The SNMP view\<close>

definition binding_of :: "vals \<Rightarrow> indexedObject \<Rightarrow> binding option" where
  "binding_of values ob =
     (case (if ob_path ob = [] then Some (ob_constant ob) else map_of values (ob_path ob)) of
        None \<Rightarrow> None
      | Some v \<Rightarrow>
          Some \<lparr>bd_OID = ob_oid ob, bd_Path = ob_path ob,
                bd_Value = (case ob_convert ob of None \<Rightarrow> v | Some f \<Rightarrow> f v),
                bd_Type = ob_typ ob, bd_Writable = ob_writable ob\<rparr>)"

text \<open>The index computed from scratch, and \<open>Bindings\<close>, which keeps the last one per datastore and
  generation.\<close>

definition fresh_bindings :: "router \<Rightarrow> vals \<Rightarrow> rt_error + binding list" where
  "fresh_bindings r values =
     bind_res (lift_r (deviceFromValues (r_oor r) (r_root r) values)) (\<lambda>d.
       Inr (List.map_filter (binding_of values) (buildObjects d)))"

definition Bindings :: "string option \<Rightarrow> datastore \<Rightarrow> router \<Rightarrow> (rt_error + binding list) \<times> router" where
  "Bindings ctx ds r =
     (case ctx of Some e \<Rightarrow> (Inl (CErr e), r)
      | None \<Rightarrow>
          (case Generation ctx (r_store r) ds of
             Inl e \<Rightarrow> (Inl (SErr e), r)
           | Inr g \<Rightarrow>
               if bc_ds (r_bindCache r) = ds \<and> bc_generation (r_bindCache r) = g
               then (Inr (bc_bindings (r_bindCache r)), r)
               else (case Values_of ctx (r_store r) ds of
                       Inl e \<Rightarrow> (Inl (SErr e), r)
                     | Inr values \<Rightarrow>
                         (case fresh_bindings r values of
                            Inl e \<Rightarrow> (Inl e, r)
                          | Inr bs \<Rightarrow>
                              (Inr bs,
                               r\<lparr>r_bindCache := \<lparr>bc_ds = ds, bc_generation = g, bc_bindings = bs\<rparr>\<rparr>)))))"

definition Router_Snapshot :: "string option \<Rightarrow> router \<Rightarrow> datastore \<Rightarrow> rt_error + Device" where
  "Router_Snapshot ctx r ds =
     (case ctx of Some e \<Rightarrow> Inl (CErr e)
      | None \<Rightarrow>
          (case Values_of ctx (r_store r) ds of
             Inl e \<Rightarrow> Inl (SErr e)
           | Inr values \<Rightarrow> lift_r (deviceFromValues (r_oor r) (r_root r) values)))"

definition PathForOID :: "router \<Rightarrow> string \<Rightarrow> path option" where
  "PathForOID r oid =
     (case map_of (r_byOID r) (trim_prefix oid ''.'') of
        None \<Rightarrow> None
      | Some ob \<Rightarrow>
          if ob_path ob = [] then None
          else (case Parse (ob_path ob) of Inl _ \<Rightarrow> None | Inr p \<Rightarrow> Some p))"

definition OIDForPath :: "router \<Rightarrow> string \<Rightarrow> string option" where
  "OIDForPath r path =
     (case Parse path of
        Inl _ \<Rightarrow> None
      | Inr p \<Rightarrow> map_option ob_oid (map_of (r_byPath r) (path_String p)))"

definition Router_Validate :: "router \<Rightarrow> string option \<Rightarrow> vals \<Rightarrow> string option" where
  "Router_Validate r ctx values = Validate_r (r_oor r) (r_root r) ctx values"

end
