(* ===== verification/RouterLaws.thy ===== *)
theory RouterLaws
  imports Router StoreLaws
begin

text \<open>
  Laws of the router's leaf operations and of its object index: what a write stores and leaves
  alone, that management writes never reach a state leaf, that a converted value has the leaf's type
  and keeps its number, and that the cached index equals the one computed from scratch.
\<close>

section \<open>Addressing\<close>

lemma parse_r_Inr: "parse_r s = Inr segs \<longleftrightarrow> Parse s = Inr segs"
  by (auto simp: parse_r_def split: sum.splits path_error.splits)

lemma resolve_leaf_Inr:
  assumes "resolve_leaf r path = Inr (p, n)"
  shows "p = path"
    and "\<exists>segs. Parse path = Inr segs \<and> resolve Device_type (Device_value (r_root r)) segs = Inr n"
    and "isLeaf (n_type n) (n_value n)"
proof -
  obtain segs where s: "Parse path = Inr segs"
    "resolve Device_type (Device_value (r_root r)) segs = Inr n"
    "isLeaf (n_type n) (n_value n)" "p = path_String segs"
    using assms by (auto simp: resolve_leaf_def bind_res_eq_Inr parse_r_Inr split: if_splits)
  show "p = path" using s(4) Parse_Inr_ok(2)[OF s(1)] by simp
  show "\<exists>segs. Parse path = Inr segs \<and> resolve Device_type (Device_value (r_root r)) segs = Inr n"
    using s(1,2) by blast
  show "isLeaf (n_type n) (n_value n)" by (rule s(3))
qed

lemma resolve_leaf_path: "resolve_leaf r path = Inr (p, n) \<Longrightarrow> p = path"
  by (rule resolve_leaf_Inr(1))

lemma resolve_leaf_IsState: "resolve_leaf r path = Inr (p, n) \<Longrightarrow> IsState r path = n_readOnly n"
  by (drule resolve_leaf_Inr(2)) (auto simp: IsState_def parse_r_Inr[THEN iffD2])

text \<open>The fields of the router a store operation never changes.\<close>

lemma resolve_leaf_store [simp]: "resolve_leaf (r\<lparr>r_store := m\<rparr>) = resolve_leaf r"
  by (rule ext) (simp add: resolve_leaf_def)

lemma mk_result_sel [simp]:
  "rs_Path (mk_result r p v w) = p" "rs_Value (mk_result r p v w) = v" "rs_Writable (mk_result r p v w) = w"
  by (simp_all add: mk_result_def split: option.splits)

lemma convert_Inr:
  assumes "convert r path value allow = Inr res"
  obtains n where "resolve_leaf r path = Inr (path, n)" "n_readOnly n \<longrightarrow> allow" "rs_Path res = path"
    "\<exists>v. decode_value r path value = Inr v \<and> coerce (r_oor r) v (n_type n) = Inr (rs_Value res)"
  using assms resolve_leaf_path
  by (fastforce simp: convert_def bind_res_eq_Inr split: if_splits)

lemma Convert_not_state: "Convert r path value = Inr res \<Longrightarrow> \<not> IsState r path \<and> rs_Path res = path"
  by (auto simp: Convert_def resolve_leaf_IsState elim!: convert_Inr)

section \<open>Store effects\<close>

text \<open>Every router operation is at most one store operation on the canonical path.\<close>

lemma Router_Set_store:
  assumes "Router_Set ctx now ds path value r = (x, r')"
  shows "(r' = r \<and> (\<exists>e. x = Inl e)) \<or>
    (\<exists>res. Convert r path value = Inr res \<and>
       r' = r\<lparr>r_store := snd (Set_leaf ctx now ds path (rs_Value res) (r_store r))\<rparr> \<and>
       (x = Inr res \<longleftrightarrow> fst (Set_leaf ctx now ds path (rs_Value res) (r_store r)) = None))"
proof (cases "ctx = None \<and> (\<exists>res. Convert r path value = Inr res)")
  case True
  then obtain res where "ctx = None" and res: "Convert r path value = Inr res" by blast
  with assms Convert_not_state[OF res] show ?thesis
    by (auto simp: Router_Set_def split: prod.splits option.splits)
qed (use assms in \<open>auto simp: Router_Set_def split: option.splits sum.splits\<close>)

lemma convert_all_Inr:
  assumes "convert_all r vs acc = Inr cs"
  shows "\<forall>p. map_of cs p = (case map_of (rev vs) p of
           None \<Rightarrow> map_of acc p | Some v \<Rightarrow> (case Convert r p v of Inr res \<Rightarrow> Some (rs_Value res) | Inl _ \<Rightarrow> None))"
    and "\<forall>(p, v) \<in> set vs. \<exists>res. Convert r p v = Inr res"
proof -
  have "(\<forall>p. map_of cs p = (case map_of (rev vs) p of None \<Rightarrow> map_of acc p
            | Some v \<Rightarrow> (case Convert r p v of Inr res \<Rightarrow> Some (rs_Value res) | Inl _ \<Rightarrow> None)))
      \<and> (\<forall>(p, v) \<in> set vs. \<exists>res. Convert r p v = Inr res)"
    using assms
  proof (induction vs arbitrary: acc)
    case (Cons pv vs)
    obtain p v where pv: "pv = (p, v)" by (cases pv)
    from Cons.prems pv obtain res where res: "Convert r p v = Inr res"
      and rest: "convert_all r vs (AList.update p (rs_Value res) acc) = Inr cs"
      using Convert_not_state by (fastforce split: sum.splits)
    show ?case using Cons.IH[OF rest] res pv
      by (auto simp: map_of_update map_add_def split: option.splits)
  qed simp
  then show "\<forall>p. map_of cs p = (case map_of (rev vs) p of
           None \<Rightarrow> map_of acc p | Some v \<Rightarrow> (case Convert r p v of Inr res \<Rightarrow> Some (rs_Value res) | Inl _ \<Rightarrow> None))"
    and "\<forall>(p, v) \<in> set vs. \<exists>res. Convert r p v = Inr res" by blast+
qed

lemma convert_all_keys:
  assumes "convert_all r vs [] = Inr cs" "p \<in> gm_keys cs"
  shows "\<not> IsState r p"
proof -
  obtain v where "map_of cs p = Some v" using assms(2) gm_keys_map_of[of p cs] by blast
  then obtain w where "map_of (rev vs) p = Some w"
    using convert_all_Inr(1)[OF assms(1)] by (auto split: option.splits)
  then have "(p, w) \<in> set vs" using map_of_SomeD by fastforce
  then show ?thesis using convert_all_Inr(2)[OF assms(1)] Convert_not_state by blast
qed

section \<open>Conversion\<close>

text \<open>The number a value stands for, and the values Go can hold.\<close>

fun num_value :: "goval \<Rightarrow> real option" where
  "num_value (GInt n) = Some (of_int n)"
| "num_value (GInt64 n) = Some (of_int n)"
| "num_value (GUint8 n) = Some (of_int (uint n))"
| "num_value (GUint16 n) = Some (of_int (uint n))"
| "num_value (GUint32 n) = Some (of_int (uint n))"
| "num_value (GUint64 n) = Some (of_int (uint n))"
| "num_value (GUint n) = Some (of_int (uint n))"
| "num_value (GFloat (Fin r)) = Some r"
| "num_value _ = None"

fun goval_ok :: "goval \<Rightarrow> bool" where
  "goval_ok (GInt n) = (int64_min \<le> n \<and> n \<le> int64_max)"
| "goval_ok (GInt64 n) = (int64_min \<le> n \<and> n \<le> int64_max)"
| "goval_ok _ = True"

lemma trunc_Fin: "f64_trunc (Fin r) = Fin r \<Longrightarrow> \<exists>n. r = of_int n"
  by (auto split: if_splits)

lemma toInt64_num:
  assumes "toInt64 oor v = Some z" "goval_ok v" "v \<noteq> GFloat (Fin (2 ^ 63))"
  shows "num_value v = Some (of_int z) \<and> int64_min \<le> z \<and> z \<le> int64_max"
proof (cases v)
  case (GFloat x)
  with assms obtain r where x: "x = Fin r" and t: "f64_trunc x = x" "- (2 ^ 63) \<le> r" "r \<le> 2 ^ 63" "r \<noteq> 2 ^ 63"
    and z: "z = float_to_int64 oor r"
    by (cases x) (auto split: if_splits)
  obtain n where i: "r = of_int n" using t(1) x trunc_Fin by blast
  have "z = \<lfloor>r\<rfloor>" using z t by (simp add: float_to_int64_def)
  moreover have "- (2 ^ 63) \<le> \<lfloor>r\<rfloor>" "\<lfloor>r\<rfloor> < 2 ^ 63" using t by (auto simp: le_floor_iff floor_less_iff)
  ultimately show ?thesis using GFloat x i by (simp add: int64_min_def int64_max_def)
qed (use assms in \<open>auto simp: int64_min_def int64_max_def split: if_splits intro: order.trans[OF _ uint_ge_0]
    order.trans[OF less_imp_le[OF uint_lt2p]]\<close>)

lemma toUint64_num:
  assumes "toUint64 oor v = Some w" "goval_ok v" "v \<noteq> GFloat (Fin (2 ^ 64))"
  shows "num_value v = Some (of_int (uint w))"
proof (cases v)
  case (GFloat x)
  with assms obtain r where x: "x = Fin r" and t: "f64_trunc x = x" "0 \<le> r" "r \<le> 2 ^ 64" "r \<noteq> 2 ^ 64"
    and w: "w = float_to_uint64 oor r"
    by (cases x) (auto split: if_splits)
  obtain n where i: "r = of_int n" using t(1) x trunc_Fin by blast
  have b: "0 \<le> \<lfloor>r\<rfloor>" "\<lfloor>r\<rfloor> < 2 ^ 64" using t by (auto simp: le_floor_iff floor_less_iff)
  have "w = of_int \<lfloor>r\<rfloor>" using w t by (simp add: float_to_uint64_def)
  then have "uint w = \<lfloor>r\<rfloor>" using b by (simp add: uint_word_of_int take_bit_int_eq_self)
  then show ?thesis using GFloat x i by simp
next
  case (GInt n)
  then have "uint w = n"
    using assms by (auto simp: int64_max_def uint_word_of_int take_bit_int_eq_self split: if_splits)
  with GInt show ?thesis using arg_cong[of "uint w" n real_of_int] by simp
next
  case (GInt64 n)
  then have "uint w = n"
    using assms by (auto simp: int64_max_def uint_word_of_int take_bit_int_eq_self split: if_splits)
  with GInt64 show ?thesis using arg_cong[of "uint w" n real_of_int] by simp
qed (use assms in \<open>auto simp: uint_up_ucast is_up_def source_size_def target_size_def word_size
    simp del: of_int_uint\<close>)

text \<open>The integers a leaf kind holds.\<close>

fun kind_range :: "leaf_kind \<Rightarrow> (int \<times> int) option" where
  "kind_range kindInt = Some (int64_min, int64_max)"
| "kind_range kindUint8 = Some (0, 2 ^ 8 - 1)"
| "kind_range kindUint16 = Some (0, 2 ^ 16 - 1)"
| "kind_range kindUint32 = Some (0, 2 ^ 32 - 1)"
| "kind_range kindUint64 = Some (0, 2 ^ 64 - 1)"
| "kind_range _ = None"

definition fits :: "leaf_kind \<Rightarrow> goval \<Rightarrow> bool" where
  "fits k v \<longleftrightarrow> (\<exists>lo hi n. kind_range k = Some (lo, hi) \<and> num_value v = Some (of_int n) \<and> lo \<le> n \<and> n \<le> hi)"

lemma trunc_of_int [simp]: "f64_trunc (Fin (of_int n)) = Fin (of_int n)"
  by simp

lemma toUint64_total:
  assumes "num_value v = Some (of_int n)" "0 \<le> n" "n < 2 ^ 64"
  shows "\<exists>w. toUint64 oor v = Some w"
proof (cases v)
  case (GFloat x)
  with assms obtain "x = Fin (of_int n)" by (cases x) auto
  moreover have "real_of_int n \<le> 2 ^ 64" using assms(3) by (metis less_imp_le of_int_le_iff of_int_numeral of_int_power)
  ultimately show ?thesis using GFloat assms by auto
qed (use assms in auto)

lemma toInt64_total:
  assumes "num_value v = Some (of_int n)" "int64_min \<le> n" "n \<le> int64_max"
  shows "\<exists>z. toInt64 oor v = Some z"
proof (cases v)
  case (GFloat x)
  with assms obtain x: "x = Fin (of_int n)" by (cases x) auto
  have "real_of_int n \<le> real_of_int (2 ^ 63)" "real_of_int (- (2 ^ 63)) \<le> real_of_int n"
    unfolding of_int_le_iff using assms by (auto simp: int64_min_def int64_max_def)
  then show ?thesis using GFloat x by auto
qed (use assms in \<open>auto simp: int64_min_def int64_max_def simp del: of_int_uint\<close>)

lemma uint_kind_mk:
  "unat (x :: u64) < 2 ^ 8 \<Longrightarrow> uint (ucast x :: u8) = uint x"
  "unat x < 2 ^ 16 \<Longrightarrow> uint (ucast x :: u16) = uint x"
  "unat x < 2 ^ 32 \<Longrightarrow> uint (ucast x :: u32) = uint x"
  by (simp_all add: unsigned_ucast_eq take_bit_int_eq_self_iff take_bit_nat_eq_self_iff uint_nat del: of_nat_unat)

lemma assign_uint_exact:
  assumes "goval_ok v" "v \<noteq> GFloat (Fin (2 ^ 64))" "bits \<le> 64"
  shows "case assign_uint oor bits mk v of
           Inr w \<Rightarrow> \<exists>x. w = mk x \<and> unat x < 2 ^ bits \<and> num_value v = Some (of_int (uint x))
         | Inl e \<Rightarrow> \<not> (\<exists>n. num_value v = Some (of_int n) \<and> 0 \<le> n \<and> n < 2 ^ bits)"
proof (cases "toUint64 oor v")
  case None
  have "\<not> (\<exists>n. num_value v = Some (of_int n) \<and> 0 \<le> n \<and> n < 2 ^ bits)"
  proof
    assume "\<exists>n. num_value v = Some (of_int n) \<and> 0 \<le> n \<and> n < 2 ^ bits"
    then obtain n where n: "num_value v = Some (of_int n)" "0 \<le> n" "n < 2 ^ bits" by blast
    have "(2 :: int) ^ bits \<le> 2 ^ 64" using assms(3) by (intro power_increasing) auto
    with n(3) have "n < 2 ^ 64" by (rule order.strict_trans2)
    with toUint64_total[OF n(1,2), of oor] None show False by auto
  qed
  with None show ?thesis by (auto simp: assign_uint_def split: option.splits)
next
  case (Some x)
  note num = toUint64_num[OF Some assms(1,2)]
  show ?thesis
  proof (cases "unat x < 2 ^ bits")
    case True
    with Some num show ?thesis by (auto simp: assign_uint_def)
  next
    case False
    then have "\<not> uint x < 2 ^ bits" by (simp add: uint_nat del: of_nat_unat)
    with Some num False show ?thesis by (auto simp: assign_uint_def simp del: of_int_uint)
  qed
qed

lemma fits_uint:
  assumes "kind_range k = Some (0, 2 ^ bits - 1)"
  shows "fits k v \<longleftrightarrow> (\<exists>n. num_value v = Some (of_int n) \<and> 0 \<le> n \<and> n < 2 ^ bits)"
  using assms by (auto simp: fits_def)

lemma same_kind_fits:
  "leafKindOf v = Some k \<Longrightarrow> goval_ok v \<Longrightarrow> kind_range k \<noteq> None \<Longrightarrow> typed_leaf k v \<and> fits k v"
  by (cases v) (auto simp: fits_def uint_le_max[simplified] simp del: of_int_uint)

lemma coerce_uint:
  assumes k: "kind_range k = Some (0, 2 ^ bits - 1)" "bits \<le> 64"
    and mk: "\<And>x. unat x < 2 ^ bits \<Longrightarrow> typed_leaf k (mk x) \<and> num_value (mk x) = Some (of_int (uint x))"
    and v: "goval_ok v" "v \<noteq> GFloat (Fin (2 ^ 64))" "v \<noteq> GNil"
    and c: "coerce oor v (TLeaf k) = assign_uint oor bits mk v"
  shows "case coerce oor v (TLeaf k) of
           Inr w \<Rightarrow> fits k v \<and> typed_leaf k w \<and> num_value w = num_value v
         | Inl e \<Rightarrow> \<not> fits k v"
proof -
  have "0 \<le> uint x \<and> uint x < 2 ^ bits" if "unat x < 2 ^ bits" for x :: u64
    using that by (simp add: uint_nat del: of_nat_unat)
  with assign_uint_exact[OF v(1,2) k(2), where oor = oor and mk = mk] mk show ?thesis
    unfolding c fits_uint[OF k(1)] by (fastforce split: sum.splits simp del: of_int_uint)
qed

lemma coerce_assign: "coerce oor v (TLeaf k) = assignLeaf oor (TLeaf k) v"
  by (cases "assignLeaf oor (TLeaf k) v") (simp_all add: coerce_def leafValue_def)

text \<open>C39: a conversion to an integer leaf is exact.  It succeeds exactly when the incoming value is a
  number the leaf's type can hold, whatever Go type it arrives in, and then the stored value has the
  leaf's type and the same number; nothing is truncated or wrapped.  (The two powers of two just above
  the 64-bit ranges are excluded: the range tests let them through.)\<close>

theorem coerce_exact:
  assumes "goval_ok v" "kind_range k \<noteq> None" "v \<noteq> GFloat (Fin (if k = kindInt then 2 ^ 63 else 2 ^ 64))"
  shows "case coerce oor v (TLeaf k) of
           Inr w \<Rightarrow> fits k v \<and> typed_leaf k w \<and> num_value w = num_value v
         | Inl e \<Rightarrow> \<not> fits k v"
proof (cases "leafKindOf v = Some k")
  case True
  then have "v \<noteq> GNil" by auto
  with True same_kind_fits[OF True assms(1,2)] show ?thesis by (simp add: coerce_def assignLeaf_def leafValue_def)
next
  case False
  show ?thesis
  proof (cases "v = GNil")
    case True
    then show ?thesis by (simp add: coerce_assign assignLeaf_def fits_def)
  next
    case nn: False
    note uint_case = coerce_uint[OF _ _ _ assms(1) _ nn]
    show ?thesis
    proof (cases k)
      case kindInt
      with False assms toInt64_num[of oor v] toInt64_total[of v _ oor] show ?thesis
        by (auto simp: coerce_assign assignLeaf_def fits_def split: option.splits)
    next
      case kindUint8
      show ?thesis unfolding kindUint8
        by (rule uint_case[of _ 8 "\<lambda>x. GUint8 (ucast x)"])
          (use False assms nn kindUint8 in \<open>auto simp: coerce_assign assignLeaf_def uint_kind_mk simp del: of_int_uint\<close>)
    next
      case kindUint16
      show ?thesis unfolding kindUint16
        by (rule uint_case[of _ 16 "\<lambda>x. GUint16 (ucast x)"])
          (use False assms nn kindUint16 in \<open>auto simp: coerce_assign assignLeaf_def uint_kind_mk simp del: of_int_uint\<close>)
    next
      case kindUint32
      show ?thesis unfolding kindUint32
        by (rule uint_case[of _ 32 "\<lambda>x. GUint32 (ucast x)"])
          (use False assms nn kindUint32 in \<open>auto simp: coerce_assign assignLeaf_def uint_kind_mk simp del: of_int_uint\<close>)
    next
      case kindUint64
      show ?thesis unfolding kindUint64
        by (rule uint_case[of _ 64 GUint64])
          (use False assms nn kindUint64 in \<open>auto simp: coerce_assign assignLeaf_def simp del: of_int_uint\<close>)
    qed (use assms in auto)
  qed
qed

theorem coerce_exact_witness:
  "case coerce 0 (GFloat (Fin 300)) (TLeaf kindUint16) of
     Inr w \<Rightarrow> fits kindUint16 (GFloat (Fin 300)) \<and> typed_leaf kindUint16 w \<and> num_value w = Some 300
   | Inl e \<Rightarrow> \<not> fits kindUint16 (GFloat (Fin 300))"
  using coerce_exact[of "GFloat (Fin 300)" kindUint16 0] by (simp split: sum.splits)

text \<open>The range test of the conversion admits \<open>2^64\<close>, which no unsigned type holds: its comparison
  constant \<open>math.MaxUint64\<close> rounds up to \<open>2^64\<close> as a \<open>float64\<close>.  The converted bits are then whatever the
  platform produces, and when those happen to fit the leaf a wrong value is stored.\<close>

theorem coerce_boundary:
  "coerce oor (GFloat (Fin (2 ^ 64))) (TLeaf kindUint32) =
     (if unat oor < 2 ^ 32 then Inr (GUint32 (ucast oor)) else Inl (ErrBadValue ''overflows''))"
  by (simp add: coerce_assign assignLeaf_def assign_uint_def float_to_uint64_def not_less)

section \<open>State leaves\<close>

lemma Router_Set_keeps_state:
  assumes "Router_Set ctx now ds path value r = (x, r')" "IsState r q"
  shows "map_of (ds_of d (r_store r')) q = map_of (ds_of d (r_store r)) q"
proof -
  from Router_Set_store[OF assms(1)] show ?thesis
  proof (elim disjE conjE exE)
    fix res assume c: "Convert r path value = Inr res"
      and r': "r' = r\<lparr>r_store := snd (Set_leaf ctx now ds path (rs_Value res) (r_store r))\<rparr>"
    have "q \<noteq> path" using Convert_not_state[OF c] assms(2) by auto
    then show ?thesis
      using Set_leaf_fail[of ctx now ds path "rs_Value res" "r_store r"]
        Set_leaf_ds[of ctx now ds path "rs_Value res" "r_store r" d]
      by (cases "fst (Set_leaf ctx now ds path (rs_Value res) (r_store r)) = None")
        (auto simp: r' map_of_update)
  qed simp
qed

lemma Router_Apply_store:
  assumes "Router_Apply ctx now ds values dels r = (err, r')"
  shows "(r' = r \<and> err \<noteq> None) \<or>
    (\<exists>cs. ctx = None \<and> convert_all r values [] = Inr cs \<and>
       r' = r\<lparr>r_store := snd (Apply_batch ctx now ds cs dels (r_store r))\<rparr> \<and>
       (err = None \<longleftrightarrow> fst (Apply_batch ctx now ds cs dels (r_store r)) = None))"
  using assms by (auto simp: Router_Apply_def split: option.splits sum.splits prod.splits)

lemma Router_Apply_fail:
  assumes "Router_Apply ctx now ds values dels r = (Some e, r')"
  shows "r' = r"
  using Router_Apply_store[OF assms] Apply_batch_fail[of ctx now ds _ dels "r_store r"] by auto

lemma Router_Apply_ds:
  assumes "Router_Apply ctx now ds values dels r = (None, r')"
  obtains cs where "convert_all r values [] = Inr cs"
    "ds_of d (r_store r') = (if d \<in> reached ds
      then foldl (\<lambda>m p. AList.delete p m) (foldl (\<lambda>m (p, v). AList.update p v m) (ds_of d (r_store r)) cs) dels
      else ds_of d (r_store r))"
  using Router_Apply_store[OF assms] Apply_batch_ds[of ctx now ds _ dels "r_store r" d] by force

lemma Router_Apply_keeps_state:
  assumes "Router_Apply ctx now ds values dels r = (err, r')" "IsState r q" "q \<notin> set dels"
  shows "map_of (ds_of d (r_store r')) q = map_of (ds_of d (r_store r)) q"
proof (cases err)
  case None
  obtain cs where cs: "convert_all r values [] = Inr cs"
    "ds_of d (r_store r') = (if d \<in> reached ds
      then foldl (\<lambda>m p. AList.delete p m) (foldl (\<lambda>m (p, v). AList.update p v m) (ds_of d (r_store r)) cs) dels
      else ds_of d (r_store r))"
    using Router_Apply_ds assms(1) None by blast
  have "q \<notin> gm_keys cs" using convert_all_keys[OF cs(1)] assms(2) by blast
  then have "map_of (rev cs) q = None" by (simp add: map_of_eq_None_iff image_iff)
  then show ?thesis using cs(2) assms(3) by (simp add: map_of_foldl_delete map_of_foldl_update)
next
  case (Some e)
  then show ?thesis using Router_Apply_fail assms(1) by blast
qed

section \<open>The cached object index\<close>

text \<open>The operations that reach a running router: its own, the commits, rollbacks, restores and loads
  the management planes make on its store, and reads of the object index.\<close>

datatype router_call =
    RSet datastore string goval
  | RSetState string goval
  | RDelete datastore string
  | RDeleteState string
  | RApply datastore vals "string list"
  | RStore store_call
  | RBindings datastore

fun router_step :: "router \<Rightarrow> store_env \<times> router_call \<Rightarrow> router" where
  "router_step r (e, RSet ds p v) = snd (Router_Set (env_ctx e) (env_now e) ds p v r)"
| "router_step r (e, RSetState p v) = snd (SetState (env_ctx e) (env_now e) p v r)"
| "router_step r (e, RDelete ds p) = snd (Router_Delete (env_ctx e) (env_now e) ds p r)"
| "router_step r (e, RDeleteState p) = snd (DeleteState (env_ctx e) (env_now e) p r)"
| "router_step r (e, RApply ds vs dels) = snd (Router_Apply (env_ctx e) (env_now e) ds vs dels r)"
| "router_step r (e, RStore c) = r\<lparr>r_store := store_step (r_store r) (e, c)\<rparr>"
| "router_step r (e, RBindings ds) = snd (Bindings (env_ctx e) ds r)"

text \<open>The index without the cache: the specification of \<open>Bindings\<close>.\<close>

definition Bindings_spec :: "string option \<Rightarrow> datastore \<Rightarrow> router \<Rightarrow> rt_error + binding list" where
  "Bindings_spec ctx ds r =
     (case ctx of Some e \<Rightarrow> Inl (CErr e)
      | None \<Rightarrow>
          (case Values_of ctx (r_store r) ds of
             Inl e \<Rightarrow> Inl (SErr e)
           | Inr values \<Rightarrow> fresh_bindings r values))"

lemma store_call_step:
  "snd (Set_leaf ctx now ds p v m) = store_step m (\<lparr>env_ctx = ctx, env_now = now, env_faults = f\<rparr>, CSet ds p v)"
  "snd (Delete_leaf ctx now ds p m) = store_step m (\<lparr>env_ctx = ctx, env_now = now, env_faults = f\<rparr>, CDelete ds p)"
  "snd (Apply_batch ctx now ds vs dels m) = store_step m (\<lparr>env_ctx = ctx, env_now = now, env_faults = f\<rparr>, CApply ds vs dels)"
  by simp_all

text \<open>A step other than a read of the index is at most one store call.\<close>

definition one_store_call :: "router \<Rightarrow> router \<Rightarrow> bool" where
  "one_store_call r r' \<longleftrightarrow> (\<exists>m. r' = r\<lparr>r_store := m\<rparr> \<and> (\<forall>ds. ticked ds (r_store r) m))"

lemma one_store_call_refl: "one_store_call r r"
  unfolding one_store_call_def by (rule exI[of _ "r_store r"]) simp

lemma one_store_call_ops:
  "one_store_call r (r\<lparr>r_store := snd (Set_leaf ctx now d p v (r_store r))\<rparr>)"
  "one_store_call r (r\<lparr>r_store := snd (Delete_leaf ctx now d p (r_store r))\<rparr>)"
  "one_store_call r (r\<lparr>r_store := snd (Apply_batch ctx now d vs dels (r_store r))\<rparr>)"
  "one_store_call r (r\<lparr>r_store := store_step (r_store r) (e, c)\<rparr>)"
  unfolding one_store_call_def store_call_step[where f = no_faults] using ticked_step by blast+

lemma snd_case_err:
  "snd (case x of (Some e, m) \<Rightarrow> (f e, g m) | (None, m) \<Rightarrow> (y, g m)) = g (snd x)"
  by (simp split: prod.splits option.splits)

lemma one_store_call_step:
  assumes "\<forall>ds. c \<noteq> RBindings ds"
  shows "one_store_call r (router_step r (e, c))"
proof (cases c)
  case (RSet d p v)
  then show ?thesis using one_store_call_refl one_store_call_ops(1)
    by (simp add: Router_Set_def snd_case_err split: option.split sum.split)
next
  case (RSetState p v)
  then show ?thesis using one_store_call_refl one_store_call_ops(1)
    by (simp add: SetState_def snd_case_err split: option.split sum.split)
next
  case (RDelete d p)
  then show ?thesis using one_store_call_refl one_store_call_ops(2)
    by (simp add: Router_Delete_def snd_case_err split: option.split sum.split)
next
  case (RDeleteState p)
  have "snd (case x of (Some (ErrNotFound _), m) \<Rightarrow> (None, g m) | (Some e, m) \<Rightarrow> (Some (SErr e), g m) | (None, m) \<Rightarrow> (None, g m))
      = g (snd x)" for x :: "store_error option \<times> memory" and g :: "memory \<Rightarrow> router"
    by (simp split: prod.splits option.splits store_error.splits)
  with RDeleteState show ?thesis using one_store_call_refl one_store_call_ops(2)
    by (simp add: DeleteState_def split: option.split sum.split)
next
  case (RApply d vs dels)
  then show ?thesis using one_store_call_refl one_store_call_ops(3)
    by (simp add: Router_Apply_def case_prod_unfold split: option.split sum.split)
next
  case (RStore s)
  then show ?thesis using one_store_call_ops(4) by simp
qed (use assms in auto)

lemma fresh_bindings_indep [simp]:
  "fresh_bindings (r\<lparr>r_store := m\<rparr>) = fresh_bindings r"
  "fresh_bindings (r\<lparr>r_bindCache := c\<rparr>) = fresh_bindings r"
  by (rule ext, simp add: fresh_bindings_def)+

lemma cache_indep [simp]:
  "resolve_leaf (r\<lparr>r_bindCache := c\<rparr>) p = resolve_leaf r p"
  "mk_result (r\<lparr>r_bindCache := c\<rparr>) p v w = mk_result r p v w"
  "decode_value (r\<lparr>r_bindCache := c\<rparr>) p v = decode_value r p v"
  by (simp_all add: resolve_leaf_def mk_result_def decode_value_def)

lemma convert_cache [simp]:
  "convert (r\<lparr>r_bindCache := c\<rparr>) p v a = convert r p v a"
  "Convert (r\<lparr>r_bindCache := c\<rparr>) p v = Convert r p v"
  by (simp_all add: convert_def Convert_def cong: if_cong)

lemma convert_all_cache [simp]: "convert_all (r\<lparr>r_bindCache := c\<rparr>) vs acc = convert_all r vs acc"
  by (induction vs arbitrary: acc) (auto split: sum.splits)

lemma router_step_cache:
  "\<forall>ds. c \<noteq> RBindings ds \<Longrightarrow>
   router_step (r\<lparr>r_bindCache := b\<rparr>) (e, c) = (router_step r (e, c))\<lparr>r_bindCache := b\<rparr>"
  by (cases c) (auto simp: Router_Set_def SetState_def Router_Delete_def DeleteState_def Router_Apply_def
      split: option.splits sum.splits prod.splits store_error.splits)

text \<open>What the cache promises after \<open>n\<close> steps: the counter has advanced at most \<open>n\<close> times since the entry
  was computed, and if it has not advanced the entry is the current index.\<close>

definition cache_ok :: "nat \<Rightarrow> router \<Rightarrow> bool" where
  "cache_ok n r \<longleftrightarrow>
     (let c = r_bindCache r; ds = bc_ds c
      in (\<exists>x. ds = OtherDS x) \<or>
         (\<exists>t \<le> n. gen (r_store r) ds = bc_generation c + of_nat t \<and>
            (t = 0 \<longrightarrow> fresh_bindings r (ds_of ds (r_store r)) = Inr (bc_bindings c))))"

lemma cache_ok_store:
  assumes "cache_ok n r" "one_store_call r r'"
  shows "cache_ok (Suc n) r'"
proof -
  obtain m where m: "r' = r\<lparr>r_store := m\<rparr>" "\<And>ds. ticked ds (r_store r) m"
    using assms(2) by (auto simp: one_store_call_def)
  let ?c = "r_bindCache r"
  show ?thesis
  proof (cases "\<exists>x. bc_ds ?c = OtherDS x")
    case False
    then obtain t where t: "t \<le> n" "gen (r_store r) (bc_ds ?c) = bc_generation ?c + of_nat t"
      "t = 0 \<longrightarrow> fresh_bindings r (ds_of (bc_ds ?c) (r_store r)) = Inr (bc_bindings ?c)"
      using assms(1) by (auto simp: cache_ok_def Let_def)
    from m(2)[of "bc_ds ?c"] show ?thesis unfolding ticked_def
    proof
      assume "gen m (bc_ds ?c) = gen (r_store r) (bc_ds ?c) \<and> ds_of (bc_ds ?c) m = ds_of (bc_ds ?c) (r_store r)"
      with t show ?thesis unfolding cache_ok_def m(1) Let_def by (intro disjI2 exI[of _ t]) simp
    next
      assume "gen m (bc_ds ?c) = gen (r_store r) (bc_ds ?c) + 1"
      with t show ?thesis unfolding cache_ok_def m(1) Let_def
        by (intro disjI2 exI[of _ "Suc t"]) (simp add: add.assoc)
    qed
  qed (simp add: cache_ok_def m(1))
qed

lemma cache_hit:
  assumes "cache_ok n r" "n < 2 ^ 64" "bc_ds (r_bindCache r) = ds"
    "Generation None (r_store r) ds = Inr (bc_generation (r_bindCache r))"
  shows "fresh_bindings r (ds_of ds (r_store r)) = Inr (bc_bindings (r_bindCache r))"
proof -
  have ds: "\<not> (\<exists>x. ds = OtherDS x)" using assms(4) by (auto simp: Generation_def)
  then have "gen (r_store r) ds = bc_generation (r_bindCache r)"
    using assms(4) by (cases ds) (auto simp: Generation_def)
  moreover obtain t where "t \<le> n" "gen (r_store r) ds = bc_generation (r_bindCache r) + of_nat t"
      "t = 0 \<longrightarrow> fresh_bindings r (ds_of ds (r_store r)) = Inr (bc_bindings (r_bindCache r))"
    using assms(1,3) ds by (auto simp: cache_ok_def Let_def)
  moreover from this assms(2) have "(of_nat t :: u64) = 0 \<Longrightarrow> t = 0"
    by (auto simp: word_of_nat_eq_0_iff dest: dvd_imp_le)
  ultimately show ?thesis by simp
qed

lemma Bindings_correct:
  assumes "cache_ok n r" "n < 2 ^ 64"
  shows "fst (Bindings ctx ds r) = Bindings_spec ctx ds r"
    and "\<exists>b. snd (Bindings ctx ds r) = r\<lparr>r_bindCache := b\<rparr>"
    and "cache_ok (Suc n) (snd (Bindings ctx ds r))"
proof -
  have vals: "Values_of None (r_store r) ds = Inr v \<Longrightarrow> v = ds_of ds (r_store r) \<and> (\<forall>x. ds \<noteq> OtherDS x)" for v
    by (simp add: Values_of_def datastore_vals_Inr)
  have gn: "Generation None (r_store r) ds = Inr (gen (r_store r) ds) \<longleftrightarrow> (\<forall>x. ds \<noteq> OtherDS x)"
    by (cases ds) (auto simp: Generation_def)
  note hit = cache_hit[OF assms, of ds]
  have keep: "cache_ok (Suc n) r" using assms(1) unfolding cache_ok_def Let_def by (meson le_SucI)
  have other: "Generation None (r_store r) ds = Inl e \<longleftrightarrow> Values_of None (r_store r) ds = Inl e" for e
    by (cases ds) (auto simp: Generation_def Values_of_def)
  show "fst (Bindings ctx ds r) = Bindings_spec ctx ds r"
  proof (cases ctx)
    case None
    show ?thesis
    proof (cases "\<exists>x. ds = OtherDS x")
      case False
      then have "Generation None (r_store r) ds = Inr (gen (r_store r) ds)"
        "Values_of None (r_store r) ds = Inr (ds_of ds (r_store r))"
        using gn by (auto simp: Values_of_def datastore_vals_Inr)
      then show ?thesis using None hit by (auto simp: Bindings_def Bindings_spec_def split: sum.splits)
    qed (use None in \<open>auto simp: Bindings_def Bindings_spec_def Generation_def Values_of_def\<close>)
  qed (simp add: Bindings_def Bindings_spec_def)
  have self: "\<exists>b. r = r\<lparr>r_bindCache := b\<rparr>" by (rule exI[of _ "r_bindCache r"]) simp
  then show "\<exists>b. snd (Bindings ctx ds r) = r\<lparr>r_bindCache := b\<rparr>"
    by (auto simp: Bindings_def split: option.split sum.split)
  show "cache_ok (Suc n) (snd (Bindings ctx ds r))"
    using keep vals by (auto simp: Bindings_def Generation_def cache_ok_def Let_def bind_res_eq_Inr
        datastore_vals_Inr split: option.splits sum.splits)
qed

text \<open>The same machine without a cache: reading the index changes nothing.\<close>

definition uncached :: "router \<Rightarrow> router" where
  "uncached r = r\<lparr>r_bindCache := \<lparr>bc_ds = OtherDS [], bc_generation = 0, bc_bindings = []\<rparr>\<rparr>"

definition spec_step :: "router \<Rightarrow> store_env \<times> router_call \<Rightarrow> router" where
  "spec_step r l = (case l of (e, RBindings ds) \<Rightarrow> r | _ \<Rightarrow> router_step r l)"

lemma uncached_step:
  assumes "cache_ok n r" "n < 2 ^ 64"
  shows "uncached (router_step r (e, c)) = spec_step (uncached r) (e, c) \<and> cache_ok (Suc n) (router_step r (e, c))"
proof (cases "\<exists>ds. c = RBindings ds")
  case True
  then obtain ds where c: "c = RBindings ds" by blast
  obtain b where "snd (Bindings (env_ctx e) ds r) = r\<lparr>r_bindCache := b\<rparr>"
    using Bindings_correct(2)[OF assms] by blast
  then show ?thesis using c Bindings_correct(3)[OF assms, of "env_ctx e" ds] by (simp add: uncached_def spec_step_def)
next
  case False
  then have "router_step (uncached r) (e, c) = uncached (router_step r (e, c))"
    unfolding uncached_def by (simp add: router_step_cache)
  moreover have "spec_step (uncached r) (e, c) = router_step (uncached r) (e, c)"
    using False by (simp add: spec_step_def split: router_call.split)
  ultimately show ?thesis using cache_ok_store[OF assms(1) one_store_call_step] False by auto
qed

lemma uncached_run:
  assumes "cache_ok n r" "n + length cs < 2 ^ 64"
  shows "uncached (foldl router_step r cs) = foldl spec_step (uncached r) cs \<and>
    cache_ok (n + length cs) (foldl router_step r cs)"
  using assms
proof (induction cs arbitrary: n r)
  case (Cons c cs)
  obtain e k where "c = (e, k)" by (cases c)
  then have "uncached (router_step r c) = spec_step (uncached r) c" "cache_ok (Suc n) (router_step r c)"
    using uncached_step[of n r e k] Cons.prems by auto
  then show ?case using Cons.IH[of "Suc n" "router_step r c"] Cons.prems by simp
qed simp

text \<open>C26: the cached object index refines the uncached one.  Over any sequence of fewer than \<open>2^64\<close>
  router and store operations and index reads, a router that starts with a cold cache goes through the same states
  as the router without it, and every index it serves is the one computed from the datastore's current
  leaves.\<close>

theorem Bindings_refines:
  assumes "uncached r0 = r0" "length cs < 2 ^ 64"
  shows "uncached (foldl router_step r0 cs) = foldl spec_step r0 cs \<and>
    fst (Bindings ctx ds (foldl router_step r0 cs)) = Bindings_spec ctx ds (foldl spec_step r0 cs)"
proof -
  have "bc_ds (r_bindCache (uncached r0)) = OtherDS []" by (simp add: uncached_def)
  then have r0: "cache_ok 0 r0" "uncached r0 = r0" using assms(1) by (simp_all add: cache_ok_def)
  let ?r = "foldl router_step r0 cs"
  have run: "uncached ?r = foldl spec_step r0 cs" "cache_ok (length cs) ?r"
    using uncached_run[OF r0(1), of cs] assms(2) r0(2) by auto
  have "Bindings_spec ctx ds (uncached ?r) = Bindings_spec ctx ds ?r"
    unfolding uncached_def by (cases ctx) (simp_all add: Bindings_spec_def cong: sum.case_cong)
  with run Bindings_correct(1)[OF run(2) assms(2)] show ?thesis by simp
qed

lemma NewRouter_cold: "NewRouter oor tmpl st = Inr r \<Longrightarrow> uncached r = r"
  by (auto simp: NewRouter_def bind_res_eq_Inr uncached_def)

definition sample_router :: router where
  "sample_router =
     \<lparr>r_root = DefaultDevice, r_store = sample_store, r_schema = schema_container [], r_byOID = [], r_byPath = [],
      r_bindCache = \<lparr>bc_ds = OtherDS [], bc_generation = 0, bc_bindings = []\<rparr>, r_oor = 0\<rparr>"

definition sample_calls :: "(store_env \<times> router_call) list" where
  "sample_calls =
     (let e = \<lparr>env_ctx = None, env_now = 1, env_faults = no_faults\<rparr>
      in [(e, RBindings Running), (e, RSet Running ''system-info/name'' (GString ''a'')), (e, RStore CCommit)])"

theorem Bindings_refines_witness:
  "uncached (foldl router_step sample_router sample_calls) = foldl spec_step sample_router sample_calls \<and>
   fst (Bindings None Running (foldl router_step sample_router sample_calls)) =
     Bindings_spec None Running (foldl spec_step sample_router sample_calls)"
  by (rule Bindings_refines) (simp_all add: sample_router_def uncached_def sample_calls_def Let_def)

end
