(* ===== verification/Snmp.thy ===== *)
theory Snmp
  imports Router Sync
begin

text \<open>
  The SNMP agent and trap sender (\<open>src/internal/snmp\<close>): the sorted object index with its binary
  search, the translation between router values and ASN.1 variables, the Get, GetNext, GetBulk and Set
  operations on a router, and the traps the events of the bus turn into.  The BER codec is gosnmp's;
  a request is a decoded packet, and the codec is an argument of the datagram handler.
\<close>

section \<open>Variables\<close>

datatype asn1 = ASN_Integer | ASN_OctetString | ASN_ObjectIdentifier | ASN_Gauge32 | ASN_Counter32
  | ASN_Counter64 | ASN_TimeTicks | ASN_OpaqueDouble | ASN_Null | ASN_NoSuchObject | ASN_EndOfMibView

record pdu =
  pdu_Name :: string
  pdu_Type :: asn1
  pdu_Value :: goval

fun asn1Type :: "SNMPType \<Rightarrow> asn1" where
  "asn1Type TypeInteger = ASN_Integer"
| "asn1Type TypeOctetString = ASN_OctetString"
| "asn1Type TypeObjectID = ASN_ObjectIdentifier"
| "asn1Type TypeGauge32 = ASN_Gauge32"
| "asn1Type TypeCounter32 = ASN_Counter32"
| "asn1Type TypeCounter64 = ASN_Counter64"
| "asn1Type TypeTimeTicks = ASN_TimeTicks"
| "asn1Type TypeOpaqueDouble = ASN_OpaqueDouble"

fun asInt :: "goval \<Rightarrow> int option" where
  "asInt (GInt n) = Some n"
| "asInt (GInt64 n) = Some n"
| "asInt (GUint8 n) = Some (uint n)"
| "asInt (GUint16 n) = Some (uint n)"
| "asInt (GUint32 n) = Some (uint n)"
| "asInt (GUint64 n) = Some (sint n)"
| "asInt _ = None"

fun asUint32 :: "goval \<Rightarrow> u32 option" where
  "asUint32 (GUint8 n) = Some (ucast n)"
| "asUint32 (GUint16 n) = Some (ucast n)"
| "asUint32 (GUint32 n) = Some n"
| "asUint32 (GUint64 n) = Some (ucast n)"
| "asUint32 (GInt n) = Some (of_int n)"
| "asUint32 _ = None"

fun asUint64 :: "goval \<Rightarrow> u64 option" where
  "asUint64 (GUint8 n) = Some (ucast n)"
| "asUint64 (GUint16 n) = Some (ucast n)"
| "asUint64 (GUint32 n) = Some (ucast n)"
| "asUint64 (GUint64 n) = Some n"
| "asUint64 (GInt n) = Some (of_int n)"
| "asUint64 (GInt64 n) = Some (of_int n)"
| "asUint64 _ = None"

fun asFloat64 :: "goval \<Rightarrow> float64 option" where
  "asFloat64 (GFloat x) = Some x"
| "asFloat64 (GInt n) = Some (f64_round (of_int n))"
| "asFloat64 (GUint32 n) = Some (f64_round (of_int (uint n)))"
| "asFloat64 _ = None"

fun asString :: "goval \<Rightarrow> string option" where
  "asString (GString s) = Some s"
| "asString (GBytes s) = Some s"
| "asString _ = None"

text \<open>The Go value the marshaller expects for the declared type, if the binding's value converts.\<close>

definition pdu_value :: "SNMPType \<Rightarrow> goval \<Rightarrow> goval option" where
  "pdu_value t v =
     (case t of
        TypeInteger \<Rightarrow> map_option GInt (asInt v)
      | TypeGauge32 \<Rightarrow> map_option GUint32 (asUint32 v)
      | TypeCounter32 \<Rightarrow> map_option GUint32 (asUint32 v)
      | TypeTimeTicks \<Rightarrow> map_option GUint32 (asUint32 v)
      | TypeCounter64 \<Rightarrow> map_option GUint64 (asUint64 v)
      | TypeOctetString \<Rightarrow> (case v of GBytes s \<Rightarrow> Some (GBytes s) | _ \<Rightarrow> map_option GString (asString v))
      | TypeObjectID \<Rightarrow> (case v of GString s \<Rightarrow> Some (GString s) | _ \<Rightarrow> None)
      | TypeOpaqueDouble \<Rightarrow> map_option GFloat (asFloat64 v))"

definition toPDU :: "binding \<Rightarrow> pdu" where
  "toPDU b =
     (case pdu_value (bd_Type b) (bd_Value b) of
        Some v \<Rightarrow> \<lparr>pdu_Name = bd_OID b, pdu_Type = asn1Type (bd_Type b), pdu_Value = v\<rparr>
      | None \<Rightarrow> \<lparr>pdu_Name = bd_OID b, pdu_Type = ASN_Null, pdu_Value = GNil\<rparr>)"

definition trimOID :: "string \<Rightarrow> string" where
  "trimOID oid = trim_prefix oid ''.''"

definition exception :: "string \<Rightarrow> asn1 \<Rightarrow> pdu" where
  "exception oid t = \<lparr>pdu_Name = trimOID oid, pdu_Type = t, pdu_Value = GNil\<rparr>"

fun fromPDU :: "goval \<Rightarrow> goval option" where
  "fromPDU (GBool b) = Some (GBool b)"
| "fromPDU (GInt n) = Some (GInt n)"
| "fromPDU (GInt64 n) = Some (GInt64 n)"
| "fromPDU (GUint n) = Some (GUint n)"
| "fromPDU (GUint32 n) = Some (GUint32 n)"
| "fromPDU (GUint64 n) = Some (GUint64 n)"
| "fromPDU (GFloat x) = Some (GFloat x)"
| "fromPDU (GString s) = Some (GString s)"
| "fromPDU (GBytes s) = Some (GString s)"
| "fromPDU _ = None"

section \<open>The object index\<close>

record pduIndex =
  ix_bindings :: "binding list"
  ix_byOID :: "(string, binding) gomap"

definition newPDUIndex :: "binding list \<Rightarrow> pduIndex" where
  "newPDUIndex bs =
     (let s = sort_by (\<lambda>a b. CompareOID (bd_OID a) (bd_OID b) < 0) bs
      in \<lparr>ix_bindings = s, ix_byOID = gm_of_list (map (\<lambda>b. (bd_OID b, b)) s)\<rparr>)"

definition exact :: "pduIndex \<Rightarrow> string \<Rightarrow> binding option" where
  "exact x oid = map_of (ix_byOID x) (trimOID oid)"

text \<open>\<open>sort.Search\<close>: bisection for the first index where a monotone predicate holds.\<close>

function search_loop :: "(nat \<Rightarrow> bool) \<Rightarrow> nat \<Rightarrow> nat \<Rightarrow> nat" where
  "search_loop f i j =
     (if i < j then let h = (i + j) div 2 in if \<not> f h then search_loop f (h + 1) j else search_loop f i h
      else i)"
  by pat_completeness auto
termination by (relation "measure (\<lambda>(f, i, j). j - i)") auto

declare search_loop.simps [simp del]

definition next_binding :: "pduIndex \<Rightarrow> string \<Rightarrow> binding option" where
  "next_binding x oid =
     (let o' = trimOID oid; n = length (ix_bindings x);
          i = search_loop (\<lambda>i. CompareOID (bd_OID (ix_bindings x ! i)) o' > 0) 0 n
      in if i = n then None else Some (ix_bindings x ! i))"

section \<open>Requests\<close>

datatype snmp_status = NoError | GenErr | NoCreation | NotWritable | WrongType | WrongValue | InconsistentValue

datatype snmp_version = Version1 | Version2c | Version3

datatype pdu_type = GetRequest | GetNextRequest | GetBulkRequest | SetRequest | GetResponse | SNMPv2Trap | OtherPDU

record packet =
  pk_Version :: snmp_version
  pk_Community :: string
  pk_PDUType :: pdu_type
  pk_RequestID :: u32
  pk_Error :: snmp_status
  pk_ErrorIndex :: u8
  pk_NonRepeaters :: u8
  pk_MaxRepetitions :: u32
  pk_Variables :: "pdu list"

type_synonym answer = "pdu list \<times> snmp_status \<times> u8"

definition DefaultCommunity :: string where "DefaultCommunity = ''public''"
definition maxBulkRepetitions :: nat where "maxBulkRepetitions = 100"

definition agent_index :: "string option \<Rightarrow> router \<Rightarrow> (rt_error + pduIndex) \<times> router" where
  "agent_index ctx r =
     (case Bindings ctx Running r of (x, r1) \<Rightarrow> (bind_res x (\<lambda>bs. Inr (newPDUIndex bs)), r1))"

definition pdu_or :: "asn1 \<Rightarrow> string \<Rightarrow> binding option \<Rightarrow> pdu" where
  "pdu_or t oid found = (case found of None \<Rightarrow> exception oid t | Some b \<Rightarrow> toPDU b)"

definition get_exact :: "pduIndex \<Rightarrow> pdu list \<Rightarrow> pdu list" where
  "get_exact x vars = map (\<lambda>v. pdu_or ASN_NoSuchObject (pdu_Name v) (exact x (pdu_Name v))) vars"

definition get_successors :: "pduIndex \<Rightarrow> pdu list \<Rightarrow> pdu list" where
  "get_successors x vars = map (\<lambda>v. pdu_or ASN_EndOfMibView (pdu_Name v) (next_binding x (pdu_Name v))) vars"

definition snmp_get :: "string option \<Rightarrow> packet \<Rightarrow> router \<Rightarrow> answer \<times> router" where
  "snmp_get ctx q r =
     (case agent_index ctx r of
        (Inl _, r1) \<Rightarrow> (([], GenErr, 0), r1)
      | (Inr x, r1) \<Rightarrow> ((get_exact x (pk_Variables q), NoError, 0), r1))"

definition snmp_getNext :: "string option \<Rightarrow> packet \<Rightarrow> router \<Rightarrow> answer \<times> router" where
  "snmp_getNext ctx q r =
     (case agent_index ctx r of
        (Inl _, r1) \<Rightarrow> (([], GenErr, 0), r1)
      | (Inr x, r1) \<Rightarrow> ((get_successors x (pk_Variables q), NoError, 0), r1))"

text \<open>One repetition over the repeaters: each cursor is a name and whether its walk has ended.\<close>

fun bulk_round :: "pduIndex \<Rightarrow> (string \<times> bool) list \<Rightarrow> pdu list \<times> (string \<times> bool) list \<times> bool" where
  "bulk_round x [] = ([], [], True)"
| "bulk_round x ((cur, fin) # cs) =
     (case bulk_round x cs of (ps, cs', allEnded) \<Rightarrow>
        if fin then (exception cur ASN_EndOfMibView # ps, (cur, True) # cs', allEnded)
        else case next_binding x cur of
               None \<Rightarrow> (exception cur ASN_EndOfMibView # ps, (cur, True) # cs', allEnded)
             | Some b \<Rightarrow> (toPDU b # ps, (bd_OID b, False) # cs', False))"

fun bulk_rounds :: "pduIndex \<Rightarrow> nat \<Rightarrow> (string \<times> bool) list \<Rightarrow> pdu list" where
  "bulk_rounds x 0 cs = []"
| "bulk_rounds x (Suc n) cs =
     (case bulk_round x cs of (ps, cs', allEnded) \<Rightarrow>
        ps @ (if allEnded then [] else bulk_rounds x n cs'))"

definition bulk_variables :: "pduIndex \<Rightarrow> packet \<Rightarrow> pdu list" where
  "bulk_variables x q =
     (let n = min (unat (pk_NonRepeaters q)) (length (pk_Variables q));
          reps = min (unat (pk_MaxRepetitions q)) maxBulkRepetitions
      in get_successors x (take n (pk_Variables q))
         @ bulk_rounds x reps (map (\<lambda>v. (pdu_Name v, False)) (drop n (pk_Variables q))))"

definition snmp_getBulk :: "string option \<Rightarrow> packet \<Rightarrow> router \<Rightarrow> answer \<times> router" where
  "snmp_getBulk ctx q r =
     (case agent_index ctx r of
        (Inl _, r1) \<Rightarrow> (([], GenErr, 0), r1)
      | (Inr x, r1) \<Rightarrow> ((bulk_variables x q, NoError, 0), r1))"

section \<open>Set\<close>

definition runningSnapshot :: "string option \<Rightarrow> router \<Rightarrow> rt_error + vals" where
  "runningSnapshot ctx r =
     bind_res (Router_Values ctx r Running) (\<lambda>rs. Inr (map (\<lambda>(p, res). (p, rs_Value res)) rs))"

definition convert_status :: "router_error \<Rightarrow> snmp_status" where
  "convert_status e =
     (case e of
        ErrReadOnly _ \<Rightarrow> NotWritable
      | ErrTypeMismatch _ \<Rightarrow> WrongType
      | ErrBadValue _ \<Rightarrow> WrongValue
      | ErrNotFound_r _ \<Rightarrow> NoCreation
      | _ \<Rightarrow> GenErr)"

text \<open>One variable of a SET: the status it is rejected with, or the path and the value to write.\<close>

definition set_variable :: "router \<Rightarrow> pduIndex \<Rightarrow> pdu \<Rightarrow> snmp_status + (string \<times> goval)" where
  "set_variable r x v =
     (case exact x (pdu_Name v) of
        None \<Rightarrow> Inl NoCreation
      | Some b \<Rightarrow>
          if \<not> bd_Writable b \<or> bd_Path b = [] then Inl NotWritable
          else (case fromPDU (pdu_Value v) of
                  None \<Rightarrow> Inl WrongType
                | Some value \<Rightarrow>
                    (case Convert r (bd_Path b) value of
                       Inl e \<Rightarrow> Inl (convert_status e)
                     | Inr res \<Rightarrow> Inr (rs_Path res, rs_Value res))))"

text \<open>The loop over the variables, which validates the proposal after each: the changes, or the status
  and the 1-based index of the first rejected variable.\<close>

fun set_loop ::
    "string option \<Rightarrow> router \<Rightarrow> pduIndex \<Rightarrow> nat \<Rightarrow> pdu list \<Rightarrow> vals \<Rightarrow> vals \<Rightarrow> (snmp_status \<times> u8) + vals" where
  "set_loop ctx r x i [] proposed changed = Inr changed"
| "set_loop ctx r x i (v # vs) proposed changed =
     (case set_variable r x v of
        Inl st \<Rightarrow> Inl (st, of_nat (i + 1))
      | Inr (p, y) \<Rightarrow>
          let proposed' = AList.update p y proposed
          in case Router_Validate r ctx proposed' of
               Some _ \<Rightarrow> Inl (InconsistentValue, of_nat (i + 1))
             | None \<Rightarrow> set_loop ctx r x (i + 1) vs proposed' (AList.update p y changed))"

definition applySet :: "string option \<Rightarrow> time \<Rightarrow> packet \<Rightarrow> router \<Rightarrow> answer \<times> router" where
  "applySet ctx t q r =
     (case runningSnapshot ctx r of
        Inl _ \<Rightarrow> (([], GenErr, 0), r)
      | Inr proposed \<Rightarrow>
          (case agent_index ctx r of
             (Inl _, r1) \<Rightarrow> (([], GenErr, 0), r1)
           | (Inr x, r1) \<Rightarrow>
               (case set_loop ctx r1 x 0 (pk_Variables q) proposed [] of
                  Inl (st, i) \<Rightarrow> (([], st, i), r1)
                | Inr changed \<Rightarrow>
                    (case Router_Apply ctx t Running changed [] r1 of
                       (Some _, r2) \<Rightarrow> (([], GenErr, 0), r2)
                     | (None, r2) \<Rightarrow>
                         (case agent_index ctx r2 of
                            (Inl _, r3) \<Rightarrow> (([], GenErr, 0), r3)
                          | (Inr x', r3) \<Rightarrow> ((get_exact x' (pk_Variables q), NoError, 0), r3))))))"

definition snmp_set :: "string option \<Rightarrow> time \<Rightarrow> packet \<Rightarrow> router \<Rightarrow> answer \<times> router" where
  "snmp_set ctx t q r =
     (case Transaction ctx (\<lambda>r. case applySet ctx t q r of (a, r1) \<Rightarrow> (Inr a, r1)) r of
        (Inl _, r1) \<Rightarrow> (([], GenErr, 0), r1)
      | (Inr a, r1) \<Rightarrow> (a, r1))"

section \<open>The datagram handler\<close>

fun opName :: "pdu_type \<Rightarrow> string" where
  "opName GetRequest = ''get''"
| "opName GetNextRequest = ''getnext''"
| "opName GetBulkRequest = ''getbulk''"
| "opName SetRequest = ''set''"
| "opName _ = ''other''"

record agent =
  ag_router :: router
  ag_community :: string
  ag_requests :: "string list"

text \<open>\<open>ag_requests\<close> collects the names passed to the \<open>OnRequest\<close> callback.\<close>

definition NewAgent :: "router \<Rightarrow> string \<Rightarrow> agent" where
  "NewAgent r community =
     \<lparr>ag_router = r, ag_community = (if community = [] then DefaultCommunity else community), ag_requests = []\<rparr>"

definition snmp_dispatch :: "string option \<Rightarrow> time \<Rightarrow> packet \<Rightarrow> router \<Rightarrow> (answer \<times> router) option" where
  "snmp_dispatch ctx t q r =
     (case pk_PDUType q of
        GetRequest \<Rightarrow> Some (snmp_get ctx q r)
      | GetNextRequest \<Rightarrow> Some (snmp_getNext ctx q r)
      | GetBulkRequest \<Rightarrow> Some (snmp_getBulk ctx q r)
      | SetRequest \<Rightarrow> Some (snmp_set ctx t q r)
      | _ \<Rightarrow> None)"

definition snmp_handle ::
    "(string \<Rightarrow> packet option) \<Rightarrow> (packet \<Rightarrow> string option) \<Rightarrow> string option \<Rightarrow> time \<Rightarrow> string \<Rightarrow> agent
     \<Rightarrow> string option \<times> agent" where
  "snmp_handle decode encode ctx t bytes a =
     (case decode bytes of
        None \<Rightarrow> (None, a)
      | Some q \<Rightarrow>
          if pk_Version q \<noteq> Version2c \<or> pk_Community q \<noteq> ag_community a then (None, a)
          else let a1 = a\<lparr>ag_requests := ag_requests a @ [opName (pk_PDUType q)]\<rparr>
               in (case snmp_dispatch ctx t q (ag_router a1) of
                     None \<Rightarrow> (None, a1)
                   | Some ((vars, st, i), r1) \<Rightarrow>
                       (encode \<lparr>pk_Version = Version2c, pk_Community = pk_Community q, pk_PDUType = GetResponse,
                          pk_RequestID = pk_RequestID q, pk_Error = st, pk_ErrorIndex = i, pk_NonRepeaters = 0,
                          pk_MaxRepetitions = 0, pk_Variables = vars\<rparr>,
                        a1\<lparr>ag_router := r1\<rparr>)))"

section \<open>Traps\<close>

definition TrapRadioLinkDown :: string where "TrapRadioLinkDown = EnterpriseOID @ ''.0.1''"
definition TrapRadioLinkUp :: string where "TrapRadioLinkUp = EnterpriseOID @ ''.0.2''"
definition TrapSyncHoldover :: string where "TrapSyncHoldover = EnterpriseOID @ ''.0.3''"
definition TrapSyncRestored :: string where "TrapSyncRestored = EnterpriseOID @ ''.0.4''"
definition TrapL2Storm :: string where "TrapL2Storm = EnterpriseOID @ ''.0.5''"
definition TrapConfigChanged :: string where "TrapConfigChanged = EnterpriseOID @ ''.0.6''"
definition sysUpTimeOID :: string where "sysUpTimeOID = ''1.3.6.1.2.1.1.3.0''"
definition snmpTrapOIDOID :: string where "snmpTrapOIDOID = ''1.3.6.1.6.3.1.1.4.1.0''"
definition trapIfDescrBase :: string where "trapIfDescrBase = ''1.3.6.1.2.1.2.2.1.2''"

text \<open>\<open>ts_oor\<close> is the implementation-defined result of converting a float outside the range of
  \<open>uint32\<close>; \<open>ts_listening\<close> says whether the sending socket is open.\<close>

record trapSender =
  ts_router :: "router option"
  ts_start :: time
  ts_community :: string
  ts_listening :: bool
  ts_requests :: u32
  ts_oor :: u32

definition NewTrapSender :: "router option \<Rightarrow> time \<Rightarrow> string \<Rightarrow> u32 \<Rightarrow> trapSender" where
  "NewTrapSender r t community oor =
     \<lparr>ts_router = r, ts_start = t, ts_community = (if community = [] then DefaultCommunity else community),
      ts_listening = False, ts_requests = 0, ts_oor = oor\<rparr>"

definition trapFor :: "event \<Rightarrow> string" where
  "trapFor e =
     (case ev_type e of
        TypeAlarmRaised \<Rightarrow>
          if ev_alarm e = AlarmRadioLinkDown then TrapRadioLinkDown
          else if ev_alarm e = AlarmL2Storm then TrapL2Storm
          else []
      | TypeAlarmCleared \<Rightarrow> if ev_alarm e = AlarmRadioLinkDown then TrapRadioLinkUp else []
      | TypeStateTransition \<Rightarrow>
          if ev_domain e \<noteq> DomainSync then []
          else if has_prefix (ev_to e) ''holdover'' then TrapSyncHoldover
          else if has_prefix (ev_from e) ''holdover'' \<and> ev_to e = ''locked'' then TrapSyncRestored
          else []
      | TypeConfigChanged \<Rightarrow> TrapConfigChanged)"

definition float_to_uint32 :: "u32 \<Rightarrow> float64 \<Rightarrow> u32" where
  "float_to_uint32 oor x =
     (case x of Fin r \<Rightarrow> if -1 < r \<and> r < 2 ^ 32 then of_int \<lfloor>max 0 r\<rfloor> else oor | _ \<Rightarrow> oor)"

definition uptimeTicks :: "time \<Rightarrow> trapSender \<Rightarrow> u32" where
  "uptimeTicks t s =
     (let elapsed = Seconds (time_sub t (ts_start s));
          elapsed = (if f64_lt elapsed (Fin 0) then Fin 0 else elapsed)
      in float_to_uint32 (ts_oor s) (f64_mul elapsed (Fin 100)))"

text \<open>A result has a type exactly when it has an OID.\<close>

definition trap_binding :: "string option \<Rightarrow> trapSender \<Rightarrow> string \<Rightarrow> binding option" where
  "trap_binding ctx s p =
     (case ts_router s of
        None \<Rightarrow> None
      | Some r \<Rightarrow>
          (case Router_Get ctx r Running p of
             Inl _ \<Rightarrow> None
           | Inr res \<Rightarrow>
               if rs_OID res = [] then None
               else map_option (\<lambda>ty. \<lparr>bd_OID = rs_OID res, bd_Path = rs_Path res, bd_Value = rs_Value res,
                      bd_Type = ty, bd_Writable = rs_Writable res\<rparr>) (rs_Type res)))"

definition interfaceIndex :: "string option \<Rightarrow> trapSender \<Rightarrow> string \<Rightarrow> nat" where
  "interfaceIndex ctx s link =
     (case ts_router s of
        None \<Rightarrow> 0
      | Some r \<Rightarrow>
          (case Router_Snapshot ctx r Running of
             Inl _ \<Rightarrow> 0
           | Inr d \<Rightarrow> interfaceIndexOf d link))"

definition pathVarbinds :: "string option \<Rightarrow> trapSender \<Rightarrow> string \<Rightarrow> pdu list" where
  "pathVarbinds ctx s p = (case trap_binding ctx s p of None \<Rightarrow> [] | Some b \<Rightarrow> [toPDU b])"

definition radioVarbinds :: "string option \<Rightarrow> trapSender \<Rightarrow> string \<Rightarrow> pdu list" where
  "radioVarbinds ctx s link =
     (if Option.is_none (ts_router s) \<or> link = [] then []
      else let base = ''interfaces/interface[name='' @ link @ '']/radio-link/'';
               i = interfaceIndex ctx s link
           in concat (map (\<lambda>suf. pathVarbinds ctx s (base @ suf)) [''rssi'', ''fade-margin''])
              @ (if 0 < i
                 then [\<lparr>pdu_Name = trapIfDescrBase @ ''.'' @ itoa i, pdu_Type = ASN_OctetString,
                        pdu_Value = GBytes link\<rparr>]
                 else []))"

definition varbinds :: "string option \<Rightarrow> time \<Rightarrow> trapSender \<Rightarrow> string \<Rightarrow> event \<Rightarrow> pdu list" where
  "varbinds ctx t s oid e =
     [\<lparr>pdu_Name = sysUpTimeOID, pdu_Type = ASN_TimeTicks, pdu_Value = GUint32 (uptimeTicks t s)\<rparr>,
      \<lparr>pdu_Name = snmpTrapOIDOID, pdu_Type = ASN_ObjectIdentifier, pdu_Value = GString oid\<rparr>]
     @ (if oid = TrapRadioLinkDown \<or> oid = TrapRadioLinkUp then radioVarbinds ctx s (ev_resource e)
        else if oid = TrapSyncHoldover \<or> oid = TrapSyncRestored then pathVarbinds ctx s ''ptp/clock/state''
        else [])"

text \<open>\<open>Send\<close>: the codec and the socket write are arguments; the result is the error, if any, and the
  datagram that left.\<close>

definition Send ::
    "(packet \<Rightarrow> string option) \<Rightarrow> (string \<Rightarrow> bool) \<Rightarrow> string option \<Rightarrow> time \<Rightarrow> event \<Rightarrow> trapSender
     \<Rightarrow> (string option \<times> packet option) \<times> trapSender" where
  "Send encode wire ctx t e s =
     (let oid = trapFor e in
      if oid = [] then ((None, None), s)
      else if \<not> ts_listening s then ((Some ''snmp: trap sender is not listening'', None), s)
      else let n = ts_requests s + 1; s1 = s\<lparr>ts_requests := n\<rparr>;
               q = \<lparr>pk_Version = Version2c, pk_Community = ts_community s, pk_PDUType = SNMPv2Trap,
                    pk_RequestID = n, pk_Error = NoError, pk_ErrorIndex = 0, pk_NonRepeaters = 0,
                    pk_MaxRepetitions = 0, pk_Variables = varbinds ctx t s1 oid e\<rparr>
           in (case encode q of
                 None \<Rightarrow> ((Some (''snmp: encode trap '' @ oid), None), s1)
               | Some bytes \<Rightarrow>
                   if wire bytes then ((None, Some q), s1)
                   else ((Some (''snmp: send trap '' @ oid), None), s1)))"

text \<open>\<open>Run\<close> sends a trap for every event it drains from its subscription and only logs a failure.\<close>

fun Run_traps ::
    "(packet \<Rightarrow> string option) \<Rightarrow> (string \<Rightarrow> bool) \<Rightarrow> (time \<times> event) list \<Rightarrow> trapSender \<Rightarrow> packet list \<times> trapSender" where
  "Run_traps encode wire [] s = ([], s)"
| "Run_traps encode wire ((t, e) # es) s =
     (case Send encode wire None t e s of ((_, sent), s1) \<Rightarrow>
        case Run_traps encode wire es s1 of (ps, s2) \<Rightarrow>
          (case sent of None \<Rightarrow> ps | Some p \<Rightarrow> p # ps, s2))"

end
