(* ===== verification/OidLaws.thy ===== *)
theory OidLaws
  imports Oid
begin

text \<open>
  The order of object identifiers: on numeric identifiers the comparison is the lexicographic
  order of their components, so sorting by it and searching in the sorted table are well defined.
\<close>

section \<open>Sorting by a comparison\<close>

lemma set_insert_by [simp]: "set (insert_by lt x xs) = insert x (set xs)"
  by (induction xs) auto

lemma set_sort_by [simp]: "set (sort_by lt xs) = set xs"
  unfolding sort_by_def by (induction xs) auto

lemma length_insert_by [simp]: "length (insert_by lt x xs) = Suc (length xs)"
  by (induction xs) auto

lemma length_sort_by [simp]: "length (sort_by lt xs) = length xs"
  unfolding sort_by_def by (induction xs) auto

section \<open>Numeric identifiers\<close>

definition oid_text :: "nat list \<Rightarrow> string" where
  "oid_text xs = join_with CHR ''.'' (map itoa xs)"

definition oid_ok :: "nat list \<Rightarrow> bool" where
  "oid_ok xs \<longleftrightarrow> xs \<noteq> [] \<and> list_all (\<lambda>n. n < 2 ^ 63) xs"

lemma itoa_no_dot: "CHR ''.'' \<notin> set (itoa n)"
proof
  assume "CHR ''.'' \<in> set (itoa n)"
  then obtain d where "d < 10" "CHR ''.'' = digit_char d" using digit_chars[of 10 _ n] by (auto simp: itoa_def)
  then have "digit_val CHR ''.'' = Some d" by (simp add: digit_val_char)
  then show False by (simp add: digit_val_def)
qed

lemma itoa_ne [simp]: "itoa n \<noteq> []"
  by (simp add: itoa_def)

lemma split_oid_text: "xs \<noteq> [] \<Longrightarrow> split_on CHR ''.'' (oid_text xs) = map itoa xs"
  unfolding oid_text_def by (rule split_join) (auto simp: itoa_no_dot)

lemma oid_text_no_lead: "xs \<noteq> [] \<Longrightarrow> trim_prefix (oid_text xs) ''.'' = oid_text xs"
proof -
  assume "xs \<noteq> []"
  then obtain n ns where xs: "xs = n # ns" by (cases xs) auto
  obtain c cs where c: "itoa n = c # cs" by (cases "itoa n") auto
  have "c \<noteq> CHR ''.''" using itoa_no_dot[of n] c by auto
  moreover have "\<exists>r. oid_text xs = c # r" using xs c by (cases ns) (auto simp: oid_text_def)
  ultimately show ?thesis by (auto simp: trim_prefix_def)
qed

lemma Atoi_itoa: "n < 2 ^ 63 \<Longrightarrow> Atoi (itoa n) = Some (int n)"
  by (simp add: Atoi_def ParseInt_def)

definition lex_compare :: "nat list \<Rightarrow> nat list \<Rightarrow> int" where
  "lex_compare xs ys = (if xs < ys then - 1 else if xs = ys then 0 else 1)"

lemma compare_parts_lex:
  "list_all (\<lambda>n. n < 2 ^ 63) xs \<Longrightarrow> list_all (\<lambda>n. n < 2 ^ 63) ys \<Longrightarrow>
   compare_parts (map itoa xs) (map itoa ys) = lex_compare xs ys"
  by (induction xs ys rule: list_induct2') (auto simp: lex_compare_def Atoi_itoa)

lemma CompareOID_lex:
  "oid_ok xs \<Longrightarrow> oid_ok ys \<Longrightarrow> CompareOID (oid_text xs) (oid_text ys) = lex_compare xs ys"
  by (simp add: CompareOID_def oid_ok_def oid_text_no_lead split_oid_text compare_parts_lex)

lemma trim_dot [simp]: "trim_prefix (CHR ''.'' # s) ''.'' = s"
  by (simp add: trim_prefix_def)

text \<open>On numeric object identifiers the component-wise text comparison is the lexicographic order of
  the numbers, with or without the leading dot, so \<open>1.3.6.1.10\<close> follows \<open>1.3.6.1.2\<close> and a prefix
  precedes its extensions.\<close>

theorem CompareOID_numeric:
  assumes "oid_ok xs" "oid_ok ys"
  shows "CompareOID (oid_text xs) (oid_text ys) = lex_compare xs ys \<and>
    CompareOID (''.'' @ oid_text xs) (oid_text ys) = lex_compare xs ys \<and>
    CompareOID (oid_text xs) (''.'' @ oid_text ys) = lex_compare xs ys"
  using CompareOID_lex[OF assms] assms by (simp add: CompareOID_def oid_ok_def oid_text_no_lead)

theorem CompareOID_numeric_witness:
  "CompareOID (oid_text [1, 3, 6, 1, 2]) (oid_text [1, 3, 6, 1, 10]) = - 1 \<and>
   CompareOID (''.'' @ oid_text [1, 3, 6, 1, 2]) (oid_text [1, 3, 6, 1, 10]) = - 1"
  using CompareOID_numeric[of "[1, 3, 6, 1, 2]" "[1, 3, 6, 1, 10]"] by (simp add: oid_ok_def lex_compare_def)

end
