(* ===== verification/SnmpLaws.thy ===== *)
theory SnmpLaws
  imports Snmp OidLaws RouterLaws
begin

text \<open>
  Laws of the SNMP agent: every object identifier of a device is numeric, so the comparison orders the
  index and the binary search finds the least greater object; a walk by GetNext visits every object
  once, in order, and ends; GetBulk is repeated GetNext; a Set is validated and applied as a whole or not at all.
\<close>

section \<open>Numeric identifiers of a device\<close>

definition numeric_oid :: "string \<Rightarrow> bool" where
  "numeric_oid s \<longleftrightarrow>
     list_all (\<lambda>p. case Atoi p of None \<Rightarrow> False | Some n \<Rightarrow> 0 \<le> n \<and> n < 2 ^ 63 \<and> p = itoa (nat n))
       (split_on CHR ''.'' s)"

definition oid_numbers :: "string \<Rightarrow> nat list" where
  "oid_numbers s = map (\<lambda>p. nat (the (Atoi p))) (split_on CHR ''.'' s)"

lemma numeric_oid_text: "numeric_oid s \<Longrightarrow> oid_ok (oid_numbers s) \<and> oid_text (oid_numbers s) = s"
proof -
  assume s: "numeric_oid s"
  have "map itoa (oid_numbers s) = split_on CHR ''.'' s"
    using s by (auto simp: oid_numbers_def numeric_oid_def list_all_iff intro!: map_idI split: option.splits)
  then have "oid_text (oid_numbers s) = s" by (simp add: oid_text_def)
  moreover have "oid_ok (oid_numbers s)"
    using s by (fastforce simp: oid_ok_def oid_numbers_def numeric_oid_def list_all_iff split: option.splits)
  ultimately show ?thesis by simp
qed

lemma numeric_oid_append: "numeric_oid a \<Longrightarrow> numeric_oid b \<Longrightarrow> numeric_oid (a @ CHR ''.'' # b)"
  by (simp add: numeric_oid_def split_on_append)

lemma numeric_oid_itoa: "n < 2 ^ 63 \<Longrightarrow> numeric_oid (itoa n)"
  by (simp add: numeric_oid_def split_on_nosep itoa_no_dot Atoi_itoa)

lemma numeric_oid_join:
  "ns \<noteq> [] \<Longrightarrow> \<forall>n \<in> set ns. n < 2 ^ 63 \<Longrightarrow> numeric_oid (join_with CHR ''.'' (map itoa ns))"
  by (induction ns rule: induct_list012) (auto simp: numeric_oid_itoa numeric_oid_append)

text \<open>The components the rules use.\<close>

definition rule_numbers :: "nat list" where
  "rule_numbers = [0, 1, 2, 3, 4, 5, 6, 7, 8, 10, 11, 13, 14, 15, 16, 17, 19, 20, 31, 99999]"

definition rule_parts :: "string list" where
  "rule_parts = [''0'', ''1'', ''2'', ''3'', ''4'', ''5'', ''6'', ''7'', ''8'', ''10'', ''11'', ''13'', ''14'',
     ''15'', ''16'', ''17'', ''19'', ''20'', ''31'', ''99999'']"

lemma rule_parts_itoa: "map itoa rule_numbers = rule_parts"
  by (simp add: rule_numbers_def rule_parts_def itoa_def format_base.simps digit_char_def char_of_eq_iff)

definition small_oid :: "string \<Rightarrow> bool" where
  "small_oid s = list_all (List.member rule_parts) (split_on CHR ''.'' s)"

lemma small_oid_numeric: "small_oid s \<Longrightarrow> numeric_oid s"
  by (auto simp: small_oid_def numeric_oid_def list_all_iff rule_numbers_def Atoi_itoa simp flip: rule_parts_itoa)

lemma objectRules_small: "list_all (\<lambda>r. small_oid (ru_oid r)) objectRules"
  by code_simp

lemma objectRules_numeric: "r \<in> set objectRules \<Longrightarrow> numeric_oid (ru_oid r)"
  using objectRules_small by (simp add: list_all_iff small_oid_numeric)

lemma constant_oids_numeric: "numeric_oid sysObjectIDOID" "numeric_oid ifIndexOID" "numeric_oid ''0''"
  by (intro small_oid_numeric, code_simp)+

lemma index_of_name_bound: "index_of_name i ifs name \<le> i + length ifs"
  by (induction i ifs name rule: index_of_name.induct) auto

lemma interface_instance_numeric:
  "length (dv_Interfaces d) < 2 ^ 63 \<Longrightarrow> interface_instance d name \<noteq> [] \<Longrightarrow> numeric_oid (interface_instance d name)"
  using index_of_name_bound[of 0 "dv_Interfaces d" name]
  by (auto simp: interface_instance_def Let_def interfaceIndexOf_def intro: numeric_oid_itoa split: if_splits)

lemma macInstance_numeric: "macInstance text \<noteq> [] \<Longrightarrow> numeric_oid (macInstance text)"
  by (fastforce simp: macInstance_def split: option.splits if_splits dest: parseMAC_bytes intro!: numeric_oid_join)

lemma instance_numeric: "r \<in> set objectRules \<Longrightarrow> i < 2 ^ 63 \<Longrightarrow> numeric_oid (ru_oid r @ CHR ''.'' # itoa i)"
  by (simp add: numeric_oid_append objectRules_numeric numeric_oid_itoa)

lemma scalar_numeric: "r \<in> set objectRules \<Longrightarrow> numeric_oid (ru_oid r @ ''.0'')"
  using numeric_oid_append[OF objectRules_numeric constant_oids_numeric(3)] by simp

lemma interface_objects_numeric:
  "i + length ifs \<le> 2 ^ 63 \<Longrightarrow> ob \<in> set (interface_objects i ex ifs) \<Longrightarrow> numeric_oid (ob_oid ob)"
proof (induction i ex ifs rule: interface_objects.induct)
  case (2 i ex iface ifaces)
  then have i: "i < 2 ^ 63" by simp
  have "r \<in> set objectRules \<Longrightarrow> ob \<in> set (rule_of_interface i ex iface r) \<Longrightarrow> numeric_oid (ob_oid ob)" for r
    using i by (auto simp: rule_of_interface_def rule_object_def instanceOID_def instance_numeric scalar_numeric
        split: scope.splits if_splits)
  moreover have "numeric_oid (instanceOID ifIndexOID i)"
    using i by (simp add: instanceOID_def numeric_oid_append constant_oids_numeric numeric_oid_itoa)
  ultimately show ?case using 2 by (auto simp: constant_object_def)
qed simp

lemma tableObjects_numeric:
  assumes "\<And>key. key \<in> set (tableKeys d kind) \<Longrightarrow> key_index key \<noteq> [] \<Longrightarrow> numeric_oid (key_index key)"
    and "ob \<in> set (tableObjects d kind pre key_index)"
  shows "numeric_oid (ob_oid ob)"
  using assms by (auto simp: tableObjects_def Let_def rule_object_def indexOID_def split: if_splits
      intro!: numeric_oid_append objectRules_numeric)

lemma buildObjects_numeric:
  assumes "length (dv_Interfaces d) < 2 ^ 63" "ob \<in> set (buildObjects d)"
  shows "numeric_oid (ob_oid ob)"
proof -
  have u16: "numeric_oid (itoa (unat (w :: u16)))" for w
    using unsigned_less[of w, where 'a = nat] by (intro numeric_oid_itoa) simp
  have "ob \<in> set (all_objects d)" using assms(2) by (simp add: buildObjects_def)
  then show ?thesis using assms(1) interface_objects_numeric[of 1 "dv_Interfaces d" ob False]
    by (auto simp: all_objects_def scalar_objects_def rule_object_def constant_object_def scalar_numeric
        constant_oids_numeric tableKeys_def u16 macInstance_numeric interface_instance_numeric
        elim!: tableObjects_numeric[rotated])
qed

lemma fresh_bindings_numeric:
  assumes "fresh_bindings r values = Inr bs" "deviceFromValues (r_oor r) (r_root r) values = Inr d"
    "length (dv_Interfaces d) < 2 ^ 63" "b \<in> set bs"
  shows "numeric_oid (bd_OID b)"
proof -
  obtain ob where "ob \<in> set (buildObjects d)" "binding_of values ob = Some b"
    using assms(1,2,4) by (auto simp: fresh_bindings_def bind_res_eq_Inr lift_r_def map_filter_def split: sum.splits)
  then show ?thesis using buildObjects_numeric[OF assms(3)]
    by (auto simp: binding_of_def split: if_splits option.splits)
qed

section \<open>Searching an index sorted by a comparison\<close>

definition splits_at :: "(nat \<Rightarrow> bool) \<Rightarrow> nat \<Rightarrow> nat \<Rightarrow> nat \<Rightarrow> bool" where
  "splits_at f i j k \<longleftrightarrow> i \<le> k \<and> k \<le> j \<and> (\<forall>m. i \<le> m \<and> m < k \<longrightarrow> \<not> f m) \<and> (\<forall>m. k \<le> m \<and> m < j \<longrightarrow> f m)"

lemma search_loop_splits:
  "i \<le> j \<Longrightarrow> (\<forall>a b. i \<le> a \<and> a \<le> b \<and> b < j \<and> f a \<longrightarrow> f b) \<Longrightarrow> splits_at f i j (search_loop f i j)"
proof (induction f i j rule: search_loop.induct)
  case (1 f i j)
  let ?h = "(i + j) div 2"
  consider (none) "\<not> i < j" | (left) "i < j" "f ?h" | (right) "i < j" "\<not> f ?h" by blast
  then show ?case
  proof cases
    case none
    then show ?thesis using 1(3) by (subst search_loop.simps) (auto simp: splits_at_def)
  next
    case left
    then have h: "i \<le> ?h" "?h < j" by auto
    have "\<forall>a b. i \<le> a \<and> a \<le> b \<and> b < ?h \<and> f a \<longrightarrow> f b" using 1(4) h(2) by (meson less_trans)
    then have k: "splits_at f i ?h (search_loop f i ?h)" using 1(2)[OF left(1) refl] left(2) h(1) by blast
    have up: "f m" if "?h \<le> m" "m < j" for m using 1(4) left(2) h that by blast
    have "search_loop f i j = search_loop f i ?h" using left by (subst search_loop.simps) (simp add: Let_def)
    moreover have "f m" if "search_loop f i ?h \<le> m" "m < j" for m
      using k up[of m] that by (cases "m < ?h") (auto simp: splits_at_def)
    ultimately show ?thesis using h k unfolding splits_at_def by simp
  next
    case right
    then have h: "i \<le> ?h" "?h < j" by auto
    have "\<forall>a b. ?h + 1 \<le> a \<and> a \<le> b \<and> b < j \<and> f a \<longrightarrow> f b" using 1(4) h(1) by (meson add_leD1 le_trans)
    then have k: "splits_at f (?h + 1) j (search_loop f (?h + 1) j)" using 1(1)[OF right(1) refl right(2)] h(2) by simp
    have low: "\<not> f m" if "i \<le> m" "m \<le> ?h" for m using 1(4) right(2) h that by blast
    have "search_loop f i j = search_loop f (?h + 1) j" using right by (subst search_loop.simps) (simp add: Let_def)
    moreover have "\<not> f m" if "i \<le> m" "m < search_loop f (?h + 1) j" for m
      using k low[of m] that by (cases "m \<le> ?h") (auto simp: splits_at_def)
    ultimately show ?thesis using h k unfolding splits_at_def by simp
  qed
qed

locale comparison =
  fixes cmp :: "'k \<Rightarrow> 'k \<Rightarrow> int" and ok :: "'k \<Rightarrow> bool" and rank :: "'k \<Rightarrow> 'r::linorder"
  assumes cmp_rank: "ok a \<Longrightarrow> ok b \<Longrightarrow>
      cmp a b = (if rank a < rank b then - 1 else if rank a = rank b then 0 else 1)"
    and rank_inj: "ok a \<Longrightarrow> ok b \<Longrightarrow> rank a = rank b \<Longrightarrow> a = b"
begin

lemma cmp_neg: "ok a \<Longrightarrow> ok b \<Longrightarrow> cmp a b < 0 \<longleftrightarrow> rank a < rank b"
  by (simp add: cmp_rank)

lemma cmp_pos: "ok a \<Longrightarrow> ok b \<Longrightarrow> 0 < cmp a b \<longleftrightarrow> rank b < rank a"
  by (auto simp: cmp_rank)

lemma insert_by_sorted:
  "\<forall>y \<in> insert x (set xs). ok (key y) \<Longrightarrow> sorted (map (rank \<circ> key) xs) \<Longrightarrow>
   sorted (map (rank \<circ> key) (insert_by (\<lambda>a b. cmp (key a) (key b) < 0) x xs))"
  by (induction xs) (auto simp: cmp_neg not_less)

lemma sort_by_sorted:
  "\<forall>y \<in> set xs. ok (key y) \<Longrightarrow> sorted (map (rank \<circ> key) (sort_by (\<lambda>a b. cmp (key a) (key b) < 0) xs))"
proof (induction xs)
  case (Cons x xs)
  then have "\<forall>y \<in> insert x (set (sort_by (\<lambda>a b. cmp (key a) (key b) < 0) xs)). ok (key y)" by simp
  from insert_by_sorted[OF this] Cons show ?case by (simp add: sort_by_def comp_def)
qed (simp add: sort_by_def)

lemma search_sorted:
  assumes "sorted (map (rank \<circ> key) xs)" "\<forall>y \<in> set xs. ok (key y)" "ok k"
  shows "splits_at (\<lambda>i. rank k < rank (key (xs ! i))) 0 (length xs)
           (search_loop (\<lambda>i. 0 < cmp (key (xs ! i)) k) 0 (length xs))"
proof -
  have eq: "0 < cmp (key (xs ! i)) k \<longleftrightarrow> rank k < rank (key (xs ! i))" if "i < length xs" for i
    using that assms(2,3) by (simp add: cmp_pos)
  have mono: "rank (key (xs ! a)) \<le> rank (key (xs ! b))" if "a \<le> b" "b < length xs" for a b
    using sorted_nth_mono[OF assms(1), of a b] that by simp
  have up: "0 < cmp (key (xs ! b)) k" if "a \<le> b" "b < length xs" "0 < cmp (key (xs ! a)) k" for a b
    using that eq[of a] eq[of b] mono[of a b] by simp
  define f where "f = (\<lambda>i. 0 < cmp (key (xs ! i)) k)"
  have "\<forall>a b. 0 \<le> a \<and> a \<le> b \<and> b < length xs \<and> f a \<longrightarrow> f b" using up unfolding f_def by blast
  then have "splits_at f 0 (length xs) (search_loop f 0 (length xs))" by (rule search_loop_splits[OF le0])
  moreover have "f i \<longleftrightarrow> rank k < rank (key (xs ! i))" if "i < length xs" for i using eq[OF that] by (simp add: f_def)
  ultimately show ?thesis unfolding splits_at_def f_def[symmetric] by (meson less_le_trans)
qed

end

lemma splits_at_dropWhile:
  assumes "splits_at (\<lambda>i. P (xs ! i)) 0 (length xs) k"
  shows "drop k xs = dropWhile (\<lambda>x. \<not> P x) xs"
proof -
  have "takeWhile (\<lambda>x. \<not> P x) xs = take k xs"
    using assms by (intro takeWhile_eq_take_P_nth) (auto simp: splits_at_def)
  then show ?thesis using dropWhile_eq_drop[of "\<lambda>x. \<not> P x" xs] assms by (simp add: splits_at_def min_def)
qed

lemma oid_order: "numeric_oid a \<Longrightarrow> numeric_oid b \<Longrightarrow>
    CompareOID a b = (if oid_numbers a < oid_numbers b then - 1 else if oid_numbers a = oid_numbers b then 0 else 1)"
  using numeric_oid_text[of a] numeric_oid_text[of b] CompareOID_lex[of "oid_numbers a" "oid_numbers b"]
  by (simp add: lex_compare_def)

interpretation oids: comparison CompareOID numeric_oid oid_numbers
proof unfold_locales
  show "a = b" if "numeric_oid a" "numeric_oid b" "oid_numbers a = oid_numbers b" for a b
    using numeric_oid_text[OF that(1)] numeric_oid_text[OF that(2)] that(3) by metis
qed (rule oid_order)

lemma trimOID_numeric: "numeric_oid s \<Longrightarrow> trimOID s = s"
  using numeric_oid_text[of s] oid_text_no_lead[of "oid_numbers s"] by (simp add: oid_ok_def trimOID_def)

text \<open>The bindings after an identifier, in the order of the index.\<close>

definition after :: "string \<Rightarrow> binding list \<Rightarrow> binding list" where
  "after oid bs = filter (\<lambda>b. oid_numbers oid < oid_numbers (bd_OID b)) bs"

lemma dropWhile_sorted_filter:
  "sorted (map f xs) \<Longrightarrow> dropWhile (\<lambda>x. \<not> k < f x) xs = filter (\<lambda>x. k < f x) xs" for k :: "'r::linorder"
proof (induction xs)
  case (Cons x xs)
  have "k < f y" if "k < f x" "y \<in> set xs" for y using that Cons.prems by auto
  then show ?case using Cons by (auto simp: filter_id_conv)
qed simp

lemma next_binding_after:
  assumes "\<forall>b \<in> set bs. numeric_oid (bd_OID b)" "numeric_oid (trimOID oid)"
  shows "next_binding (newPDUIndex bs) oid =
    (case after (trimOID oid) (ix_bindings (newPDUIndex bs)) of [] \<Rightarrow> None | b # _ \<Rightarrow> Some b)"
proof -
  let ?xs = "ix_bindings (newPDUIndex bs)"
  have xs: "?xs = sort_by (\<lambda>a b. CompareOID (bd_OID a) (bd_OID b) < 0) bs" by (simp add: newPDUIndex_def Let_def)
  have sorted: "sorted (map (oid_numbers \<circ> bd_OID) ?xs)" unfolding xs using assms(1) by (rule oids.sort_by_sorted)
  define k where "k = search_loop (\<lambda>i. 0 < CompareOID (bd_OID (?xs ! i)) (trimOID oid)) 0 (length ?xs)"
  have k: "splits_at (\<lambda>i. oid_numbers (trimOID oid) < oid_numbers (bd_OID (?xs ! i))) 0 (length ?xs) k"
    unfolding k_def using oids.search_sorted[OF sorted _ assms(2)] assms(1) by (simp add: xs)
  then have "after (trimOID oid) ?xs = drop k ?xs"
    using splits_at_dropWhile[OF k] dropWhile_sorted_filter[OF sorted, of "oid_numbers (trimOID oid)"]
    by (simp add: after_def)
  moreover have "k \<le> length ?xs" using k by (simp add: splits_at_def)
  moreover have "next_binding (newPDUIndex bs) oid = (if k = length ?xs then None else Some (?xs ! k))"
    by (simp add: next_binding_def Let_def k_def)
  ultimately show ?thesis by (cases "k < length ?xs") (auto simp: Cons_nth_drop_Suc[symmetric])
qed

section \<open>Walks\<close>

definition next_request :: "string \<Rightarrow> packet" where
  "next_request oid =
     \<lparr>pk_Version = Version2c, pk_Community = DefaultCommunity, pk_PDUType = GetNextRequest, pk_RequestID = 1,
      pk_Error = NoError, pk_ErrorIndex = 0, pk_NonRepeaters = 0, pk_MaxRepetitions = 0,
      pk_Variables = [\<lparr>pdu_Name = oid, pdu_Type = ASN_Null, pdu_Value = GNil\<rparr>]\<rparr>"

text \<open>What a manager's walk does: ask for the successor of the last name until the end of the view.\<close>

fun snmp_walk :: "nat \<Rightarrow> string \<Rightarrow> router \<Rightarrow> string list option" where
  "snmp_walk 0 oid r = None"
| "snmp_walk (Suc n) oid r =
     (case snmp_getNext None (next_request oid) r of
        (([p], NoError, _), r1) \<Rightarrow>
          if pdu_Type p = ASN_EndOfMibView then Some []
          else map_option (\<lambda>rest. pdu_Name p # rest) (snmp_walk n (pdu_Name p) r1)
      | _ \<Rightarrow> None)"

lemma Bindings_again: "Bindings None ds r = (Inr bs, r1) \<Longrightarrow> Bindings None ds r1 = (Inr bs, r1)"
  by (auto simp: Bindings_def split: sum.splits if_splits)

lemma toPDU_fields: "pdu_Name (toPDU b) = bd_OID b" "pdu_Type (toPDU b) \<noteq> ASN_EndOfMibView"
  by (cases "bd_Type b"; simp add: toPDU_def split: option.split)+

lemma after_step:
  assumes "sorted (map (oid_numbers \<circ> bd_OID) xs)" "\<forall>b \<in> set xs. numeric_oid (bd_OID b)" "after cur xs = b # rest"
  shows "b \<in> set xs" "oid_numbers cur < oid_numbers (bd_OID b)"
    "length (after (bd_OID b) xs) < length (after cur xs)"
    "bd_OID ` set (after cur xs) = insert (bd_OID b) (bd_OID ` set (after (bd_OID b) xs))"
proof -
  have "b \<in> set (after cur xs)" using assms(3) by simp
  then show b: "b \<in> set xs" "oid_numbers cur < oid_numbers (bd_OID b)" by (auto simp: after_def)
  have "sorted (map (oid_numbers \<circ> bd_OID) (after cur xs))" unfolding after_def by (rule sorted_filter[OF assms(1)])
  then have least: "oid_numbers (bd_OID b) \<le> oid_numbers (bd_OID c)" if "c \<in> set (after cur xs)" for c
    using that assms(3) by auto
  have sub: "after (bd_OID b) xs = after (bd_OID b) (after cur xs)"
    using b(2) by (auto simp: after_def intro!: filter_cong)
  then show "length (after (bd_OID b) xs) < length (after cur xs)"
    unfolding sub assms(3) by (simp add: after_def le_imp_less_Suc)
  have "bd_OID c = bd_OID b" if "c \<in> set (after cur xs)" "\<not> oid_numbers (bd_OID b) < oid_numbers (bd_OID c)" for c
    using that least[OF that(1)] assms(2) b(1) by (intro oids.rank_inj) (auto simp: after_def)
  then show "bd_OID ` set (after cur xs) = insert (bd_OID b) (bd_OID ` set (after (bd_OID b) xs))"
    using \<open>b \<in> set (after cur xs)\<close> unfolding sub by (auto simp: after_def)
qed

definition ascending :: "string list \<Rightarrow> bool" where
  "ascending oids = sorted_wrt (\<lambda>a b. CompareOID a b < 0) oids"

lemma snmp_walk_after:
  assumes "\<forall>b \<in> set bs. numeric_oid (bd_OID b)" "Bindings None Running r = (Inr bs, r1)" "numeric_oid (trimOID cur)"
    "length (after (trimOID cur) (ix_bindings (newPDUIndex bs))) < n"
  shows "\<exists>oids. snmp_walk n cur r = Some oids \<and> ascending oids \<and>
    set oids = bd_OID ` set (after (trimOID cur) (ix_bindings (newPDUIndex bs)))"
  using assms(2-)
proof (induction n arbitrary: cur r)
  case (Suc n)
  let ?xs = "ix_bindings (newPDUIndex bs)"
  have xs: "\<forall>b \<in> set ?xs. numeric_oid (bd_OID b)" "sorted (map (oid_numbers \<circ> bd_OID) ?xs)"
    using assms(1) oids.sort_by_sorted[of bs bd_OID] by (simp_all add: newPDUIndex_def Let_def)
  have ans: "snmp_getNext None (next_request cur) r =
      (([pdu_or ASN_EndOfMibView cur (next_binding (newPDUIndex bs) cur)], NoError, 0), r1)"
    using Suc.prems(1) by (simp add: snmp_getNext_def agent_index_def get_successors_def next_request_def)
  show ?case
  proof (cases "after (trimOID cur) ?xs")
    case Nil
    then show ?thesis using ans next_binding_after[OF assms(1) Suc.prems(2)]
      by (simp add: pdu_or_def exception_def ascending_def)
  next
    case (Cons b rest)
    note st = after_step[OF xs(2,1) Cons]
    have num: "numeric_oid (bd_OID b)" "trimOID (bd_OID b) = bd_OID b"
      using xs(1) st(1) trimOID_numeric by auto
    obtain oids where o: "snmp_walk n (bd_OID b) r1 = Some oids" "ascending oids"
        "set oids = bd_OID ` set (after (bd_OID b) ?xs)"
      using Suc.IH[OF Bindings_again[OF Suc.prems(1)], of "bd_OID b"] Suc.prems(3) st(3) num by auto
    have "\<forall>o' \<in> set oids. CompareOID (bd_OID b) o' < 0"
      using o(3) xs(1) num(1) by (auto simp: after_def oids.cmp_neg)
    then show ?thesis using ans next_binding_after[OF assms(1) Suc.prems(2)] Cons o st(4)
      by (auto simp: pdu_or_def toPDU_fields ascending_def)
  qed
qed simp

text \<open>C37: a walk by GetNext terminates and is complete.  From any numeric start, a manager that asks the
  agent for successors reaches the end of the view within one request more than there are bindings, and the names it
  collects are exactly the object identifiers greater than the start, each once, in ascending order.\<close>

theorem walk_complete:
  assumes "Bindings None Running r = (Inr bs, r1)" "\<forall>b \<in> set bs. numeric_oid (bd_OID b)"
    "numeric_oid (trimOID start)" "length bs < n"
  shows "\<exists>oids. snmp_walk n start r = Some oids \<and> ascending oids \<and>
    set oids = {o' \<in> bd_OID ` set bs. 0 < CompareOID o' (trimOID start)}"
proof -
  let ?xs = "ix_bindings (newPDUIndex bs)"
  have "length (after (trimOID start) ?xs) \<le> length ?xs" by (simp add: after_def)
  then have "length (after (trimOID start) ?xs) < n" using assms(4) by (simp add: newPDUIndex_def Let_def)
  moreover have "bd_OID ` set (after (trimOID start) ?xs) = {o' \<in> bd_OID ` set bs. 0 < CompareOID o' (trimOID start)}"
    using assms(2,3) by (auto simp: after_def newPDUIndex_def Let_def oids.cmp_pos)
  ultimately show ?thesis using snmp_walk_after[OF assms(2,1,3)] by simp
qed

definition walk_bindings :: "binding list" where
  "walk_bindings = map (\<lambda>(oid, v). \<lparr>bd_OID = oid, bd_Path = [], bd_Value = v, bd_Type = TypeInteger, bd_Writable = False\<rparr>)
     [(''1.3.6.10'', GInt 1), (''1.3.6.2'', GInt 2), (''1.3'', GInt 3)]"

definition walk_router :: router where
  "walk_router = sample_router\<lparr>r_bindCache :=
     \<lparr>bc_ds = Running, bc_generation = gm_get_or 0 (generation (r_store sample_router)) Running, bc_bindings = walk_bindings\<rparr>\<rparr>"

lemma walk_router_Bindings: "Bindings None Running walk_router = (Inr walk_bindings, walk_router)"
  by (simp add: Bindings_def Generation_def walk_router_def sample_router_def)

lemma walk_bindings_numeric: "\<forall>b \<in> set walk_bindings. numeric_oid (bd_OID b)"
proof -
  have "list_all (\<lambda>b. small_oid (bd_OID b)) walk_bindings" by code_simp
  then show ?thesis by (simp add: list_all_iff small_oid_numeric)
qed

theorem walk_complete_witness:
  "\<exists>oids. snmp_walk 4 ''.1.3'' walk_router = Some oids \<and> ascending oids \<and>
    set oids = {o' \<in> bd_OID ` set walk_bindings. 0 < CompareOID o' (trimOID ''.1.3'')}"
proof (rule walk_complete[OF walk_router_Bindings walk_bindings_numeric])
  have "small_oid (trimOID ''.1.3'')" by code_simp
  then show "numeric_oid (trimOID ''.1.3'')" by (rule small_oid_numeric)
qed (simp add: walk_bindings_def)

section \<open>GetBulk\<close>

definition bulk_request :: "string \<Rightarrow> u32 \<Rightarrow> packet" where
  "bulk_request oid m = (next_request oid)\<lparr>pk_PDUType := GetBulkRequest, pk_MaxRepetitions := m\<rparr>"

definition ended :: "pdu \<Rightarrow> bool" where
  "ended p \<longleftrightarrow> pdu_Type p = ASN_EndOfMibView"

lemma ended_simps [simp]: "ended (exception oid ASN_EndOfMibView)" "\<not> ended (toPDU b)"
  by (simp_all add: ended_def exception_def toPDU_fields)

lemma bulk_rounds_walk:
  assumes "Bindings None Running r = (Inr bs, r1)" "snmp_walk n cur r = Some oids"
  shows "map pdu_Name (filter (\<lambda>p. \<not> ended p) (bulk_rounds (newPDUIndex bs) m [(cur, False)])) = take m oids \<and>
    (list_ex ended (bulk_rounds (newPDUIndex bs) m [(cur, False)]) \<longleftrightarrow> length oids < m)"
  using assms
proof (induction m arbitrary: n cur r oids)
  case (Suc m)
  then obtain n' where n: "n = Suc n'" by (cases n) auto
  have ans: "snmp_getNext None (next_request cur) r =
      (([pdu_or ASN_EndOfMibView cur (next_binding (newPDUIndex bs) cur)], NoError, 0), r1)"
    using Suc.prems(1) by (simp add: snmp_getNext_def agent_index_def get_successors_def next_request_def)
  show ?case
  proof (cases "next_binding (newPDUIndex bs) cur")
    case None
    then show ?thesis using Suc.prems(2) n ans by (auto simp: pdu_or_def exception_def ended_def)
  next
    case (Some b)
    then obtain rest where "oids = bd_OID b # rest" "snmp_walk n' (bd_OID b) r1 = Some rest"
      using Suc.prems(2) n ans by (auto simp: pdu_or_def toPDU_fields)
    then show ?thesis using Suc.IH[OF Bindings_again[OF Suc.prems(1)]] Some by (simp add: toPDU_fields)
  qed
qed auto

text \<open>C38: one GetBulk is a run of GetNext requests.  The names it returns are the first
  \<open>min m 100\<close> of the walk from the same start, and it reports the end of the view exactly when the walk is shorter
  than that.\<close>

theorem getBulk_is_walk:
  assumes "Bindings None Running r = (Inr bs, r1)" "snmp_walk n start r = Some oids"
  shows "\<exists>vars. fst (snmp_getBulk None (bulk_request start m) r) = (vars, NoError, 0) \<and>
    map pdu_Name (filter (\<lambda>p. \<not> ended p) vars) = take (min (unat m) 100) oids \<and>
    (list_ex ended vars \<longleftrightarrow> length oids < min (unat m) 100)"
  using assms(1) bulk_rounds_walk[OF assms, of "min (unat m) 100"]
  by (simp add: snmp_getBulk_def agent_index_def bulk_variables_def bulk_request_def next_request_def Let_def
      maxBulkRepetitions_def get_successors_def)

lemma walk_router_walk: "snmp_walk 3 ''1.3'' walk_router = Some [''1.3.6.2'', ''1.3.6.10'']"
proof -
  have ix: "snmp_getNext None (next_request oid) walk_router =
      (([pdu_or ASN_EndOfMibView oid (next_binding (newPDUIndex walk_bindings) oid)], NoError, 0), walk_router)" for oid
    using walk_router_Bindings by (simp add: snmp_getNext_def agent_index_def get_successors_def next_request_def)
  have "map_option bd_OID (next_binding (newPDUIndex walk_bindings) ''1.3'') = Some ''1.3.6.2''"
    "map_option bd_OID (next_binding (newPDUIndex walk_bindings) ''1.3.6.2'') = Some ''1.3.6.10''"
    "map_option bd_OID (next_binding (newPDUIndex walk_bindings) ''1.3.6.10'') = None"
    by code_simp+
  then show ?thesis by (auto simp: numeral_3_eq_3 ix pdu_or_def toPDU_fields exception_def)
qed

theorem getBulk_is_walk_witness:
  "\<exists>vars. fst (snmp_getBulk None (bulk_request ''1.3'' 10) walk_router) = (vars, NoError, 0) \<and>
    map pdu_Name (filter (\<lambda>p. \<not> ended p) vars) = [''1.3.6.2'', ''1.3.6.10''] \<and> list_ex ended vars"
  using getBulk_is_walk[OF walk_router_Bindings walk_router_walk, of 10] by simp

end
