(* ===== verification/Datatree.thy ===== *)
theory Datatree
  imports Router
begin

text \<open>
  The data-tree editor shared by NETCONF and RESTCONF (\<open>src/internal/datatree\<close>: \<open>node.go\<close>,
  \<open>values.go\<close>, \<open>errors.go\<close>, \<open>edit.go\<close>): request documents, leaf texts, the errors of the RFC 6241
  vocabulary and the edit operations on a proposed snapshot of one datastore.  An edit works on a copy;
  the copy is validated and its difference written back as one batch.
\<close>

section \<open>Documents\<close>

datatype document = Document
  (doc_Name: string) (doc_Text: string) (doc_HasText: bool) (doc_Attrs: "(string, string) gomap")
  (doc_Children: "document list")

definition doc_Child :: "document \<Rightarrow> string \<Rightarrow> document option" where
  "doc_Child d name = find (\<lambda>c. doc_Name c = name) (doc_Children d)"

definition ChildrenNamed :: "document \<Rightarrow> string \<Rightarrow> document list" where
  "ChildrenNamed d name = filter (\<lambda>c. doc_Name c = name) (doc_Children d)"

definition doc_Attr :: "document \<Rightarrow> string \<Rightarrow> string option" where
  "doc_Attr d name = map_of (doc_Attrs d) name"

section \<open>Errors\<close>

text \<open>The human-readable message of an error is not part of the model.\<close>

record dt_error =
  de_Type :: string
  de_Tag :: string
  de_Path :: string
  de_Validation :: bool

definition newError :: "string \<Rightarrow> string \<Rightarrow> string \<Rightarrow> dt_error" where
  "newError ty tag path = \<lparr>de_Type = ty, de_Tag = tag, de_Path = path, de_Validation = False\<rparr>"

definition UnknownElement :: dt_error where "UnknownElement = newError ''protocol'' ''unknown-element'' []"
definition Malformed :: dt_error where "Malformed = newError ''rpc'' ''malformed-message'' []"
definition TooBig :: dt_error where "TooBig = newError ''rpc'' ''too-big'' []"
definition MissingAttribute :: dt_error where "MissingAttribute = newError ''rpc'' ''missing-attribute'' []"
definition Denied :: dt_error where "Denied = newError ''protocol'' ''access-denied'' []"
definition InvalidValue :: dt_error where "InvalidValue = newError ''protocol'' ''invalid-value'' []"
definition InvalidValueAt :: "string \<Rightarrow> dt_error" where "InvalidValueAt p = newError ''protocol'' ''invalid-value'' p"
definition AccessDenied :: "string \<Rightarrow> dt_error" where "AccessDenied p = newError ''protocol'' ''access-denied'' p"
definition DataExists :: "string \<Rightarrow> dt_error" where "DataExists p = newError ''protocol'' ''data-exists'' p"
definition DataMissing :: "string \<Rightarrow> dt_error" where "DataMissing p = newError ''protocol'' ''data-missing'' p"
definition NotSupported :: dt_error where "NotSupported = newError ''protocol'' ''operation-not-supported'' []"
definition MissingElement :: dt_error where "MissingElement = newError ''protocol'' ''missing-element'' []"
definition Failed :: dt_error where "Failed = newError ''application'' ''operation-failed'' []"
definition ValidationError :: dt_error where
  "ValidationError = (newError ''protocol'' ''invalid-value'' [])\<lparr>de_Validation := True\<rparr>"

section \<open>Leaf texts\<close>

definition ParseLeaf :: "leaf_kind \<Rightarrow> string \<Rightarrow> goval option" where
  "ParseLeaf kind text =
     (case kind of
        kindBool \<Rightarrow> map_option GBool (ParseBool text)
      | kindInt \<Rightarrow> map_option GInt (ParseInt 64 text)
      | kindUint8 \<Rightarrow> map_option (\<lambda>n. GUint8 (of_nat n)) (parse_uint 8 text)
      | kindUint16 \<Rightarrow> map_option (\<lambda>n. GUint16 (of_nat n)) (parse_uint 16 text)
      | kindUint32 \<Rightarrow> map_option (\<lambda>n. GUint32 (of_nat n)) (parse_uint 32 text)
      | kindUint64 \<Rightarrow> map_option (\<lambda>n. GUint64 (of_nat n)) (parse_uint 64 text)
      | kindFloat64 \<Rightarrow> map_option GFloat (ParseFloat text)
      | kindString \<Rightarrow> Some (GString text))"

text \<open>\<open>FormatLeaf\<close> on the leaf kinds the store holds; \<open>None\<close> stands for the \<open>fmt.Sprint\<close> of any other value.\<close>

fun FormatLeaf :: "goval \<Rightarrow> string option" where
  "FormatLeaf (GBool b) = Some (FormatBool b)"
| "FormatLeaf (GInt n) = Some (itoa_int n)"
| "FormatLeaf (GUint8 n) = Some (itoa (unat n))"
| "FormatLeaf (GUint16 n) = Some (itoa (unat n))"
| "FormatLeaf (GUint32 n) = Some (itoa (unat n))"
| "FormatLeaf (GUint64 n) = Some (itoa (unat n))"
| "FormatLeaf (GFloat x) = Some (FormatFloat x)"
| "FormatLeaf (GString s) = Some s"
| "FormatLeaf _ = None"

definition ContentMatches :: "leaf_kind \<Rightarrow> string \<Rightarrow> goval \<Rightarrow> bool" where
  "ContentMatches kind text value = (case ParseLeaf kind text of None \<Rightarrow> False | Some v \<Rightarrow> go_eq v value)"

section \<open>Schema lookups\<close>

definition nodeNamed :: "schema_info list \<Rightarrow> string \<Rightarrow> schema_info option" where
  "nodeNamed children name = find (\<lambda>n. nd_Name n = name) children"

definition join_path :: "string \<Rightarrow> string \<Rightarrow> string" where
  "join_path pre name = (if pre = [] then name else pre @ ''/'' @ name)"

section \<open>The editor\<close>

datatype edit_op = OpMerge | OpReplace | OpCreate | OpDelete | OpRemove | OpNone

record request =
  rq_BasePath :: string
  rq_Default :: edit_op
  rq_Documents :: "document list"

record editor =
  ed_proposed :: vals
  ed_writable :: "(string, bool) gomap"

definition writable :: "editor \<Rightarrow> string \<Rightarrow> bool" where
  "writable e path = gm_get_or False (ed_writable e) path"

definition remove_path :: "string \<Rightarrow> editor \<Rightarrow> editor" where
  "remove_path path e =
     \<lparr>ed_proposed = AList.delete path (ed_proposed e), ed_writable = AList.delete path (ed_writable e)\<rparr>"

definition below :: "editor \<Rightarrow> string \<Rightarrow> string list" where
  "below e path = filter (\<lambda>c. writable e c \<and> has_prefix c (path @ ''/'')) (map fst (ed_proposed e))"

definition contains :: "editor \<Rightarrow> string \<Rightarrow> bool" where
  "contains e path \<longleftrightarrow> writable e path \<or> below e path \<noteq> []"

definition wipe :: "string \<Rightarrow> editor \<Rightarrow> editor" where
  "wipe path e = remove_path path (foldl (\<lambda>e c. remove_path c e) e (below e path))"

definition prepareSubtree :: "string \<Rightarrow> edit_op \<Rightarrow> editor \<Rightarrow> dt_error + editor" where
  "prepareSubtree path op e =
     (case op of
        OpCreate \<Rightarrow> if contains e path then Inl (DataExists path) else Inr e
      | OpDelete \<Rightarrow> if \<not> contains e path then Inl (DataMissing path) else Inr (wipe path e)
      | OpRemove \<Rightarrow> Inr (wipe path e)
      | OpReplace \<Rightarrow> Inr (wipe path e)
      | _ \<Rightarrow> Inr e)"

definition childOperation :: "edit_op \<Rightarrow> edit_op" where
  "childOperation op = (if op = OpReplace \<or> op = OpCreate then OpMerge else op)"

definition parseOperationAttr :: "document \<Rightarrow> dt_error + edit_op option" where
  "parseOperationAttr d =
     (case doc_Attr d ''operation'' of
        None \<Rightarrow> Inr None
      | Some text \<Rightarrow>
          if text = ''merge'' then Inr (Some OpMerge)
          else if text = ''replace'' then Inr (Some OpReplace)
          else if text = ''create'' then Inr (Some OpCreate)
          else if text = ''delete'' then Inr (Some OpDelete)
          else if text = ''remove'' then Inr (Some OpRemove)
          else Inl InvalidValue)"

definition listKey :: "document \<Rightarrow> string \<Rightarrow> dt_error + string" where
  "listKey d keyName =
     (case doc_Child d keyName of
        None \<Rightarrow> Inl MissingElement
      | Some k \<Rightarrow>
          let value = trim_space (doc_Text k)
          in if value = [] then Inl MissingElement
             else if list_ex (\<lambda>c. c = CHR ''/'' \<or> c = CHR ''['' \<or> c = CHR '']'') value then Inl InvalidValue
             else Inr value)"

definition convert_error :: "string \<Rightarrow> router_error \<Rightarrow> dt_error" where
  "convert_error path err =
     (case err of
        ErrReadOnly _ \<Rightarrow> AccessDenied path
      | ErrNotFound_r _ \<Rightarrow> UnknownElement
      | _ \<Rightarrow> InvalidValueAt path)"

definition edit_leaf ::
    "router \<Rightarrow> string \<Rightarrow> document \<Rightarrow> schema_info \<Rightarrow> edit_op \<Rightarrow> editor \<Rightarrow> dt_error + editor" where
  "edit_leaf r path d node op e =
     (case op of
        OpNone \<Rightarrow> Inr e
      | OpDelete \<Rightarrow>
          if \<not> writable e path
          then (case map_of (ed_proposed e) path of Some _ \<Rightarrow> Inl (AccessDenied path) | None \<Rightarrow> Inl (DataMissing path))
          else Inr (remove_path path e)
      | OpRemove \<Rightarrow>
          if \<not> Option.is_none (map_of (ed_proposed e) path) \<and> \<not> writable e path then Inl (AccessDenied path)
          else Inr (remove_path path e)
      | _ \<Rightarrow>
          (case Option.bind (nd_Leaf node) (\<lambda>k. ParseLeaf k (trim_space (doc_Text d))) of
             None \<Rightarrow> Inl (InvalidValueAt path)
           | Some value \<Rightarrow>
               (case Convert r path value of
                  Inl err \<Rightarrow> Inl (convert_error path err)
                | Inr res \<Rightarrow>
                    if op = OpCreate \<and> writable e path then Inl (DataExists path)
                    else Inr \<lparr>ed_proposed = AList.update path (rs_Value res) (ed_proposed e),
                              ed_writable = AList.update path True (ed_writable e)\<rparr>)))"

text \<open>What \<open>container\<close> and \<open>list\<close> share: prepare the node and, unless it was deleted, look up the schema
  of its children.\<close>

definition enter :: "router \<Rightarrow> string \<Rightarrow> edit_op \<Rightarrow> editor \<Rightarrow> dt_error + (schema_info list option \<times> editor)" where
  "enter r path op e =
     bind_res (prepareSubtree path op e) (\<lambda>e1.
       if op = OpDelete \<or> op = OpRemove then Inr (None, e1)
       else case Children (r_schema r) path of
              Inl _ \<Rightarrow> Inl UnknownElement
            | Inr children \<Rightarrow> Inr (Some children, e1))"

definition entry_path :: "string \<Rightarrow> string \<Rightarrow> string \<Rightarrow> string \<Rightarrow> string" where
  "entry_path base name key value = join_path base name @ ''['' @ key @ ''='' @ value @ '']''"

text \<open>The path of a container, or of the list entry the document names.\<close>

definition node_path :: "string \<Rightarrow> document \<Rightarrow> schema_info \<Rightarrow> dt_error + string" where
  "node_path base d node =
     (if nd_Kind node = KindList
      then bind_res (listKey d (nd_Key node)) (\<lambda>key. Inr (entry_path base (doc_Name d) (nd_Key node) key))
      else Inr (join_path base (doc_Name d)))"

fun walk :: "router \<Rightarrow> document \<Rightarrow> string \<Rightarrow> schema_info list \<Rightarrow> edit_op \<Rightarrow> editor \<Rightarrow> dt_error + editor"
  and walk_all :: "router \<Rightarrow> document list \<Rightarrow> string \<Rightarrow> schema_info list \<Rightarrow> edit_op \<Rightarrow> editor \<Rightarrow> dt_error + editor" where
  "walk r (Document name text has attrs docs) base schema inherited e =
     (let d = Document name text has attrs docs in
      case nodeNamed schema name of
        None \<Rightarrow> Inl UnknownElement
      | Some node \<Rightarrow>
          bind_res (parseOperationAttr d) (\<lambda>explicit.
            let op = (case explicit of None \<Rightarrow> inherited | Some op \<Rightarrow> op) in
            if nd_Kind node = KindLeaf then edit_leaf r (join_path base name) d node op e
            else bind_res (node_path base d node) (\<lambda>path.
                   bind_res (enter r path op e) (\<lambda>(children, e1).
                     case children of
                       None \<Rightarrow> Inr e1
                     | Some cs \<Rightarrow> walk_all r docs path cs (childOperation op) e1))))"
| "walk_all r [] base schema inherited e = Inr e"
| "walk_all r (d # ds) base schema inherited e =
     bind_res (walk r d base schema inherited e) (\<lambda>e1. walk_all r ds base schema inherited e1)"

section \<open>Applying an edit\<close>

datatype edit_failure = EditError dt_error | EditCtx string

definition collect :: "string option \<Rightarrow> router \<Rightarrow> datastore \<Rightarrow> edit_failure + (string, result) gomap" where
  "collect ctx r ds = (case Router_Values ctx r ds of Inl _ \<Rightarrow> Inl (EditError Failed) | Inr rs \<Rightarrow> Inr rs)"

definition diff_sets :: "vals \<Rightarrow> vals \<Rightarrow> vals" where
  "diff_sets original proposed =
     filter (\<lambda>(p, v). case map_of original p of None \<Rightarrow> True | Some old \<Rightarrow> \<not> go_eq old v) proposed"

definition diff_deletions :: "vals \<Rightarrow> vals \<Rightarrow> string list" where
  "diff_deletions original proposed =
     filter (\<lambda>p. Option.is_none (map_of proposed p)) (map fst original)"

definition applyDiff ::
    "string option \<Rightarrow> time \<Rightarrow> datastore \<Rightarrow> vals \<Rightarrow> vals \<Rightarrow> router \<Rightarrow> edit_failure option \<times> router" where
  "applyDiff ctx t ds original proposed r =
     (case Router_Apply ctx t ds (diff_sets original proposed) (diff_deletions original proposed) r of
        (Some _, r1) \<Rightarrow> (Some (EditError Failed), r1)
      | (None, r1) \<Rightarrow> (None, r1))"

definition editor_of :: "(string, result) gomap \<Rightarrow> editor" where
  "editor_of rs = \<lparr>ed_proposed = map (\<lambda>(p, res). (p, rs_Value res)) rs,
                   ed_writable = map (\<lambda>(p, res). (p, rs_Writable res)) rs\<rparr>"

definition apply_edit ::
    "string option \<Rightarrow> time \<Rightarrow> datastore \<Rightarrow> request \<Rightarrow> router \<Rightarrow> edit_failure option \<times> router" where
  "apply_edit ctx t ds q r =
     (case collect ctx r ds of
        Inl f \<Rightarrow> (Some f, r)
      | Inr rs \<Rightarrow>
          (case Children (r_schema r) (rq_BasePath q) of
             Inl _ \<Rightarrow> (Some (EditError Failed), r)
           | Inr schema \<Rightarrow>
               (case walk_all r (rq_Documents q) (rq_BasePath q) schema (rq_Default q) (editor_of rs) of
                  Inl err \<Rightarrow> (Some (EditError err), r)
                | Inr e \<Rightarrow>
                    if Router_Validate r ctx (ed_proposed e) \<noteq> None then (Some (EditError ValidationError), r)
                    else applyDiff ctx t ds (ed_proposed (editor_of rs)) (ed_proposed e) r)))"

definition Apply_edit ::
    "string option \<Rightarrow> time \<Rightarrow> datastore \<Rightarrow> request \<Rightarrow> router \<Rightarrow> edit_failure option \<times> router" where
  "Apply_edit ctx t ds q r =
     (case ctx of
        Some err \<Rightarrow> (Some (EditCtx err), r)
      | None \<Rightarrow>
          (case Transaction ctx (\<lambda>r. case apply_edit ctx t ds q r of (f, r1) \<Rightarrow> (Inr f, r1)) r of
             (Inl err, r1) \<Rightarrow> (Some (EditCtx err), r1)
           | (Inr f, r1) \<Rightarrow> (f, r1)))"

end
