(* ===== verification/SchemaLaws.thy ===== *)
theory SchemaLaws
  imports Datatree RouterLaws
begin

text \<open>
  The schema and the resolver agree: every leaf the resolver addresses is a leaf of the schema, at the
  same names and of the same kind, so a container or list of the schema is never a leaf of the
  datastore.
\<close>

section \<open>Looking names up in a schema\<close>

fun slookup :: "schemaNode \<Rightarrow> string list \<Rightarrow> schemaNode option" where
  "slookup n [] = Some n"
| "slookup n (name # names) = Option.bind (child n name) (\<lambda>c. slookup c names)"

definition leaf_node :: "leaf_kind \<Rightarrow> schemaNode \<Rightarrow> bool" where
  "leaf_node k n \<longleftrightarrow> nd_Kind (sn_node n) = KindLeaf \<and> nd_Leaf (sn_node n) = Some k"

lemma slookup_append: "slookup n (xs @ ys) = Option.bind (slookup n xs) (\<lambda>c. slookup c ys)"
  by (induction n xs rule: slookup.induct) (auto split: Option.bind_split)

lemma find_append: "find P (xs @ ys) = (case find P xs of Some x \<Rightarrow> Some x | None \<Rightarrow> find P ys)"
  by (induction xs) auto

lemma child_append: "child (append_child n c) name =
    (case child n name of Some d \<Rightarrow> Some d | None \<Rightarrow> if nd_Name (sn_node c) = name then Some c else None)"
  by (auto simp: child_def append_child_def find_append split: option.split)

lemma child_replace:
  assumes "child n name = Some d" "nd_Name (sn_node c) = name"
  shows "child (replace_child n name c) name' = (if name' = name then Some c else child n name')"
proof -
  have "find (\<lambda>d. nd_Name (sn_node d) = name') (replace_first (\<lambda>d. nd_Name (sn_node d) = name) c xs) =
      (if name' = name then Some c else find (\<lambda>d. nd_Name (sn_node d) = name') xs)"
    if "find (\<lambda>d. nd_Name (sn_node d) = name) xs = Some d" for xs
    using that assms(2) by (induction xs) (auto split: if_splits)
  then show ?thesis using assms(1) by (simp add: child_def replace_child_def)
qed

lemma child_name: "child n name = Some c \<Longrightarrow> nd_Name (sn_node c) = name"
  by (auto simp: child_def find_Some_iff)

lemma add_at_node: "add_at owner parts made = Inr p \<Longrightarrow> sn_node p = sn_node owner"
  by (induction owner parts made rule: add_at.induct)
     (auto simp: bind_res_eq_Inr append_child_def replace_child_def split: if_splits option.splits)

text \<open>Adding a field keeps every leaf that was there and adds the leaves of the field's type.\<close>

lemma add_at_keeps:
  assumes "add_at owner parts made = Inr p" "slookup owner names = Some n" "leaf_node k n"
  shows "slookup p names = Some n \<or> names = []"
  using assms
proof (induction owner parts made arbitrary: p names rule: add_at.induct)
  case (2 owner name made)
  then obtain c where p: "p = append_child owner (named name c)" "child owner name = None"
    by (auto simp: bind_res_eq_Inr split: if_splits)
  show ?case using 2(2) p by (cases names) (auto simp: child_append split: Option.bind_splits)
next
  case (3 owner part part2 parts made)
  show ?case
  proof (cases "child owner part")
    case None
    then obtain c where "p = append_child owner c" using 3(3) by (auto simp: bind_res_eq_Inr)
    then show ?thesis using 3(4) by (cases names) (auto simp: child_append split: Option.bind_splits)
  next
    case (Some d)
    then obtain c where c: "add_at d (part2 # parts) made = Inr c" "p = replace_child owner part c"
        "nd_Kind (sn_node d) = KindContainer"
      using 3(3) by (auto simp: bind_res_eq_Inr split: if_splits)
    have nm: "nd_Name (sn_node c) = part" using add_at_node[OF c(1)] child_name[OF Some] by simp
    show ?thesis
    proof (cases names)
      case (Cons m ms)
      show ?thesis
      proof (cases "m = part")
        case True
        then have d: "slookup d ms = Some n" using 3(4) Cons Some by simp
        then have "ms \<noteq> []" using c(3) 3(5) by (auto simp: leaf_node_def)
        then have "slookup c ms = Some n" using "3.IH"(2)[OF Some _ c(1) d 3(5)] c(3) by auto
        then show ?thesis using Cons True c(2) child_replace[OF Some nm] by simp
      next
        case False
        then show ?thesis using Cons 3(4) c(2) child_replace[OF Some nm] by simp
      qed
    qed simp
  qed
qed auto

lemma add_at_adds:
  assumes "add_at owner parts made = Inr p" "parts \<noteq> []" "made = Inr m"
  shows "slookup p parts = Some (named (last parts) m)"
  using assms
proof (induction owner parts made arbitrary: p rule: add_at.induct)
  case (2 owner name made)
  then show ?case
    by (auto simp: bind_res_def child_append named_def split: if_splits)
next
  case (3 owner part part2 parts made)
  show ?case
  proof (cases "child owner part")
    case None
    then obtain c where c: "add_at (schema_container part) (part2 # parts) made = Inr c" "p = append_child owner c"
      using 3(3) by (auto simp: bind_res_eq_Inr)
    have "nd_Name (sn_node c) = part" using add_at_node[OF c(1)] by (simp add: schema_container_def)
    then show ?thesis using "3.IH"(1)[OF None c(1)] 3(5) None c(2) by (simp add: child_append)
  next
    case (Some d)
    then obtain c where c: "add_at d (part2 # parts) made = Inr c" "p = replace_child owner part c"
        "nd_Kind (sn_node d) = KindContainer"
      using 3(3) by (auto simp: bind_res_eq_Inr split: if_splits)
    have "nd_Name (sn_node c) = part" using add_at_node[OF c(1)] child_name[OF Some] by simp
    then show ?thesis using "3.IH"(2)[OF Some _ c(1)] c(2,3) 3(5) child_replace[OF Some] by simp
  qed
qed simp

section \<open>The leaves of a type\<close>

text \<open>\<open>type_leaf t names k\<close>: walking the path tags of \<open>t\<close> along the names reaches a leaf of kind \<open>k\<close>.\<close>

inductive type_leaf :: "gotype \<Rightarrow> string list \<Rightarrow> leaf_kind \<Rightarrow> bool" where
  Leaf: "type_leaf (TLeaf k) [] k"
| Ptr: "type_leaf t names k \<Longrightarrow> type_leaf (TPtr t) names k"
| Slice: "type_leaf et names k \<Longrightarrow> type_leaf (TSlice et) names k"
| Field: "f \<in> set fs \<Longrightarrow> t_path (fst f) = Some tag \<Longrightarrow> type_leaf (snd f) names k \<Longrightarrow>
    type_leaf (TStruct fs) (split_on CHR ''/'' tag @ names) k"

definition has_leaf :: "schemaNode \<Rightarrow> string list \<Rightarrow> leaf_kind \<Rightarrow> bool" where
  "has_leaf n names k \<longleftrightarrow> (\<exists>c. slookup n names = Some c \<and> leaf_node k c)"

lemma add_at_made: "add_at owner parts made = Inr p \<Longrightarrow> parts \<noteq> [] \<Longrightarrow> \<exists>m. made = Inr m"
  by (induction owner parts made arbitrary: p rule: add_at.induct)
     (auto simp: bind_res_eq_Inr split: if_splits option.splits)

lemma has_leaf_named: "has_leaf m names k \<Longrightarrow> has_leaf (named x m) names k"
  by (cases names) (auto simp: has_leaf_def leaf_node_def named_def child_def)

lemma addSchemaChildren_keeps:
  "addSchemaChildren parent fs = Inr p \<Longrightarrow> has_leaf parent names k \<Longrightarrow> names \<noteq> [] \<Longrightarrow> has_leaf p names k"
proof (induction fs arbitrary: parent)
  case (Cons f fs)
  show ?case
  proof (cases "t_path (fst f)")
    case (Some tag)
    then obtain q where "add_at parent (split_on CHR ''/'' tag) (newSchemaNode (snd f)) = Inr q"
        "addSchemaChildren q fs = Inr p"
      using Cons.prems(1) by (auto simp: bind_res_eq_Inr)
    then show ?thesis using Cons.IH[of q] Cons.prems(2,3) add_at_keeps by (fastforce simp: has_leaf_def)
  qed (use Cons in simp)
qed simp

lemma addSchemaChildren_leaf:
  assumes "addSchemaChildren parent fs = Inr p" "f \<in> set fs" "t_path (fst f) = Some tag"
    "\<And>c. newSchemaNode (snd f) = Inr c \<Longrightarrow> has_leaf c names k"
  shows "has_leaf p (split_on CHR ''/'' tag @ names) k"
  using assms(1,2)
proof (induction fs arbitrary: parent)
  case (Cons g fs)
  show ?case
  proof (cases "g = f")
    case True
    then obtain q where q: "add_at parent (split_on CHR ''/'' tag) (newSchemaNode (snd f)) = Inr q"
        "addSchemaChildren q fs = Inr p"
      using Cons.prems(1) assms(3) by (auto simp: bind_res_eq_Inr)
    obtain m where m: "newSchemaNode (snd f) = Inr m" using add_at_made[OF q(1)] by auto
    have "slookup q (split_on CHR ''/'' tag) = Some (named (last (split_on CHR ''/'' tag)) m)"
      using add_at_adds[OF q(1) _ m] by simp
    then have "has_leaf q (split_on CHR ''/'' tag @ names) k"
      using has_leaf_named[OF assms(4)[OF m]] by (simp add: has_leaf_def slookup_append)
    then show ?thesis using addSchemaChildren_keeps[OF q(2)] by simp
  next
    case False
    then show ?thesis using Cons by (auto simp: bind_res_eq_Inr split: option.splits)
  qed
qed simp

lemma newSchemaNode_leaf:
  "type_leaf t names k \<Longrightarrow>
   (\<forall>c. newSchemaNode t = Inr c \<longrightarrow> has_leaf c names k) \<and>
   (\<forall>fs parent p. strip_ptr t = TStruct fs \<longrightarrow> addSchemaChildren parent fs = Inr p \<longrightarrow> has_leaf p names k)"
proof (induction rule: type_leaf.induct)
  case (Leaf k)
  then show ?case by (auto simp: has_leaf_def leaf_node_def)
next
  case (Slice et names k)
  then show ?case by (auto split: gotype.splits if_splits)
next
  case (Field f fs tag names k)
  then have "has_leaf p (split_on CHR ''/'' tag @ names) k" if "addSchemaChildren parent fs = Inr p" for parent p
    using addSchemaChildren_leaf[OF that Field(1,2)] by blast
  then show ?case by auto
qed auto

section \<open>The leaves the resolver reaches\<close>

lemma deref_type_leaf: "derefValue t v = Some (t', v') \<Longrightarrow> type_leaf t' names k \<Longrightarrow> type_leaf t names k"
  by (induction t v rule: derefValue.induct) (auto intro: type_leaf.Ptr)

lemma strip_type_leaf: "type_leaf (strip_ptr t) names k \<Longrightarrow> type_leaf t names k"
  by (induction t rule: strip_ptr.induct) (auto intro: type_leaf.Ptr)

text \<open>The tag of the matched field, part for part.\<close>

definition tag_at :: "(ftag \<times> gotype) list \<Rightarrow> path \<Rightarrow> nat \<Rightarrow> nat \<Rightarrow> bool" where
  "tag_at fs segs j n \<longleftrightarrow>
     (\<exists>tag. t_path (fst (fs ! j)) = Some tag \<and> split_on CHR ''/'' tag = map Name (take n segs))"

lemma matchField_loop_tag:
  "matchField_loop i fs segs best = Some (j, n) \<Longrightarrow> fs = drop i all \<Longrightarrow>
   (\<forall>j n. best = Some (j, n) \<longrightarrow> tag_at all segs j n) \<Longrightarrow> tag_at all segs j n"
proof (induction i fs segs best rule: matchField_loop.induct)
  case (2 i f fs segs best)
  have "i < length all" using 2(3) by (metis drop_all list.distinct(1) not_le)
  then have f: "all ! i = f" "fs = drop (Suc i) all" using 2(3) by (simp_all add: Cons_nth_drop_Suc[symmetric])
  show ?case
    by (rule "2.IH"[OF 2(2)[unfolded matchField_loop.simps] f(2)])
       (use 2(4) f(1) in \<open>auto simp: tag_at_def tag_matches_def Let_def split: option.splits if_splits\<close>)
qed auto

lemma matchField_tag: "matchField fs segs = Some (j, n) \<Longrightarrow> tag_at fs segs j n"
  using matchField_loop_tag[of 0 fs segs None j n fs] by (simp add: matchField_def)

lemma selectElement_type_leaf:
  "selectElement et es seg cr = Inr (et', e) \<Longrightarrow> type_leaf et' names k \<Longrightarrow> type_leaf et names k"
  by (auto simp: selectElement_def strip_type_leaf split: option.splits if_splits)

lemma resolve_from_type_leaf:
  "resolve_from t v ro segs = Inr n \<Longrightarrow> derefValue (n_type n) (n_value n) = Some (TLeaf k, x) \<Longrightarrow>
   type_leaf t (map Name segs) k"
proof (induction segs arbitrary: t v ro rule: length_induct)
  case (1 segs)
  note res = "1.prems"(1) and leaf = "1.prems"(2)
  show ?case
  proof (cases segs)
    case Nil
    then show ?thesis using res leaf deref_type_leaf type_leaf.Leaf by auto
  next
    case (Cons g gs)
    obtain fs vs where d: "derefValue t v = Some (TStruct fs, VStruct vs)"
      using res Cons by (auto split: option.splits gotype.splits rvalue.splits)
    obtain i m where m: "matchField fs segs = Some (i, m)" using res Cons d by (auto split: option.splits)
    let ?f = "fs ! i" and ?last = "segs ! (m - 1)" and ?rest = "drop m segs"
    let ?ro = "ro \<or> t_state (fst ?f)"
    obtain tag where tag: "t_path (fst ?f) = Some tag" "split_on CHR ''/'' tag = map Name (take m segs)"
      using matchField_tag[OF m] by (auto simp: tag_at_def)
    have f: "?f \<in> set fs" and short: "length ?rest < length segs"
      using matchField_bounds[OF m] by simp_all
    obtain ft fv where dv: "derefValue (snd ?f) (vs ! i) = Some (ft, fv)"
      using res Cons d m by (auto simp: Let_def split: option.splits)
    have "type_leaf ft (map Name ?rest) k"
    proof (cases "\<exists>et es. ft = TSlice et \<and> fv = VSlice es")
      case True
      then obtain et es where s: "ft = TSlice et" "fv = VSlice es" by blast
      then obtain et' e where "selectElement et es ?last (t_creatable (fst ?f)) = Inr (et', e)"
          "resolve_from et' e ?ro ?rest = Inr n"
        using res leaf Cons d m dv by (auto simp: Let_def split: if_splits sum.splits)
      then show ?thesis using s selectElement_type_leaf type_leaf.Slice "1.IH" short leaf by blast
    next
      case False
      then have "resolve_from ft fv ?ro ?rest = Inr n"
        using res Cons d m dv by (cases ft; cases fv) (auto simp: Let_def)
      then show ?thesis using "1.IH" short leaf by blast
    qed
    then have "type_leaf (TStruct fs) (map Name (take m segs) @ map Name ?rest) k"
      using type_leaf.Field[OF f tag(1) deref_type_leaf[OF dv]] tag(2) by simp
    then show ?thesis using deref_type_leaf[OF d] by (metis append_take_drop_id map_append)
  qed
qed

section \<open>Nothing but the leaves of the type\<close>

lemma has_leaf_container: "\<not> has_leaf (schema_container part) names k"
  by (cases names) (auto simp: has_leaf_def leaf_node_def schema_container_def child_def)

lemma has_leaf_Cons: "has_leaf n (x # names) k \<longleftrightarrow> (\<exists>c. child n x = Some c \<and> has_leaf c names k)"
  by (auto simp: has_leaf_def bind_eq_Some_conv)

lemma has_leaf_named_iff: "has_leaf (named x m) names k \<longleftrightarrow> has_leaf m names k"
  by (cases names) (auto simp: has_leaf_def leaf_node_def named_def child_def)

lemma add_at_only:
  assumes "add_at owner parts made = Inr p" "has_leaf p names k" "made = Inr m"
  shows "has_leaf owner names k \<or> (\<exists>rest. names = parts @ rest \<and> has_leaf m rest k)"
  using assms
proof (induction owner parts made arbitrary: p names rule: add_at.induct)
  case (2 owner name made)
  then have p: "p = append_child owner (named name m)" by (auto simp: bind_res_def split: if_splits)
  show ?case
  proof (cases names)
    case Nil
    then show ?thesis using 2(2) p by (simp add: has_leaf_def leaf_node_def append_child_def)
  next
    case (Cons x xs)
    then show ?thesis using 2(2) p
      by (auto simp: has_leaf_Cons child_append has_leaf_named_iff named_def split: option.splits if_splits)
         (metis has_leaf_named_iff named_def)+
  qed
next
  case (3 owner part part2 parts made)
  obtain c where c: "sn_node p = sn_node owner" "nd_Name (sn_node c) = part"
      "\<And>x. child p x = (if x = part then Some c else child owner x)"
      "\<And>ns. has_leaf c ns k \<Longrightarrow> (\<exists>d. child owner part = Some d \<and> has_leaf d ns k) \<or>
        (\<exists>rest. ns = part2 # parts @ rest \<and> has_leaf m rest k)"
  proof (cases "child owner part")
    case None
    then obtain c where c: "add_at (schema_container part) (part2 # parts) made = Inr c" "p = append_child owner c"
      using 3(3) by (auto simp: bind_res_eq_Inr)
    have nm: "nd_Name (sn_node c) = part" using add_at_node[OF c(1)] by (simp add: schema_container_def)
    show thesis
    proof (rule that[of c])
      show "child p x = (if x = part then Some c else child owner x)" for x
        using c(2) nm None by (auto simp: child_append split: option.split)
      show "(\<exists>d. child owner part = Some d \<and> has_leaf d ns k) \<or> (\<exists>rest. ns = part2 # parts @ rest \<and> has_leaf m rest k)"
        if "has_leaf c ns k" for ns
        using "3.IH"(1)[OF None c(1) that 3(5)] has_leaf_container by auto
    qed (use c(2) nm in \<open>simp_all add: append_child_def\<close>)
  next
    case (Some d)
    then obtain c where c: "add_at d (part2 # parts) made = Inr c" "p = replace_child owner part c"
        "nd_Kind (sn_node d) = KindContainer"
      using 3(3) by (auto simp: bind_res_eq_Inr split: if_splits)
    have nm: "nd_Name (sn_node c) = part" using add_at_node[OF c(1)] child_name[OF Some] by simp
    show thesis
    proof (rule that[of c])
      show "child p x = (if x = part then Some c else child owner x)" for x
        using c(2) child_replace[OF Some nm] by simp
      show "(\<exists>d. child owner part = Some d \<and> has_leaf d ns k) \<or> (\<exists>rest. ns = part2 # parts @ rest \<and> has_leaf m rest k)"
        if "has_leaf c ns k" for ns
        using "3.IH"(2)[OF Some _ c(1) that 3(5)] c(3) Some by auto
    qed (use c(2) nm in \<open>simp_all add: replace_child_def\<close>)
  qed
  show ?case
  proof (cases names)
    case Nil
    then show ?thesis using 3(4) c(1) by (simp add: has_leaf_def leaf_node_def)
  next
    case (Cons x xs)
    then show ?thesis using 3(4) c(3) c(4)[of xs] by (auto simp: has_leaf_Cons split: if_splits)
  qed
qed simp

lemma type_leaf_later: "type_leaf (TStruct fs) names k \<Longrightarrow> type_leaf (TStruct (f # fs)) names k"
proof (erule type_leaf.cases)
  fix g gs tag ns j
  assume "TStruct fs = TStruct gs" "names = split_on CHR ''/'' tag @ ns" "k = j" "g \<in> set gs"
    "t_path (fst g) = Some tag" "type_leaf (snd g) ns j"
  then show ?thesis using type_leaf.Field[of g "f # fs" tag ns j] by simp
qed simp_all

lemma schema_type_leaf:
  "newSchemaNode t = Inr c \<Longrightarrow> has_leaf c names k \<Longrightarrow> type_leaf t names k"
  "addSchemaChildren parent fs = Inr p \<Longrightarrow> has_leaf p names k \<Longrightarrow>
   has_leaf parent names k \<or> type_leaf (TStruct fs) names k"
proof (induction t and parent fs arbitrary: c names and p names rule: newSchemaNode_addSchemaChildren.induct)
  case (1 t)
  from "1.prems"(1) have "newSchemaNode t = Inr c" by simp
  from "1.IH"[OF this "1.prems"(2)] show ?case by (rule type_leaf.Ptr)
next
  case (2 et)
  have "\<exists>fs. strip_ptr et = TStruct fs \<and> keyTagName fs \<noteq> [] \<and>
      addSchemaChildren (SNode \<lparr>nd_Name = [], nd_Kind = KindList, nd_Key = keyTagName fs, nd_Leaf = None\<rparr> []) fs = Inr c"
    using "2.prems"(1) by (cases "strip_ptr et") (simp_all split: if_splits)
  then obtain fs where fs: "strip_ptr et = TStruct fs" "keyTagName fs \<noteq> []"
      "addSchemaChildren (SNode \<lparr>nd_Name = [], nd_Kind = KindList, nd_Key = keyTagName fs, nd_Leaf = None\<rparr> []) fs = Inr c"
    by blast
  have "\<not> has_leaf (SNode \<lparr>nd_Name = [], nd_Kind = KindList, nd_Key = keyTagName fs, nd_Leaf = None\<rparr> []) names k"
    by (cases names) (auto simp: has_leaf_def leaf_node_def child_def)
  then have "type_leaf (strip_ptr et) names k" using "2.IH"[OF fs(1,2,3) "2.prems"(2)] unfolding fs(1) by blast
  from type_leaf.Slice[OF strip_type_leaf[OF this]] show ?case .
next
  case (3 fs)
  from "3.prems"(1) have "addSchemaChildren (schema_container []) fs = Inr c" by simp
  from "3.IH"[OF this "3.prems"(2)] show ?case using has_leaf_container by blast
next
  case (4 j)
  have "names = [] \<and> j = k" using "4.prems" by (cases names) (auto simp: has_leaf_def leaf_node_def child_def)
  then show ?case by (simp add: type_leaf.Leaf)
next
  case (6 parent f fs)
  show ?case
  proof (cases "t_path (fst f)")
    case None
    then have "addSchemaChildren parent fs = Inr p" using "6.prems"(1) by simp
    from "6.IH"(1)[OF None this "6.prems"(2)] show ?thesis using type_leaf_later by blast
  next
    case (Some tag)
    then obtain q where q: "add_at parent (split_on CHR ''/'' tag) (newSchemaNode (snd f)) = Inr q"
        "addSchemaChildren q fs = Inr p"
      using "6.prems"(1) by (auto simp: bind_res_eq_Inr)
    obtain m where m: "newSchemaNode (snd f) = Inr m" using add_at_made[OF q(1)] by auto
    consider "has_leaf q names k" | "type_leaf (TStruct fs) names k"
      using "6.IH"(3)[OF Some q(2) "6.prems"(2)] by blast
    then show ?thesis
    proof cases
      case 1
      then show ?thesis
        using add_at_only[OF q(1) 1 m] "6.IH"(2)[OF Some m] type_leaf.Field[of f "f # fs" tag, OF _ Some]
        by (meson list.set_intros(1))
    qed (simp add: type_leaf_later)
  qed
qed simp

definition device_schema :: schemaNode where
  "device_schema = (case buildSchema Device_type of Inr s \<Rightarrow> s | Inl _ \<Rightarrow> schema_container [])"

lemma buildSchema_device: "buildSchema Device_type = Inr device_schema"
proof -
  have "case buildSchema Device_type of Inr _ \<Rightarrow> True | Inl _ \<Rightarrow> False" by code_simp
  then show ?thesis by (simp add: device_schema_def split: sum.splits)
qed

lemma device_schema_leaf: "has_leaf device_schema names k \<longleftrightarrow> type_leaf Device_type names k"
proof -
  obtain fs where fs: "Device_type = TStruct fs" by (simp add: Device_type_def)
  have s: "addSchemaChildren (schema_container []) fs = Inr device_schema"
    using buildSchema_device unfolding fs buildSchema_def by simp
  have "has_leaf device_schema names k" if "type_leaf (TStruct fs) names k"
    using newSchemaNode_leaf[OF that] s by simp
  then show ?thesis unfolding fs using schema_type_leaf(2)[OF s] has_leaf_container by blast
qed

lemma resolve_leaf_schema:
  assumes "resolve_leaf r path = Inr (p, n)" "Parse path = Inr segs"
  shows "\<exists>k x. derefValue (n_type n) (n_value n) = Some (TLeaf k, x) \<and> has_leaf device_schema (map Name segs) k"
proof -
  obtain fs where dt: "Device_type = TStruct fs" by (simp add: Device_type_def)
  have dv: "derefValue Device_type w = Some (Device_type, w)" for w by (cases w) (simp_all add: dt)
  have n: "resolve_from Device_type (Device_value (r_root r)) False segs = Inr n" "isLeaf (n_type n) (n_value n)"
    using resolve_leaf_Inr(2,3)[OF assms(1)] assms(2) dv by (auto simp: resolve_def)
  obtain k x where k: "derefValue (n_type n) (n_value n) = Some (TLeaf k, x)"
    using n(2) by (auto simp: isLeaf_def split: option.splits prod.splits gotype.splits)
  then show ?thesis using resolve_from_type_leaf[OF n(1) k] by (auto simp: device_schema_leaf)
qed

section \<open>Names of a path\<close>

definition path_names :: "string \<Rightarrow> string list" where
  "path_names s = (if s = [] then [] else map (takeWhile (\<lambda>c. c \<noteq> CHR ''['')) (split_on CHR ''/'' s))"

lemma index_byte_takeWhile: "index_byte c s = Some i \<Longrightarrow> take i s = takeWhile (\<lambda>x. x \<noteq> c) s"
  by (induction s arbitrary: i) (auto split: if_splits)

lemma index_byte_None_takeWhile: "index_byte c s = None \<Longrightarrow> takeWhile (\<lambda>x. x \<noteq> c) s = s"
  by (induction s) (auto split: if_splits)

lemma parseSegment_name: "parseSegment part = Inr g \<Longrightarrow> Name g = takeWhile (\<lambda>c. c \<noteq> CHR ''['') part"
  by (auto simp: parseSegment_def Let_def index_byte_takeWhile index_byte_None_takeWhile
      split: option.splits if_splits)

lemma Parse_names: "Parse s = Inr segs \<Longrightarrow> map Name segs = path_names s"
proof -
  assume p: "Parse s = Inr segs"
  then have "map_res parseSegment (split_on CHR ''/'' s) = Inr segs" "s \<noteq> []"
    by (auto simp: Parse_def split: if_splits sum.splits)
  moreover have "map_res parseSegment parts = Inr gs \<Longrightarrow> map Name gs = map (takeWhile (\<lambda>c. c \<noteq> CHR ''['')) parts" for parts gs
    by (induction parts arbitrary: gs) (auto simp: parseSegment_name bind_res_eq_Inr)
  ultimately show ?thesis by (simp add: path_names_def)
qed

lemma path_names_join:
  "CHR ''/'' \<notin> set part \<Longrightarrow> part \<noteq> [] \<Longrightarrow>
   path_names (join_path base part) = path_names base @ [takeWhile (\<lambda>c. c \<noteq> CHR ''['') part]"
  by (auto simp: path_names_def join_path_def split_on_append split_on_nosep)

lemma children_walk_lookup: "children_walk full s segs = Inr c \<Longrightarrow> slookup s (map Name segs) = Some c"
  by (induction full s segs rule: children_walk.induct) (auto split: option.splits if_splits)

lemma Children_lookup:
  assumes "Children s base = Inr nodes"
  shows "\<exists>c. slookup s (path_names base) = Some c \<and> nodes = map sn_node (sn_children c)"
proof (cases "base = []")
  case False
  then obtain segs c where "Parse base = Inr segs" "children_walk base s segs = Inr c" "nodes = map sn_node (sn_children c)"
    using assms by (auto simp: Children_def bind_res_eq_Inr parse_r_Inr)
  then show ?thesis using children_walk_lookup Parse_names by metis
qed (use assms in \<open>auto simp: Children_def path_names_def\<close>)

lemma nodeNamed_child:
  "nodeNamed (map sn_node (sn_children c)) name = Some nd \<Longrightarrow> \<exists>d. child c name = Some d \<and> sn_node d = nd"
proof -
  have "find P (map f xs) = map_option f (find (P \<circ> f) xs)" for P :: "schema_info \<Rightarrow> bool" and f :: "schemaNode \<Rightarrow> schema_info" and xs
    by (induction xs) auto
  then show "nodeNamed (map sn_node (sn_children c)) name = Some nd \<Longrightarrow> \<exists>d. child c name = Some d \<and> sn_node d = nd"
    by (simp add: nodeNamed_def child_def comp_def)
qed

text \<open>A container or list that the schema lists is never a leaf.\<close>

lemma listed_not_leaf:
  assumes "Children device_schema base = Inr nodes" "nodeNamed nodes name = Some nd" "nd_Kind nd \<noteq> KindLeaf"
    "CHR ''/'' \<notin> set part" "part \<noteq> []" "takeWhile (\<lambda>c. c \<noteq> CHR ''['') part = name"
  shows "resolve_leaf r (join_path base part) \<noteq> Inr x"
proof
  assume res: "resolve_leaf r (join_path base part) = Inr x"
  obtain p n where x: "x = (p, n)" by (cases x)
  obtain segs where segs: "Parse (join_path base part) = Inr segs" using resolve_leaf_Inr(2)[OF res[unfolded x]] by blast
  obtain k where leaf: "has_leaf device_schema (map Name segs) k" using resolve_leaf_schema[OF res[unfolded x] segs] by blast
  obtain c where c: "slookup device_schema (path_names base) = Some c" "nodes = map sn_node (sn_children c)"
    using Children_lookup[OF assms(1)] by blast
  obtain d where d: "child c name = Some d" "sn_node d = nd" using nodeNamed_child assms(2) c(2) by blast
  have "slookup device_schema (map Name segs) = Some d"
    using Parse_names[OF segs] path_names_join[OF assms(4,5)] assms(6) c(1) d(1) by (simp add: slookup_append)
  then show False using leaf d(2) assms(3) by (simp add: has_leaf_def leaf_node_def)
qed

section \<open>The names of the device schema\<close>

fun schema_nodes :: "schemaNode \<Rightarrow> schema_info list" where
  "schema_nodes (SNode n cs) = n # concat (map schema_nodes cs)"

definition plain_info :: "schema_info \<Rightarrow> bool" where
  "plain_info n \<longleftrightarrow> CHR ''/'' \<notin> set (nd_Name n) \<and> CHR ''['' \<notin> set (nd_Name n) \<and> CHR ''/'' \<notin> set (nd_Key n)"

lemma device_schema_plain: "list_all plain_info (schema_nodes device_schema)"
  by code_simp

lemma schema_nodes_lookup: "slookup s names = Some c \<Longrightarrow> set (schema_nodes c) \<subseteq> set (schema_nodes s)"
proof (induction s names rule: slookup.induct)
  case (2 n name names)
  then obtain d where d: "child n name = Some d" "slookup d names = Some c" by (auto simp: bind_eq_Some_conv)
  then have "d \<in> set (sn_children n)" by (auto simp: child_def find_Some_iff)
  then have "set (schema_nodes d) \<subseteq> set (schema_nodes n)" by (cases n) auto
  then show ?case using 2(1)[OF d] by blast
qed simp

lemma listed_plain:
  assumes "Children device_schema base = Inr nodes" "nodeNamed nodes name = Some nd"
  shows "plain_info nd" "nd_Name nd = name"
proof -
  obtain c where c: "slookup device_schema (path_names base) = Some c" "nodes = map sn_node (sn_children c)"
    using Children_lookup[OF assms(1)] by blast
  obtain d where d: "child c name = Some d" "sn_node d = nd" using nodeNamed_child assms(2) c(2) by blast
  have "slookup device_schema (path_names base @ [name]) = Some d" using c(1) d(1) by (simp add: slookup_append)
  from schema_nodes_lookup[OF this] have "nd \<in> set (schema_nodes device_schema)" using d(2) by (cases d) auto
  then show "plain_info nd" using device_schema_plain by (simp add: list_all_iff)
  show "nd_Name nd = name" using child_name[OF d(1)] d(2) by simp
qed

lemma tag_state: "t_state (plain p) = False" "t_state (state p) = True"
  by (simp_all add: plain_def state_def)

lemma ptp_state_leaf:
  "resolve_leaf r ''ptp/clock/state'' =
     Inr (''ptp/clock/state'',
       \<lparr>n_type = TLeaf kindString, n_value = VLeaf (GString (ptp_State (dv_PTP (r_root r)))), n_readOnly = True\<rparr>)"
proof -
  let ?segs = "map (\<lambda>n. \<lparr>Name = n, Key = [], Value = []\<rparr>) [''ptp'', ''clock'', ''state'']"
  have "Parse ''ptp/clock/state'' = Inr ?segs" by code_simp
  then have parse: "parse_r ''ptp/clock/state'' = Inr ?segs" by (simp add: parse_r_Inr)
  have m: "matchField (case Device_type of TStruct fs \<Rightarrow> fs) ?segs = Some (6, 2)"
    "matchField (case PTPClock_type of TStruct fs \<Rightarrow> fs) [\<lparr>Name = ''state'', Key = [], Value = []\<rparr>] = Some (7, 1)"
    by code_simp+
  have "resolve Device_type (Device_value (r_root r)) ?segs =
      Inr \<lparr>n_type = TLeaf kindString, n_value = VLeaf (GString (ptp_State (dv_PTP (r_root r)))), n_readOnly = True\<rparr>"
    using m by (simp add: resolve_def Device_type_def Device_value_def PTPClock_type_def PTPClock_value_def tag_state)
  then show ?thesis using parse by (simp add: resolve_leaf_def isLeaf_def path_String_def segment_string_def)
qed

text \<open>C27: the schema and the resolver describe the same tree.  Every leaf the resolver addresses is a leaf
  of the schema at the same names and of the same kind, and the leaves of the schema are exactly those the path tags
  of the model types spell out.\<close>

theorem schema_exact:
  assumes "resolve_leaf r path = Inr (p, n)" "Parse path = Inr segs"
  shows "(\<exists>k x c. derefValue (n_type n) (n_value n) = Some (TLeaf k, x) \<and>
      slookup device_schema (map Name segs) = Some c \<and> leaf_node k c) \<and>
    (has_leaf device_schema names j \<longleftrightarrow> type_leaf Device_type names j)"
  using resolve_leaf_schema[OF assms] device_schema_leaf by (auto simp: has_leaf_def)

theorem schema_exact_witness:
  "\<exists>c. slookup device_schema [''ptp'', ''clock'', ''state''] = Some c \<and> leaf_node kindString c"
proof -
  have "Parse ''ptp/clock/state'' = Inr (map (\<lambda>n. \<lparr>Name = n, Key = [], Value = []\<rparr>) [''ptp'', ''clock'', ''state''])"
    by code_simp
  from schema_exact[OF ptp_state_leaf[of sample_router] this] show ?thesis by auto
qed

end
