(* ===== verification/ConvertLaws.thy ===== *)
theory ConvertLaws
  imports RouterLaws OidLaws
begin

text \<open>
  Conversion is stable on its own results: a value the router converted for a leaf converts to itself,
  so a batch of converted values is stored as it is.  The SNMP Set and the data-tree editor both hand
  such batches to the router.
\<close>

section \<open>Converted values convert to themselves\<close>

lemma assignLeaf_kind: "assignLeaf oor t v = Inr c \<Longrightarrow> \<exists>k. t = TLeaf k \<and> leafKindOf c = Some k"
  by (auto simp: assignLeaf_def assign_uint_def split: gotype.splits if_splits leaf_kind.splits option.splits)

lemma coerce_kind: "coerce oor v t = Inr c \<Longrightarrow> \<exists>k. t = TLeaf k \<and> leafKindOf c = Some k"
  unfolding coerce_def bind_res_eq_Inr
proof (elim exE conjE)
  fix x assume x: "assignLeaf oor t v = Inr x" "leafValue t (VLeaf x) = Inr c"
  obtain k where "t = TLeaf k" "leafKindOf x = Some k" using assignLeaf_kind[OF x(1)] by blast
  then show ?thesis using x(2) by (simp add: leafValue_def)
qed

lemma coerce_typed: "leafKindOf c = Some k \<Longrightarrow> coerce oor c (TLeaf k) = Inr c"
  by (cases c) (auto simp: coerce_def assignLeaf_def leafValue_def)

text \<open>The only decoder of the object rules is \<open>truthFromInt\<close>.\<close>

definition decoders_ok :: "router \<Rightarrow> bool" where
  "decoders_ok r \<longleftrightarrow> (\<forall>(p, ob) \<in> set (r_byPath r). \<forall>dec. ob_decode ob = Some dec \<longrightarrow> dec = truthFromInt)"

lemma truthFromInt_bool: "truthFromInt v = Inr w \<Longrightarrow> \<exists>b. w = GBool b"
  by (auto simp: truthFromInt_def split: goval.splits if_splits)

lemma coerce_bool: "coerce oor (GBool b) t = Inr c \<Longrightarrow> c = GBool b"
proof -
  assume c: "coerce oor (GBool b) t = Inr c"
  obtain k where k: "t = TLeaf k" "leafKindOf c = Some k" using coerce_kind[OF c] by blast
  have "k = kindBool" using c k(1)
    by (cases k) (auto simp: coerce_def assignLeaf_def assign_uint_def)
  then show ?thesis using c k(1) coerce_typed[of "GBool b" kindBool oor] by simp
qed

lemma decode_stable:
  assumes "decoders_ok r" "decode_value r p v = Inr w" "coerce oor w t = Inr c"
  shows "decode_value r p c = Inr c"
proof -
  have dec: "dec = truthFromInt" if "map_of (r_byPath r) p = Some ob" "ob_decode ob = Some dec" for ob dec
    using assms(1) map_of_SomeD[OF that(1)] that(2) by (auto simp: decoders_ok_def)
  show ?thesis
  proof (cases "\<exists>ob d. map_of (r_byPath r) p = Some ob \<and> ob_decode ob = Some d")
    case True
    then obtain ob where ob: "map_of (r_byPath r) p = Some ob" "ob_decode ob = Some truthFromInt" using dec by blast
    then have "truthFromInt v = Inr w" using assms(2) by (simp add: decode_value_def split: sum.splits)
    then obtain b where "c = GBool b" using truthFromInt_bool coerce_bool assms(3) by blast
    then show ?thesis using ob by (simp add: decode_value_def truthFromInt_def)
  qed (auto simp: decode_value_def split: option.split)
qed

lemma Convert_stable:
  assumes "decoders_ok r" "Convert r p v = Inr res"
  shows "\<exists>res'. Convert r p (rs_Value res) = Inr res' \<and> rs_Path res' = p \<and> rs_Value res' = rs_Value res"
proof -
  obtain n w where n: "resolve_leaf r p = Inr (p, n)" "\<not> n_readOnly n" "decode_value r p v = Inr w"
      "coerce (r_oor r) w (n_type n) = Inr (rs_Value res)"
    using assms(2) unfolding Convert_def by (elim convert_Inr) auto
  obtain k where k: "n_type n = TLeaf k" "leafKindOf (rs_Value res) = Some k" using coerce_kind[OF n(4)] by blast
  show ?thesis using n(1,2) decode_stable[OF assms(1) n(3,4)] coerce_typed[OF k(2)] k(1)
    by (simp add: Convert_def convert_def bind_res_def)
qed

definition stable :: "router \<Rightarrow> vals \<Rightarrow> bool" where
  "stable r vs \<longleftrightarrow> (\<forall>(p, v) \<in> set vs. \<exists>res. Convert r p v = Inr res \<and> rs_Path res = p \<and> rs_Value res = v)"

lemma convert_all_stable:
  "stable r vs \<Longrightarrow> distinct (map fst vs) \<Longrightarrow> set (map fst vs) \<inter> gm_keys acc = {} \<Longrightarrow>
   convert_all r vs acc = Inr (acc @ vs)"
proof (induction vs arbitrary: acc)
  case (Cons x vs)
  obtain p v where x: "x = (p, v)" by (cases x)
  obtain res where "Convert r p v = Inr res" "rs_Path res = p" "rs_Value res = v"
    using Cons.prems(1) x by (auto simp: stable_def)
  moreover have "AList.update p v acc = acc @ [(p, v)]"
    using Cons.prems(3) x by (intro update_fresh) auto
  ultimately show ?case using Cons x by (auto simp: stable_def)
qed simp

section \<open>Batches of updates\<close>

abbreviation upd_all :: "vals \<Rightarrow> vals \<Rightarrow> vals" where
  "upd_all m ls \<equiv> foldl (\<lambda>m (k, v). AList.update k v m) m ls"

lemma update_swap:
  "k \<noteq> k' \<Longrightarrow> k \<in> gm_keys m \<Longrightarrow> AList.update k v (AList.update k' v' m) = AList.update k' v' (AList.update k v m)"
  by (induction m) auto

lemma update_same: "AList.update k v (AList.update k v' m) = AList.update k v m"
  by (induction m) auto

lemma update_upd_all:
  "k \<in> gm_keys m \<Longrightarrow> k \<notin> gm_keys ls \<Longrightarrow> AList.update k v (upd_all m ls) = upd_all (AList.update k v m) ls"
proof (induction ls arbitrary: m)
  case (Cons x ls)
  then show ?case by (cases x) (auto simp: update_swap gm_keys_update)
qed simp

lemma upd_all_update: "gm_wf ls \<Longrightarrow> upd_all m (AList.update k v ls) = AList.update k v (upd_all m ls)"
proof (induction ls arbitrary: m)
  case (Cons x ls)
  obtain k' v' where x: "x = (k', v')" by (cases x)
  show ?case
  proof (cases "k = k'")
    case True
    then have "k \<notin> gm_keys ls" using Cons.prems x by auto
    then show ?thesis using True x update_upd_all[of k "AList.update k v' m" ls v]
      by (simp add: gm_keys_update update_same)
  qed (use Cons x in simp)
qed simp

section \<open>Bulk reads\<close>

lemma describe_all:
  "map_res (\<lambda>(p, v). bind_res (describe r p v) (\<lambda>res. Inr (p, res))) vs = Inr rs \<Longrightarrow>
   map (\<lambda>(p, res). (p, rs_Value res)) rs = vs \<and>
   (\<forall>(p, res) \<in> set rs. \<exists>n. resolve_leaf r p = Inr (p, n) \<and> rs_Writable res = (\<not> n_readOnly n))"
proof (induction vs arbitrary: rs)
  case (Cons x vs)
  obtain p v where x: "x = (p, v)" by (cases x)
  obtain res rs' where r: "describe r p v = Inr res" "rs = (p, res) # rs'"
      "map_res (\<lambda>(p, v). bind_res (describe r p v) (\<lambda>res. Inr (p, res))) vs = Inr rs'"
    using Cons.prems x by (auto simp: bind_res_eq_Inr)
  obtain n where "resolve_leaf r p = Inr (p, n)" "rs_Value res = v" "rs_Writable res = (\<not> n_readOnly n)"
    using r(1) resolve_leaf_path by (fastforce simp: describe_def bind_res_eq_Inr)
  then show ?case using Cons.IH[OF r(3)] r(2) x by auto
qed simp

lemma Router_Values_Inr:
  assumes "Router_Values ctx r ds = Inr rs"
  shows "ctx = None" "\<forall>n. ds \<noteq> OtherDS n" "map (\<lambda>(p, res). (p, rs_Value res)) rs = ds_of ds (r_store r)"
    "\<forall>(p, res) \<in> set rs. \<exists>n. resolve_leaf r p = Inr (p, n) \<and> rs_Writable res = (\<not> n_readOnly n)"
proof -
  obtain vs where vs: "ctx = None" "Values_of None (r_store r) ds = Inr vs"
      "map_res (\<lambda>(p, v). bind_res (describe r p v) (\<lambda>res. Inr (p, res))) vs = Inr rs"
    using assms by (auto simp: Router_Values_def lift_r_def split: option.splits sum.splits)
  have "vs = ds_of ds (r_store r)" and ds: "\<forall>n. ds \<noteq> OtherDS n" using vs(2) by (auto simp: Values_of_def datastore_vals_Inr)
  then show "ctx = None" "\<forall>n. ds \<noteq> OtherDS n" "map (\<lambda>(p, res). (p, rs_Value res)) rs = ds_of ds (r_store r)"
    "\<forall>(p, res) \<in> set rs. \<exists>n. resolve_leaf r p = Inr (p, n) \<and> rs_Writable res = (\<not> n_readOnly n)"
    using vs(1) describe_all[OF vs(3)] by auto
qed

text \<open>Every router that \<open>New\<close> returns has these decoders only.\<close>

lemma objectRules_decode: "r \<in> set objectRules \<Longrightarrow> ru_decode r = Some dec \<Longrightarrow> dec = truthFromInt"
  by (auto simp: objectRules_def rule_def)

lemma rule_of_interface_decode: "ob \<in> set (rule_of_interface i ex iface r) \<Longrightarrow> ob_decode ob = ru_decode r"
  by (cases "ru_scope r") (auto simp: rule_of_interface_def rule_object_def split: if_splits)

lemma buildObjects_decode: "ob \<in> set (buildObjects d) \<Longrightarrow> ob_decode ob = Some dec \<Longrightarrow> dec = truthFromInt"
proof -
  have "ob \<in> set (interface_objects i ex ifs) \<Longrightarrow> ob_decode ob = Some dec \<Longrightarrow> dec = truthFromInt" for i ex ifs
    by (induction i ex ifs rule: interface_objects.induct)
       (auto simp: constant_object_def rule_of_interface_decode objectRules_decode)
  then show "ob \<in> set (buildObjects d) \<Longrightarrow> ob_decode ob = Some dec \<Longrightarrow> dec = truthFromInt"
    by (auto simp: buildObjects_def all_objects_def scalar_objects_def tableObjects_def Let_def rule_object_def
        constant_object_def objectRules_decode split: if_splits)
qed

lemma index_objects_byPath:
  "index_objects obs byOID byPath = Inr (o', p') \<Longrightarrow> (a, ob) \<in> set p' \<Longrightarrow> ob \<in> set obs \<or> (a, ob) \<in> set byPath"
proof (induction obs byOID byPath rule: index_objects.induct)
  case (2 x obs byOID byPath)
  have upd: "(a, ob) \<in> set (AList.update k v m) \<Longrightarrow> ob = v \<or> (a, ob) \<in> set m" for k and v :: indexedObject and m
    by (induction m) (auto split: if_splits)
  show ?case using 2 upd by (fastforce split: if_splits option.splits)
qed simp

lemma NewRouter_decoders: "NewRouter oor tmpl st = Inr r \<Longrightarrow> decoders_ok r"
  using index_objects_byPath[of "buildObjects tmpl" "[]" "[]"] buildObjects_decode
  by (fastforce simp: NewRouter_def bind_res_eq_Inr decoders_ok_def)

end
