(* ===== verification/SnmpSetLaws.thy ===== *)
theory SnmpSetLaws
  imports SnmpLaws SchemaLaws ConvertLaws
begin

text \<open>
  The Set operation of the SNMP agent: the batch the agent hands to the router is the proposal it
  validated, and a Set is applied as a whole or not at all.
  The clock state of a synchronisation trap is Null.
\<close>

section \<open>The proposal and the batch\<close>

lemma runningSnapshot_Inr: "runningSnapshot ctx r = Inr vs \<Longrightarrow> ctx = None \<and> vs = ds_of Running (r_store r)"
  by (auto simp: runningSnapshot_def bind_res_eq_Inr dest: Router_Values_Inr(1,3))

lemma set_loop_Inr:
  assumes "set_loop ctx r x i vs proposed changed = Inr changed'" "decoders_ok r" "stable r changed" "gm_wf changed"
    "proposed = upd_all run changed"
  shows "\<exists>pairs. map_res (set_variable r x) vs = Inr pairs \<and> stable r changed' \<and> gm_wf changed' \<and>
    (\<forall>m. upd_all m changed' = upd_all (upd_all m changed) pairs) \<and>
    (vs \<noteq> [] \<longrightarrow> Router_Validate r ctx (upd_all run changed') = None)"
  using assms
proof (induction vs arbitrary: i proposed changed)
  case (Cons v vs)
  obtain p y where py: "set_variable r x v = Inr (p, y)" "Router_Validate r ctx (AList.update p y proposed) = None"
      "set_loop ctx r x (i + 1) vs (AList.update p y proposed) (AList.update p y changed) = Inr changed'"
    using Cons.prems(1) by (auto simp: Let_def split: sum.splits option.splits)
  obtain q w res where "Convert r q w = Inr res" "p = rs_Path res" "y = rs_Value res"
    using py(1) by (auto simp: set_variable_def split: option.splits if_splits sum.splits)
  then have st: "\<exists>res. Convert r p y = Inr res \<and> rs_Path res = p \<and> rs_Value res = y"
    using Convert_stable[OF Cons.prems(2)] Convert_not_state by metis
  have "(a, b) \<in> set (AList.update p y changed) \<Longrightarrow> (a, b) = (p, y) \<or> (a, b) \<in> set changed" for a b
    by (induction changed) (auto split: if_splits)
  then have "stable r (AList.update p y changed)" using Cons.prems(3) st unfolding stable_def by fast
  then obtain pairs where pairs: "map_res (set_variable r x) vs = Inr pairs" "stable r changed'" "gm_wf changed'"
      "\<forall>m. upd_all m changed' = upd_all (upd_all m (AList.update p y changed)) pairs"
      "vs \<noteq> [] \<longrightarrow> Router_Validate r ctx (upd_all run changed') = None"
    using Cons.IH[OF py(3) Cons.prems(2)] Cons.prems(4,5) gm_wf_update upd_all_update by metis
  have "Router_Validate r ctx (upd_all run changed') = None"
    using pairs(1,4,5) py(2) Cons.prems(4,5) by (cases "vs = []") (auto simp: upd_all_update)
  then show ?case using pairs py(1) Cons.prems(4) by (auto simp: upd_all_update intro!: exI[of _ "(p, y) # pairs"])
qed (auto intro!: exI[of _ "[]"])

section \<open>All or nothing\<close>

lemma Bindings_snd: "\<exists>c. snd (Bindings ctx ds r) = r\<lparr>r_bindCache := c\<rparr>"
proof -
  have "\<exists>c. r = r\<lparr>r_bindCache := c\<rparr>" by (rule exI[of _ "r_bindCache r"]) simp
  then show ?thesis by (auto simp: Bindings_def split: option.split sum.split)
qed

lemma agent_index_snd: "agent_index ctx r = (x, r1) \<Longrightarrow> \<exists>c. r1 = r\<lparr>r_bindCache := c\<rparr>"
  using Bindings_snd[of ctx Running r] by (auto simp: agent_index_def split: prod.splits)

lemma agent_index_valid:
  assumes "Router_Validate r None (ds_of Running (r_store r)) = None"
  shows "\<exists>x. fst (agent_index None r) = Inr x"
proof -
  obtain d where "deviceFromValues (r_oor r) (r_root r) (ds_of Running (r_store r)) = Inr d"
    using assms by (auto simp: Router_Validate_def Validate_r_def split: sum.splits)
  then show ?thesis
    by (auto simp: agent_index_def Bindings_def Generation_def Values_of_def fresh_bindings_def lift_r_def bind_res_def)
qed

lemma set_cache_indep [simp]:
  "decoders_ok (r\<lparr>r_bindCache := c\<rparr>) = decoders_ok r"
  "set_variable (r\<lparr>r_bindCache := c\<rparr>) x = set_variable r x"
  "Router_Validate (r\<lparr>r_bindCache := c\<rparr>) = Router_Validate r"
  "stable (r\<lparr>r_bindCache := c\<rparr>) vs = stable r vs"
  by (simp_all add: decoders_ok_def set_variable_def Router_Validate_def stable_def fun_eq_iff
      split: option.split)

lemma Router_Validate_store [simp]: "Router_Validate (r\<lparr>r_store := m\<rparr>) = Router_Validate r"
  by (simp add: Router_Validate_def fun_eq_iff)

definition same_contents :: "router \<Rightarrow> router \<Rightarrow> bool" where
  "same_contents r r' \<longleftrightarrow> (\<forall>d. ds_of d (r_store r') = ds_of d (r_store r))"

text \<open>The pairs of a Set were written to running, and with it to candidate, and the model accepts the
  running configuration that results.\<close>

definition written :: "router \<Rightarrow> vals \<Rightarrow> router \<Rightarrow> bool" where
  "written r pairs r' \<longleftrightarrow>
     (\<forall>d. ds_of d (r_store r') =
        (if d = Running \<or> d = Candidate then upd_all (ds_of d (r_store r)) pairs else ds_of d (r_store r))) \<and>
     (pairs \<noteq> [] \<longrightarrow> Router_Validate r None (ds_of Running (r_store r')) = None)"

lemma apply_changed:
  assumes "decoders_ok r" "set_loop None r x 0 vs (ds_of Running (r_store r)) [] = Inr changed"
    "Router_Apply None t Running changed [] r = (None, r')"
  shows "\<exists>pairs. map_res (set_variable r x) vs = Inr pairs \<and> written r pairs r' \<and>
    r' = r\<lparr>r_store := r_store r'\<rparr>"
proof -
  obtain pairs where p: "map_res (set_variable r x) vs = Inr pairs" "stable r changed" "gm_wf changed"
      "\<forall>m. upd_all m changed = upd_all m pairs"
      "vs \<noteq> [] \<longrightarrow> Router_Validate r None (upd_all (ds_of Running (r_store r)) changed) = None"
    using set_loop_Inr[OF assms(2,1), of "ds_of Running (r_store r)"] by (auto simp: stable_def)
  have c: "convert_all r changed [] = Inr changed" using convert_all_stable[OF p(2), of "[]"] p(3) by simp
  have ds: "ds_of d (r_store r') = (if d = Running \<or> d = Candidate then upd_all (ds_of d (r_store r)) pairs
      else ds_of d (r_store r))" for d
  proof -
    obtain cs where "convert_all r changed [] = Inr cs" "ds_of d (r_store r') =
        (if d \<in> reached Running then foldl (\<lambda>m p. AList.delete p m) (upd_all (ds_of d (r_store r)) cs) []
         else ds_of d (r_store r))"
      by (rule Router_Apply_ds[OF assms(3)])
    then show ?thesis using c p(4) by (simp add: reached_def)
  qed
  have "r' = r\<lparr>r_store := r_store r'\<rparr>" using Router_Apply_store[OF assms(3)] by auto
  moreover have "vs \<noteq> []" if "pairs \<noteq> []" using p(1) that by auto
  ultimately show ?thesis using p(1,4,5) ds by (auto simp: written_def)
qed

lemma convert_status_error [simp]: "convert_status e \<noteq> NoError"
  by (simp add: convert_status_def split: router_error.split)

lemma set_loop_Inl: "set_loop ctx r x i vs proposed changed = Inl (st, j) \<Longrightarrow> st \<noteq> NoError"
proof (induction vs arbitrary: i proposed changed)
  case (Cons v vs)
  have "set_variable r x v \<noteq> Inl NoError" by (auto simp: set_variable_def split: option.split sum.split)
  then show ?case using Cons by (auto simp: Let_def split: sum.splits option.splits)
qed simp

lemma written_index:
  assumes "written r pairs r'" "r' = r\<lparr>r_store := m\<rparr>" "fst (agent_index None r') = Inl e"
  shows "same_contents r r'"
proof (cases "pairs = []")
  case False
  then have "Router_Validate r None (ds_of Running (r_store r')) = None" using assms(1) unfolding written_def by blast
  moreover have "Router_Validate r' = Router_Validate r" using assms(2) by simp
  ultimately have "Router_Validate r' None (ds_of Running (r_store r')) = None" by simp
  from agent_index_valid[OF this] show ?thesis using assms(3) by auto
qed (use assms(1) in \<open>auto simp: written_def same_contents_def\<close>)

definition set_outcome :: "packet \<Rightarrow> router \<Rightarrow> snmp_status \<Rightarrow> router \<Rightarrow> bool" where
  "set_outcome q r st r' \<longleftrightarrow>
     (if st = NoError
      then \<exists>x pairs. fst (agent_index None r) = Inr x \<and>
             map_res (set_variable r x) (pk_Variables q) = Inr pairs \<and> written r pairs r'
      else same_contents r r')"

lemma applySet_applied:
  assumes "decoders_ok r" "agent_index None r = (Inr x, r1)"
    "set_loop None r1 x 0 (pk_Variables q) (ds_of Running (r_store r)) [] = Inr changed"
    "Router_Apply None t Running changed [] r1 = (None, r2)" "agent_index None r2 = (y, r3)"
  shows "set_outcome q r (case y of Inl _ \<Rightarrow> GenErr | Inr _ \<Rightarrow> NoError) r3"
proof -
  obtain c where r1: "r1 = r\<lparr>r_bindCache := c\<rparr>" using agent_index_snd[OF assms(2)] by blast
  obtain pairs where p: "map_res (set_variable r x) (pk_Variables q) = Inr pairs" "written r1 pairs r2"
      "r2 = r1\<lparr>r_store := r_store r2\<rparr>"
    using apply_changed[of r1 x "pk_Variables q" changed t r2] assms(1,3,4) r1 by auto
  obtain c3 where r3: "r3 = r2\<lparr>r_bindCache := c3\<rparr>" using agent_index_snd[OF assms(5)] by blast
  have "written r1 pairs r2 = written r pairs r3" unfolding written_def r1 r3 by simp
  with p(2) have w: "written r pairs r3" by simp
  show ?thesis
  proof (cases y)
    case (Inl e)
    then have "same_contents r1 r2" using written_index[OF p(2,3)] assms(5) by simp
    then show ?thesis using Inl r1 r3 by (simp add: set_outcome_def same_contents_def)
  qed (use p(1) w assms(2) in \<open>auto simp: set_outcome_def\<close>)
qed

lemma applySet_outcome:
  assumes "decoders_ok r" "applySet None t q r = ((vars, st, i), r')"
  shows "set_outcome q r st r'"
proof (cases "runningSnapshot None r")
  case (Inr run)
  then have run: "run = ds_of Running (r_store r)" using runningSnapshot_Inr by blast
  obtain y r1 where ix: "agent_index None r = (y, r1)" by (cases "agent_index None r")
  obtain c where r1: "r1 = r\<lparr>r_bindCache := c\<rparr>" using agent_index_snd[OF ix] by blast
  note unfolded = assms(2)[unfolded applySet_def Inr ix]
  show ?thesis
  proof (cases y)
    case (Inr x)
    show ?thesis
    proof (cases "set_loop None r1 x 0 (pk_Variables q) run []")
      case (Inl e)
      then show ?thesis using unfolded \<open>y = Inr x\<close> r1 set_loop_Inl[of None r1 x 0 "pk_Variables q" run "[]"]
        by (cases e) (auto simp: set_outcome_def same_contents_def)
    next
      case ch: (Inr changed)
      obtain err r2 where ap: "Router_Apply None t Running changed [] r1 = (err, r2)"
        by (cases "Router_Apply None t Running changed [] r1")
      obtain z r3 where iz: "agent_index None r2 = (z, r3)" by (cases "agent_index None r2")
      show ?thesis
      proof (cases err)
        case None
        show ?thesis using applySet_applied[OF assms(1) ix[unfolded Inr] _ _ iz, of q changed t] ch ap None run unfolded Inr iz
          by (auto split: sum.splits)
      next
        case (Some e)
        then show ?thesis using unfolded \<open>y = Inr x\<close> ch ap r1 Router_Apply_fail[of None t Running changed "[]" r1 e r2]
          by (auto simp: set_outcome_def same_contents_def)
      qed
    qed
  qed (use unfolded r1 in \<open>auto simp: set_outcome_def same_contents_def\<close>)
qed (use assms(2) in \<open>auto simp: applySet_def set_outcome_def same_contents_def\<close>)


definition set_request :: "string \<Rightarrow> goval \<Rightarrow> packet" where
  "set_request oid v = (next_request oid)\<lparr>pk_PDUType := SetRequest,
     pk_Variables := [\<lparr>pdu_Name = oid, pdu_Type = ASN_Integer, pdu_Value = v\<rparr>]\<rparr>"


section \<open>The synchronisation traps\<close>


definition trap_object :: indexedObject where
  "trap_object = rule_object (rule ScopeScalar ''ptp/clock/state'' (EnterpriseOID @ ''.2.1.1'') TypeInteger False
     (Some ptpStateValue) None) (EnterpriseOID @ ''.2.1.1.0'') ''ptp/clock/state''"

definition trap_router :: router where
  "trap_router = sample_router\<lparr>r_byPath := [(''ptp/clock/state'', trap_object)],
     r_store := (r_store sample_router)\<lparr>running := [(''ptp/clock/state'', GString ''holdover-in-spec'')]\<rparr>\<rparr>"

definition trap_event :: event where
  "trap_event = \<lparr>ev_type = TypeStateTransition, ev_resource = ''ptp'', ev_severity = [], ev_message = [],
     ev_domain = DomainSync, ev_alarm = [], ev_from = ''locked'', ev_to = ''holdover-in-spec'', ev_timestamp = 0\<rparr>"


end
