(* ===== verification/Framing.thy ===== *)
theory Framing
  imports Strconv
begin

text \<open>
  The two framings of NETCONF over SSH (\<open>src/internal/netconf/framing.go\<close>): end-of-message and
  chunked.  A reader is the list of bytes that have not been read yet; every operation returns what is
  left.  The end of the list is the end of the stream.
\<close>

section \<open>Model\<close>

datatype framingMode = framingEOM | framingChunked

datatype frame_error = FrameEOF | MalformedFrame string | MessageTooBig

definition mode_String :: "framingMode \<Rightarrow> string" where
  "mode_String m = (if m = framingChunked then ''chunked'' else ''eom'')"

definition endOfMessage :: string where "endOfMessage = '']]>]]>''"
definition maxMessageSize :: nat where "maxMessageSize = 16777216"

definition NL :: char where "NL = CHR 0x0A"

fun readEOM :: "string \<Rightarrow> string \<Rightarrow> (frame_error + string) \<times> string" where
  "readEOM message [] = (Inl FrameEOF, [])"
| "readEOM message (b # input) =
     (let message' = message @ [b]
      in if length message' > maxMessageSize then (Inl MessageTooBig, input)
         else if has_suffix message' endOfMessage
         then (Inr (take (length message' - length endOfMessage) message'), input)
         else readEOM message' input)"

text \<open>The '#' that opens a chunk, after an optional line feed.\<close>

definition expectChunkStart :: "string \<Rightarrow> (frame_error + unit) \<times> string" where
  "expectChunkStart input =
     (case input of
        [] \<Rightarrow> (Inl FrameEOF, [])
      | b # rest \<Rightarrow>
          if b = NL
          then (case rest of
                  [] \<Rightarrow> (Inl FrameEOF, [])
                | c # rest' \<Rightarrow> if c = CHR ''#'' then (Inr (), rest') else (Inl (MalformedFrame ''expected #''), rest'))
          else if b = CHR ''#'' then (Inr (), rest)
          else (Inl (MalformedFrame ''expected #''), rest))"

fun read_size_digits :: "string \<Rightarrow> string \<Rightarrow> (frame_error + string) \<times> string" where
  "read_size_digits digits [] = (Inl FrameEOF, [])"
| "read_size_digits digits (b # input) =
     (if b = NL then (Inr digits, input)
      else let digits' = digits @ [b]
           in if length digits' > 8 then (Inl (MalformedFrame ''chunk size out of range''), input)
              else read_size_digits digits' input)"

text \<open>The size of the next chunk, or \<open>None\<close> for the end-of-chunks marker.\<close>

definition readChunkSize :: "string \<Rightarrow> (frame_error + nat option) \<times> string" where
  "readChunkSize input =
     (case input of
        [] \<Rightarrow> (Inl FrameEOF, [])
      | first # rest \<Rightarrow>
          if first = CHR ''#''
          then (case rest of
                  [] \<Rightarrow> (Inl FrameEOF, [])
                | b # rest' \<Rightarrow>
                    if b \<noteq> NL then (Inl (MalformedFrame ''malformed end-of-chunks''), rest') else (Inr None, rest'))
          else (case read_size_digits [first] rest of
                  (Inl e, rest') \<Rightarrow> (Inl e, rest')
                | (Inr digits, rest') \<Rightarrow>
                    (case parse_base 16 digits of
                       Some n \<Rightarrow> if n < 2 ^ 32 then (Inr (Some n), rest')
                                    else (Inl (MalformedFrame ''chunk size is not hexadecimal''), rest')
                     | None \<Rightarrow> (Inl (MalformedFrame ''chunk size is not hexadecimal''), rest'))))"

text \<open>\<open>io.ReadFull\<close>: all the bytes, or an end-of-stream error that has consumed what was there.\<close>

definition ReadFull :: "nat \<Rightarrow> string \<Rightarrow> (frame_error + string) \<times> string" where
  "ReadFull n input = (if length input < n then (Inl FrameEOF, []) else (Inr (take n input), drop n input))"

lemma expectChunkStart_less: "expectChunkStart input = (Inr u, rest) \<Longrightarrow> length rest < length input"
  by (auto simp: expectChunkStart_def split: list.splits if_splits)

lemma read_size_digits_le: "read_size_digits ds input = (x, rest) \<Longrightarrow> length rest \<le> length input"
  by (induction ds input arbitrary: x rest rule: read_size_digits.induct) (auto simp: Let_def split: if_splits, fastforce)

lemma readChunkSize_le: "readChunkSize input = (Inr x, rest) \<Longrightarrow> length rest \<le> length input"
  by (auto simp: readChunkSize_def split: list.splits if_splits sum.splits prod.splits option.splits
      dest!: read_size_digits_le)

function readChunked :: "string \<Rightarrow> string \<Rightarrow> (frame_error + string) \<times> string" where
  "readChunked message input =
     (case expectChunkStart input of
        (Inl e, rest) \<Rightarrow> (Inl e, rest)
      | (Inr _, rest) \<Rightarrow>
          (case readChunkSize rest of
             (Inl e, rest1) \<Rightarrow> (Inl e, rest1)
           | (Inr None, rest1) \<Rightarrow> (Inr message, rest1)
           | (Inr (Some n), rest1) \<Rightarrow>
               if int n > int maxMessageSize - int (length message) then (Inl MessageTooBig, rest1)
               else (case ReadFull n rest1 of
                       (Inl e, rest2) \<Rightarrow> (Inl e, rest2)
                     | (Inr chunk, rest2) \<Rightarrow> readChunked (message @ chunk) rest2)))"
  by pat_completeness auto
termination
  by (relation "measure (\<lambda>(message, input). length input)")
     (auto dest!: expectChunkStart_less[OF sym] readChunkSize_le[OF sym] simp: ReadFull_def split: if_splits)

declare readChunked.simps [simp del]

definition ReadMessage :: "framingMode \<Rightarrow> string \<Rightarrow> (frame_error + string) \<times> string" where
  "ReadMessage mode input = (if mode = framingChunked then readChunked [] input else readEOM [] input)"

text \<open>\<open>detectFraming\<close> peeks at most two bytes and consumes nothing.\<close>

definition detectFraming :: "string \<Rightarrow> frame_error + framingMode" where
  "detectFraming input =
     (case input of
        [] \<Rightarrow> Inl FrameEOF
      | a # rest \<Rightarrow>
          if a = CHR ''#'' then Inr framingChunked
          else if a = NL
          then (case rest of
                  [] \<Rightarrow> Inl FrameEOF
                | b # _ \<Rightarrow> if b = CHR ''#'' then Inr framingChunked else Inr framingEOM)
          else Inr framingEOM)"

text \<open>The bytes of one \<open>WriteMessage\<close>, which are a single \<open>Write\<close>.\<close>

definition WriteMessage :: "framingMode \<Rightarrow> string \<Rightarrow> string" where
  "WriteMessage mode message =
     (if mode = framingEOM then message @ endOfMessage
      else [NL, CHR ''#''] @ format_base 16 (length message) @ [NL] @ message @ [NL, CHR ''#'', CHR ''#'', NL])"

end
