(* ===== verification/FramingLaws.thy ===== *)
theory FramingLaws
  imports Framing
begin

text \<open>
  Laws of the NETCONF framings: what a writer sends a reader of the same framing returns, message by
  message, and no message longer than the limit is ever returned.
\<close>

section \<open>Chunk sizes\<close>

lemma digit_char_not_mark: "d < 36 \<Longrightarrow> digit_char d \<noteq> NL \<and> digit_char d \<noteq> CHR ''#''"
proof -
  assume "d < 36"
  then have "digit_val (digit_char d) = Some d" by (rule digit_val_char)
  then show ?thesis by (auto simp: digit_val_def NL_def)
qed

lemma format_base_marks: "c \<in> set (format_base 16 n) \<Longrightarrow> c \<noteq> NL \<and> c \<noteq> CHR ''#''"
  using digit_chars[of 16 c n] digit_char_not_mark by fastforce

lemma format_base_length: "2 \<le> b \<Longrightarrow> 0 < k \<Longrightarrow> n < b ^ k \<Longrightarrow> length (format_base b n) \<le> k"
proof (induction b n arbitrary: k rule: format_base.induct)
  case (1 b n)
  show ?case
  proof (cases "n < b")
    case False
    then have "k \<noteq> 1" using 1(4) by auto
    then obtain j where k: "k = Suc j" "0 < j" using 1(3) by (cases k) auto
    then have "n div b < b ^ j" using 1(2,4) by (simp add: less_mult_imp_div_less mult.commute)
    then show ?thesis using 1(1)[of j] 1(2) False k by (subst format_base.simps) auto
  qed (use 1(3) in \<open>simp add: format_base.simps\<close>)
qed

lemma read_size_digits_ok:
  "NL \<notin> set ds \<Longrightarrow> length (acc @ ds) \<le> 8 \<Longrightarrow> read_size_digits acc (ds @ NL # rest) = (Inr (acc @ ds), rest)"
  by (induction ds arbitrary: acc) (auto simp: Let_def)

lemma readChunkSize_ok:
  assumes "n < 2 ^ 32"
  shows "readChunkSize (format_base 16 n @ NL # rest) = (Inr (Some n), rest)"
proof -
  obtain c cs where c: "format_base 16 n = c # cs" by (cases "format_base 16 n") auto
  have "length (format_base 16 n) \<le> 8" by (rule format_base_length) (use assms in auto)
  moreover have "NL \<notin> set cs" "c \<noteq> CHR ''#''" using format_base_marks[of _ n] c by auto
  moreover have "parse_base 16 (c # cs) = Some n" using parse_format[of 16 n] c by simp
  ultimately show ?thesis using c assms by (simp add: readChunkSize_def read_size_digits_ok)
qed

section \<open>Chunked framing\<close>

lemma readChunked_end: "readChunked m (NL # CHR ''#'' # CHR ''#'' # NL # rest) = (Inr m, rest)"
  by (subst readChunked.simps) (simp add: expectChunkStart_def readChunkSize_def NL_def)

lemma readChunked_chunk:
  assumes "length m + length chunk \<le> maxMessageSize"
  shows "readChunked m (NL # CHR ''#'' # format_base 16 (length chunk) @ NL # chunk @ rest) = readChunked (m @ chunk) rest"
proof -
  have "length chunk < 2 ^ 32" using assms by (simp add: maxMessageSize_def)
  then have "readChunkSize (format_base 16 (length chunk) @ NL # chunk @ rest) = (Inr (Some (length chunk)), chunk @ rest)"
    by (rule readChunkSize_ok)
  then show ?thesis using assms
    by (subst readChunked.simps) (simp add: expectChunkStart_def ReadFull_def)
qed

lemma readChunked_write:
  "length m \<le> maxMessageSize \<Longrightarrow> readChunked [] (WriteMessage framingChunked m @ rest) = (Inr m, rest)"
  using readChunked_chunk[of "[]" m "NL # CHR ''#'' # CHR ''#'' # NL # rest"]
  by (simp add: WriteMessage_def readChunked_end)

lemma readChunked_bound:
  "readChunked m input = (Inr r, rest) \<Longrightarrow> length m \<le> maxMessageSize \<Longrightarrow> length r \<le> maxMessageSize"
proof (induction m input rule: readChunked.induct)
  case (1 m input)
  show ?case
    using 1(2,3)
    by (subst (asm) readChunked.simps)
       (auto split: prod.splits sum.splits option.splits if_splits simp: ReadFull_def intro!: 1(1))
qed

section \<open>End-of-message framing\<close>

lemma has_suffix_append: "has_suffix (m @ e) e"
  by (simp add: has_suffix_def has_prefix_iff)

lemma endOfMessage_ne: "endOfMessage \<noteq> []"
  by (simp add: endOfMessage_def)

lemma readEOM_scan:
  "xs \<noteq> [] \<Longrightarrow> length (acc @ xs) \<le> maxMessageSize \<Longrightarrow> has_suffix (acc @ xs) endOfMessage \<Longrightarrow>
   (\<forall>k. length acc < k \<and> k < length (acc @ xs) \<longrightarrow> \<not> has_suffix (take k (acc @ xs)) endOfMessage) \<Longrightarrow>
   readEOM acc (xs @ rest) = (Inr (take (length (acc @ xs) - length endOfMessage) (acc @ xs)), rest)"
proof (induction xs arbitrary: acc)
  case (Cons x xs)
  show ?case
  proof (cases "xs = []")
    case True
    then show ?thesis using Cons.prems by (simp add: Let_def)
  next
    case False
    have "\<not> has_suffix (acc @ [x]) endOfMessage"
      using Cons.prems(4)[rule_format, of "Suc (length acc)"] False by simp
    moreover have "readEOM (acc @ [x]) (xs @ rest) =
        (Inr (take (length (acc @ x # xs) - length endOfMessage) (acc @ x # xs)), rest)"
      using Cons.IH[of "acc @ [x]"] Cons.prems False by simp
    ultimately show ?thesis using Cons.prems(2) by (simp add: Let_def)
  qed
qed simp

lemma readEOM_bound: "readEOM m input = (Inr r, rest) \<Longrightarrow> length r \<le> maxMessageSize"
  by (induction m input rule: readEOM.induct) (auto simp: Let_def split: if_splits)

section \<open>Sessions\<close>

text \<open>A message a framing can carry: within the limit, and for end-of-message framing without an
  earlier delimiter in the bytes sent.\<close>

definition sendable :: "framingMode \<Rightarrow> string \<Rightarrow> bool" where
  "sendable mode m =
     (if mode = framingChunked then length m \<le> maxMessageSize
      else length m + length endOfMessage \<le> maxMessageSize \<and>
        list_all (\<lambda>k. \<not> has_suffix (take k (m @ endOfMessage)) endOfMessage) [0..<length m + length endOfMessage])"

fun read_all :: "framingMode \<Rightarrow> nat \<Rightarrow> string \<Rightarrow> (frame_error + string list) \<times> string" where
  "read_all mode 0 input = (Inr [], input)"
| "read_all mode (Suc n) input =
     (case ReadMessage mode input of
        (Inl e, rest) \<Rightarrow> (Inl e, rest)
      | (Inr m, rest) \<Rightarrow>
          (case read_all mode n rest of (Inl e, rest') \<Rightarrow> (Inl e, rest') | (Inr ms, rest') \<Rightarrow> (Inr (m # ms), rest')))"

lemma ReadMessage_write:
  assumes "sendable mode m"
  shows "ReadMessage mode (WriteMessage mode m @ rest) = (Inr m, rest)"
proof (cases mode)
  case framingEOM
  then have "readEOM [] ((m @ endOfMessage) @ rest) =
      (Inr (take (length ([] @ m @ endOfMessage) - length endOfMessage) ([] @ m @ endOfMessage)), rest)"
    using assms has_suffix_append[of m endOfMessage]
    by (intro readEOM_scan) (simp_all add: sendable_def list_all_iff endOfMessage_ne)
  then show ?thesis using framingEOM by (simp add: ReadMessage_def WriteMessage_def)
qed (use assms in \<open>simp add: ReadMessage_def sendable_def readChunked_write\<close>)

text \<open>C30: framing is a round trip for a whole session.  What one peer writes in either framing the
  other reads back message by message, leaving exactly the bytes that follow, for every sequence of messages the framing can
  carry; and a reader never returns a message longer than the limit, whatever the peer sends.\<close>

theorem framing_roundtrip:
  assumes "list_all (sendable mode) ms"
  shows "read_all mode (length ms) (concat (map (WriteMessage mode) ms) @ rest) = (Inr ms, rest) \<and>
    (case fst (ReadMessage mode input) of Inl _ \<Rightarrow> True | Inr m \<Rightarrow> length m \<le> maxMessageSize)"
proof
  show "read_all mode (length ms) (concat (map (WriteMessage mode) ms) @ rest) = (Inr ms, rest)"
    using assms by (induction ms) (auto simp: ReadMessage_write)
  show "case fst (ReadMessage mode input) of Inl _ \<Rightarrow> True | Inr m \<Rightarrow> length m \<le> maxMessageSize"
    using readEOM_bound[of "[]" input] readChunked_bound[of "[]" input]
    by (auto simp: ReadMessage_def split: sum.split) (metis prod.collapse)+
qed

theorem framing_roundtrip_witness:
  "read_all framingEOM 2 (''<a/>'' @ endOfMessage @ '']]'' @ endOfMessage @ ''<b'') = (Inr [''<a/>'', '']]''], ''<b'')"
  using framing_roundtrip[of framingEOM "[''<a/>'', '']]'']" "''<b''" "[]"]
  by (simp add: sendable_def endOfMessage_def WriteMessage_def maxMessageSize_def has_suffix_def upt_conv_Cons numeral_2_eq_2)

end
