(* ===== verification/DatatreeLaws.thy ===== *)
theory DatatreeLaws
  imports SchemaLaws ConvertLaws
begin

text \<open>
  Laws of the data-tree editor: an edit never touches a state leaf, it is applied as a whole or not
  at all, and the text of a leaf reads back as the leaf.
\<close>

section \<open>Leaf texts\<close>

lemma parse_uint_word:
  "parse_uint LENGTH('a) (itoa (unat w)) = Some (unat w)" for w :: "'a::len word"
  by (rule parse_uint_itoa) (rule unsigned_less)

text \<open>The text of a leaf reads back as the same leaf: for every value that is not a float, parsing what
  \<open>FormatLeaf\<close> prints with the value's own kind returns the value, and a content filter with that text selects it.\<close>

theorem ParseLeaf_FormatLeaf:
  assumes "leafKindOf v = Some k" "k \<noteq> kindFloat64" "case v of GInt n \<Rightarrow> int64_min \<le> n \<and> n \<le> int64_max | _ \<Rightarrow> True"
  shows "\<exists>text. FormatLeaf v = Some text \<and> ParseLeaf k text = Some v \<and> ContentMatches k text v"
proof -
  have "\<exists>text. FormatLeaf v = Some text \<and> ParseLeaf k text = Some v"
    using assms parse_uint_word[where 'a = 8] parse_uint_word[where 'a = 16] parse_uint_word[where 'a = 32]
      parse_uint_word[where 'a = 64]
    by (cases v) (auto simp: ParseLeaf_def ParseBool_FormatBool ParseInt_itoa_int int64_min_def int64_max_def)
  moreover have "go_eq v v" using assms(1,2) by (cases v) (auto simp: notNaN_def)
  ultimately show ?thesis by (auto simp: ContentMatches_def)
qed

theorem ParseLeaf_FormatLeaf_witness:
  "\<exists>text. FormatLeaf (GUint16 100) = Some text \<and> ParseLeaf kindUint16 text = Some (GUint16 100) \<and>
     ContentMatches kindUint16 text (GUint16 100)"
  by (rule ParseLeaf_FormatLeaf) simp_all

section \<open>State leaves\<close>

definition state_leaf :: "router \<Rightarrow> string \<Rightarrow> bool" where
  "state_leaf r p \<longleftrightarrow> (\<exists>n. resolve_leaf r p = Inr (p, n) \<and> n_readOnly n)"

lemma Convert_not_state_leaf: "Convert r p v = Inr res \<Longrightarrow> \<not> state_leaf r p"
  by (auto simp: Convert_def state_leaf_def elim!: convert_Inr)

text \<open>The editor's invariant: state leaves are as they were and never writable, and every entry is
  either one of the original or a converted value.\<close>

definition editor_ok :: "router \<Rightarrow> vals \<Rightarrow> editor \<Rightarrow> bool" where
  "editor_ok r orig e \<longleftrightarrow>
     gm_wf (ed_proposed e) \<and>
     (\<forall>p. state_leaf r p \<longrightarrow> \<not> writable e p \<and> map_of (ed_proposed e) p = map_of orig p) \<and>
     (\<forall>p v. map_of (ed_proposed e) p = Some v \<longrightarrow>
        map_of orig p = Some v \<or> (\<exists>res. Convert r p v = Inr res \<and> rs_Value res = v))"

lemma writable_remove: "writable (remove_path q e) p \<longleftrightarrow> p \<noteq> q \<and> writable e p"
  by (auto simp: writable_def remove_path_def gm_get_or_def alist_simps split: option.splits)

lemma remove_path_ok:
  assumes "editor_ok r orig e" "\<not> state_leaf r q \<or> map_of (ed_proposed e) q = None"
  shows "editor_ok r orig (remove_path q e)"
proof -
  have "map_of (ed_proposed (remove_path q e)) p = (if p = q then None else map_of (ed_proposed e) p)" for p
    by (simp add: remove_path_def alist_simps)
  moreover have "gm_wf (ed_proposed (remove_path q e))" using assms(1) by (auto simp: editor_ok_def remove_path_def)
  ultimately show ?thesis using assms unfolding editor_ok_def writable_remove by auto
qed

lemma remove_all_ok:
  "editor_ok r orig e \<Longrightarrow> \<forall>q \<in> set qs. \<not> state_leaf r q \<Longrightarrow> editor_ok r orig (foldl (\<lambda>e c. remove_path c e) e qs)"
  by (induction qs arbitrary: e) (auto simp: remove_path_ok)

lemma wipe_ok:
  assumes "editor_ok r orig e" "\<not> state_leaf r path"
  shows "editor_ok r orig (wipe path e)"
proof -
  have "\<forall>q \<in> set (below e path). \<not> state_leaf r q" using assms(1) by (auto simp: below_def editor_ok_def)
  from remove_all_ok[OF assms(1) this] show ?thesis unfolding wipe_def using assms(2) by (intro remove_path_ok) auto
qed

lemma prepareSubtree_ok:
  "editor_ok r orig e \<Longrightarrow> \<not> state_leaf r path \<Longrightarrow> prepareSubtree path op e = Inr e' \<Longrightarrow> editor_ok r orig e'"
  by (auto simp: prepareSubtree_def wipe_ok split: edit_op.splits if_splits)

lemma edit_leaf_ok:
  assumes "editor_ok r orig e" "decoders_ok r" "edit_leaf r path d node op e = Inr e'"
  shows "editor_ok r orig e'"
proof -
  have rem: "editor_ok r orig (remove_path path e)" if "writable e path \<or> map_of (ed_proposed e) path = None"
    using that assms(1) by (intro remove_path_ok) (auto simp: editor_ok_def)
  have upd: "editor_ok r orig \<lparr>ed_proposed = AList.update path (rs_Value res) (ed_proposed e),
      ed_writable = AList.update path True (ed_writable e)\<rparr>" if c: "Convert r path v = Inr res" for v res
  proof -
    have "\<not> state_leaf r path" by (rule Convert_not_state_leaf[OF c])
    moreover obtain res' where "Convert r path (rs_Value res) = Inr res'" "rs_Value res' = rs_Value res"
      using Convert_stable[OF assms(2) c] by blast
    ultimately show ?thesis using assms(1) unfolding editor_ok_def
      by (auto simp: writable_def gm_get_or_def alist_simps split: if_splits)
  qed
  show ?thesis using assms(1,3) rem upd
    by (cases op) (auto simp: edit_leaf_def Option.is_none_def split: if_splits option.splits sum.splits Option.bind_splits)
qed

lemma state_leaf_listed:
  assumes "Children device_schema base = Inr schema" "nodeNamed schema name = Some node" "nd_Kind node \<noteq> KindLeaf"
    "CHR ''/'' \<notin> set part" "takeWhile (\<lambda>c. c \<noteq> CHR ''['') part = name"
  shows "\<not> state_leaf r (join_path base part)"
proof (cases "part = []")
  case True
  then have "Parse (join_path base part) \<noteq> Inr segs" for segs
    by (auto simp: Parse_def join_path_def has_suffix_def)
  then show ?thesis using resolve_leaf_Inr(2)[of r "join_path base part"] by (auto simp: state_leaf_def)
next
  case False
  then show ?thesis using listed_not_leaf[OF assms(1-4) _ assms(5)] by (auto simp: state_leaf_def)
qed

lemma node_path_not_state:
  assumes "Children device_schema base = Inr schema" "nodeNamed schema (doc_Name d) = Some node"
    "nd_Kind node \<noteq> KindLeaf" "node_path base d node = Inr path"
  shows "\<not> state_leaf r path"
proof -
  have pl: "CHR ''/'' \<notin> set (doc_Name d)" "CHR ''['' \<notin> set (doc_Name d)" "CHR ''/'' \<notin> set (nd_Key node)"
    using listed_plain[OF assms(1,2)] by (auto simp: plain_info_def)
  show ?thesis
  proof (cases "nd_Kind node = KindList")
    case True
    then obtain key where key: "listKey d (nd_Key node) = Inr key" "path = entry_path base (doc_Name d) (nd_Key node) key"
      using assms(4) by (auto simp: node_path_def bind_res_eq_Inr)
    have "CHR ''/'' \<notin> set key" using key(1) by (auto simp: listKey_def Let_def list_ex_iff split: option.splits if_splits)
    then have "\<not> state_leaf r (join_path base (doc_Name d @ ''['' @ nd_Key node @ ''='' @ key @ '']''))"
      using pl by (intro state_leaf_listed[OF assms(1-3)]) (auto simp: takeWhile_append)
    moreover have "path = join_path base (doc_Name d @ ''['' @ nd_Key node @ ''='' @ key @ '']'')"
      using key(2) by (simp add: entry_path_def join_path_def)
    ultimately show ?thesis by simp
  next
    case False
    then have "path = join_path base (doc_Name d)" using assms(4) by (simp add: node_path_def)
    moreover have "\<not> state_leaf r (join_path base (doc_Name d))"
      using pl by (intro state_leaf_listed[OF assms(1-3)]) (auto simp: takeWhile_eq_all_conv)
    ultimately show ?thesis by simp
  qed
qed

lemma walk_ok:
  "r_schema r = device_schema \<Longrightarrow> decoders_ok r \<Longrightarrow> Children device_schema base = Inr schema \<Longrightarrow>
   editor_ok r orig e \<Longrightarrow> walk r d base schema op e = Inr e' \<Longrightarrow> editor_ok r orig e'"
  "r_schema r = device_schema \<Longrightarrow> decoders_ok r \<Longrightarrow> Children device_schema base = Inr schema \<Longrightarrow>
   editor_ok r orig e \<Longrightarrow> walk_all r ds base schema op e = Inr e' \<Longrightarrow> editor_ok r orig e'"
proof (induction r d base schema op e and r ds base schema op e arbitrary: e' and e' rule: walk_walk_all.induct)
  case (1 r name tx ht attrs docs base schema inherited e)
  let ?d = "Document name tx ht attrs docs"
  obtain node explicit where n: "nodeNamed schema name = Some node" "parseOperationAttr ?d = Inr explicit"
    using "1.prems"(5) by (auto simp: Let_def bind_res_eq_Inr split: option.splits)
  define op where "op = (case explicit of None \<Rightarrow> inherited | Some op \<Rightarrow> op)"
  show ?case
  proof (cases "nd_Kind node = KindLeaf")
    case True
    then have "edit_leaf r (join_path base name) ?d node op e = Inr e'"
      using "1.prems"(5) n by (simp add: Let_def bind_res_def op_def)
    then show ?thesis using edit_leaf_ok "1.prems"(2,4) by blast
  next
    case False
    obtain path children e1 where p: "node_path base ?d node = Inr path" "enter r path op e = Inr (children, e1)"
        "case children of None \<Rightarrow> e' = e1 | Some cs \<Rightarrow> walk_all r docs path cs (childOperation op) e1 = Inr e'"
      using "1.prems"(5) n False by (auto simp: Let_def bind_res_eq_Inr op_def split: option.splits)
    have ns: "\<not> state_leaf r path" using node_path_not_state[OF "1.prems"(3) _ False p(1)] n(1) by simp
    obtain prep: "prepareSubtree path op e = Inr e1"
      and ch: "\<And>cs. children = Some cs \<Longrightarrow> Children (r_schema r) path = Inr cs"
      using p(2) by (auto simp: enter_def bind_res_eq_Inr split: if_splits sum.splits)
    have ok: "editor_ok r orig e1" by (rule prepareSubtree_ok[OF "1.prems"(4) ns prep])
    show ?thesis
    proof (cases children)
      case (Some cs)
      then show ?thesis
        using "1.IH"[OF refl n(1) op_def False refl "1.prems"(1,2) _ ok, of path cs e'] ch[OF Some] p(3) "1.prems"(1)
        by simp
    qed (use p(3) ok in simp)
  qed
next
  case (3 r d ds base schema inherited e)
  obtain e1 where e1: "walk r d base schema inherited e = Inr e1" "walk_all r ds base schema inherited e1 = Inr e'"
    using "3.prems"(5) by (auto simp: bind_res_eq_Inr)
  from "3.IH"(2)[OF "3.prems"(1-3) "3.IH"(1)[OF "3.prems"(1-4) e1(1)] e1(2)] show ?case .
qed simp_all

section \<open>Writing the difference back\<close>

lemma Convert_NaN: "decoders_ok r \<Longrightarrow> Convert r p (GFloat NaN) = Inr res \<Longrightarrow> rs_Value res = GFloat NaN"
proof -
  assume r: "decoders_ok r" and c: "Convert r p (GFloat NaN) = Inr res"
  obtain t w where w: "decode_value r p (GFloat NaN) = Inr w" "coerce (r_oor r) w t = Inr (rs_Value res)"
    using c unfolding Convert_def by (elim convert_Inr) blast
  have "ob_decode ob = None" if "map_of (r_byPath r) p = Some ob" for ob
  proof (rule ccontr)
    assume "ob_decode ob \<noteq> None"
    then have "ob_decode ob = Some truthFromInt" using r map_of_SomeD[OF that] by (fastforce simp: decoders_ok_def)
    then show False using w(1) that by (simp add: decode_value_def truthFromInt_def)
  qed
  then have "w = GFloat NaN" using w(1) by (auto simp: decode_value_def split: option.splits)
  obtain k where k: "t = TLeaf k" "leafKindOf (rs_Value res) = Some k" using coerce_kind[OF w(2)] by blast
  have "k = kindFloat64" using w(2) k(1) unfolding \<open>w = GFloat NaN\<close>
    by (cases k) (auto simp: coerce_def assignLeaf_def assign_uint_def)
  then show ?thesis using w(2) k(1) coerce_typed[of "GFloat NaN" kindFloat64] unfolding \<open>w = GFloat NaN\<close> by simp
qed

lemma convert_all_wf: "convert_all r vs acc = Inr cs \<Longrightarrow> gm_wf acc \<Longrightarrow> gm_wf cs"
  by (induction vs arbitrary: acc) (auto split: sum.splits simp: gm_wf_update)

lemma map_of_diff_sets:
  "gm_wf new \<Longrightarrow> map_of (diff_sets orig new) p =
    (case map_of new p of
       None \<Rightarrow> None
     | Some v \<Rightarrow> if (case map_of orig p of None \<Rightarrow> False | Some old \<Rightarrow> go_eq old v) then None else Some v)"
proof -
  have none: "q \<notin> gm_keys m \<Longrightarrow> map_of (filter P m) q = None" for q P and m :: vals
    by (auto simp: map_of_eq_None_iff)
  assume "gm_wf new"
  then show ?thesis unfolding diff_sets_def
    by (induction new) (auto split: option.splits simp: none dest: weak_map_of_SomeI)
qed

lemma applyDiff_result:
  assumes "editor_ok r (ds_of ds (r_store r)) e" "decoders_ok r"
    "Router_Apply None t ds (diff_sets (ds_of ds (r_store r)) (ed_proposed e))
       (diff_deletions (ds_of ds (r_store r)) (ed_proposed e)) r = (None, r')"
  shows "map_of (ds_of ds (r_store r')) p = map_of (ed_proposed e) p"
    and "state_leaf r q \<Longrightarrow> map_of (ds_of d (r_store r')) q = map_of (ds_of d (r_store r)) q"
proof -
  let ?orig = "ds_of ds (r_store r)" and ?new = "ed_proposed e"
  let ?sets = "diff_sets ?orig ?new" and ?dels = "diff_deletions ?orig ?new"
  have wf: "gm_wf ?new" "gm_wf ?sets" using assms(1) by (auto simp: editor_ok_def diff_sets_def distinct_map_filter)
  obtain cs where cs: "convert_all r ?sets [] = Inr cs"
      "ds_of ds (r_store r') = foldl (\<lambda>m p. AList.delete p m) (upd_all ?orig cs) ?dels"
    by (rule Router_Apply_ds[OF assms(3), of ds]) (auto simp: reached_def split: if_splits)
  have same: "rs_Value res = v" if "map_of ?sets p = Some v" "Convert r p v = Inr res" for v res
  proof -
    have v: "map_of ?new p = Some v" "\<not> (case map_of ?orig p of None \<Rightarrow> False | Some old \<Rightarrow> go_eq old v)"
      using that(1) wf(1) by (auto simp: map_of_diff_sets split: option.splits if_splits)
    consider "map_of ?orig p = Some v" | res' where "Convert r p v = Inr res'" "rs_Value res' = v"
      using assms(1) v(1) unfolding editor_ok_def by blast
    then show ?thesis
    proof cases
      case 1
      then have "v = GFloat NaN" using v(2) by (simp add: notNaN_def)
      then show ?thesis using Convert_NaN[OF assms(2)] that(2) by simp
    qed (use that(2) in simp)
  qed
  have conv: "map_of cs p = map_of ?sets p"
    using convert_all_Inr[OF cs(1)] wf(2) same by (auto simp: map_of_rev_distinct split: option.splits sum.splits)
  have "gm_wf cs" using convert_all_wf[OF cs(1)] by simp
  then have "map_of (upd_all ?orig cs) p = (case map_of ?sets p of Some v \<Rightarrow> Some v | None \<Rightarrow> map_of ?orig p)"
    using conv by (simp add: map_of_foldl_update map_of_rev_distinct map_add_def)
  moreover have dels: "x \<in> set ?dels \<longleftrightarrow> map_of ?new x = None \<and> map_of ?orig x \<noteq> None" for x
    by (auto simp: diff_deletions_def Option.is_none_def map_of_eq_None_iff)
  ultimately show "map_of (ds_of ds (r_store r')) p = map_of ?new p"
    unfolding cs(2) map_of_foldl_delete map_of_diff_sets[OF wf(1)]
    by (cases "map_of ?new p"; cases "map_of ?orig p") (auto simp: go_eq_iff)
  show "map_of (ds_of d (r_store r')) q = map_of (ds_of d (r_store r)) q" if q: "state_leaf r q"
  proof (rule Router_Apply_keeps_state[OF assms(3)])
    show "IsState r q" using q resolve_leaf_IsState by (auto simp: state_leaf_def)
    have "map_of ?new q = map_of ?orig q" using q assms(1) by (simp add: editor_ok_def)
    then show "q \<notin> set ?dels" using dels[of q] by (cases "map_of ?orig q") simp_all
  qed
qed

section \<open>The whole edit\<close>

lemma collect_ok:
  assumes "collect ctx r ds = Inr rs" "gm_wf (ds_of ds (r_store r))"
  shows "ctx = None" "ed_proposed (editor_of rs) = ds_of ds (r_store r)" "editor_ok r (ds_of ds (r_store r)) (editor_of rs)"
proof -
  have v: "Router_Values ctx r ds = Inr rs" using assms(1) by (simp add: collect_def split: sum.splits)
  show "ctx = None" and p: "ed_proposed (editor_of rs) = ds_of ds (r_store r)"
    using Router_Values_Inr(1,3)[OF v] by (simp_all add: editor_of_def)
  have "\<not> writable (editor_of rs) p" if "state_leaf r p" for p
  proof
    assume "writable (editor_of rs) p"
    then have "map_of (ed_writable (editor_of rs)) p = Some True"
      by (auto simp: writable_def gm_get_or_def split: option.splits)
    then obtain res where "(p, res) \<in> set rs" "rs_Writable res"
      using map_of_SomeD by (fastforce simp: editor_of_def)
    then show False using that Router_Values_Inr(4)[OF v] by (fastforce simp: state_leaf_def)
  qed
  then show "editor_ok r (ds_of ds (r_store r)) (editor_of rs)" using assms(2) p by (simp add: editor_ok_def)
qed

text \<open>What an edit may have done when it returns: nothing at all with a failure; without one, the
  datastore holds exactly the edited tree, which passed the validation; a state leaf never changes.\<close>

definition edit_outcome :: "datastore \<Rightarrow> request \<Rightarrow> router \<Rightarrow> edit_failure option \<Rightarrow> router \<Rightarrow> bool" where
  "edit_outcome ds q r f r' \<longleftrightarrow>
     (case f of
        Some _ \<Rightarrow> r' = r
      | None \<Rightarrow> \<exists>schema rs e.
          collect None r ds = Inr rs \<and> Children (r_schema r) (rq_BasePath q) = Inr schema \<and>
          walk_all r (rq_Documents q) (rq_BasePath q) schema (rq_Default q) (editor_of rs) = Inr e \<and>
          Router_Validate r None (ed_proposed e) = None \<and>
          map_of (ds_of ds (r_store r')) = map_of (ed_proposed e)) \<and>
     (\<forall>d p. state_leaf r p \<longrightarrow> map_of (ds_of d (r_store r')) p = map_of (ds_of d (r_store r)) p)"

lemma edit_outcome_fail: "edit_outcome ds q r (Some f) r"
  by (simp add: edit_outcome_def)

text \<open>C28: an edit is atomic and cannot write state: either it fails and the router is as before, or the tree it
  computed passed the validation and is, leaf for leaf, the new content of the datastore; and whatever operations
  (replace, delete, remove, ...) the documents carry, no state leaf changes in any datastore.\<close>

theorem edit_atomic:
  assumes "r_schema r = device_schema" "decoders_ok r" "gm_wf (ds_of ds (r_store r))" "Apply_edit ctx t ds q r = (f, r')"
  shows "edit_outcome ds q r f r'"
proof (cases ctx)
  case None
  then have ap: "apply_edit None t ds q r = (f, r')"
    using assms(4) by (auto simp: Apply_edit_def Transaction_def split: prod.splits)
  consider f' where "f = Some f'" "r' = r"
    | rs schema e where "collect None r ds = Inr rs" "Children (r_schema r) (rq_BasePath q) = Inr schema"
        "walk_all r (rq_Documents q) (rq_BasePath q) schema (rq_Default q) (editor_of rs) = Inr e"
        "Router_Validate r None (ed_proposed e) = None"
        "applyDiff None t ds (ed_proposed (editor_of rs)) (ed_proposed e) r = (f, r')"
    using ap by (auto simp: apply_edit_def split: sum.splits if_splits)
  then show ?thesis
  proof cases
    case 2
    note c = collect_ok[OF 2(1) assms(3)]
    have ok: "editor_ok r (ds_of ds (r_store r)) e"
      using walk_ok(2)[OF assms(1,2) _ c(3) 2(3)] 2(2) assms(1) by simp
    obtain f1 where ra: "Router_Apply None t ds (diff_sets (ds_of ds (r_store r)) (ed_proposed e))
        (diff_deletions (ds_of ds (r_store r)) (ed_proposed e)) r = (f1, r')" "f = None \<longleftrightarrow> f1 = None"
      using 2(5) unfolding c(2) applyDiff_def by (auto split: prod.splits option.splits)
    show ?thesis
    proof (cases f1)
      case None
      then show ?thesis using ra 2(1-4) applyDiff_result[OF ok assms(2), of t r'] unfolding edit_outcome_def by auto
    next
      case (Some x)
      then have "r' = r" "f \<noteq> None" using ra Router_Apply_fail by auto
      then show ?thesis using edit_outcome_fail by auto
    qed
  qed (simp add: edit_outcome_fail)
qed (use assms(4) edit_outcome_fail in \<open>auto simp: Apply_edit_def\<close>)

definition sample_edit :: request where
  "sample_edit = \<lparr>rq_BasePath = [], rq_Default = OpMerge,
     rq_Documents = [Document ''system-info'' [] False [] [Document ''name'' ''r1'' True [] []]]\<rparr>"

definition edit_router :: router where
  "edit_router = sample_router\<lparr>r_schema := device_schema, r_store := sample_store\<lparr>running := [], candidate := []\<rparr>\<rparr>"

theorem edit_atomic_witness:
  "edit_outcome Candidate sample_edit edit_router
     (fst (Apply_edit None 5 Candidate sample_edit edit_router)) (snd (Apply_edit None 5 Candidate sample_edit edit_router))"
  by (rule edit_atomic[where ctx = None and t = 5]) (simp_all add: edit_router_def sample_router_def sample_store_def decoders_ok_def)

end
