(* ===== verification/DataRead.thy ===== *)
theory DataRead
  imports Datatree
begin

text \<open>
  Reading a datastore as a tree (\<open>src/internal/datatree/read.go\<close>, \<open>node.go\<close>): the content selection,
  the walk over the schema and the list instances found in the stored paths.  The recursion follows
  the schema, so its fuel is the height of the schema; the laws show that it is never used up.  \<open>sort.Slice\<close>
  leaves the order of keys that compare equal open; the model keeps the order of the map.
\<close>

datatype content = ContentAll | ContentConfig | ContentNonConfig

record read_options =
  ro_Prefix :: string
  ro_Content :: content

definition includeConfig :: "content \<Rightarrow> bool" where
  "includeConfig c \<longleftrightarrow> c \<noteq> ContentNonConfig"

definition includeState :: "content \<Rightarrow> bool" where
  "includeState c \<longleftrightarrow> c = ContentAll \<or> c = ContentNonConfig"

datatype dnode = DNode
  (dn_Path: string) (dn_Name: string) (dn_Kind: node_kind) (dn_Key: string) (dn_KeyValue: string)
  (dn_Leaf: "leaf_kind option") (dn_Value: goval) (dn_Children: "dnode list")

definition dn_Child :: "dnode \<Rightarrow> string \<Rightarrow> dnode option" where
  "dn_Child n name = find (\<lambda>c. dn_Name c = name) (dn_Children n)"

datatype read_error =
    ReadCtx string
  | ReadTree dt_error
  | ReadRouter router_error
  | ReadKeyless string
  | ReadDepth

definition lift_read :: "router_error + 'a \<Rightarrow> read_error + 'a" where
  "lift_read x = (case x of Inl e \<Rightarrow> Inl (ReadRouter e) | Inr a \<Rightarrow> Inr a)"

definition selected :: "result \<Rightarrow> content \<Rightarrow> bool" where
  "selected res c = (if rs_Writable res then includeConfig c else includeState c)"

section \<open>List instances\<close>

record listEntry =
  le_path :: string
  le_key :: string

definition instance_at :: "string \<Rightarrow> nat \<Rightarrow> string \<Rightarrow> string \<Rightarrow> segment option" where
  "instance_at needle depth name path =
     (if \<not> has_prefix path needle then None
      else case Parse path of
             Inl _ \<Rightarrow> None
           | Inr segs \<Rightarrow>
               if length segs \<le> depth then None
               else let g = segs ! depth
                    in if Name g \<noteq> name \<or> Key g = [] then None else Some g)"

fun instances_loop :: "(string \<Rightarrow> segment option) \<Rightarrow> string \<Rightarrow> string list \<Rightarrow> string list \<Rightarrow> listEntry list" where
  "instances_loop f pre seen [] = []"
| "instances_loop f pre seen (path # paths) =
     (case f path of
        None \<Rightarrow> instances_loop f pre seen paths
      | Some g \<Rightarrow>
          let tx = Name g @ ''['' @ Key g @ ''='' @ Value g @ '']''
          in if tx \<in> set seen then instances_loop f pre seen paths
             else \<lparr>le_path = join_path pre tx, le_key = Value g\<rparr> # instances_loop f pre (tx # seen) paths)"

definition instancesOf :: "(string, result) gomap \<Rightarrow> string \<Rightarrow> string \<Rightarrow> listEntry list" where
  "instancesOf vs pre name =
     (if pre = [] then instances_loop (instance_at [] 0 name) [] [] (map fst vs)
      else case Parse pre of
             Inl _ \<Rightarrow> []
           | Inr segs \<Rightarrow> instances_loop (instance_at (pre @ ''/'') (length segs) name) pre [] (map fst vs))"

definition entry_less :: "bool \<Rightarrow> listEntry \<Rightarrow> listEntry \<Rightarrow> bool" where
  "entry_less numeric a b =
     (case (if numeric then ParseFloat (le_key a) else None, if numeric then ParseFloat (le_key b) else None) of
        (Some left, Some right) \<Rightarrow> f64_lt left right
      | _ \<Rightarrow> le_key a < le_key b)"

definition sortEntries :: "listEntry list \<Rightarrow> leaf_kind option \<Rightarrow> listEntry list" where
  "sortEntries entries kind = sort_by (entry_less (kind \<noteq> Some kindString \<and> kind \<noteq> Some kindBool)) entries"

section \<open>The tree\<close>

definition leaf_of :: "(string, result) gomap \<Rightarrow> content \<Rightarrow> string \<Rightarrow> string \<Rightarrow> leaf_kind option \<Rightarrow> dnode list" where
  "leaf_of vs c path name kind =
     (case map_of vs path of
        None \<Rightarrow> []
      | Some res \<Rightarrow> if selected res c then [DNode path name KindLeaf [] [] kind (rs_Value res) []] else [])"

definition build_entry ::
    "(string \<Rightarrow> read_error + dnode list) \<Rightarrow> (string, result) gomap \<Rightarrow> content \<Rightarrow> schema_info \<Rightarrow> leaf_kind option \<Rightarrow>
      listEntry \<Rightarrow> read_error + dnode" where
  "build_entry rec vs c list key_kind i =
     bind_res (rec (le_path i)) (\<lambda>inner.
       Inr (DNode (le_path i) (nd_Name list) KindContainer (nd_Key list) (le_key i) None GNil
         (leaf_of vs c (join_path (le_path i) (nd_Key list)) (nd_Key list) key_kind @
          filter (\<lambda>n. dn_Name n \<noteq> nd_Key list) inner)))"

definition buildEntries ::
    "(string \<Rightarrow> read_error + dnode list) \<Rightarrow> router \<Rightarrow> (string, result) gomap \<Rightarrow> content \<Rightarrow> string \<Rightarrow> schema_info \<Rightarrow>
      read_error + dnode list" where
  "buildEntries rec r vs c pre list =
     (let instances = instancesOf vs pre (nd_Name list)
      in if instances = [] then Inr []
         else bind_res (lift_read (Children (r_schema r) (le_path (hd instances)))) (\<lambda>entryChildren.
                case nodeNamed entryChildren (nd_Key list) of
                  None \<Rightarrow> Inl (ReadKeyless (nd_Name list))
                | Some keyNode \<Rightarrow>
                    map_res (build_entry rec vs c list (nd_Leaf keyNode)) (sortEntries instances (nd_Leaf keyNode))))"

definition build_child ::
    "(string \<Rightarrow> read_error + dnode list) \<Rightarrow> router \<Rightarrow> (string, result) gomap \<Rightarrow> content \<Rightarrow> string \<Rightarrow> schema_info \<Rightarrow>
      read_error + dnode list" where
  "build_child rec r vs c pre ch =
     (let path = join_path pre (nd_Name ch)
      in case nd_Kind ch of
           KindLeaf \<Rightarrow> Inr (leaf_of vs c path (nd_Name ch) (nd_Leaf ch))
         | KindContainer \<Rightarrow>
             bind_res (rec path) (\<lambda>inner. Inr [DNode path (nd_Name ch) KindContainer [] [] None GNil inner])
         | KindList \<Rightarrow>
             bind_res (buildEntries rec r vs c pre ch) (\<lambda>entries.
               Inr [DNode path (nd_Name ch) KindList (nd_Key ch) [] None GNil entries]))"

fun buildChildren :: "nat \<Rightarrow> router \<Rightarrow> (string, result) gomap \<Rightarrow> content \<Rightarrow> string \<Rightarrow> read_error + dnode list" where
  "buildChildren 0 r vs c pre = Inl ReadDepth"
| "buildChildren (Suc n) r vs c pre =
     bind_res (lift_read (Children (r_schema r) pre)) (\<lambda>children.
       bind_res (map_res (build_child (buildChildren n r vs c) r vs c pre) children) (\<lambda>xs. Inr (concat xs)))"

fun schema_height :: "schemaNode \<Rightarrow> nat" where
  "schema_height (SNode n cs) = Suc (foldr max (map schema_height cs) 0)"

section \<open>Reading\<close>

definition splitPrefix :: "string \<Rightarrow> router_error + (string \<times> segment)" where
  "splitPrefix path =
     bind_res (parse_r path) (\<lambda>segs.
       Inr (if length segs = 1 then [] else path_String (butlast segs), last segs))"

definition listEntryNode :: "dnode \<Rightarrow> segment \<Rightarrow> dnode option" where
  "listEntryNode list seg =
     map_option (\<lambda>e. DNode (dn_Path list) (dn_Name list) KindList (dn_Key list) [] None GNil [e])
       (find (\<lambda>e. dn_KeyValue e = Value seg) (dn_Children list))"

definition Read :: "string option \<Rightarrow> router \<Rightarrow> datastore \<Rightarrow> read_options \<Rightarrow> read_error + dnode option" where
  "Read ctx r ds opts =
     (case ctx of
        Some e \<Rightarrow> Inl (ReadCtx e)
      | None \<Rightarrow>
          (case collect ctx r ds of
             Inl (EditError e) \<Rightarrow> Inl (ReadTree e)
           | Inl (EditCtx e) \<Rightarrow> Inl (ReadCtx e)
           | Inr vs \<Rightarrow>
               let build = buildChildren (schema_height (r_schema r)) r vs (ro_Content opts)
               in if ro_Prefix opts = []
                  then bind_res (build []) (\<lambda>cs. Inr (Some (DNode [] [] KindContainer [] [] None GNil cs)))
                  else bind_res (lift_read (splitPrefix (ro_Prefix opts))) (\<lambda>(parent, seg).
                    bind_res (build parent) (\<lambda>cs.
                      Inr (case find (\<lambda>n. dn_Name n = Name seg) cs of
                             None \<Rightarrow> None
                           | Some node \<Rightarrow>
                               if dn_Kind node = KindList \<and> Key seg \<noteq> [] then listEntryNode node seg else Some node)))))"

end
