(* ===== verification/Netconf.thy ===== *)
theory Netconf
  imports DataRead
begin

text \<open>
  The NETCONF operations on a parsed request (\<open>src/internal/netconf/ops\<close>): the element tree
  (\<open>xmltree.go\<close>, \<open>document.go\<close>), \<open>get-config\<close> with its subtree filter (\<open>getconfig.go\<close>) and \<open>edit-config\<close>
  (\<open>editconfig.go\<close>).  \<open>ParseElement\<close> works on the tokens of the XML decoder; the texts of error
  messages are not modelled.
\<close>

section \<open>Elements\<close>

record xml_attr =
  xa_Space :: string
  xa_Local :: string
  xa_Value :: string

datatype element = Element
  (el_Space: string) (el_Name: string) (el_Attrs: "xml_attr list") (el_Children: "element list") (el_Text: string)

definition NewElement :: "string \<Rightarrow> element" where
  "NewElement name = Element [] name [] [] []"

definition Append_children :: "element \<Rightarrow> element list \<Rightarrow> element" where
  "Append_children e cs = Element (el_Space e) (el_Name e) (el_Attrs e) (el_Children e @ cs) (el_Text e)"

definition el_Child :: "element \<Rightarrow> string \<Rightarrow> element option" where
  "el_Child e name = find (\<lambda>c. el_Name c = name) (el_Children e)"

definition el_ChildrenNamed :: "element \<Rightarrow> string \<Rightarrow> element list" where
  "el_ChildrenNamed e name = filter (\<lambda>c. el_Name c = name) (el_Children e)"

definition el_Attr :: "element \<Rightarrow> string \<Rightarrow> string option" where
  "el_Attr e name = map_option xa_Value (find (\<lambda>a. xa_Local a = name) (el_Attrs e))"

definition TrimmedText :: "element \<Rightarrow> string" where
  "TrimmedText e = trim_space (el_Text e)"

text \<open>The decoder's tokens; \<open>OtherToken\<close> is a comment, a directive or a processing instruction.\<close>

datatype xml_token = StartElement string string "xml_attr list" | EndElement string | CharData string | OtherToken

datatype xml_error = XmlSyntax string | MultipleRoots | UnexpectedEnd string | EmptyDocument

definition add_child :: "element \<Rightarrow> element \<Rightarrow> element" where
  "add_child p c = Append_children p [c]"

definition add_text :: "element \<Rightarrow> string \<Rightarrow> element" where
  "add_text e t = Element (el_Space e) (el_Name e) (el_Attrs e) (el_Children e) (el_Text e @ t)"

text \<open>The open elements, innermost first; an element joins its parent when it is left, which gives
  the same tree as the pointers of the code.  \<open>done\<close> is the finished root.\<close>

fun close_all :: "element list \<Rightarrow> element option" where
  "close_all [] = None"
| "close_all [e] = Some e"
| "close_all (e # p # st) = close_all (add_child p e # st)"

fun parse_tokens :: "element option \<Rightarrow> element list \<Rightarrow> xml_token list \<Rightarrow> xml_error + element option" where
  "parse_tokens done_root st [] = Inr (if st = [] then done_root else close_all st)"
| "parse_tokens done_root st (StartElement sp name attrs # ts) =
     (if done_root \<noteq> None \<and> st = [] then Inl MultipleRoots
      else parse_tokens done_root (Element sp name attrs [] [] # st) ts)"
| "parse_tokens done_root st (EndElement name # ts) =
     (case st of
        [] \<Rightarrow> Inl (UnexpectedEnd name)
      | [e] \<Rightarrow> parse_tokens (Some e) [] ts
      | e # p # st' \<Rightarrow> parse_tokens done_root (add_child p e # st') ts)"
| "parse_tokens done_root st (CharData t # ts) =
     (case st of [] \<Rightarrow> parse_tokens done_root st ts | e # st' \<Rightarrow> parse_tokens done_root (add_text e t # st') ts)"
| "parse_tokens done_root st (OtherToken # ts) = parse_tokens done_root st ts"

text \<open>The stream ends with the end of the document (\<open>None\<close>) or with an error of the decoder.\<close>

definition ParseElement :: "xml_token list \<times> string option \<Rightarrow> xml_error + element" where
  "ParseElement stream =
     (case parse_tokens None [] (fst stream) of
        Inl e \<Rightarrow> Inl e
      | Inr tree \<Rightarrow>
          (case snd stream of
             Some e \<Rightarrow> Inl (XmlSyntax e)
           | None \<Rightarrow> (case tree of None \<Rightarrow> Inl EmptyDocument | Some r \<Rightarrow> Inr r)))"

fun documentOf :: "element \<Rightarrow> document" where
  "documentOf (Element sp name attrs children tx) =
     Document name tx (trim_space tx \<noteq> []) (gm_of_list (map (\<lambda>a. (xa_Local a, xa_Value a)) attrs)) (map documentOf children)"

section \<open>Datastores\<close>

definition datastoreElement :: "element \<Rightarrow> dt_error + datastore" where
  "datastoreElement container =
     (case el_Children container of
        [] \<Rightarrow> Inl MissingElement
      | [c] \<Rightarrow>
          if el_Name c = ''running'' then Inr Running
          else if el_Name c = ''candidate'' then Inr Candidate
          else if el_Name c = ''startup'' then Inr Startup
          else Inl UnknownElement
      | _ \<Rightarrow> Inl InvalidValue)"

definition sourceDatastore :: "element \<Rightarrow> dt_error + datastore" where
  "sourceDatastore operation =
     (case el_Child operation ''source'' of None \<Rightarrow> Inl MissingElement | Some s \<Rightarrow> datastoreElement s)"

definition targetDatastore :: "element \<Rightarrow> dt_error + datastore" where
  "targetDatastore operation =
     (case el_Child operation ''target'' of
        None \<Rightarrow> Inl MissingElement
      | Some target \<Rightarrow>
          bind_res (datastoreElement target) (\<lambda>ds. if ds = Startup then Inl NotSupported else Inr ds))"

section \<open>get-config\<close>

datatype filterNode = FilterNode
  (fl_name: string) (fl_text: string) (fl_hasText: bool) (fl_children: "filterNode list")

record filterLevel =
  fv_active :: bool
  fv_nodes :: "filterNode list"

fun filterNodeOf :: "element \<Rightarrow> filterNode" where
  "filterNodeOf (Element sp name attrs children tx) =
     FilterNode name (trim_space tx) (trim_space tx \<noteq> []) (map filterNodeOf children)"

definition parseFilter :: "element option \<Rightarrow> dt_error + filterNode list option" where
  "parseFilter e =
     (case e of
        None \<Rightarrow> Inr None
      | Some el \<Rightarrow>
          if (case el_Attr el ''type'' of None \<Rightarrow> False | Some kind \<Rightarrow> kind \<noteq> ''subtree'') then Inl NotSupported
          else Inr (Some (map filterNodeOf (el_Children el))))"

definition filter_level :: "filterNode list option \<Rightarrow> filterLevel" where
  "filter_level f =
     (case f of None \<Rightarrow> \<lparr>fv_active = False, fv_nodes = []\<rparr> | Some nodes \<Rightarrow> \<lparr>fv_active = True, fv_nodes = nodes\<rparr>)"

definition selectsAll :: "filterLevel \<Rightarrow> bool" where
  "selectsAll l \<longleftrightarrow> \<not> fv_active l \<or> fv_nodes l = []"

definition level_child :: "filterLevel \<Rightarrow> string \<Rightarrow> (filterNode option \<times> filterLevel) option" where
  "level_child l name =
     (if selectsAll l then Some (None, \<lparr>fv_active = False, fv_nodes = []\<rparr>)
      else map_option (\<lambda>n. (Some n, \<lparr>fv_active = True, fv_nodes = fl_children n\<rparr>))
             (find (\<lambda>n. fl_name n = name) (fv_nodes l)))"

definition leaf_matches :: "leaf_kind option \<Rightarrow> string \<Rightarrow> goval \<Rightarrow> bool" where
  "leaf_matches kind tx value = (case kind of None \<Rightarrow> False | Some k \<Rightarrow> ContentMatches k tx value)"

definition entrySelected :: "filterNode option \<Rightarrow> dnode \<Rightarrow> string \<Rightarrow> bool" where
  "entrySelected node entry keyName =
     (case node of
        None \<Rightarrow> True
      | Some n \<Rightarrow>
          (case find (\<lambda>c. fl_name c = keyName \<and> fl_hasText c) (fl_children n) of
             None \<Rightarrow> True
           | Some c \<Rightarrow>
               (case dn_Child entry keyName of
                  None \<Rightarrow> False
                | Some key \<Rightarrow> leaf_matches (dn_Leaf key) (fl_text c) (dn_Value key))))"

definition with_children :: "dnode \<Rightarrow> dnode list \<Rightarrow> dnode" where
  "with_children n cs = DNode (dn_Path n) (dn_Name n) (dn_Kind n) (dn_Key n) (dn_KeyValue n) (dn_Leaf n) (dn_Value n) cs"

lemma size_dn_Children [termination_simp]: "size_list size (dn_Children n) < size n"
  by (cases n) simp

lemma size_list_filter: "size_list f (filter P xs) \<le> size_list f xs"
  by (induction xs) auto

lemma size_dn_rest [termination_simp]: "size_list size (filter P (dn_Children n)) < size n"
  using size_list_filter size_dn_Children le_less_trans by blast

function (sequential)
  pruneNodes :: "filterLevel \<Rightarrow> dnode list \<Rightarrow> dnode list"
  and pruneEntries :: "string \<Rightarrow> filterNode option \<Rightarrow> filterLevel \<Rightarrow> dnode list \<Rightarrow> dnode list" where
  "pruneNodes level [] = []"
| "pruneNodes level (node # nodes) =
     (case level_child level (dn_Name node) of
        None \<Rightarrow> []
      | Some (matched, childLevel) \<Rightarrow>
          (case dn_Kind node of
             KindLeaf \<Rightarrow>
               if (case matched of None \<Rightarrow> False
                   | Some m \<Rightarrow> fl_hasText m \<and> \<not> leaf_matches (dn_Leaf node) (fl_text m) (dn_Value node))
               then [] else [node]
           | KindContainer \<Rightarrow>
               let inner = pruneNodes childLevel (dn_Children node)
               in if inner = [] then [] else [with_children node inner]
           | KindList \<Rightarrow>
               let entries = pruneEntries (dn_Key node) matched childLevel (dn_Children node)
               in if entries = [] then [] else [with_children node entries]))
     @ pruneNodes level nodes"
| "pruneEntries key matched level [] = []"
| "pruneEntries key matched level (entry # entries) =
     (if \<not> entrySelected matched entry key then []
      else let children = filter (\<lambda>c. dn_Name c = key) (dn_Children entry) @
                          pruneNodes level (filter (\<lambda>c. dn_Name c \<noteq> key) (dn_Children entry))
           in if children = [] then [] else [with_children entry children])
     @ pruneEntries key matched level entries"
  by pat_completeness auto
termination
  by (relation "measure (\<lambda>x. case x of Inl (l, ns) \<Rightarrow> size_list size ns | Inr (k, m, l, es) \<Rightarrow> size_list size es)")
     (auto simp: less_Suc_eq_le intro: trans_le_add1 less_imp_le size_dn_Children size_dn_rest)

definition module_Namespace :: "yang_module \<Rightarrow> string" where
  "module_Namespace m =
     (case m of ModuleDevice \<Rightarrow> ''urn:sim:device'' | ModuleRadioLink \<Rightarrow> ''urn:sim:radio-link''
      | ModuleL2 \<Rightarrow> ''urn:sim:l2-switching'' | ModuleSync \<Rightarrow> ''urn:sim:sync'')"

definition namespaceFor :: "string \<Rightarrow> string" where
  "namespaceFor path = module_Namespace (ModuleFor path)"

text \<open>The namespace an element declares and the one its children inherit.\<close>

definition elementFor :: "string \<Rightarrow> string \<Rightarrow> string \<times> string" where
  "elementFor path currentNS =
     (let ns = namespaceFor path in if ns = currentNS then ([], currentNS) else (ns, ns))"

text \<open>A value that is not a leaf has no text; a datastore never holds one.\<close>

definition leaf_text :: "goval \<Rightarrow> string" where
  "leaf_text v = (case FormatLeaf v of Some t \<Rightarrow> t | None \<Rightarrow> [])"

text \<open>The elements \<open>renderNodes\<close> appends; it reports whether there are any.\<close>

function (sequential)
  renderNodes :: "string \<Rightarrow> dnode list \<Rightarrow> element list"
  and render_entries :: "string \<Rightarrow> string \<Rightarrow> dnode list \<Rightarrow> element list" where
  "renderNodes currentNS [] = []"
| "renderNodes currentNS (node # nodes) =
     (case dn_Kind node of
        KindLeaf \<Rightarrow> [Element (fst (elementFor (dn_Path node) currentNS)) (dn_Name node) [] [] (leaf_text (dn_Value node))]
      | KindContainer \<Rightarrow>
          let (space, childNS) = elementFor (dn_Path node) currentNS; inner = renderNodes childNS (dn_Children node)
          in if inner = [] then [] else [Element space (dn_Name node) [] inner []]
      | KindList \<Rightarrow> render_entries currentNS (dn_Name node) (dn_Children node))
     @ renderNodes currentNS nodes"
| "render_entries currentNS name [] = []"
| "render_entries currentNS name (entry # entries) =
     (let (space, entryNS) = elementFor (dn_Path entry) currentNS; inner = renderNodes entryNS (dn_Children entry)
      in if inner = [] then [] else [Element space name [] inner []])
     @ render_entries currentNS name entries"
  by pat_completeness auto
termination
  by (relation "measure (\<lambda>x. case x of Inl (s, ns) \<Rightarrow> size_list size ns | Inr (s, n, es) \<Rightarrow> size_list size es)")
     (auto simp: less_Suc_eq_le intro: trans_le_add1 less_imp_le size_dn_Children)

definition read_failure :: "read_error \<Rightarrow> dt_error" where
  "read_failure e = (case e of ReadTree t \<Rightarrow> t | _ \<Rightarrow> Failed)"

definition GetConfig :: "string option \<Rightarrow> router \<Rightarrow> element \<Rightarrow> dt_error + element" where
  "GetConfig ctx r operation =
     bind_res (sourceDatastore operation) (\<lambda>ds.
     bind_res (parseFilter (el_Child operation ''filter'')) (\<lambda>flt.
       (case Read ctx r ds \<lparr>ro_Prefix = [], ro_Content = ContentConfig\<rparr> of
          Inl e \<Rightarrow> Inl (read_failure e)
        | Inr tree \<Rightarrow>
            let nodes = (case tree of None \<Rightarrow> [] | Some n \<Rightarrow> dn_Children n);
                kept = (case flt of None \<Rightarrow> nodes | Some _ \<Rightarrow> pruneNodes (filter_level flt) nodes)
            in Inr (Append_children (NewElement ''data'') (renderNodes [] kept)))))"

section \<open>edit-config\<close>

definition checkEditOptions :: "element \<Rightarrow> dt_error option" where
  "checkEditOptions operation =
     (let test_error =
            (case el_Child operation ''test-option'' of
               None \<Rightarrow> None
             | Some e \<Rightarrow>
                 if TrimmedText e \<in> {[], ''test-then-set'', ''set''} then None
                 else if TrimmedText e = ''test-only'' then Some NotSupported
                 else Some InvalidValue)
      in case test_error of
           Some err \<Rightarrow> Some err
         | None \<Rightarrow>
             (case el_Child operation ''error-option'' of
                None \<Rightarrow> None
              | Some e \<Rightarrow>
                  if TrimmedText e \<in> {[], ''stop-on-error''} then None
                  else if TrimmedText e \<in> {''continue-on-error'', ''rollback-on-error''} then Some NotSupported
                  else Some InvalidValue))"

definition parseDefaultOperation :: "element \<Rightarrow> dt_error + edit_op" where
  "parseDefaultOperation operation =
     (case el_Child operation ''default-operation'' of
        None \<Rightarrow> Inr OpMerge
      | Some e \<Rightarrow>
          if TrimmedText e = ''merge'' then Inr OpMerge
          else if TrimmedText e = ''replace'' then Inr OpReplace
          else if TrimmedText e = ''none'' then Inr OpNone
          else Inl InvalidValue)"

definition fromDataTree :: "edit_failure \<Rightarrow> dt_error" where
  "fromDataTree f = (case f of EditError e \<Rightarrow> e | EditCtx _ \<Rightarrow> Failed)"

definition edit_request :: "element \<Rightarrow> dt_error + (datastore \<times> request)" where
  "edit_request operation =
     bind_res (targetDatastore operation) (\<lambda>target.
       case checkEditOptions operation of
         Some e \<Rightarrow> Inl e
       | None \<Rightarrow>
           bind_res (parseDefaultOperation operation) (\<lambda>op.
             case el_Child operation ''config'' of
               None \<Rightarrow> Inl MissingElement
             | Some config \<Rightarrow>
                 Inr (target, \<lparr>rq_BasePath = [], rq_Default = op, rq_Documents = map documentOf (el_Children config)\<rparr>)))"

definition EditConfig :: "string option \<Rightarrow> time \<Rightarrow> element \<Rightarrow> router \<Rightarrow> dt_error option \<times> router" where
  "EditConfig ctx t operation r =
     (case edit_request operation of
        Inl e \<Rightarrow> (Some e, r)
      | Inr (target, q) \<Rightarrow>
          (case Apply_edit ctx t target q r of (f, r1) \<Rightarrow> (map_option fromDataTree f, r1)))"

end
