(* ===== verification/ConfirmedCommit.thy ===== *)
theory ConfirmedCommit
  imports Netconf Clock EventBus
begin

text \<open>
  Commit and confirmed commit (\<open>src/internal/netconf/ops/commit.go\<close>, \<open>confirmed_commit.go\<close>,
  \<open>discard.go\<close>).  The shared state is the router with its store, the events published so far, the
  state of the confirmed commit and the clock.  The closure that rolls a commit back is the snapshot it
  captured.  A timer callback runs in a goroutine of its own: when the timer expires its
  callback joins \<open>nw_inflight\<close>, and it runs at some later point.  Every critical section of the lock is one step.
\<close>

section \<open>State\<close>

definition second_ns :: int where "second_ns = 1000000000"

definition DefaultConfirmTimeout :: duration where
  "DefaultConfirmTimeout = 600 * second_ns"

record pendingCommit =
  pc_seq :: u64
  pc_sessionID :: u32
  pc_timer :: nat
  pc_rollback :: "vals option"

record confirmed =
  cf_next :: u64
  cf_pend :: "pendingCommit option"

definition NewConfirmed :: confirmed where
  "NewConfirmed = \<lparr>cf_next = 0, cf_pend = None\<rparr>"

text \<open>\<open>nw_bus\<close> is \<open>None\<close> for a nil bus, and otherwise the list of the events published.\<close>

record ncworld =
  nw_router :: router
  nw_bus :: "event list option"
  nw_confirmed :: "confirmed option"
  nw_clock :: "u64 fakeClock"
  nw_inflight :: "u64 list"

abbreviation nw_store :: "ncworld \<Rightarrow> memory" where
  "nw_store w \<equiv> r_store (nw_router w)"

abbreviation nw_now :: "ncworld \<Rightarrow> time" where
  "nw_now w \<equiv> now (nw_clock w)"

definition put_store :: "memory \<Rightarrow> ncworld \<Rightarrow> ncworld" where
  "put_store m w = w\<lparr>nw_router := (nw_router w)\<lparr>r_store := m\<rparr>\<rparr>"

definition put_pend :: "pendingCommit option \<Rightarrow> ncworld \<Rightarrow> ncworld" where
  "put_pend p w = w\<lparr>nw_confirmed := map_option (\<lambda>c. c\<lparr>cf_pend := p\<rparr>) (nw_confirmed w)\<rparr>"

definition pend_of :: "ncworld \<Rightarrow> pendingCommit option" where
  "pend_of w = Option.bind (nw_confirmed w) cf_pend"

definition config_event :: "string \<Rightarrow> event" where
  "config_event reason =
     \<lparr>ev_type = TypeConfigChanged, ev_resource = ''device'', ev_severity = [], ev_message = reason, ev_domain = [],
      ev_alarm = [], ev_from = [], ev_to = [], ev_timestamp = 0\<rparr>"

definition publishConfigChanged :: "string \<Rightarrow> ncworld \<Rightarrow> ncworld" where
  "publishConfigChanged reason w =
     w\<lparr>nw_bus := map_option (\<lambda>es. es @ [stamp (nw_now w) (config_event reason)]) (nw_bus w)\<rparr>"

section \<open>Applying and reverting\<close>

definition applyCommit :: "string option \<Rightarrow> faults \<Rightarrow> string \<Rightarrow> ncworld \<Rightarrow> dt_error option \<times> ncworld" where
  "applyCommit ctx fl reason w =
     (case Commit ctx (nw_now w) fl (nw_store w) of
        (Some (ErrValidation _), m) \<Rightarrow> (Some InvalidValue, put_store m w)
      | (Some _, m) \<Rightarrow> (Some Failed, put_store m w)
      | (None, m) \<Rightarrow> (None, publishConfigChanged reason (put_store m w)))"

definition runRollback :: "faults \<Rightarrow> vals option \<Rightarrow> ncworld \<Rightarrow> store_error option \<times> ncworld" where
  "runRollback fl rollback w =
     (case rollback of
        None \<Rightarrow> (None, w)
      | Some snap \<Rightarrow>
          (case Restore None (nw_now w) fl snap (nw_store w) of
             (Some e, m) \<Rightarrow> (Some e, put_store m w)
           | (None, m) \<Rightarrow> (None, publishConfigChanged ''confirmed-commit rollback'' (put_store m w))))"

section \<open>The confirmed commit\<close>

record confirmedRequest =
  cr_SessionID :: u32
  cr_Timeout :: duration
  cr_Rollback :: "vals option"

definition Confirmed_Apply ::
    "confirmedRequest \<Rightarrow> (ncworld \<Rightarrow> dt_error option \<times> ncworld) \<Rightarrow> ncworld \<Rightarrow> dt_error option \<times> ncworld" where
  "Confirmed_Apply req apply_fn w =
     (if (case pend_of w of None \<Rightarrow> False | Some p \<Rightarrow> pc_sessionID p \<noteq> cr_SessionID req) then (Some Denied, w)
      else case apply_fn w of
             (Some e, w1) \<Rightarrow> (Some e, w1)
           | (None, w1) \<Rightarrow>
               let timeout = (if cr_Timeout req \<le> 0 then DefaultConfirmTimeout else cr_Timeout req)
               in (case pend_of w1 of
                     Some p \<Rightarrow> (None, w1\<lparr>nw_clock := snd (Reset (pc_timer p) timeout (nw_clock w1))\<rparr>)
                   | None \<Rightarrow>
                       let seq = (case nw_confirmed w1 of None \<Rightarrow> 0 | Some c \<Rightarrow> cf_next c) + 1;
                           (i, clk) = AfterFunc timeout seq (nw_clock w1)
                       in (None, w1\<lparr>nw_clock := clk,
                            nw_confirmed := Some \<lparr>cf_next = seq, cf_pend = Some \<lparr>pc_seq = seq,
                              pc_sessionID = cr_SessionID req, pc_timer = i, pc_rollback = cr_Rollback req\<rparr>\<rparr>\<rparr>)))"

text \<open>Both \<open>Confirm\<close> and \<open>Close\<close> stop the timer and forget the pending commit.\<close>

definition Confirm :: "ncworld \<Rightarrow> ncworld" where
  "Confirm w =
     (case pend_of w of
        None \<Rightarrow> w
      | Some p \<Rightarrow> put_pend None (w\<lparr>nw_clock := snd (Stop (pc_timer p) (nw_clock w))\<rparr>))"

definition Confirmed_Close :: "ncworld \<Rightarrow> ncworld" where
  "Confirmed_Close w =
     (case pend_of w of
        None \<Rightarrow> w
      | Some p \<Rightarrow> put_pend None (w\<lparr>nw_clock := snd (Stop (pc_timer p) (nw_clock w))\<rparr>))"

text \<open>The critical section of \<open>SessionEnded\<close>, and the rollback it returns to be run after the lock is released.\<close>

definition ended_detach :: "u32 \<Rightarrow> ncworld \<Rightarrow> vals option \<times> ncworld" where
  "ended_detach sessionID w =
     (case pend_of w of
        None \<Rightarrow> (None, w)
      | Some p \<Rightarrow>
          if pc_sessionID p \<noteq> sessionID then (None, w)
          else (pc_rollback p, put_pend None (w\<lparr>nw_clock := snd (Stop (pc_timer p) (nw_clock w))\<rparr>)))"

definition SessionEnded :: "faults \<Rightarrow> u32 \<Rightarrow> ncworld \<Rightarrow> store_error option \<times> ncworld" where
  "SessionEnded fl sessionID w = (case ended_detach sessionID w of (rollback, w1) \<Rightarrow> runRollback fl rollback w1)"

definition Confirmed_Pending :: "ncworld \<Rightarrow> bool" where
  "Confirmed_Pending w \<longleftrightarrow> pend_of w \<noteq> None"

text \<open>The same for the timeout callback.\<close>

definition fire_detach :: "u64 \<Rightarrow> ncworld \<Rightarrow> vals option \<times> ncworld" where
  "fire_detach seq w =
     (case pend_of w of
        None \<Rightarrow> (None, w)
      | Some p \<Rightarrow> if pc_seq p \<noteq> seq then (None, w) else (pc_rollback p, put_pend None w))"

definition Confirmed_fire :: "faults \<Rightarrow> u64 \<Rightarrow> ncworld \<Rightarrow> store_error option \<times> ncworld" where
  "Confirmed_fire fl seq w = (case fire_detach seq w of (rollback, w1) \<Rightarrow> runRollback fl rollback w1)"

section \<open>The commit operation\<close>

text \<open>The product of two \<open>int64\<close> values wraps around.\<close>

definition int64_mul :: "int \<Rightarrow> int \<Rightarrow> int" where
  "int64_mul a b = (a * b + 2 ^ 63) mod 2 ^ 64 - 2 ^ 63"

record commitParams =
  cp_confirmed :: bool
  cp_timeout :: duration

definition parse_source :: "element \<Rightarrow> dt_error option" where
  "parse_source operation =
     (case el_Child operation ''source'' of
        None \<Rightarrow> None
      | Some s \<Rightarrow>
          (case datastoreElement s of
             Inl e \<Rightarrow> Some e
           | Inr ds \<Rightarrow> if ds \<noteq> Candidate then Some NotSupported else None))"

definition parseCommit :: "element \<Rightarrow> dt_error + commitParams" where
  "parseCommit operation =
     (case parse_source operation of
        Some e \<Rightarrow> Inl e
      | None \<Rightarrow>
          if el_Child operation ''persist'' \<noteq> None \<or> el_Child operation ''persist-id'' \<noteq> None then Inl NotSupported
          else
            (case (el_Child operation ''confirmed'', el_Child operation ''confirm-timeout'') of
               (None, Some _) \<Rightarrow> Inl MissingElement
             | (None, None) \<Rightarrow> Inr \<lparr>cp_confirmed = False, cp_timeout = 0\<rparr>
             | (Some _, None) \<Rightarrow> Inr \<lparr>cp_confirmed = True, cp_timeout = DefaultConfirmTimeout\<rparr>
             | (Some _, Some t) \<Rightarrow>
                 (case Atoi (TrimmedText t) of
                    None \<Rightarrow> Inl InvalidValue
                  | Some seconds \<Rightarrow>
                      if seconds \<le> 0 then Inl InvalidValue
                      else Inr \<lparr>cp_confirmed = True, cp_timeout = int64_mul seconds second_ns\<rparr>)))"

definition commitConfirmed ::
    "string option \<Rightarrow> faults \<Rightarrow> u32 \<Rightarrow> commitParams \<Rightarrow> ncworld \<Rightarrow> dt_error option \<times> ncworld" where
  "commitConfirmed ctx fl sessionID params w =
     (case nw_confirmed w of
        None \<Rightarrow> (Some Failed, w)
      | Some _ \<Rightarrow>
          (case Snapshot ctx (nw_store w) of
             Inl _ \<Rightarrow> (Some Failed, w)
           | Inr snap \<Rightarrow>
               Confirmed_Apply \<lparr>cr_SessionID = sessionID, cr_Timeout = cp_timeout params, cr_Rollback = Some snap\<rparr>
                 (applyCommit ctx fl ''confirmed-commit'') w))"

definition Commit_op ::
    "string option \<Rightarrow> faults \<Rightarrow> u32 \<Rightarrow> element \<Rightarrow> ncworld \<Rightarrow> dt_error option \<times> ncworld" where
  "Commit_op ctx fl sessionID operation w =
     (case parseCommit operation of
        Inl e \<Rightarrow> (Some e, w)
      | Inr params \<Rightarrow>
          if cp_confirmed params then commitConfirmed ctx fl sessionID params w
          else case applyCommit ctx fl ''commit'' w of
                 (Some e, w1) \<Rightarrow> (Some e, w1)
               | (None, w1) \<Rightarrow> (None, if nw_confirmed w1 = None then w1 else Confirm w1))"

definition DiscardChanges :: "string option \<Rightarrow> ncworld \<Rightarrow> dt_error option \<times> ncworld" where
  "DiscardChanges ctx w =
     (case Rollback ctx (nw_now w) (nw_store w) of
        (Some _, m) \<Rightarrow> (Some Failed, put_store m w)
      | (None, m) \<Rightarrow> (None, put_store m w))"

section \<open>Time\<close>

text \<open>Time passes: every due timer is spent and its callback is ready to run.\<close>

definition nc_elapse :: "duration \<Rightarrow> ncworld \<Rightarrow> ncworld" where
  "nc_elapse d w =
     (let t = nw_now w + d; ts = timers (nw_clock w)
      in w\<lparr>nw_clock := \<lparr>now = t, timers = map (\<lambda>x. if due t x then x\<lparr>active := False\<rparr> else x) ts\<rparr>,
           nw_inflight := nw_inflight w @ map fn (filter (due t) ts)\<rparr>)"

text \<open>One of the callbacks that are ready runs.\<close>

definition run_fire :: "faults \<Rightarrow> u64 \<Rightarrow> ncworld \<Rightarrow> store_error option \<times> ncworld" where
  "run_fire fl seq w = Confirmed_fire fl seq (w\<lparr>nw_inflight := remove1 seq (nw_inflight w)\<rparr>)"

section \<open>Interleavings\<close>

text \<open>What the sessions, the timer and the rest of the simulator can do, one critical section at a time.  The
  store may change at any time; a plain commit is the two steps \<open>commit\<close> and \<open>confirm\<close>; the snapshot of a
  confirmed commit may be an older one; a rollback runs some time after it was detached.\<close>

datatype nc_action =
    ActStore memory
  | ActCommit "string option" faults
  | ActConfirm
  | ActConfirmed "string option" faults confirmedRequest
  | ActEnded u32
  | ActClose
  | ActElapse duration
  | ActFire u64
  | ActRollback faults vals

fun nc_do :: "nc_action \<Rightarrow> ncworld \<times> vals list \<Rightarrow> ncworld \<times> vals list" where
  "nc_do (ActStore m) (w, rs) = (put_store m w, rs)"
| "nc_do (ActCommit ctx fl) (w, rs) = (snd (applyCommit ctx fl ''commit'' w), rs)"
| "nc_do ActConfirm (w, rs) = (Confirm w, rs)"
| "nc_do (ActConfirmed ctx fl req) (w, rs) =
     (if nw_confirmed w = None \<or> cr_Rollback req = None then (w, rs)
      else (snd (Confirmed_Apply req (applyCommit ctx fl ''confirmed-commit'') w), rs))"
| "nc_do (ActEnded sid) (w, rs) = (case ended_detach sid w of (r, w1) \<Rightarrow> (w1, rs @ (case r of None \<Rightarrow> [] | Some v \<Rightarrow> [v])))"
| "nc_do ActClose (w, rs) = (Confirmed_Close w, rs)"
| "nc_do (ActElapse d) (w, rs) = (nc_elapse (max 0 d) w, rs)"
| "nc_do (ActFire seq) (w, rs) =
     (if seq \<in> set (nw_inflight w)
      then (case fire_detach seq (w\<lparr>nw_inflight := remove1 seq (nw_inflight w)\<rparr>) of
              (r, w1) \<Rightarrow> (w1, rs @ (case r of None \<Rightarrow> [] | Some v \<Rightarrow> [v])))
      else (w, rs))"
| "nc_do (ActRollback fl v) (w, rs) =
     (if v \<in> set rs then (snd (runRollback fl (Some v) w), remove1 v rs) else (w, rs))"

end
