(* ===== verification/Notif.thy ===== *)
theory Notif
  imports Netconf EventBus
begin

text \<open>
  NETCONF notifications (\<open>src/internal/netconf/notif\<close>): the request, the notification document and the
  dispatcher that queues every event for the subscribed sessions.  A subscription's goroutine is the
  step \<open>write_step\<close>, which hands the oldest queued document to the session.  The text of a time and the bytes of a document are made by
  the standard library and are arguments.
\<close>

section \<open>Requests\<close>

definition NotificationNamespace :: string where
  "NotificationNamespace = ''urn:ietf:params:xml:ns:netconf:notification:1.0''"
definition EventsNamespace :: string where "EventsNamespace = ''urn:sim:sim-events''"
definition StreamName :: string where "StreamName = ''sim-events''"

datatype notif_error = ErrUnknownStream | ErrNilSender | ErrClosed

definition ParseRequest :: "element \<Rightarrow> dt_error + string" where
  "ParseRequest operation =
     (if el_Child operation ''filter'' \<noteq> None then Inl NotSupported
      else if el_Child operation ''startTime'' \<noteq> None \<or> el_Child operation ''stopTime'' \<noteq> None then Inl NotSupported
      else if list_ex (\<lambda>c. el_Name c \<notin> {''stream'', ''filter'', ''startTime'', ''stopTime''}) (el_Children operation)
      then Inl UnknownElement
      else case el_Child operation ''stream'' of
             None \<Rightarrow> Inr StreamName
           | Some s \<Rightarrow>
               if TrimmedText s = [] then Inl InvalidValue
               else if TrimmedText s \<noteq> StreamName then Inl InvalidValue
               else Inr (TrimmedText s))"

section \<open>Documents\<close>

definition event_type_name :: "EventType \<Rightarrow> string" where
  "event_type_name t =
     (case t of TypeAlarmRaised \<Rightarrow> ''AlarmRaised'' | TypeAlarmCleared \<Rightarrow> ''AlarmCleared''
      | TypeConfigChanged \<Rightarrow> ''ConfigChanged'' | TypeStateTransition \<Rightarrow> ''StateTransition'')"

definition text_element :: "string \<Rightarrow> string \<Rightarrow> element" where
  "text_element name tx = Element [] name [] [] tx"

text \<open>A field marked \<open>omitempty\<close>.\<close>

definition optional_element :: "string \<Rightarrow> string \<Rightarrow> element list" where
  "optional_element name tx = (if tx = [] then [] else [text_element name tx])"

definition Render :: "(time \<Rightarrow> string) \<Rightarrow> event \<Rightarrow> element" where
  "Render format_time e =
     Element NotificationNamespace ''notification'' []
       [text_element ''eventTime'' (format_time (ev_timestamp e)),
        Element EventsNamespace ''event'' []
          (text_element ''type'' (event_type_name (ev_type e)) #
           optional_element ''resource'' (ev_resource e) @ optional_element ''severity'' (ev_severity e) @
           optional_element ''message'' (ev_message e) @ optional_element ''alarm'' (ev_alarm e) @
           optional_element ''from'' (ev_from e) @ optional_element ''to'' (ev_to e)) []] []"

section \<open>Subscriptions\<close>

record subscription =
  sb_stream :: string
  sb_out :: "element list"
  sb_done :: bool

definition newSubscription :: "string \<Rightarrow> subscription" where
  "newSubscription stream = \<lparr>sb_stream = stream, sb_out = [], sb_done = False\<rparr>"

definition deliver :: "element \<Rightarrow> subscription \<Rightarrow> subscription" where
  "deliver doc s = (if length (sb_out s) < DefaultBuffer then s\<lparr>sb_out := sb_out s @ [doc]\<rparr> else s)"

definition write_step :: "subscription \<Rightarrow> element option \<times> subscription" where
  "write_step s =
     (if sb_done s then (None, s)
      else case sb_out s of [] \<Rightarrow> (None, s) | d # ds \<Rightarrow> (Some d, s\<lparr>sb_out := ds\<rparr>))"

definition stop_sub :: "subscription \<Rightarrow> subscription" where
  "stop_sub s = s\<lparr>sb_done := True\<rparr>"

section \<open>The dispatcher\<close>

text \<open>\<open>dp_ended\<close> keeps the stopped subscriptions, which are no longer reachable from the map.\<close>

record dispatcher =
  dp_closed :: bool
  dp_subs :: "(u32, subscription) gomap"
  dp_ended :: "subscription list"
  dp_events :: nat

definition NewDispatcher :: "bus \<Rightarrow> dispatcher \<times> bus" where
  "NewDispatcher b =
     (let (i, b1) = Subscribe b in (\<lparr>dp_closed = False, dp_subs = [], dp_ended = [], dp_events = i\<rparr>, b1))"

definition Disp_Subscribe :: "u32 \<Rightarrow> string \<Rightarrow> bool \<Rightarrow> dispatcher \<Rightarrow> notif_error option \<times> dispatcher" where
  "Disp_Subscribe sid stream has_sender d =
     (if stream \<noteq> StreamName then (Some ErrUnknownStream, d)
      else if \<not> has_sender then (Some ErrNilSender, d)
      else if dp_closed d then (Some ErrClosed, d\<lparr>dp_ended := stop_sub (newSubscription stream) # dp_ended d\<rparr>)
      else (None, d\<lparr>dp_subs := AList.update sid (newSubscription stream) (dp_subs d),
                    dp_ended := (case map_of (dp_subs d) sid of None \<Rightarrow> [] | Some s \<Rightarrow> [stop_sub s]) @ dp_ended d\<rparr>))"

definition Disp_Unsubscribe :: "u32 \<Rightarrow> dispatcher \<Rightarrow> dispatcher" where
  "Disp_Unsubscribe sid d =
     (case map_of (dp_subs d) sid of
        None \<Rightarrow> d
      | Some s \<Rightarrow> d\<lparr>dp_subs := AList.delete sid (dp_subs d), dp_ended := stop_sub s # dp_ended d\<rparr>)"

definition Disp_Close :: "dispatcher \<Rightarrow> bus \<Rightarrow> dispatcher \<times> bus option" where
  "Disp_Close d b =
     (if dp_closed d then (d, Some b)
      else (d\<lparr>dp_closed := True, dp_subs := [], dp_ended := map (stop_sub \<circ> snd) (dp_subs d) @ dp_ended d\<rparr>,
            map_option snd (Unsubscribe (dp_events d) b)))"

definition Subscribers :: "dispatcher \<Rightarrow> nat" where
  "Subscribers d = length (dp_subs d)"

definition dispatch_event :: "(time \<Rightarrow> string) \<Rightarrow> event \<Rightarrow> dispatcher \<Rightarrow> dispatcher" where
  "dispatch_event format_time e d =
     d\<lparr>dp_subs := map (\<lambda>(sid, s). (sid, deliver (Render format_time e) s)) (dp_subs d)\<rparr>"

text \<open>One round of \<open>Run\<close>: the next event of the bus channel, if there is one, goes to every subscription.\<close>

definition run_round :: "(time \<Rightarrow> string) \<Rightarrow> dispatcher \<Rightarrow> bus \<Rightarrow> dispatcher \<times> bus" where
  "run_round format_time d b =
     (if dp_events d < length (chans b)
      then case buf (chans b ! dp_events d) of
             [] \<Rightarrow> (d, b)
           | e # _ \<Rightarrow> (dispatch_event format_time e d, receive (dp_events d) b)
      else (d, b))"

end
