(* ===== verification/Session.thy ===== *)
theory Session
  imports ConfirmedCommit Notif Framing
begin

text \<open>
  NETCONF sessions (\<open>src/internal/netconf/hello.go\<close>, \<open>rpc.go\<close>, \<open>session.go\<close>, and the session part of
  \<open>ssh.go\<close>): the hello exchange, the dispatch of one RPC, the message loop and the end of a session.
  Package \<open>encoding/xml\<close> is the record \<open>xml_codec\<close>.  The input of a session is the bytes the client will send; the output is the list
  of the writes.  What other sessions do between two messages is an argument.
\<close>

section \<open>The hello exchange\<close>

definition CapabilityBase10 :: string where "CapabilityBase10 = ''urn:ietf:params:netconf:base:1.0''"
definition CapabilityBase11 :: string where "CapabilityBase11 = ''urn:ietf:params:netconf:base:1.1''"

definition Capabilities :: "string list" where
  "Capabilities =
     [CapabilityBase11, CapabilityBase10,
      ''urn:ietf:params:netconf:capability:candidate:1.0'',
      ''urn:ietf:params:netconf:capability:writable-running:1.0'',
      ''urn:ietf:params:netconf:capability:confirmed-commit:1.0'',
      ''urn:ietf:params:netconf:capability:notification:1.0'']"

record hello =
  he_Capabilities :: "string list"
  he_SessionID :: u32

record helloMessage =
  hm_Local :: string
  hm_Capabilities :: "string list"
  hm_SessionID :: u32

record rpc_error =
  re_Type :: string
  re_Tag :: string
  re_Severity :: string
  re_Path :: string

record rpcReply =
  rr_MessageID :: string
  rr_Ok :: bool
  rr_Data :: "element option"
  rr_Errors :: "rpc_error list"

record incomingRPC =
  ir_Local :: string
  ir_MessageID :: string
  ir_Body :: string

record xml_codec =
  xc_hello :: "hello \<Rightarrow> string option"
  xc_reply :: "rpcReply \<Rightarrow> string option"
  xc_parse_hello :: "string \<Rightarrow> helloMessage option"
  xc_parse_rpc :: "string \<Rightarrow> incomingRPC option"
  xc_tokens :: "string \<Rightarrow> xml_token list \<times> string option"

definition serverHello :: "u32 \<Rightarrow> hello" where
  "serverHello sid = \<lparr>he_Capabilities = Capabilities, he_SessionID = sid\<rparr>"

definition hasCapability :: "helloMessage \<Rightarrow> string \<Rightarrow> bool" where
  "hasCapability h urn = list_ex (\<lambda>c. c = urn) (hm_Capabilities h)"

definition parseHello :: "xml_codec \<Rightarrow> string \<Rightarrow> helloMessage option" where
  "parseHello x data =
     (case xc_parse_hello x data of
        None \<Rightarrow> None
      | Some m \<Rightarrow>
          if hm_Local m \<noteq> ''hello'' then None
          else if \<not> hasCapability m CapabilityBase10 \<and> \<not> hasCapability m CapabilityBase11 then None
          else Some m)"

definition hello_chunked :: "helloMessage \<Rightarrow> bool" where
  "hello_chunked h = hasCapability h CapabilityBase11"

section \<open>Replies\<close>

definition newReply :: "string \<Rightarrow> rpcReply" where
  "newReply mid = \<lparr>rr_MessageID = mid, rr_Ok = False, rr_Data = None, rr_Errors = []\<rparr>"

definition okReply :: "string \<Rightarrow> rpcReply" where
  "okReply mid = (newReply mid)\<lparr>rr_Ok := True\<rparr>"

definition errorReply :: "string \<Rightarrow> dt_error \<Rightarrow> rpcReply" where
  "errorReply mid e =
     (newReply mid)\<lparr>rr_Errors := [\<lparr>re_Type = de_Type e, re_Tag = de_Tag e, re_Severity = ''error'', re_Path = de_Path e\<rparr>]\<rparr>"

definition parseRPC :: "xml_codec \<Rightarrow> string \<Rightarrow> dt_error + incomingRPC" where
  "parseRPC x data =
     (case xc_parse_rpc x data of
        None \<Rightarrow> Inl Malformed
      | Some rpc \<Rightarrow>
          if ir_Local rpc \<noteq> ''rpc'' then Inl Malformed
          else if trim_space (ir_MessageID rpc) = [] then Inl MissingAttribute
          else Inr rpc)"

section \<open>The server\<close>

record ncserver =
  sv_world :: ncworld
  sv_dispatcher :: "dispatcher option"
  sv_sessions :: u32

definition subscribe :: "u32 \<Rightarrow> element \<Rightarrow> ncserver \<Rightarrow> dt_error option \<times> ncserver" where
  "subscribe sid operation s =
     (case sv_dispatcher s of
        None \<Rightarrow> (Some NotSupported, s)
      | Some d \<Rightarrow>
          (case ParseRequest operation of
             Inl e \<Rightarrow> (Some e, s)
           | Inr stream \<Rightarrow>
               (case Disp_Subscribe sid stream True d of
                  (Some ErrUnknownStream, d1) \<Rightarrow> (Some InvalidValue, s\<lparr>sv_dispatcher := Some d1\<rparr>)
                | (Some _, d1) \<Rightarrow> (Some Failed, s\<lparr>sv_dispatcher := Some d1\<rparr>)
                | (None, d1) \<Rightarrow> (None, s\<lparr>sv_dispatcher := Some d1\<rparr>))))"

definition status_reply :: "string \<Rightarrow> dt_error option \<Rightarrow> rpcReply" where
  "status_reply mid e = (case e of None \<Rightarrow> okReply mid | Some err \<Rightarrow> errorReply mid err)"

text \<open>The reply to one RPC, and whether the session ends after it.\<close>

definition dispatch_rpc ::
    "xml_codec \<Rightarrow> string option \<Rightarrow> faults \<Rightarrow> u32 \<Rightarrow> incomingRPC \<Rightarrow> ncserver \<Rightarrow> (rpcReply \<times> bool) \<times> ncserver" where
  "dispatch_rpc x ctx fl sid rpc s =
     (let mid = ir_MessageID rpc; w = sv_world s
      in case ParseElement (xc_tokens x (ir_Body rpc)) of
           Inl _ \<Rightarrow> ((errorReply mid Malformed, True), s)
         | Inr operation \<Rightarrow>
             if el_Name operation = ''get-config''
             then (case GetConfig ctx (nw_router w) operation of
                     Inl e \<Rightarrow> ((errorReply mid e, False), s)
                   | Inr data \<Rightarrow> (((newReply mid)\<lparr>rr_Data := Some data\<rparr>, False), s))
             else if el_Name operation = ''edit-config''
             then (case EditConfig ctx (nw_now w) operation (nw_router w) of
                     (e, r) \<Rightarrow> ((status_reply mid e, False), s\<lparr>sv_world := w\<lparr>nw_router := r\<rparr>\<rparr>))
             else if el_Name operation = ''commit''
             then (case Commit_op ctx fl sid operation w of (e, w1) \<Rightarrow> ((status_reply mid e, False), s\<lparr>sv_world := w1\<rparr>))
             else if el_Name operation = ''discard-changes''
             then (case DiscardChanges ctx w of (e, w1) \<Rightarrow> ((status_reply mid e, False), s\<lparr>sv_world := w1\<rparr>))
             else if el_Name operation = ''create-subscription''
             then (case subscribe sid operation s of (e, s1) \<Rightarrow> ((status_reply mid e, False), s1))
             else if el_Name operation = ''close-session'' then ((okReply mid, True), s)
             else ((errorReply mid NotSupported, False), s))"

definition handleMessage ::
    "xml_codec \<Rightarrow> string option \<Rightarrow> faults \<Rightarrow> u32 \<Rightarrow> string \<Rightarrow> ncserver \<Rightarrow> (rpcReply \<times> bool) \<times> ncserver" where
  "handleMessage x ctx fl sid message s =
     (case parseRPC x message of
        Inl e \<Rightarrow> ((errorReply [] e, False), s)
      | Inr rpc \<Rightarrow> (case dispatch_rpc x ctx fl sid rpc s of ((reply, close), s1) \<Rightarrow> ((reply, \<not> close), s1)))"

definition writeReply :: "xml_codec \<Rightarrow> framingMode \<Rightarrow> rpcReply \<Rightarrow> string list" where
  "writeReply x mode reply = (case xc_reply x reply of None \<Rightarrow> [] | Some data \<Rightarrow> [WriteMessage mode data])"

definition reportReadError :: "xml_codec \<Rightarrow> framingMode \<Rightarrow> frame_error \<Rightarrow> string list" where
  "reportReadError x mode e =
     (case e of
        MessageTooBig \<Rightarrow> writeReply x mode (errorReply [] TooBig)
      | MalformedFrame _ \<Rightarrow> writeReply x mode (errorReply [] Malformed)
      | FrameEOF \<Rightarrow> [])"

section \<open>The message loop\<close>

text \<open>For the \<open>n\<close>-th message: whether the context is cancelled before it is read, the context and the disk faults of its
  operation, and what the other sessions did before it.\<close>

record nc_env =
  ne_stop :: "nat \<Rightarrow> bool"
  ne_ctx :: "nat \<Rightarrow> string option"
  ne_faults :: "nat \<Rightarrow> faults"
  ne_others :: "nat \<Rightarrow> ncserver \<Rightarrow> ncserver"

lemma readEOM_less: "readEOM m input = (Inr r, rest) \<Longrightarrow> length rest < length input"
  by (induction m input rule: readEOM.induct) (auto simp: Let_def split: if_splits)

lemma readChunked_less: "readChunked m input = (Inr r, rest) \<Longrightarrow> length rest < length input"
proof (induction m input rule: readChunked.induct)
  case (1 m input)
  obtain u rest0 where s: "expectChunkStart input = (Inr u, rest0)"
    using 1(2) by (auto simp: readChunked.simps[of m input] split: prod.splits sum.splits)
  obtain n rest1 where c: "readChunkSize rest0 = (Inr n, rest1)"
    using 1(2) s by (auto simp: readChunked.simps[of m input] split: prod.splits sum.splits)
  have len: "length rest0 < length input" "length rest1 \<le> length rest0"
    using expectChunkStart_less[OF s] readChunkSize_le[OF c] .
  show ?case
  proof (cases n)
    case None
    then show ?thesis using 1(2) s c len by (simp add: readChunked.simps[of m input])
  next
    case (Some k)
    then obtain chunk rest2 where f: "ReadFull k rest1 = (Inr chunk, rest2)" "readChunked (m @ chunk) rest2 = (Inr r, rest)"
        "\<not> int k > int maxMessageSize - int (length m)"
      using 1(2) s c by (auto simp: readChunked.simps[of m input] split: prod.splits sum.splits if_splits)
    have "length rest < length rest2" using 1(1)[OF s[symmetric] refl c[symmetric] refl Some f(3) f(1)[symmetric] refl f(2)] by auto
    moreover have "length rest2 \<le> length rest1" using f(1) by (auto simp: ReadFull_def split: if_splits)
    ultimately show ?thesis using len by simp
  qed
qed

lemma ReadMessage_less: "ReadMessage mode input = (Inr m, rest) \<Longrightarrow> length rest < length input"
  using readEOM_less readChunked_less by (auto simp: ReadMessage_def split: if_splits)

function session_loop ::
    "xml_codec \<Rightarrow> nc_env \<Rightarrow> u32 \<Rightarrow> framingMode \<Rightarrow> nat \<Rightarrow> string \<Rightarrow> ncserver \<Rightarrow> string list \<times> ncserver" where
  "session_loop x env sid mode n input s =
     (let s0 = ne_others env n s
      in if ne_stop env n then ([], s0)
         else case ReadMessage mode input of
                (Inl e, _) \<Rightarrow> (reportReadError x mode e, s0)
              | (Inr message, rest) \<Rightarrow>
                  (case handleMessage x (ne_ctx env n) (ne_faults env n) sid (trim_space message) s0 of
                     ((reply, continue), s1) \<Rightarrow>
                       if continue
                       then (case session_loop x env sid mode (Suc n) rest s1 of
                               (out, s2) \<Rightarrow> (writeReply x mode reply @ out, s2))
                       else (writeReply x mode reply, s1)))"
  by pat_completeness auto
termination
  by (relation "measure (\<lambda>(x, env, sid, mode, n, input, s). length input)") (auto dest: ReadMessage_less[OF sym])

declare session_loop.simps [simp del]

definition session_run :: "xml_codec \<Rightarrow> nc_env \<Rightarrow> u32 \<Rightarrow> string \<Rightarrow> ncserver \<Rightarrow> string list \<times> ncserver" where
  "session_run x env sid input s =
     (case xc_hello x (serverHello sid) of
        None \<Rightarrow> ([], s)
      | Some h \<Rightarrow>
          let out = [WriteMessage framingEOM h]
          in (case detectFraming input of
                Inl _ \<Rightarrow> (out, s)
              | Inr mode \<Rightarrow>
                  (case ReadMessage mode input of
                     (Inl _, _) \<Rightarrow> (out, s)
                   | (Inr data, rest) \<Rightarrow>
                       (case parseHello x (trim_space data) of
                          None \<Rightarrow> (out, s)
                        | Some client \<Rightarrow>
                            let negotiated = (if hello_chunked client then framingChunked else framingEOM)
                            in (case session_loop x env sid negotiated 0 rest s of (out1, s1) \<Rightarrow> (out @ out1, s1))))))"

section \<open>The life of a session\<close>

definition nextSessionID :: "ncserver \<Rightarrow> u32 \<times> ncserver" where
  "nextSessionID s =
     (let n = sv_sessions s + 1; sid = (if n = 0 then 1 else n) in (sid, s\<lparr>sv_sessions := sid\<rparr>))"

definition sessionEnded :: "faults \<Rightarrow> u32 \<Rightarrow> ncserver \<Rightarrow> ncserver" where
  "sessionEnded fl sid s =
     s\<lparr>sv_dispatcher := map_option (Disp_Unsubscribe sid) (sv_dispatcher s), sv_world := snd (SessionEnded fl sid (sv_world s))\<rparr>"

definition serveSubsystem :: "xml_codec \<Rightarrow> nc_env \<Rightarrow> faults \<Rightarrow> string \<Rightarrow> ncserver \<Rightarrow> string list \<times> ncserver" where
  "serveSubsystem x env fl input s =
     (case nextSessionID s of
        (sid, s1) \<Rightarrow> (case session_run x env sid input s1 of (out, s2) \<Rightarrow> (out, sessionEnded fl sid s2)))"

end
