(* ===== verification/ConfirmedLaws.thy ===== *)
theory ConfirmedLaws
  imports ConfirmedCommit RouterLaws
begin

text \<open>
  Laws of the confirmed commit: a pending commit always has an armed timer or a callback on its way, a
  callback of one commit never reverts another, the timeout restores the configuration, and the two interleavings in
  which a commit that reported success is lost.
\<close>

section \<open>What the steps leave alone\<close>

lemma put_store_sel [simp]:
  "nw_confirmed (put_store m w) = nw_confirmed w" "nw_clock (put_store m w) = nw_clock w"
  "nw_inflight (put_store m w) = nw_inflight w" "nw_bus (put_store m w) = nw_bus w" "nw_store (put_store m w) = m"
  by (simp_all add: put_store_def)

lemma publishConfigChanged_sel [simp]:
  "nw_confirmed (publishConfigChanged r w) = nw_confirmed w" "nw_clock (publishConfigChanged r w) = nw_clock w"
  "nw_inflight (publishConfigChanged r w) = nw_inflight w" "nw_router (publishConfigChanged r w) = nw_router w"
  "nw_bus (publishConfigChanged r w) = map_option (\<lambda>es. es @ [stamp (nw_now w) (config_event r)]) (nw_bus w)"
  by (simp_all add: publishConfigChanged_def)

lemma put_pend_sel [simp]:
  "nw_clock (put_pend p w) = nw_clock w" "nw_inflight (put_pend p w) = nw_inflight w"
  "nw_router (put_pend p w) = nw_router w" "nw_bus (put_pend p w) = nw_bus w"
  "nw_confirmed (put_pend p w) = map_option (\<lambda>c. c\<lparr>cf_pend := p\<rparr>) (nw_confirmed w)"
  by (simp_all add: put_pend_def)

lemma pend_of_eq [simp]:
  "pend_of (put_store m w) = pend_of w" "pend_of (publishConfigChanged r w) = pend_of w"
  "pend_of (w\<lparr>nw_clock := c\<rparr>) = pend_of w" "pend_of (w\<lparr>nw_inflight := l\<rparr>) = pend_of w"
  "pend_of (put_pend None w) = None"
  by (simp_all add: pend_of_def) (cases "nw_confirmed w"; simp)

lemma applyCommit_sel:
  assumes "applyCommit ctx fl reason w = (e, w')"
  shows "nw_confirmed w' = nw_confirmed w" "nw_clock w' = nw_clock w" "nw_inflight w' = nw_inflight w" "pend_of w' = pend_of w"
  using assms by (auto simp: applyCommit_def split: prod.splits option.splits store_error.splits)

lemma runRollback_sel:
  assumes "runRollback fl r w = (e, w')"
  shows "nw_confirmed w' = nw_confirmed w" "nw_clock w' = nw_clock w" "nw_inflight w' = nw_inflight w" "pend_of w' = pend_of w"
  using assms by (cases r; cases "Restore None (nw_now w) fl (the r) (nw_store w)";
      auto simp: runRollback_def split: option.splits)+

section \<open>The invariant\<close>

text \<open>Labels are numbers already given out, the pending commit's timer carries its label and no other timer
  does, and the timer is armed or its callback is in flight.\<close>

definition pend_ok :: "u64 fakeTimer list \<Rightarrow> u64 list \<Rightarrow> pendingCommit \<Rightarrow> bool" where
  "pend_ok ts inflight p \<longleftrightarrow>
     pc_timer p < length ts \<and> fn (ts ! pc_timer p) = pc_seq p \<and> pc_rollback p \<noteq> None \<and>
     (active (ts ! pc_timer p) \<or> pc_seq p \<in> set inflight) \<and>
     (\<forall>j < length ts. fn (ts ! j) = pc_seq p \<longrightarrow> j = pc_timer p)"

definition labels_le :: "u64 \<Rightarrow> u64 fakeTimer list \<Rightarrow> u64 list \<Rightarrow> bool" where
  "labels_le b ts inflight \<longleftrightarrow> (\<forall>q \<in> fn ` set ts \<union> set inflight. q \<le> b)"

definition conf_ok :: "nat \<Rightarrow> confirmed option \<Rightarrow> u64 fakeTimer list \<Rightarrow> u64 list \<Rightarrow> bool" where
  "conf_ok n conf ts inflight \<longleftrightarrow>
     (case conf of
        None \<Rightarrow> ts = [] \<and> inflight = []
      | Some c \<Rightarrow>
          unat (cf_next c) \<le> n \<and> labels_le (cf_next c) ts inflight \<and>
          (\<forall>p. cf_pend c = Some p \<longrightarrow> pend_ok ts inflight p))"

definition conf_inv :: "nat \<Rightarrow> ncworld \<Rightarrow> bool" where
  "conf_inv n w \<longleftrightarrow> conf_ok n (nw_confirmed w) (timers (nw_clock w)) (nw_inflight w)"

lemma conf_inv_mono: "conf_inv n w \<Longrightarrow> conf_inv (Suc n) w"
  by (auto simp: conf_inv_def conf_ok_def split: option.splits)

text \<open>A step that gives out no new label only has to keep the pending commit armed.\<close>

lemma conf_inv_frame:
  assumes "conf_inv n w" "fn ` set (timers (nw_clock w')) \<union> set (nw_inflight w') \<subseteq> fn ` set (timers (nw_clock w)) \<union> set (nw_inflight w)"
    "map_option cf_next (nw_confirmed w') = map_option cf_next (nw_confirmed w)"
    "\<And>p. pend_of w' = Some p \<Longrightarrow> pend_ok (timers (nw_clock w')) (nw_inflight w') p"
  shows "conf_inv n w'"
proof (cases "nw_confirmed w'")
  case None
  then show ?thesis using assms(1-3) by (simp add: conf_inv_def conf_ok_def)
next
  case (Some c')
  then obtain c where "nw_confirmed w = Some c" "cf_next c' = cf_next c" using assms(3) by (cases "nw_confirmed w") auto
  then show ?thesis using assms(1,2,4) Some unfolding conf_inv_def conf_ok_def labels_le_def pend_of_def by auto
qed

lemma map_fn_update: "i < length ts \<Longrightarrow> map fn (ts[i := (ts ! i)\<lparr>active := b\<rparr>]) = map fn ts"
  by (auto simp: list_eq_iff_nth_eq nth_list_update)

lemma same_labels: "map fn ts' = map fn ts \<Longrightarrow> fn ` set ts' = fn ` set ts"
  by (metis set_map)

lemma conf_inv_pend: "conf_inv n w \<Longrightarrow> pend_of w = Some p \<Longrightarrow> pend_ok (timers (nw_clock w)) (nw_inflight w) p"
  by (auto simp: conf_inv_def conf_ok_def pend_of_def split: option.splits)

lemma conf_inv_stop:
  assumes "conf_inv n w" "pend_of w = Some p"
  shows "conf_inv n (put_pend None (w\<lparr>nw_clock := snd (Stop (pc_timer p) (nw_clock w))\<rparr>))"
proof -
  have "pc_timer p < length (timers (nw_clock w))"
    using conf_inv_pend[OF assms] by (simp add: pend_ok_def)
  from same_labels[OF map_fn_update[OF this]] show ?thesis
    by (intro conf_inv_frame[OF assms(1)]) (simp_all add: Stop_def option.map_comp comp_def)
qed

lemma pend_ok_timers:
  assumes ok: "pend_ok ts l p" and fns: "map fn ts' = map fn ts" and sub: "pc_seq p \<in> set l \<Longrightarrow> pc_seq p \<in> set l'"
    and act: "\<forall>j < length ts. active (ts ! j) \<longrightarrow> active (ts' ! j) \<or> fn (ts ! j) \<in> set l'"
  shows "pend_ok ts' l' p"
  unfolding pend_ok_def
proof (intro conjI allI impI)
  have len: "length ts' = length ts" using arg_cong[OF fns, of length] by simp
  have nth: "fn (ts' ! j) = fn (ts ! j)" if "j < length ts" for j
    using arg_cong[OF fns, of "\<lambda>l. l ! j"] that len by simp
  have p: "pc_timer p < length ts" "fn (ts ! pc_timer p) = pc_seq p" "pc_rollback p \<noteq> None"
      "active (ts ! pc_timer p) \<or> pc_seq p \<in> set l" and own: "\<forall>j < length ts. fn (ts ! j) = pc_seq p \<longrightarrow> j = pc_timer p"
    using ok[unfolded pend_ok_def] by iprover+
  show "pc_timer p < length ts'" using p(1) len by simp
  show "fn (ts' ! pc_timer p) = pc_seq p" using p(2) nth[OF p(1)] by simp
  show "pc_rollback p \<noteq> None" by (fact p(3))
  show "active (ts' ! pc_timer p) \<or> pc_seq p \<in> set l'"
    using p(4) act[rule_format, OF p(1)] sub unfolding p(2) by blast
  fix j
  assume "j < length ts'" "fn (ts' ! j) = pc_seq p"
  then show "j = pc_timer p" using own[rule_format, of j] nth[of j] len by simp
qed

lemma conf_inv_fire:
  assumes "conf_inv n w"
  shows "conf_inv n (snd (fire_detach seq (w\<lparr>nw_inflight := remove1 seq (nw_inflight w)\<rparr>)))"
proof (rule conf_inv_frame[OF assms])
  fix p
  assume p: "pend_of (snd (fire_detach seq (w\<lparr>nw_inflight := remove1 seq (nw_inflight w)\<rparr>))) = Some p"
  then have "pend_of w = Some p" "pc_seq p \<noteq> seq" by (auto simp: fire_detach_def split: option.splits if_splits)
  then show "pend_ok (timers (nw_clock (snd (fire_detach seq (w\<lparr>nw_inflight := remove1 seq (nw_inflight w)\<rparr>)))))
     (nw_inflight (snd (fire_detach seq (w\<lparr>nw_inflight := remove1 seq (nw_inflight w)\<rparr>)))) p"
    using conf_inv_pend[OF assms] by (simp add: fire_detach_def) (rule pend_ok_timers[OF _ refl], auto)
qed (auto simp: fire_detach_def option.map_comp comp_def dest: notin_set_remove1 split: option.splits)

lemma conf_inv_elapse:
  assumes "conf_inv n w"
  shows "conf_inv n (nc_elapse d w)"
proof (rule conf_inv_frame[OF assms])
  let ?t = "nw_now w + d" and ?ts = "timers (nw_clock w)"
  have fns: "map fn (timers (nw_clock (nc_elapse d w))) = map fn ?ts" by (simp add: nc_elapse_def Let_def)
  show "fn ` set (timers (nw_clock (nc_elapse d w))) \<union> set (nw_inflight (nc_elapse d w)) \<subseteq> fn ` set ?ts \<union> set (nw_inflight w)"
    unfolding same_labels[OF fns] by (auto simp: nc_elapse_def Let_def)
  fix p
  assume "pend_of (nc_elapse d w) = Some p"
  then have "pend_of w = Some p" by (simp add: nc_elapse_def Let_def pend_of_def)
  from conf_inv_pend[OF assms this] show "pend_ok (timers (nw_clock (nc_elapse d w))) (nw_inflight (nc_elapse d w)) p"
    by (rule pend_ok_timers[OF _ fns]) (auto simp: nc_elapse_def Let_def)
qed (simp add: nc_elapse_def Let_def)

section \<open>Every interleaving\<close>

lemma pend_ok_Reset:
  assumes "pend_ok (timers c) l p"
  shows "pend_ok (timers (snd (Reset i t c))) l p" "map fn (timers (snd (Reset i t c))) = map fn (timers c)"
proof -
  show fns: "map fn (timers (snd (Reset i t c))) = map fn (timers c)"
    by (cases "i < length (timers c)") (auto simp: Reset_def list_eq_iff_nth_eq nth_list_update)
  show "pend_ok (timers (snd (Reset i t c))) l p"
    by (rule pend_ok_timers[OF assms fns]; cases "i < length (timers c)") (auto simp: Reset_def nth_list_update)
qed

lemma labels_le_mono: "labels_le b ts l \<Longrightarrow> b \<le> b' \<Longrightarrow> labels_le b' ts l"
  unfolding labels_le_def using order_trans by blast

lemma pend_ok_new:
  assumes "labels_le b (timers c) l" "b < seq" "rb \<noteq> None"
  shows "pend_ok (timers (snd (AfterFunc t seq c))) l \<lparr>pc_seq = seq, pc_sessionID = sid, pc_timer = length (timers c), pc_rollback = rb\<rparr>"
proof -
  have "fn (timers c ! j) \<noteq> seq" if "j < length (timers c)" for j
    using assms(1,2) that by (force simp: labels_le_def)
  then show ?thesis using assms(3) by (auto simp: pend_ok_def AfterFunc_def nth_append less_Suc_eq)
qed

definition confirm_timeout :: "confirmedRequest \<Rightarrow> duration" where
  "confirm_timeout req = (if cr_Timeout req \<le> 0 then DefaultConfirmTimeout else cr_Timeout req)"

lemma Confirmed_Apply_cases:
  assumes "nw_confirmed w \<noteq> None" "Confirmed_Apply req (applyCommit ctx fl reason) w = (e, w')" "applyCommit ctx fl reason w = (e1, w1)"
  obtains "w' = w" | "w' = w1"
    | p t where "pend_of w1 = Some p" "w' = w1\<lparr>nw_clock := snd (Reset (pc_timer p) t (nw_clock w1))\<rparr>"
    | c t where "nw_confirmed w1 = Some c" "w' = w1\<lparr>nw_clock := snd (AfterFunc t (cf_next c + 1) (nw_clock w1)),
         nw_confirmed := Some \<lparr>cf_next = cf_next c + 1, cf_pend = Some \<lparr>pc_seq = cf_next c + 1, pc_sessionID = cr_SessionID req,
           pc_timer = length (timers (nw_clock w1)), pc_rollback = cr_Rollback req\<rparr>\<rparr>\<rparr>"
proof (cases "(\<exists>p. pend_of w = Some p \<and> pc_sessionID p \<noteq> cr_SessionID req) \<or> e1 \<noteq> None")
  case True
  then have "w' = w \<or> w' = w1" using assms(2,3) unfolding Confirmed_Apply_def
    by (cases "pend_of w"; cases e1) (simp_all split: if_splits)
  then show thesis using that(1,2) by blast
next
  case False
  obtain c where c: "nw_confirmed w1 = Some c" using assms(1) applyCommit_sel(1)[OF assms(3)] by auto
  from False have *: "(e, w') = (case pend_of w1 of
      Some p \<Rightarrow> (None, w1\<lparr>nw_clock := snd (Reset (pc_timer p) (confirm_timeout req) (nw_clock w1))\<rparr>)
    | None \<Rightarrow> (None, w1\<lparr>nw_clock := snd (AfterFunc (confirm_timeout req) (cf_next c + 1) (nw_clock w1)),
        nw_confirmed := Some \<lparr>cf_next = cf_next c + 1, cf_pend = Some \<lparr>pc_seq = cf_next c + 1, pc_sessionID = cr_SessionID req,
           pc_timer = length (timers (nw_clock w1)), pc_rollback = cr_Rollback req\<rparr>\<rparr>\<rparr>))"
    using assms(2,3) c unfolding Confirmed_Apply_def Let_def confirm_timeout_def[symmetric]
    by (cases "pend_of w"; cases "pend_of w1") (auto simp: AfterFunc_def)
  show thesis
  proof (cases "pend_of w1")
    case None
    then show thesis using * that(4)[OF c] by simp
  next
    case (Some p)
    then show thesis using * that(3) by simp
  qed
qed

lemma conf_inv_apply:
  assumes "conf_inv n w" "Suc n < 2 ^ 64" "nw_confirmed w \<noteq> None" "cr_Rollback req \<noteq> None"
    "Confirmed_Apply req (applyCommit ctx fl reason) w = (e, w')"
  shows "conf_inv (Suc n) w'"
proof -
  obtain e1 w1 where a: "applyCommit ctx fl reason w = (e1, w1)" by fastforce
  have i1: "conf_inv n w1" using assms(1) applyCommit_sel[OF a] by (simp add: conf_inv_def)
  from assms(3,5) a show ?thesis
  proof (cases rule: Confirmed_Apply_cases)
    case (3 p t)
    note ok = pend_ok_Reset[OF conf_inv_pend[OF i1 3(1)]]
    have "conf_inv n w'"
      by (rule conf_inv_frame[OF i1]) (use same_labels[OF ok(2)] ok(1) 3 in simp_all)
    then show ?thesis by (rule conf_inv_mono)
  next
    case (4 c t)
    have n: "unat (cf_next c) \<le> n" "labels_le (cf_next c) (timers (nw_clock w1)) (nw_inflight w1)"
      using i1 4(1) by (simp_all add: conf_inv_def conf_ok_def)
    then have s: "unat (cf_next c + 1) = Suc (unat (cf_next c))" using assms(2) by (simp add: unat_word_ariths)
    then have lt: "cf_next c < cf_next c + 1" by (simp add: word_less_nat_alt)
    have "labels_le (cf_next c + 1) (timers (nw_clock w')) (nw_inflight w')"
      using labels_le_mono[OF n(2) less_imp_le[OF lt]] unfolding 4(2) by (simp add: labels_le_def AfterFunc_def)
    then show ?thesis using pend_ok_new[OF n(2) lt assms(4), of t "cr_SessionID req"] n(1) s
      unfolding 4(2) conf_inv_def conf_ok_def by simp
  qed (use assms(1) i1 conf_inv_mono in auto)
qed

lemma conf_inv_step: "conf_inv n w \<Longrightarrow> Suc n < 2 ^ 64 \<Longrightarrow> conf_inv (Suc n) (fst (nc_do a (w, rs)))"
proof (cases a)
  case (ActCommit ctx fl)
  assume i: "conf_inv n w"
  obtain e w' where a: "applyCommit ctx fl ''commit'' w = (e, w')" by fastforce
  then show ?thesis using applyCommit_sel[OF a] conf_inv_mono[OF i] ActCommit by (simp add: conf_inv_def)
next
  case (ActConfirmed ctx fl req)
  assume i: "conf_inv n w" "Suc n < 2 ^ 64"
  obtain e w' where "Confirmed_Apply req (applyCommit ctx fl ''confirmed-commit'') w = (e, w')" by fastforce
  from conf_inv_apply[OF i _ _ this] this show ?thesis using ActConfirmed conf_inv_mono[OF i(1)] by auto
next
  case (ActRollback fl v)
  assume i: "conf_inv n w"
  obtain e w' where a: "runRollback fl (Some v) w = (e, w')" by fastforce
  then show ?thesis using runRollback_sel[OF a] conf_inv_mono[OF i] ActRollback by (simp add: conf_inv_def)
next
  case (ActStore m)
  assume i: "conf_inv n w"
  then show ?thesis using ActStore conf_inv_mono[OF i] by (simp add: conf_inv_def)
next
  case (ActFire seq)
  assume i: "conf_inv n w"
  then show ?thesis using ActFire conf_inv_fire[OF conf_inv_mono[OF i], of seq] conf_inv_mono[OF i] by (auto split: prod.splits)
qed (auto simp: Confirm_def Confirmed_Close_def ended_detach_def conf_inv_stop conf_inv_mono conf_inv_elapse
      split: option.splits if_splits)

definition nc_run :: "nc_action list \<Rightarrow> ncworld \<times> vals list \<Rightarrow> ncworld \<times> vals list" where
  "nc_run acts s = foldl (\<lambda>s a. nc_do a s) s acts"

text \<open>The state after \<open>New\<close>, before any session.\<close>

definition nc_fresh :: "ncworld \<Rightarrow> bool" where
  "nc_fresh w \<longleftrightarrow> nw_confirmed w = Some NewConfirmed \<and> timers (nw_clock w) = [] \<and> nw_inflight w = []"

lemma conf_reach:
  assumes "nc_fresh w" "length acts < 2 ^ 64"
  shows "conf_inv (length acts) (fst (nc_run acts (w, [])))"
  using assms(2)
proof (induction acts rule: rev_induct)
  case Nil
  then show ?case using assms(1) by (simp add: nc_run_def nc_fresh_def conf_inv_def conf_ok_def labels_le_def NewConfirmed_def)
next
  case (snoc a acts)
  obtain w' rs where s: "nc_run acts (w, []) = (w', rs)" by fastforce
  then have "conf_inv (length acts) w'" using snoc by simp
  from conf_inv_step[OF this, of a rs] show ?case using s snoc.prems by (simp add: nc_run_def)
qed

lemma runRollback_ok:
  assumes "Restore None (nw_now w) fl snap (nw_store w) = (None, m)"
  shows "runRollback fl (Some snap) w = (None, publishConfigChanged ''confirmed-commit rollback'' (put_store m w))"
  by (simp add: runRollback_def assms)


text \<open>A first session commits \<open>a = true\<close> with a timeout of five seconds.\<close>

definition commit_world :: ncworld where
  "commit_world =
     \<lparr>nw_router = sample_router\<lparr>r_store := (NewMemory [] None None \<lparr>files = [], dirs = []\<rparr>)\<lparr>candidate := [(''a'', GBool True)]\<rparr>\<rparr>,
      nw_bus = Some [], nw_confirmed = Some NewConfirmed, nw_clock = NewFakeClock 0, nw_inflight = []\<rparr>"

definition confirmed_world :: ncworld where
  "confirmed_world =
     fst (nc_run [ActConfirmed None no_faults \<lparr>cr_SessionID = 1, cr_Timeout = 5 * second_ns, cr_Rollback = Some []\<rparr>] (commit_world, []))"

lemmas commit_world_simps = nc_run_def commit_world_def Confirmed_Apply_def applyCommit_def Commit_def NewMemory_def persist_def
  AfterFunc_def NewFakeClock_def NewConfirmed_def pend_of_def put_store_def publishConfigChanged_def recordDiffLocked_def
  bumpLocked_def Let_def

lemma confirmed_world_state:
  "pend_of confirmed_world = Some \<lparr>pc_seq = 1, pc_sessionID = 1, pc_timer = 0, pc_rollback = Some []\<rparr>"
  "timers (nw_clock confirmed_world) = [\<lparr>deadline = 5 * second_ns, fn = 1, active = True\<rparr>]" "nw_now confirmed_world = 0"
  "running (nw_store confirmed_world) = [(''a'', GBool True)]" "startupFile (nw_store confirmed_world) = []"
  by (simp_all add: confirmed_world_def commit_world_simps second_ns_def)

lemma Restore_memory: "startupFile m = [] \<Longrightarrow> \<exists>m'. Restore None t fl vs m = (None, m')"
  by (simp add: Restore_def persist_def Let_def)


section \<open>Commits that are lost\<close>

text \<open>C34: a plain commit is two critical sections, and the rollback of the confirmed commit in progress can run between
  them.  The commit has then reported success, but running and startup are the old snapshot; with the confirmation
  first the same callback does nothing and the committed configuration stays.\<close>

theorem confirming_commit_lost:
  assumes "pend_of w = Some p" "pc_rollback p = Some snap" "pc_seq p \<in> set (nw_inflight w)"
    "applyCommit None fl ''commit'' w = (None, w1)" "Restore None (nw_now w) fl snap (nw_store w1) = (None, m)"
  shows "running (nw_store (fst (nc_run [ActCommit None fl, ActFire (pc_seq p), ActRollback fl snap, ActConfirm] (w, [])))) = snap \<and>
    startup (nw_store (fst (nc_run [ActCommit None fl, ActFire (pc_seq p), ActRollback fl snap, ActConfirm] (w, [])))) = snap \<and>
    running (nw_store (fst (nc_run [ActCommit None fl, ActConfirm, ActFire (pc_seq p)] (w, [])))) = candidate (nw_store w)"
proof -
  note sel = applyCommit_sel[OF assms(4)]
  obtain m1 where "Commit None (nw_now w) fl (nw_store w) = (None, m1)" "w1 = publishConfigChanged ''commit'' (put_store m1 w)"
    using assms(4) by (auto simp: applyCommit_def split: prod.splits option.splits store_error.splits)
  then have run: "running (nw_store w1) = candidate (nw_store w)" using Commit_ok(1) by simp
  let ?w2 = "put_pend None (w1\<lparr>nw_inflight := remove1 (pc_seq p) (nw_inflight w1)\<rparr>)"
  have fire: "fire_detach (pc_seq p) (w1\<lparr>nw_inflight := remove1 (pc_seq p) (nw_inflight w1)\<rparr>) = (Some snap, ?w2)"
    using assms(1,2) sel by (simp add: fire_detach_def)
  have roll: "runRollback fl (Some snap) ?w2 = (None, publishConfigChanged ''confirmed-commit rollback'' (put_store m ?w2))"
    using assms(5) sel by (intro runRollback_ok) simp
  have "nc_run [ActCommit None fl, ActFire (pc_seq p), ActRollback fl snap, ActConfirm] (w, []) =
      (Confirm (publishConfigChanged ''confirmed-commit rollback'' (put_store m ?w2)), [])"
    using assms(3,4) sel fire roll by (simp add: nc_run_def)
  moreover have "nw_store (Confirm (publishConfigChanged r (put_store m ?w2))) = m" for r
    by (simp add: Confirm_def)
  moreover have "nw_store (fst (nc_run [ActCommit None fl, ActConfirm, ActFire (pc_seq p)] (w, []))) = nw_store w1"
    using assms(1,4) sel by (auto simp: nc_run_def Confirm_def fire_detach_def split: prod.splits)
  ultimately show ?thesis using run Restore_ok[OF assms(5)] by simp
qed

text \<open>The callback of the expired timer is in flight when another session prepares \<open>b = true\<close> and commits.\<close>

definition racing_world :: ncworld where
  "racing_world =
     (let w = nc_elapse (5 * second_ns) confirmed_world
      in put_store ((nw_store w)\<lparr>candidate := [(''b'', GBool True)]\<rparr>) w)"

lemma racing_world_state:
  "pend_of racing_world = Some \<lparr>pc_seq = 1, pc_sessionID = 1, pc_timer = 0, pc_rollback = Some []\<rparr>"
  "1 \<in> set (nw_inflight racing_world)" "candidate (nw_store racing_world) = [(''b'', GBool True)]"
  "startupFile (nw_store racing_world) = []" "validator (nw_store racing_world) = None"
  using confirmed_world_state
  by (simp_all add: racing_world_def nc_elapse_def Let_def pend_of_def)
     (simp_all add: confirmed_world_def commit_world_simps second_ns_def)

theorem confirming_commit_lost_witness:
  "\<exists>w1. applyCommit None no_faults ''commit'' racing_world = (None, w1) \<and>
     running (nw_store (fst (nc_run [ActCommit None no_faults, ActFire 1, ActRollback no_faults [], ActConfirm] (racing_world, [])))) = [] \<and>
     running (nw_store (fst (nc_run [ActCommit None no_faults, ActConfirm, ActFire 1] (racing_world, [])))) = [(''b'', GBool True)]"
proof -
  obtain m1 where c: "Commit None (nw_now racing_world) no_faults (nw_store racing_world) = (None, m1)"
    using racing_world_state(4,5) by (auto simp: Commit_def persist_def Let_def)
  then have a: "applyCommit None no_faults ''commit'' racing_world = (None, publishConfigChanged ''commit'' (put_store m1 racing_world))"
    by (simp add: applyCommit_def)
  have "startupFile m1 = []" using Commit_ok(4)[OF c] racing_world_state(4) by simp
  then obtain m where "Restore None (nw_now racing_world) no_faults [] m1 = (None, m)" using Restore_memory by blast
  from confirming_commit_lost[OF racing_world_state(1) _ _ a, of "[]" m] this a show ?thesis
    using racing_world_state(2,3) by simp
qed

end
