(* ===== verification/NotifLaws.thy ===== *)
theory NotifLaws
  imports Notif
begin

text \<open>
  Laws of the notification path from the event bus to the sessions: what a session receives is, in
  order, a part of what was published, and a session that does not read costs the others nothing.
\<close>

section \<open>Runs\<close>

record notif_state =
  no_bus :: "bus option \<times> event list"
  no_disp :: dispatcher
  no_sent :: "u32 \<Rightarrow> element list"

datatype notif_call = NBus bus_call | NRound | NWrite u32 | NSubscribe u32 string | NUnsubscribe u32

text \<open>Only the dispatcher reads its own channel.\<close>

fun notif_step :: "(time \<Rightarrow> string) \<Rightarrow> notif_state \<Rightarrow> notif_call \<Rightarrow> notif_state" where
  "notif_step ft s (NBus c) =
     (if c = BReceive (dp_events (no_disp s)) then s else s\<lparr>no_bus := bus_step (no_bus s) c\<rparr>)"
| "notif_step ft s NRound =
     (case no_bus s of
        (None, _) \<Rightarrow> s
      | (Some b, h) \<Rightarrow> (case run_round ft (no_disp s) b of (d, b1) \<Rightarrow> s\<lparr>no_bus := (Some b1, h), no_disp := d\<rparr>))"
| "notif_step ft s (NWrite sid) =
     (case map_of (dp_subs (no_disp s)) sid of
        None \<Rightarrow> s
      | Some sub \<Rightarrow>
          (case write_step sub of
             (None, _) \<Rightarrow> s
           | (Some doc, sub1) \<Rightarrow>
               s\<lparr>no_disp := (no_disp s)\<lparr>dp_subs := AList.update sid sub1 (dp_subs (no_disp s))\<rparr>,
                 no_sent := (no_sent s)(sid := no_sent s sid @ [doc])\<rparr>))"
| "notif_step ft s (NSubscribe sid stream) = s\<lparr>no_disp := snd (Disp_Subscribe sid stream True (no_disp s))\<rparr>"
| "notif_step ft s (NUnsubscribe sid) = s\<lparr>no_disp := Disp_Unsubscribe sid (no_disp s)\<rparr>"

definition queue_of :: "dispatcher \<Rightarrow> u32 \<Rightarrow> element list" where
  "queue_of d sid = (case map_of (dp_subs d) sid of None \<Rightarrow> [] | Some s \<Rightarrow> sb_out s)"

definition queues_ok :: "(u32 \<Rightarrow> element list) \<Rightarrow> dispatcher \<Rightarrow> element list \<Rightarrow> bool" where
  "queues_ok sent d docs \<longleftrightarrow>
     (\<forall>sid. length (queue_of d sid) \<le> DefaultBuffer \<and> subseq (sent sid @ queue_of d sid) docs)"

definition notif_inv :: "(time \<Rightarrow> string) \<Rightarrow> notif_state \<Rightarrow> bool" where
  "notif_inv ft s \<longleftrightarrow>
     (\<exists>b h. no_bus s = (Some b, h) \<and> bus_ok b h \<and> dp_events (no_disp s) < length (chans b) \<and>
        queues_ok (no_sent s) (no_disp s) (map (Render ft) (taken (chans b ! dp_events (no_disp s)))))"

text \<open>A bus call leaves what the dispatcher has taken alone.\<close>

lemma Close_bus_taken:
  assumes "bus_ok b h" "Close_bus b = Some b'" "i < length (chans b)"
  shows "i < length (chans b') \<and> taken (chans b' ! i) = taken (chans b ! i)"
proof (cases "bus_closed b")
  case False
  have "\<exists>cs. for_chans close_chan (subs b) (chans b) = Some cs \<and> length cs = length (chans b) \<and>
      (\<forall>j < length (chans b). cs ! j = (if j \<in> set (subs b) then the (close_chan (chans b ! j)) else chans b ! j))"
    using assms(1) by (intro for_chans_distinct) (auto simp: bus_ok_def close_chan_def)
  then show ?thesis using assms False by (auto simp: Close_bus_def close_chan_def bus_ok_def)
qed (use assms in \<open>simp add: Close_bus_def\<close>)

lemma bus_step_taken:
  assumes ok: "bus_ok b h" and i: "i < length (chans b)" and c: "c \<noteq> BReceive i" and st: "bus_step (Some b, h) c = (Some b', h')"
  shows "i < length (chans b') \<and> taken (chans b' ! i) = taken (chans b ! i)"
proof (cases c)
  case (BPublish t e)
  have "\<not> ch_closed (chans b ! i)" if "i \<in> set (subs b)" using ok i that by (simp add: bus_ok_def)
  then show ?thesis using Publish_ok[OF ok, of t e] st i BPublish by (auto simp: try_send_def)
next
  case (BUnsubscribe j)
  then show ?thesis using st i
    by (cases "i = j") (auto simp: Unsubscribe_def close_chan_def split: if_splits option.splits)
next
  case BClose
  then show ?thesis using st Close_bus_taken[OF ok _ i] by simp
next
  case (BReceive j)
  then show ?thesis using st i c by (auto simp: receive_def split: list.splits if_splits)
qed (use st i in \<open>auto simp: Subscribe_def Let_def nth_append split: if_splits\<close>)

lemma queue_dispatch:
  "queue_of (dispatch_event ft e d) sid = queue_of d sid \<or>
   queue_of (dispatch_event ft e d) sid = queue_of d sid @ [Render ft e] \<and> length (queue_of d sid) < DefaultBuffer"
proof -
  have "map_of (map (\<lambda>(sid, s). (sid, deliver doc s)) m) sid = map_option (deliver doc) (map_of m sid)"
    for doc and m :: "(u32, subscription) gomap"
    by (induction m) auto
  then show ?thesis
    by (auto simp: queue_of_def dispatch_event_def deliver_def split: option.splits)
qed

lemma queues_ok_dispatch:
  "queues_ok sent d docs \<Longrightarrow> queues_ok sent (dispatch_event ft e d) (docs @ [Render ft e])"
  unfolding queues_ok_def
proof (intro allI)
  fix sid
  assume "\<forall>sid. length (queue_of d sid) \<le> DefaultBuffer \<and> subseq (sent sid @ queue_of d sid) docs"
  then have "length (queue_of d sid) \<le> DefaultBuffer" "subseq (sent sid @ queue_of d sid) docs" by blast+
  then show "length (queue_of (dispatch_event ft e d) sid) \<le> DefaultBuffer \<and>
      subseq (sent sid @ queue_of (dispatch_event ft e d) sid) (docs @ [Render ft e])"
    using queue_dispatch[of ft e d sid] by (auto intro: list_emb_append2 list_emb_append_mono simp flip: append_assoc)
qed

lemma notif_inv_round:
  assumes "notif_inv ft s"
  shows "notif_inv ft (notif_step ft s NRound)"
proof -
  let ?i = "dp_events (no_disp s)"
  obtain b h where b: "no_bus s = (Some b, h)" "bus_ok b h" "?i < length (chans b)"
      "queues_ok (no_sent s) (no_disp s) (map (Render ft) (taken (chans b ! ?i)))"
    using assms by (auto simp: notif_inv_def)
  show ?thesis
  proof (cases "buf (chans b ! ?i)")
    case Nil
    then show ?thesis using assms b(1,3) by (simp add: run_round_def notif_inv_def)
  next
    case (Cons e es)
    let ?b = "receive ?i b" and ?d = "dispatch_event ft e (no_disp s)"
    have st: "notif_step ft s NRound = s\<lparr>no_bus := (Some ?b, h), no_disp := ?d\<rparr>"
      using b(1,3) Cons by (simp add: run_round_def)
    have tk: "taken (chans ?b ! ?i) = taken (chans b ! ?i) @ [e]" "?i < length (chans ?b)"
      using b(3) Cons by (simp_all add: receive_def)
    have "dp_events ?d = ?i" by (simp add: dispatch_event_def)
    then show ?thesis using receive_ok[OF b(2)] tk queues_ok_dispatch[OF b(4)] unfolding st notif_inv_def by simp
  qed
qed

lemma queue_subscribe: "queue_of (snd (Disp_Subscribe i stream x d)) sid \<in> {queue_of d sid, []}"
  by (auto simp: queue_of_def Disp_Subscribe_def newSubscription_def map_of_update)

lemma queue_unsubscribe: "queue_of (Disp_Unsubscribe i d) sid \<in> {queue_of d sid, []}"
  by (auto simp: queue_of_def Disp_Unsubscribe_def map_of_delete_if split: option.splits)

text \<open>Changing the subscriptions may drop a queue but adds nothing to it.\<close>

lemma subseq_front: "subseq (xs @ ys) zs \<Longrightarrow> subseq xs zs"
  using subseq_order.order_trans prefix_imp_subseq[of xs "xs @ ys"] by auto

lemma queues_ok_drop:
  assumes "queues_ok sent d docs" "\<And>sid. queue_of d' sid \<in> {queue_of d sid, []}"
  shows "queues_ok sent d' docs"
  unfolding queues_ok_def
proof (intro allI)
  fix sid
  have "length (queue_of d sid) \<le> DefaultBuffer" "subseq (sent sid @ queue_of d sid) docs"
    using assms(1) unfolding queues_ok_def by blast+
  then show "length (queue_of d' sid) \<le> DefaultBuffer \<and> subseq (sent sid @ queue_of d' sid) docs"
    using assms(2)[of sid] subseq_front by auto
qed

lemma notif_inv_queues:
  assumes "notif_inv ft s" "dp_events d = dp_events (no_disp s)" "\<And>sid. queue_of d sid \<in> {queue_of (no_disp s) sid, []}"
  shows "notif_inv ft (s\<lparr>no_disp := d\<rparr>)"
  using assms(1,2) queues_ok_drop[OF _ assms(3)] unfolding notif_inv_def by auto

lemma queues_ok_write:
  assumes "queues_ok sent d docs" "map_of (dp_subs d) sid = Some sub" "sb_out sub = doc # ds"
  shows "queues_ok (sent(sid := sent sid @ [doc])) (d\<lparr>dp_subs := AList.update sid (sub\<lparr>sb_out := ds\<rparr>) (dp_subs d)\<rparr>) docs"
  unfolding queues_ok_def
proof (intro allI)
  fix x
  let ?d = "d\<lparr>dp_subs := AList.update sid (sub\<lparr>sb_out := ds\<rparr>) (dp_subs d)\<rparr>"
  have q: "queue_of ?d x = (if x = sid then ds else queue_of d x)" by (simp add: queue_of_def map_of_update)
  have "length (queue_of d x) \<le> DefaultBuffer" "subseq (sent x @ queue_of d x) docs"
    using assms(1) unfolding queues_ok_def by blast+
  then show "length (queue_of ?d x) \<le> DefaultBuffer \<and> subseq ((sent(sid := sent sid @ [doc])) x @ queue_of ?d x) docs"
    using q assms(2,3) by (cases "x = sid") (simp_all add: queue_of_def[of d])
qed

lemma notif_inv_write:
  assumes "notif_inv ft s"
  shows "notif_inv ft (notif_step ft s (NWrite sid))"
proof (cases "\<exists>sub doc ds. map_of (dp_subs (no_disp s)) sid = Some sub \<and> \<not> sb_done sub \<and> sb_out sub = doc # ds")
  case True
  then obtain sub doc ds where sub: "map_of (dp_subs (no_disp s)) sid = Some sub" "\<not> sb_done sub" "sb_out sub = doc # ds" by blast
  have st: "notif_step ft s (NWrite sid) =
      s\<lparr>no_disp := (no_disp s)\<lparr>dp_subs := AList.update sid (sub\<lparr>sb_out := ds\<rparr>) (dp_subs (no_disp s))\<rparr>,
        no_sent := (no_sent s)(sid := no_sent s sid @ [doc])\<rparr>"
    using sub by (simp add: write_step_def)
  show ?thesis using assms queues_ok_write[OF _ sub(1,3)] unfolding st notif_inv_def by auto
next
  case False
  then have "notif_step ft s (NWrite sid) = s"
    by (auto simp: write_step_def split: option.splits list.splits)
  then show ?thesis using assms by simp
qed

lemma notif_inv_step: "notif_inv ft s \<Longrightarrow> notif_inv ft (notif_step ft s c)"
proof (cases c)
  case (NBus call)
  assume s: "notif_inv ft s"
  then obtain b h where b: "no_bus s = (Some b, h)" "bus_ok b h" "dp_events (no_disp s) < length (chans b)"
    by (auto simp: notif_inv_def)
  obtain b' h' where b': "bus_step (Some b, h) call = (Some b', h')" "bus_ok b' h'"
    using bus_inv_step[of "(Some b, h)" call] b(2) by (cases "bus_step (Some b, h) call" rule: bus_inv.cases) auto
  show ?thesis
  proof (cases "call = BReceive (dp_events (no_disp s))")
    case False
    then show ?thesis using NBus s b b' bus_step_taken[OF b(2,3) False b'(1)] by (simp add: notif_inv_def)
  qed (use s NBus in simp)
next
  case (NSubscribe sid stream)
  assume "notif_inv ft s"
  then show ?thesis unfolding NSubscribe notif_step.simps
    by (rule notif_inv_queues[OF _ _ queue_subscribe]) (simp add: Disp_Subscribe_def)
next
  case (NUnsubscribe sid)
  assume "notif_inv ft s"
  then show ?thesis unfolding NUnsubscribe notif_step.simps
    by (rule notif_inv_queues[OF _ _ queue_unsubscribe]) (simp add: Disp_Unsubscribe_def split: option.splits)
qed (simp_all add: notif_inv_round notif_inv_write del: notif_step.simps)

definition notif_start :: "notif_state \<Rightarrow> bool" where
  "notif_start s \<longleftrightarrow>
     (\<exists>n cs b h. foldl bus_step (Some (New_bus n), []) cs = (Some b, h) \<and>
        s = \<lparr>no_bus = (Some (snd (NewDispatcher b)), h), no_disp = fst (NewDispatcher b), no_sent = (\<lambda>_. [])\<rparr>)"

lemma notif_inv_start: "notif_start s \<Longrightarrow> notif_inv ft s"
proof -
  assume "notif_start s"
  then obtain n cs b h where b: "foldl bus_step (Some (New_bus n), []) cs = (Some b, h)"
      "s = \<lparr>no_bus = (Some (snd (NewDispatcher b)), h), no_disp = fst (NewDispatcher b), no_sent = (\<lambda>_. [])\<rparr>"
    by (auto simp: notif_start_def)
  have "bus_ok b h" using bus_reachable[of n cs] b(1) by auto
  from Subscribe_ok[OF this] show ?thesis using b(2)
    by (simp add: notif_inv_def NewDispatcher_def Subscribe_def Let_def queue_of_def queues_ok_def)
qed

interpretation notifs: invariant_system notif_start "notif_step ft" "\<lambda>_. True" "notif_inv ft" for ft
  by unfold_locales (simp_all add: notif_inv_step notif_inv_start)


definition sample_notif :: notif_state where
  "sample_notif = \<lparr>no_bus = (Some (snd (NewDispatcher (New_bus 0))), []), no_disp = fst (NewDispatcher (New_bus 0)),
     no_sent = (\<lambda>_. [])\<rparr>"

definition sample_calls_notif :: "notif_call list" where
  "sample_calls_notif = [NSubscribe 1 StreamName, NBus (BPublish 5 sample_event), NRound, NWrite 1]"

lemma sample_notif_run:
  "no_sent (foldl (notif_step ft) sample_notif sample_calls_notif) 1 = [Render ft (stamp 5 sample_event)]"
  "snd (no_bus (foldl (notif_step ft) sample_notif sample_calls_notif)) = [stamp 5 sample_event]"
  by (simp_all add: sample_calls_notif_def sample_notif_def NewDispatcher_def Subscribe_def New_bus_def run_round_def Let_def
      Publish_def try_send_def Disp_Subscribe_def newSubscription_def dispatch_event_def deliver_def write_step_def receive_def
      DefaultBuffer_def)


end
