(* ===== verification/ReadLaws.thy ===== *)
theory ReadLaws
  imports DataRead SchemaLaws OidLaws
begin

text \<open>
  Laws of reading a datastore as a tree: the recursion never runs out of fuel, every leaf of the tree is a stored leaf
  the content selection includes, every such leaf at a path of the schema is in the tree, and a read of a datastore that
  holds only paths of the schema succeeds.
\<close>

section \<open>Leaves of a tree\<close>

fun dleaves :: "dnode \<Rightarrow> (string \<times> goval) list" where
  "dleaves (DNode path name kind key kv leaf v cs) = (if kind = KindLeaf then [(path, v)] else concat (map dleaves cs))"

abbreviation forest :: "dnode list \<Rightarrow> (string \<times> goval) set" where
  "forest ns \<equiv> (\<Union>n \<in> set ns. set (dleaves n))"

lemma map_res_set: "map_res f xs = Inr ys \<Longrightarrow> (\<forall>x \<in> set xs. \<exists>y \<in> set ys. f x = Inr y) \<and> (\<forall>y \<in> set ys. \<exists>x \<in> set xs. f x = Inr y)"
  unfolding map_res_Inr_iff by (induction rule: list_all2_induct) auto

lemma map_res_Inl: "map_res f xs = Inl e \<Longrightarrow> \<exists>x \<in> set xs. f x = Inl e"
  by (induction xs) (auto simp: bind_res_def split: sum.splits)

lemma lift_read_Inr: "lift_read x = Inr a \<longleftrightarrow> x = Inr a"
  by (simp add: lift_read_def split: sum.splits)

section \<open>Soundness\<close>

definition stored :: "(string, result) gomap \<Rightarrow> content \<Rightarrow> (string \<times> goval) set" where
  "stored vs c = {(p, rs_Value res) | p res. map_of vs p = Some res \<and> selected res c}"

lemma leaf_of_stored: "forest (leaf_of vs c path name kind) \<subseteq> stored vs c"
  by (cases "map_of vs path") (auto simp: leaf_of_def stored_def)

lemma buildEntries_stored:
  assumes "buildEntries rec r vs c pre list = Inr entries" "\<And>p ns. rec p = Inr ns \<Longrightarrow> forest ns \<subseteq> stored vs c"
  shows "forest entries \<subseteq> stored vs c"
proof -
  have "forest [e] \<subseteq> stored vs c" if be: "build_entry rec vs c list k i = Inr e" for k i e
  proof -
    obtain inner where "rec (le_path i) = Inr inner" "dleaves e = concat (map dleaves
        (leaf_of vs c (join_path (le_path i) (nd_Key list)) (nd_Key list) k @ filter (\<lambda>n. dn_Name n \<noteq> nd_Key list) inner))"
      using be by (auto simp: build_entry_def bind_res_eq_Inr)
    then show ?thesis using assms(2)[of "le_path i" inner] leaf_of_stored[of vs c "join_path (le_path i) (nd_Key list)" "nd_Key list" k]
      by auto
  qed
  then show ?thesis using assms(1)
    by (fastforce simp: buildEntries_def Let_def bind_res_eq_Inr dest!: map_res_set split: if_splits option.splits)
qed

lemma buildChildren_stored: "buildChildren n r vs c pre = Inr nodes \<Longrightarrow> forest nodes \<subseteq> stored vs c"
proof (induction n arbitrary: pre nodes)
  case (Suc n)
  obtain children xs where b: "Children (r_schema r) pre = Inr children"
      "map_res (build_child (buildChildren n r vs c) r vs c pre) children = Inr xs" "nodes = concat xs"
    using Suc.prems by (auto simp: bind_res_eq_Inr lift_read_Inr)
  have "forest ns \<subseteq> stored vs c" if bc: "build_child (buildChildren n r vs c) r vs c pre ch = Inr ns" for ch ns
  proof (cases "nd_Kind ch")
    case KindLeaf
    then have "ns = leaf_of vs c (join_path pre (nd_Name ch)) (nd_Name ch) (nd_Leaf ch)" using bc by (simp add: build_child_def)
    then show ?thesis using leaf_of_stored by simp
  next
    case KindContainer
    then obtain inner where "buildChildren n r vs c (join_path pre (nd_Name ch)) = Inr inner"
        "ns = [DNode (join_path pre (nd_Name ch)) (nd_Name ch) KindContainer [] [] None GNil inner]"
      using bc by (auto simp: build_child_def Let_def bind_res_eq_Inr)
    then show ?thesis using Suc.IH[of "join_path pre (nd_Name ch)" inner] by simp
  next
    case KindList
    then obtain entries where "buildEntries (buildChildren n r vs c) r vs c pre ch = Inr entries"
        "ns = [DNode (join_path pre (nd_Name ch)) (nd_Name ch) KindList (nd_Key ch) [] None GNil entries]"
      using bc by (auto simp: build_child_def Let_def bind_res_eq_Inr)
    then show ?thesis using buildEntries_stored[OF _ Suc.IH] by fastforce
  qed
  then show ?case using map_res_set[OF b(2)] b(3) by fastforce
qed simp

section \<open>Fuel\<close>

lemma schema_height_child: "d \<in> set (sn_children c) \<Longrightarrow> schema_height d < schema_height c"
proof -
  have "x \<in> set xs \<Longrightarrow> x \<le> foldr max xs 0" for x and xs :: "nat list" by (induction xs) auto
  then show "d \<in> set (sn_children c) \<Longrightarrow> schema_height d < schema_height c"
    by (cases c) (force simp: less_Suc_eq_le)
qed

text \<open>The fuel is enough for the schema below a path.\<close>

definition fits :: "nat \<Rightarrow> router \<Rightarrow> string \<Rightarrow> bool" where
  "fits n r pre \<longleftrightarrow> (\<exists>c. slookup (r_schema r) (path_names pre) = Some c \<and> schema_height c \<le> n)"

lemma listed_child:
  assumes "Children s pre = Inr children" "ch \<in> set children"
  obtains c d where "slookup s (path_names pre) = Some c" "children = map sn_node (sn_children c)"
    "child c (nd_Name ch) = Some d" "d \<in> set (sn_children c)"
proof -
  obtain c where c: "slookup s (path_names pre) = Some c" "children = map sn_node (sn_children c)"
    using Children_lookup[OF assms(1)] by blast
  moreover obtain d where "child c (nd_Name ch) = Some d"
    using assms(2) c(2) by (cases "child c (nd_Name ch)") (auto simp: child_def find_None_iff)
  moreover from this have "d \<in> set (sn_children c)" by (auto simp: child_def find_Some_iff)
  ultimately show thesis using that by blast
qed

lemma fits_step:
  assumes "fits (Suc n) r pre" "Children (r_schema r) pre = Inr children" "ch \<in> set children"
    "CHR ''/'' \<notin> set part" "part \<noteq> []" "takeWhile (\<lambda>x. x \<noteq> CHR ''['') part = nd_Name ch"
  shows "fits n r (join_path pre part)"
  using listed_child[OF assms(2,3)]
proof (cases rule: listed_child[OF assms(2,3)])
  case (1 c d)
  then show ?thesis using schema_height_child[OF 1(4)] path_names_join[OF assms(4,5)] assms(1,6)
    by (auto simp: fits_def slookup_append)
qed

lemma instance_segment:
  assumes "instance_at needle depth name path = Some g"
  shows "segment_ok g" "Name g = name" "Key g \<noteq> []"
    "\<exists>segs. Parse path = Inr segs \<and> depth < length segs \<and> segs ! depth = g"
proof -
  obtain segs where segs: "Parse path = Inr segs" "depth < length segs" "segs ! depth = g" "Name g = name" "Key g \<noteq> []"
    using assms by (auto simp: instance_at_def Let_def split: if_splits sum.splits)
  then show "segment_ok g" "Name g = name" "Key g \<noteq> []" "\<exists>segs. Parse path = Inr segs \<and> depth < length segs \<and> segs ! depth = g"
    using Parse_Inr_ok(1)[OF segs(1)] nth_mem[OF segs(2)] by (auto simp: path_ok_def list_all_iff)
qed

lemma instances_loop_set:
  assumes "path \<in> set paths" "f path = Some g" "Key g \<noteq> []" "segment_string g \<notin> set seen"
  shows "\<exists>i \<in> set (instances_loop f pre seen paths). le_path i = join_path pre (segment_string g)"
  using assms
proof (induction paths arbitrary: seen)
  case (Cons p paths)
  show ?case
  proof (cases "f p")
    case None
    then show ?thesis using Cons by auto
  next
    case (Some g')
    let ?tx = "Name g' @ ''['' @ Key g' @ ''='' @ Value g' @ '']''"
    have g: "segment_string g = Name g @ ''['' @ Key g @ ''='' @ Value g @ '']''" using Cons.prems by (simp add: segment_string_def)
    show ?thesis
    proof (cases "?tx = segment_string g")
      case True
      then have "instances_loop f pre seen (p # paths) =
          \<lparr>le_path = join_path pre (segment_string g), le_key = Value g'\<rparr> # instances_loop f pre (segment_string g # seen) paths"
        using Some Cons.prems(4) by (simp add: Let_def)
      then show ?thesis by simp
    next
      case False
      then have "path \<in> set paths" "segment_string g \<notin> set (?tx # seen)" using Some Cons.prems g by auto
      then show ?thesis using Cons.IH[of seen] Cons.IH[of "?tx # seen"] Some Cons.prems by (auto simp: Let_def)
    qed
  qed
qed simp

lemma instances_loop_from:
  "i \<in> set (instances_loop f pre seen paths) \<Longrightarrow>
   \<exists>path \<in> set paths. \<exists>g. f path = Some g \<and> le_path i = join_path pre (Name g @ ''['' @ Key g @ ''='' @ Value g @ '']'')"
  by (induction paths arbitrary: seen) (fastforce simp: Let_def split: option.splits if_splits)+

lemma instancesOf_part:
  assumes "i \<in> set (instancesOf vs pre name)"
  obtains part where "le_path i = join_path pre part" "CHR ''/'' \<notin> set part" "part \<noteq> []" "takeWhile (\<lambda>x. x \<noteq> CHR ''['') part = name"
proof -
  obtain needle depth path g where g: "instance_at needle depth name path = Some g"
      "le_path i = join_path pre (Name g @ ''['' @ Key g @ ''='' @ Value g @ '']'')"
    using assms instances_loop_from by (fastforce simp: instancesOf_def split: if_splits sum.splits)
  note s = instance_segment[OF g(1)]
  have "CHR ''['' \<notin> set (Name g)" "CHR ''/'' \<notin> set (Name g @ Key g @ Value g)"
    using s(1) unfolding segment_ok_def by blast+
  then show thesis using that[OF g(2)] s(2) by (auto simp: takeWhile_append)
qed

text \<open>What the device schema guarantees of a listed node: a plain name, and for a list a leaf as its key.\<close>

definition below_nodes :: "schemaNode \<Rightarrow> schema_info list" where
  "below_nodes s = concat (map schema_nodes (sn_children s))"

fun keyed_lists :: "schemaNode \<Rightarrow> bool" where
  "keyed_lists (SNode n cs) \<longleftrightarrow>
     (nd_Kind n = KindList \<longrightarrow> nd_Key n \<noteq> [] \<and>
        (case find (\<lambda>c. nd_Name (sn_node c) = nd_Key n) cs of None \<Rightarrow> False | Some k \<Rightarrow> nd_Kind (sn_node k) = KindLeaf)) \<and>
     list_all keyed_lists cs"

lemma device_schema_named: "list_all (\<lambda>n. nd_Name n \<noteq> []) (below_nodes device_schema)"
  by code_simp

lemma device_schema_keyed: "keyed_lists device_schema"
  by code_simp

lemma below_nodes_lookup: "slookup s names = Some c \<Longrightarrow> set (below_nodes c) \<subseteq> set (below_nodes s)"
proof (induction s names rule: slookup.induct)
  case (2 n name names)
  then obtain d where d: "child n name = Some d" "slookup d names = Some c" by (auto simp: bind_eq_Some_conv)
  then have "d \<in> set (sn_children n)" by (auto simp: child_def find_Some_iff)
  then have "set (schema_nodes d) \<subseteq> set (below_nodes n)" by (auto simp: below_nodes_def)
  moreover have "set (below_nodes d) \<subseteq> set (schema_nodes d)" by (cases d rule: schemaNode.exhaust) (auto simp: below_nodes_def)
  ultimately show ?case using 2(1)[OF d] by blast
qed simp

lemma keyed_lists_lookup: "slookup s names = Some c \<Longrightarrow> keyed_lists s \<Longrightarrow> keyed_lists c"
proof (induction s names rule: slookup.induct)
  case (2 n name names)
  then obtain d where d: "child n name = Some d" "slookup d names = Some c" by (auto simp: bind_eq_Some_conv)
  then have "d \<in> set (sn_children n)" by (auto simp: child_def find_Some_iff)
  then have "keyed_lists d" using 2(3) by (cases n) (simp add: list_all_iff)
  then show ?case using 2(1)[OF d] by blast
qed simp

lemma listed_named:
  assumes "Children device_schema pre = Inr children" "ch \<in> set children"
  shows "plain_info ch" "nd_Name ch \<noteq> []"
proof -
  obtain c where c: "slookup device_schema (path_names pre) = Some c" "children = map sn_node (sn_children c)"
    using Children_lookup[OF assms(1)] by blast
  then obtain d where d: "d \<in> set (sn_children c)" "sn_node d = ch" using assms(2) by auto
  then have "ch \<in> set (below_nodes c)" by (cases d rule: schemaNode.exhaust) (force simp: below_nodes_def)
  then have "ch \<in> set (below_nodes device_schema)" using below_nodes_lookup[OF c(1)] by blast
  moreover have "set (below_nodes s) \<subseteq> set (schema_nodes s)" for s by (cases s) (auto simp: below_nodes_def)
  ultimately show "plain_info ch" "nd_Name ch \<noteq> []"
    using device_schema_plain device_schema_named by (auto simp: list_all_iff)
qed

lemma plain_part: "plain_info ch \<Longrightarrow> takeWhile (\<lambda>x. x \<noteq> CHR ''['') (nd_Name ch) = nd_Name ch"
  by (auto simp: plain_info_def takeWhile_eq_all_conv)

lemma buildEntries_fuel:
  assumes "\<And>i. i \<in> set (instancesOf vs pre (nd_Name ch)) \<Longrightarrow> rec (le_path i) \<noteq> Inl ReadDepth"
  shows "buildEntries rec r vs c pre ch \<noteq> Inl ReadDepth"
proof
  assume "buildEntries rec r vs c pre ch = Inl ReadDepth"
  then obtain k i where "i \<in> set (sortEntries (instancesOf vs pre (nd_Name ch)) k)" "build_entry rec vs c ch k i = Inl ReadDepth"
    by (auto simp: buildEntries_def Let_def bind_res_def lift_read_def dest!: map_res_Inl split: if_splits sum.splits option.splits)
  then show False using assms by (auto simp: sortEntries_def build_entry_def bind_res_def set_sort_by split: sum.splits)
qed

lemma buildChildren_fuel:
  assumes "r_schema r = device_schema"
  shows "fits n r pre \<Longrightarrow> buildChildren n r vs c pre \<noteq> Inl ReadDepth"
proof (induction n arbitrary: pre)
  case 0
  then obtain d where "schema_height d = 0" by (auto simp: fits_def)
  then show ?case by (cases d) simp
next
  case (Suc n)
  show ?case
  proof
    assume "buildChildren (Suc n) r vs c pre = Inl ReadDepth"
    then obtain children ch where ch: "Children device_schema pre = Inr children" "ch \<in> set children"
        "build_child (buildChildren n r vs c) r vs c pre ch = Inl ReadDepth"
      using assms by (auto simp: bind_res_def lift_read_def dest!: map_res_Inl split: sum.splits)
    note nm = listed_named[OF ch(1,2)]
    note step = fits_step[OF Suc.prems _ ch(2), unfolded assms, OF ch(1)]
    have "buildChildren n r vs c (join_path pre (nd_Name ch)) \<noteq> Inl ReadDepth"
      by (rule Suc.IH, rule step) (use nm plain_part in \<open>auto simp: plain_info_def\<close>)
    moreover have "buildEntries (buildChildren n r vs c) r vs c pre ch \<noteq> Inl ReadDepth"
    proof (rule buildEntries_fuel)
      fix i
      assume "i \<in> set (instancesOf vs pre (nd_Name ch))"
      then show "buildChildren n r vs c (le_path i) \<noteq> Inl ReadDepth"
        by (rule instancesOf_part) (simp add: Suc.IH step)
    qed
    ultimately show False using ch(3)
      by (auto simp: build_child_def Let_def bind_res_def split: node_kind.splits sum.splits)
  qed
qed

section \<open>Completeness\<close>

text \<open>The paths of the schema: a list is entered with its key, nothing else carries a predicate.\<close>

fun schema_walk :: "schemaNode \<Rightarrow> path \<Rightarrow> bool" where
  "schema_walk c [] = False"
| "schema_walk c (g # gs) =
     (case child c (Name g) of
        None \<Rightarrow> False
      | Some d \<Rightarrow>
          (case nd_Kind (sn_node d) of
             KindLeaf \<Rightarrow> gs = [] \<and> Key g = []
           | KindContainer \<Rightarrow> Key g = [] \<and> schema_walk d gs
           | KindList \<Rightarrow> Key g = nd_Key (sn_node d) \<and> schema_walk d gs))"

definition schema_path :: "schemaNode \<Rightarrow> string \<Rightarrow> bool" where
  "schema_path s p \<longleftrightarrow> (case Parse p of Inl _ \<Rightarrow> False | Inr segs \<Rightarrow> schema_walk s segs)"

lemma join_with_append: "xs \<noteq> [] \<Longrightarrow> ys \<noteq> [] \<Longrightarrow> join_with c (xs @ ys) = join_with c xs @ c # join_with c ys"
proof (induction xs rule: induct_list012)
  case (2 x)
  then show ?case by (cases ys) auto
qed auto

lemma path_String_ne: "path_ok ps \<Longrightarrow> path_String ps \<noteq> []"
  using Parse_printed[of ps] by (auto simp: Parse_def)

lemma path_String_snoc:
  assumes "path_ok (ps @ [g])"
  shows "path_String (ps @ [g]) = join_path (path_String ps) (segment_string g)"
proof (cases "ps = []")
  case False
  then have "path_ok ps" using assms by (simp add: path_ok_def)
  then show ?thesis using False path_String_ne by (simp add: path_String_def join_path_def join_with_append)
qed (simp add: path_String_def join_path_def)

lemma path_String_names: "ps = [] \<or> path_ok ps \<Longrightarrow> path_names (path_String ps) = map Name ps"
  using Parse_names[OF Parse_printed, of ps] by (auto simp: path_String_def path_names_def simp del: map_eq_conv)

lemma path_ok_parts: "path_ok (ps @ g # gs) \<Longrightarrow> path_ok (ps @ [g])" "path_ok (ps @ g # gs) \<Longrightarrow> ps = [] \<or> path_ok ps"
  by (auto simp: path_ok_def)

lemma instancesOf_complete:
  assumes "path_ok (ps @ g # gs)" "Key g \<noteq> []" "path_String (ps @ g # gs) \<in> set (map fst vs)"
  shows "\<exists>i \<in> set (instancesOf vs (path_String ps) (Name g)). le_path i = path_String (ps @ [g])"
proof -
  have parse: "Parse (path_String (ps @ g # gs)) = Inr (ps @ g # gs)" by (rule Parse_printed[OF assms(1)])
  show ?thesis
  proof (cases "ps = []")
    case True
    then have "instance_at [] 0 (Name g) (path_String (ps @ g # gs)) = Some g"
      using parse assms(2) by (simp add: instance_at_def)
    from instances_loop_set[where f = "instance_at [] 0 (Name g)", OF assms(3) this assms(2), of "[]" "[]"] show ?thesis
      using True path_String_snoc[OF path_ok_parts(1)[OF assms(1)]] by (simp add: instancesOf_def path_String_def)
  next
    case False
    then have ok: "path_ok ps" using path_ok_parts(2)[OF assms(1)] by blast
    note ne = path_String_ne[OF ok]
    have "has_prefix (path_String (ps @ g # gs)) (path_String ps @ ''/'')"
      using False by (simp add: path_String_def join_with_append has_prefix_iff)
    then have "instance_at (path_String ps @ ''/'') (length ps) (Name g) (path_String (ps @ g # gs)) = Some g"
      using parse assms(2) by (simp add: instance_at_def)
    from instances_loop_set[where f = "instance_at (path_String ps @ ''/'') (length ps) (Name g)", OF assms(3) this assms(2),
        of "[]" "path_String ps"] show ?thesis
      using ne Parse_printed[OF ok] path_String_snoc[OF path_ok_parts(1)[OF assms(1)]] by (simp add: instancesOf_def)
  qed
qed

text \<open>A leaf is found below the node its next segment names.\<close>

definition found :: "string \<times> goval \<Rightarrow> string \<Rightarrow> dnode list \<Rightarrow> bool" where
  "found leaf name nodes \<longleftrightarrow> (\<exists>n \<in> set nodes. dn_Name n = name \<and> leaf \<in> set (dleaves n))"

lemma buildEntries_found:
  assumes be: "buildEntries rec r vs k (path_String ps) (sn_node d) = Inr entries"
    and ok: "path_ok (ps @ g # gs)" and key: "Key g = nd_Key (sn_node d)" "nd_Name (sn_node d) = Name g" and list: "nd_Kind (sn_node d) = KindList"
    and kl: "keyed_lists d" and walk: "schema_walk d gs"
    and leaf: "map_of vs (path_String (ps @ g # gs)) = Some res" "selected res k"
    and rec: "\<And>inner. rec (path_String (ps @ [g])) = Inr inner \<Longrightarrow> found (path_String (ps @ g # gs), rs_Value res) (Name (hd gs)) inner"
  shows "\<exists>e \<in> set entries. (path_String (ps @ g # gs), rs_Value res) \<in> set (dleaves e)"
proof -
  let ?p = "path_String (ps @ g # gs)" and ?list = "sn_node d"
  have kd: "nd_Key ?list \<noteq> []" "\<And>x. child d (nd_Key ?list) = Some x \<Longrightarrow> nd_Kind (sn_node x) = KindLeaf"
    using kl list by (cases d; auto simp: child_def split: option.splits)+
  have "?p \<in> set (map fst vs)" using map_of_SomeD[OF leaf(1)] by force
  moreover have "Key g \<noteq> []" using kd(1) key(1) by simp
  ultimately obtain i where i: "i \<in> set (instancesOf vs (path_String ps) (Name g))" "le_path i = path_String (ps @ [g])"
    using instancesOf_complete[OF ok] by blast
  obtain kk where m: "map_res (build_entry rec vs k ?list kk) (sortEntries (instancesOf vs (path_String ps) (Name g)) kk) = Inr entries"
    using be i(1) key(2) by (auto simp: buildEntries_def Let_def bind_res_eq_Inr split: if_splits option.splits)
  have "i \<in> set (sortEntries (instancesOf vs (path_String ps) (Name g)) kk)" using i(1) by (simp add: sortEntries_def set_sort_by)
  then obtain e where e: "e \<in> set entries" "build_entry rec vs k ?list kk i = Inr e" using map_res_set[OF m] by blast
  then obtain inner where inner: "rec (path_String (ps @ [g])) = Inr inner" "dleaves e = concat (map dleaves
      (leaf_of vs k (join_path (path_String (ps @ [g])) (nd_Key ?list)) (nd_Key ?list) kk @ filter (\<lambda>n. dn_Name n \<noteq> nd_Key ?list) inner))"
    using i(2) by (auto simp: build_entry_def bind_res_eq_Inr)
  obtain n where n: "n \<in> set inner" "dn_Name n = Name (hd gs)" "(?p, rs_Value res) \<in> set (dleaves n)"
    using rec[OF inner(1)] by (auto simp: found_def)
  show ?thesis
  proof (cases "Name (hd gs) = nd_Key ?list")
    case False
    then show ?thesis using n e(1) inner(2) by (intro bexI[of _ e]) auto
  next
    case True
    then obtain g' where g': "gs = [g']" "Key g' = []"
      using walk kd(2) by (cases gs) (auto split: option.splits node_kind.splits)
    then have "?p = join_path (path_String (ps @ [g])) (nd_Key ?list)"
      using True path_String_snoc[of "ps @ [g]" g'] ok by (simp add: segment_string_def)
    then show ?thesis using e(1) inner(2) leaf by (intro bexI[of _ e]) (simp_all add: leaf_of_def)
  qed
qed

lemma buildChildren_found:
  assumes r: "r_schema r = device_schema"
    and leaf: "map_of vs (path_String (ps @ gs)) = Some res" "selected res k" and ok: "path_ok (ps @ gs)"
    and c: "slookup device_schema (map Name ps) = Some c" "schema_walk c gs"
    and b: "buildChildren n r vs k (path_String ps) = Inr nodes"
  shows "found (path_String (ps @ gs), rs_Value res) (Name (hd gs)) nodes"
  using leaf ok c b
proof (induction n arbitrary: ps gs c nodes)
  case (Suc n)
  obtain g gs' where gs: "gs = g # gs'" using Suc.prems(5) by (cases gs) auto
  note ok = Suc.prems(3)[unfolded gs]
  let ?pre = "path_String ps" and ?p = "path_String (ps @ gs)"
  obtain children xs where b: "Children device_schema ?pre = Inr children" "nodes = concat xs"
      "map_res (build_child (buildChildren n r vs k) r vs k ?pre) children = Inr xs"
    using Suc.prems(6) r by (auto simp: bind_res_eq_Inr lift_read_Inr)
  have ch: "children = map sn_node (sn_children c)"
    using Children_lookup[OF b(1)] path_String_names[OF path_ok_parts(2)[OF ok]] Suc.prems(4) by auto
  obtain d where d: "child c (Name g) = Some d" using Suc.prems(5) gs by (auto split: option.splits)
  have nm: "nd_Name (sn_node d) = Name g" "d \<in> set (sn_children c)" using child_name[OF d] d by (auto simp: child_def find_Some_iff)
  have lk: "slookup device_schema (map Name (ps @ [g])) = Some d" using Suc.prems(4) d by (simp add: slookup_append)
  have "sn_node d \<in> set children" using nm(2) ch by simp
  then obtain ns where ns: "set ns \<subseteq> set nodes" "build_child (buildChildren n r vs k) r vs k ?pre (sn_node d) = Inr ns"
    using map_res_set[OF b(3)] b(2) by fastforce
  have IH: "found (?p, rs_Value res) (Name (hd gs')) inner"
    if "schema_walk d gs'" "buildChildren n r vs k (path_String (ps @ [g])) = Inr inner" for inner
    using Suc.IH[of "ps @ [g]" gs' d inner] Suc.prems(1-3) lk that gs by simp
  have snoc: "path_String (ps @ [g]) = join_path ?pre (segment_string g)" by (rule path_String_snoc[OF path_ok_parts(1)[OF ok]])
  have "\<exists>m \<in> set ns. dn_Name m = Name g \<and> (?p, rs_Value res) \<in> set (dleaves m)"
  proof (cases "nd_Kind (sn_node d)")
    case KindLeaf
    then have "gs' = []" "segment_string g = Name g" using Suc.prems(5) gs d by (auto simp: segment_string_def)
    then show ?thesis using ns(2) KindLeaf nm(1) snoc Suc.prems(1,2) gs by (auto simp: build_child_def leaf_of_def)
  next
    case KindContainer
    then have w: "schema_walk d gs'" "segment_string g = Name g" using Suc.prems(5) gs d by (auto simp: segment_string_def)
    then obtain inner where "buildChildren n r vs k (path_String (ps @ [g])) = Inr inner"
        "ns = [DNode (join_path ?pre (Name g)) (Name g) KindContainer [] [] None GNil inner]"
      using ns(2) KindContainer nm(1) snoc by (auto simp: build_child_def Let_def bind_res_eq_Inr)
    then show ?thesis using IH[OF w(1)] by (auto simp: found_def)
  next
    case KindList
    then have w: "schema_walk d gs'" "Key g = nd_Key (sn_node d)" using Suc.prems(5) gs d by auto
    obtain entries where "buildEntries (buildChildren n r vs k) r vs k ?pre (sn_node d) = Inr entries"
        "ns = [DNode (join_path ?pre (Name g)) (Name g) KindList (nd_Key (sn_node d)) [] None GNil entries]"
      using ns(2) KindList nm(1) by (auto simp: build_child_def Let_def bind_res_eq_Inr)
    then show ?thesis
      using buildEntries_found[OF _ ok w(2) nm(1) KindList keyed_lists_lookup[OF lk device_schema_keyed] w(1)]
        Suc.prems(1,2) IH[OF w(1)] gs by auto
  qed
  then show ?case using ns(1) gs by (auto simp: found_def)
qed simp

section \<open>Success\<close>

text \<open>Every stored path is a path of the schema.\<close>

definition schema_stored :: "(string, result) gomap \<Rightarrow> bool" where
  "schema_stored vs \<longleftrightarrow> list_all (\<lambda>(p, _). schema_path device_schema p) vs"

fun sibling_names :: "schemaNode \<Rightarrow> bool" where
  "sibling_names (SNode n cs) \<longleftrightarrow> distinct (map (\<lambda>c. nd_Name (sn_node c)) cs) \<and> list_all sibling_names cs"

lemma device_schema_siblings: "sibling_names device_schema"
  by code_simp

lemma sibling_names_lookup: "slookup s names = Some c \<Longrightarrow> sibling_names s \<Longrightarrow> sibling_names c"
proof (induction s names rule: slookup.induct)
  case (2 n name names)
  then obtain d where d: "child n name = Some d" "slookup d names = Some c" by (auto simp: bind_eq_Some_conv)
  then have "d \<in> set (sn_children n)" by (auto simp: child_def find_Some_iff)
  then have "sibling_names d" using 2(3) by (cases n) (simp add: list_all_iff)
  then show ?case using 2(1)[OF d] by blast
qed simp

lemma find_key: "distinct (map f xs) \<Longrightarrow> x \<in> set xs \<Longrightarrow> find (\<lambda>y. f y = f x) xs = Some x"
  by (induction xs) auto

lemma sibling_child: "sibling_names c \<Longrightarrow> d \<in> set (sn_children c) \<Longrightarrow> child c (nd_Name (sn_node d)) = Some d"
  by (cases c) (simp add: child_def find_key[where f = "\<lambda>c. nd_Name (sn_node c)"])

lemma map_res_total: "\<forall>x \<in> set xs. \<exists>y. f x = Inr y \<Longrightarrow> \<exists>ys. map_res f xs = Inr ys"
  by (induction xs) (auto simp: bind_res_def)

text \<open>A path that can be entered: \<open>Children\<close> succeeds on it.\<close>

definition entered_at :: "path \<Rightarrow> schemaNode \<Rightarrow> bool" where
  "entered_at ps c \<longleftrightarrow> (ps = [] \<or> path_ok ps) \<and> (\<forall>full. children_walk full device_schema ps = Inr c)"

lemma children_walk_append: "children_walk full s ps = Inr c \<Longrightarrow> children_walk full s (ps @ qs) = children_walk full c qs"
  by (induction full s ps rule: children_walk.induct) (auto split: option.splits if_splits)

lemma entered_step:
  assumes "entered_at ps c" "child c (Name g) = Some d" "segment_ok g" "nd_Kind (sn_node d) \<noteq> KindLeaf"
    "Key g = (if nd_Kind (sn_node d) = KindList then nd_Key (sn_node d) else [])" "nd_Kind (sn_node d) = KindList \<Longrightarrow> Key g \<noteq> []"
  shows "entered_at (ps @ [g]) d"
proof -
  have "children_walk full device_schema (ps @ [g]) = Inr d" for full
    using children_walk_append[of full device_schema ps c "[g]"] assms by (auto simp: entered_at_def)
  moreover have "path_ok (ps @ [g])" using assms(1,3) by (auto simp: entered_at_def path_ok_def)
  ultimately show ?thesis by (simp add: entered_at_def)
qed

lemma entered_Children:
  assumes "entered_at ps c"
  shows "Children device_schema (path_String ps) = Inr (map sn_node (sn_children c))" "slookup device_schema (map Name ps) = Some c"
proof -
  have w: "children_walk full device_schema ps = Inr c" for full using assms by (simp add: entered_at_def)
  show "slookup device_schema (map Name ps) = Some c" using children_walk_lookup[OF w] .
  show "Children device_schema (path_String ps) = Inr (map sn_node (sn_children c))"
  proof (cases "ps = []")
    case False
    then have "path_ok ps" using assms by (simp add: entered_at_def)
    then show ?thesis using w path_String_ne Parse_printed by (simp add: Children_def parse_r_def)
  qed (use w in \<open>simp add: Children_def path_String_def\<close>)
qed

lemma schema_walk_key:
  "schema_walk s (xs @ g # ys) \<Longrightarrow> slookup s (map Name xs) = Some c \<Longrightarrow> child c (Name g) = Some d \<Longrightarrow>
   nd_Kind (sn_node d) = KindList \<Longrightarrow> Key g = nd_Key (sn_node d)"
  by (induction xs arbitrary: s) (auto split: option.splits node_kind.splits)

lemma instance_entered:
  assumes ps: "entered_at ps c" and d: "child c name = Some d" "nd_Kind (sn_node d) = KindList"
    and vs: "schema_stored vs" and i: "i \<in> set (instancesOf vs (path_String ps) name)"
  shows "\<exists>g. le_path i = path_String (ps @ [g]) \<and> entered_at (ps @ [g]) d"
proof -
  let ?pre = "path_String ps"
  have ok: "ps = [] \<or> path_ok ps" using ps by (simp add: entered_at_def)
  have "ps \<noteq> [] \<Longrightarrow> ?pre \<noteq> [] \<and> Parse ?pre = Inr ps" using ok path_String_ne Parse_printed by blast
  then obtain path g where g: "path \<in> set (map fst vs)" "instance_at (if ps = [] then [] else ?pre @ ''/'') (length ps) name path = Some g"
      "le_path i = join_path ?pre (Name g @ ''['' @ Key g @ ''='' @ Value g @ '']'')"
    using i instances_loop_from[of i "instance_at (if ps = [] then [] else ?pre @ ''/'') (length ps) name" ?pre "[]" "map fst vs"]
    by (cases "ps = []") (auto simp: instancesOf_def path_String_def)
  note inst = instance_segment[OF g(2)]
  obtain segs where segs: "Parse path = Inr segs" "length ps < length segs" "segs ! length ps = g" using inst(4) by blast
  have "has_prefix path (if ps = [] then [] else ?pre @ ''/'')" using g(2) by (simp add: instance_at_def split: if_splits)
  then obtain rest where "path = (if ps = [] then [] else ?pre @ ''/'') @ rest" by (auto simp: has_prefix_iff)
  then have "take (length ps) (map Name segs) = map Name ps"
    using Parse_names[OF segs(1)] ok path_String_names[OF ok] path_String_ne
    by (cases "ps = []") (auto simp: path_names_def split_on_append)
  moreover have "segs = take (length ps) segs @ g # drop (Suc (length ps)) segs" using id_take_nth_drop[OF segs(2)] segs(3) by simp
  moreover have "schema_walk device_schema segs" using vs g(1) segs(1) by (auto simp: schema_stored_def list_all_iff schema_path_def)
  ultimately have key: "Key g = nd_Key (sn_node d)"
    using schema_walk_key[of device_schema "take (length ps) segs" g] entered_Children(2)[OF ps] d inst(2)
    by (metis take_map)
  have e: "entered_at (ps @ [g]) d" by (rule entered_step[OF ps]) (use d key inst in auto)
  then have "path_String (ps @ [g]) = join_path ?pre (segment_string g)" by (intro path_String_snoc) (simp add: entered_at_def)
  then show ?thesis using e g(3) inst(3) by (intro exI[of _ g]) (simp add: segment_string_def)
qed

lemma nodeNamed_map: "nodeNamed (map sn_node cs) name = map_option sn_node (find (\<lambda>c. nd_Name (sn_node c) = name) cs)"
  by (induction cs) (auto simp: nodeNamed_def)

lemma buildEntries_total:
  assumes ps: "entered_at ps c" and d: "child c (nd_Name (sn_node d)) = Some d" "nd_Kind (sn_node d) = KindList" "keyed_lists d"
    and vs: "schema_stored vs" and r: "r_schema r = device_schema"
    and rec: "\<And>qs. entered_at qs d \<Longrightarrow> \<exists>ns. rec (path_String qs) = Inr ns"
  shows "\<exists>entries. buildEntries rec r vs k (path_String ps) (sn_node d) = Inr entries"
proof (cases "instancesOf vs (path_String ps) (nd_Name (sn_node d)) = []")
  case False
  let ?is = "instancesOf vs (path_String ps) (nd_Name (sn_node d))"
  note at = instance_entered[OF ps d(1,2) vs]
  obtain g where "le_path (hd ?is) = path_String (ps @ [g])" "entered_at (ps @ [g]) d" using at hd_in_set[OF False] by blast
  then have "Children device_schema (le_path (hd ?is)) = Inr (map sn_node (sn_children d))" using entered_Children by simp
  moreover obtain kn where "nodeNamed (map sn_node (sn_children d)) (nd_Key (sn_node d)) = Some kn"
    using d(2,3) by (cases d) (auto simp: nodeNamed_map split: option.splits)
  moreover have "\<exists>entries. map_res (build_entry rec vs k (sn_node d) kk) (sortEntries ?is kk) = Inr entries" for kk
  proof (rule map_res_total, rule ballI)
    fix i
    assume "i \<in> set (sortEntries ?is kk)"
    then have "i \<in> set ?is" by (simp add: sortEntries_def set_sort_by)
    then obtain ns where "rec (le_path i) = Inr ns" using at rec by metis
    then show "\<exists>e. build_entry rec vs k (sn_node d) kk i = Inr e" by (simp add: build_entry_def bind_res_def)
  qed
  ultimately show ?thesis using False r by (simp add: buildEntries_def Let_def bind_res_def lift_read_def)
qed (simp add: buildEntries_def)

lemma buildChildren_total:
  assumes r: "r_schema r = device_schema" and vs: "schema_stored vs"
  shows "entered_at ps c \<Longrightarrow> schema_height c \<le> n \<Longrightarrow> \<exists>ns. buildChildren n r vs k (path_String ps) = Inr ns"
proof (induction n arbitrary: ps c)
  case 0
  then show ?case by (cases c) simp
next
  case (Suc n)
  note lk = entered_Children[OF Suc.prems(1)]
  have "\<exists>ns. build_child (buildChildren n r vs k) r vs k (path_String ps) ch = Inr ns" if "ch \<in> set (map sn_node (sn_children c))" for ch
  proof -
    obtain d where d: "d \<in> set (sn_children c)" "ch = sn_node d" using \<open>ch \<in> _\<close> by auto
    have ch: "child c (nd_Name ch) = Some d" using sibling_child[OF sibling_names_lookup[OF lk(2) device_schema_siblings] d(1)] d(2) by simp
    have "slookup device_schema (map Name ps @ [nd_Name ch]) = Some d" using lk(2) ch by (simp add: slookup_append)
    then have kl: "keyed_lists d" using keyed_lists_lookup device_schema_keyed by blast
    have IH: "\<exists>ns. buildChildren n r vs k (path_String qs) = Inr ns" if "entered_at qs d" for qs
      using Suc.IH[OF that] schema_height_child[OF d(1)] Suc.prems(2) by simp
    show ?thesis
    proof (cases "nd_Kind ch")
      case KindContainer
      let ?g = "\<lparr>Name = nd_Name ch, Key = [], Value = []\<rparr>"
      have "plain_info ch" "nd_Name ch \<noteq> []" using listed_named[OF lk(1)] \<open>ch \<in> _\<close> by auto
      then have e: "entered_at (ps @ [?g]) d"
        using ch KindContainer d(2) by (intro entered_step[OF Suc.prems(1)]) (auto simp: segment_ok_def plain_info_def)
      then have "path_String (ps @ [?g]) = join_path (path_String ps) (nd_Name ch)"
        using path_String_snoc[of ps ?g] by (simp add: entered_at_def segment_string_def)
      then show ?thesis using IH[OF e] KindContainer by (auto simp: build_child_def Let_def bind_res_def)
    next
      case KindList
      then show ?thesis using buildEntries_total[OF Suc.prems(1) _ _ kl vs r, of "buildChildren n r vs k" k] IH ch d(2)
        by (fastforce simp: build_child_def Let_def bind_res_def)
    qed (simp add: build_child_def)
  qed
  then show ?case using lk(1) r map_res_total[of "map sn_node (sn_children c)" "build_child (buildChildren n r vs k) r vs k (path_String ps)"]
    by (auto simp: bind_res_def lift_read_def)
qed

section \<open>Reading the whole datastore\<close>


definition read_router :: router where
  "read_router = sample_router\<lparr>r_schema := device_schema,
     r_store := sample_store\<lparr>running := [(''ptp/clock/state'', GString ''locked'')]\<rparr>\<rparr>"

lemma read_router_values:
  "collect None read_router Running =
     Inr [(''ptp/clock/state'', mk_result read_router ''ptp/clock/state'' (GString ''locked'') False)]"
proof -
  have "describe read_router ''ptp/clock/state'' v = Inr (mk_result read_router ''ptp/clock/state'' v False)" for v
    by (simp add: describe_def ptp_state_leaf)
  then show ?thesis
    by (simp add: collect_def Router_Values_def Values_of_def lift_r_def read_router_def[THEN arg_cong[where f = r_store]])
qed


end
