(* ===== verification/Spec2Isabelle.thy ===== *)
theory Spec2Isabelle
  imports PathSyntax StoreLaws Clock EventBus Model RadioLaws SyncLaws L2Laws RouterLaws SnmpSetLaws FramingLaws DatatreeLaws SessionLaws NotifLaws ReadLaws
begin

text \<open>
  Verification of the TriadSim telecom device simulator (the Go program under \<open>src/\<close>).

  \<^bold>\<open>The program.\<close>  One simulated device holds a typed configuration.  Its leaves live in three flat
  datastores (\<open>src/internal/store\<close>: running, candidate, startup) keyed by router paths; the startup datastore
  is persisted to a JSON file.  The router (\<open>src/internal/router\<close>) gives typed access to the leaves: it derives
  a schema from the Go types of the managed objects (\<open>src/internal/model\<close>) by reflection, converts values, rebuilds
  a device from the leaves to validate it and keeps the table of SNMP objects.  Domain managers
  (\<open>src/internal/radio\<close>, \<open>l2\<close>, \<open>sync\<close>) read a snapshot of the device, compute measured state, write it
  back through the router and publish events on an in-process bus (\<open>src/internal/event\<close>).  Everything that waits
  uses a clock interface (\<open>src/internal/clock\<close>).  The management planes read and edit the datastores: SNMP
  (\<open>src/internal/snmp\<close>) through the object table, NETCONF (\<open>src/internal/netconf\<close>) through the data tree
  (\<open>src/internal/datatree\<close>), and so do \<open>restconf\<close> and \<open>gnmi\<close>.

  \<^bold>\<open>Theories and code.\<close>
  \<^item> \<open>Prelude\<close>, \<open>GoStrings\<close>, \<open>GoFloat\<close>, \<open>GoValues\<close>, \<open>MacAddr\<close>, \<open>Strconv\<close>: the Go language and standard library
    as far as the code uses them: maps as association lists, strings as lists of bytes, \<open>float64\<close> with rounding to
    the nearest even binary64 value, the dynamically typed leaf \<open>any\<close>, \<open>net.ParseMAC\<close>, number parsing and printing.
  \<^item> \<open>Contracts\<close>: the locales the components are proved against; each is interpreted on the model's
    definitions in the theory that provides them.
  \<^item> \<open>PathSyntax\<close>: \<open>router/path.go\<close> and \<open>router/modules.go\<close>.
  \<^item> \<open>Persist\<close>: \<open>store/persist.go\<close> over a file system in which every call may fail; \<open>Store\<close> and \<open>StoreLaws\<close>:
    \<open>store/memory.go\<close>, \<open>store/diff.go\<close>; one call of \<open>Memory\<close> is one function on the record \<open>memory\<close>.
  \<^item> \<open>Clock\<close>: \<open>clock/fake.go\<close> with its timers; \<open>EventBus\<close>: \<open>event/bus.go\<close>, \<open>event/event.go\<close> with a bounded buffer per
    subscriber.
  \<^item> \<open>Model\<close>: the managed objects, their \<open>Validate\<close> methods and the seed device of \<open>model/*.go\<close>.
  \<^item> \<open>Domain\<close>: what the managers share; \<open>Radio\<close> and \<open>RadioLaws\<close>: \<open>radio/*.go\<close>; \<open>Sync\<close> and \<open>SyncLaws\<close>: \<open>sync/*.go\<close>,
    with the select loop of \<open>Run\<close> as a step function; \<open>Bridge\<close>, \<open>Stp\<close> and \<open>L2Laws\<close>: \<open>l2/*.go\<close>.  The router's
    operations and the seeded random generator are arguments there.
  \<^item> \<open>Reflect\<close>: \<open>router/reflect.go\<close> over a datatype of Go types and values; \<open>DeviceType\<close>: what reflection sees of
    the managed objects; \<open>Schema\<close> and \<open>SchemaLaws\<close>: \<open>router/schema.go\<close>; \<open>Hydrate\<close>: \<open>router/hydrate.go\<close>; \<open>Oid\<close> and
    \<open>OidLaws\<close>: \<open>router/oid.go\<close>; \<open>Router\<close>, \<open>RouterLaws\<close>, \<open>ConvertLaws\<close>: \<open>router/router.go\<close> and \<open>router/validate.go\<close>.
  \<^item> \<open>Snmp\<close>, \<open>SnmpLaws\<close>, \<open>SnmpSetLaws\<close>: \<open>snmp/agent.go\<close>, \<open>snmp/oid.go\<close>, \<open>snmp/trap.go\<close>.
  \<^item> \<open>Datatree\<close>, \<open>DatatreeLaws\<close>: the editor of \<open>datatree/edit.go\<close> with \<open>node.go\<close>, \<open>values.go\<close>, \<open>errors.go\<close>;
    \<open>DataRead\<close>, \<open>ReadLaws\<close>: \<open>datatree/read.go\<close>.
  \<^item> \<open>Framing\<close>, \<open>FramingLaws\<close>: \<open>netconf/framing.go\<close>; \<open>Netconf\<close>: the element tree, get-config with subtree filters and
    edit-config of \<open>netconf/ops\<close>; \<open>ConfirmedCommit\<close>, \<open>ConfirmedLaws\<close>: \<open>ops/commit.go\<close>, \<open>ops/confirmed_commit.go\<close>,
    \<open>ops/discard.go\<close>, with the locked and unlocked parts of an operation as separate steps; \<open>Notif\<close>, \<open>NotifLaws\<close>:
    \<open>netconf/notif\<close>; \<open>Session\<close>, \<open>SessionLaws\<close>: \<open>hello.go\<close>, \<open>rpc.go\<close>, \<open>session.go\<close> and the session ids of \<open>ssh.go\<close>.

  \<^bold>\<open>What the lemmas show.\<close>
  \<^item> Paths and persistence: a text parses exactly when it is the canonical text of a path; a saved document
    loads as it was saved; a crash at any point of a save leaves the old or the new document.
  \<^item> Datastores: batches are atomic, commit survives a restart, state writes survive a commit, every reachable store
    is well formed, an unchanged generation means unchanged contents; a commit that reports failure can be persisted.
  \<^item> Clock and bus: timers fire in the order of their deadlines and advancing ends; no bus operation sends on a closed
    channel or exceeds a buffer.
  \<^item> Domains: measured values stay in the validated ranges, link states have hysteresis, the synchronisation
    events follow the state machine and holdover expires, source selection is optimal, storm control bounds
    the accepted frames, spanning-tree steps keep the bridge valid.  Some lemmas are runs in which the code does
    what its comments exclude (stale holdover expiry, growing tick rate, alternate ports that forward, unicast
    frames that leave their VLAN, entries that never age).
  \<^item> Router: the schema and the resolver agree; conversion keeps the number or is refused; the cached object index
    equals the one computed from scratch.
  \<^item> SNMP: a walk visits every object once and ends; GetBulk is repeated GetNext; a Set is atomic.
  \<^item> Data tree: an edit is applied as a whole or not at all and never touches a state leaf; a read of a datastore that
    holds only paths of the schema succeeds and returns exactly the selected leaves.
  \<^item> NETCONF: framing is transparent; a session answers each request once and in order; a session that ends leaves no
    subscription and no pending commit; a confirmed commit is reverted at its timeout; a commit can be lost to a
    rollback that runs between its two steps; a subscriber receives notifications in the order of publication.

  \<^bold>\<open>Bounds and fuel.\<close>  The generations of the datastores and the sequence numbers of confirmed commits are 64-bit
  counters, so the laws about histories assume fewer than \<open>2 ^ 64\<close> steps.  The tree reader recurses along the schema with
  the height of the schema as fuel, which \<open>buildChildren_fuel\<close> and \<open>buildChildren_total\<close> prove to be enough.  The shortest
  decimal text of a \<open>float64\<close> is searched up to 800 digits; a binary64 value has at most 767 significant ones.
  A walk by GetNext is a client's loop with fuel, and one unit more than the number of objects is proved enough.  Every other
  recursion has a termination proof.

  \<^bold>\<open>Parameters.\<close>  Code outside \<open>src/\<close> is an argument: \<open>encoding/xml\<close> and the text of a time (\<open>xml_codec\<close>, the
  printer of \<open>Render\<close>), the BER codec of the SNMP library, the system calls of the file system (\<open>faults\<close>), the random
  numbers of the simulated quality, and what other sessions do between two messages of a session (\<open>nc_env\<close>).
  A mutex is the atomicity of the step it protects.

  \<^bold>\<open>Not modelled.\<close>  The SSH handshake and accept loop, and the sockets of every plane (transport of third-party
  packages); the periodic loops of the radio and L2 managers around their \<open>Tick\<close>; RESTCONF (\<open>src/internal/restconf\<close>) and
  gNMI (\<open>src/internal/gnmi\<close>), whose handlers translate HTTP requests and protocol-buffer messages of
  third-party types into the data-tree reads and edits modelled here; the command line, the YAML configuration,
  metrics and logging (process wiring and third-party packages); texts of error messages.
\<close>

end
